(* ===== verification/Prelude.thy ===== *)
theory Prelude
  imports Main
begin

text \<open>
  Shared vocabulary of the development: the parts of Go's \<^verbatim>\<open>strings\<close>,
  \<^verbatim>\<open>strconv\<close> and \<^verbatim>\<open>fmt\<close> packages that the operator
  uses, as functions on \<^typ>\<open>string\<close> (a list of bytes), the three shapes every Go
  function of the operator returns, and the lemma collections the components extend.
\<close>

named_theorems go_strings \<open>facts about the string functions of the standard library\<close>
named_theorems const_defs \<open>definitions of the named string constants of the API\<close>

type_synonym gomap = "string \<rightharpoonup> string"
type_synonym nsname = "string \<times> string"

section \<open>Strings\<close>

text \<open>\<^verbatim>\<open>strings.HasPrefix\<close> and \<^verbatim>\<open>strings.HasSuffix\<close>.\<close>

definition has_prefix :: "string \<Rightarrow> string \<Rightarrow> bool" where
  "has_prefix s p \<longleftrightarrow> take (length p) s = p"

definition has_suffix :: "string \<Rightarrow> string \<Rightarrow> bool" where
  "has_suffix s p \<longleftrightarrow> length p \<le> length s \<and> drop (length s - length p) s = p"

lemma has_prefix_iff [go_strings]: "has_prefix s p \<longleftrightarrow> (\<exists>r. s = p @ r)"
  by (metis append_eq_conv_conj append_take_drop_id has_prefix_def)

lemma has_suffix_iff [go_strings]: "has_suffix s p \<longleftrightarrow> (\<exists>r. s = r @ p)"
proof
  assume "has_suffix s p"
  then have "s = take (length s - length p) s @ p"
    by (metis append_take_drop_id has_suffix_def)
  then show "\<exists>r. s = r @ p" ..
qed (auto simp: has_suffix_def)

text \<open>
  \<^verbatim>\<open>strings.Index\<close> of a one-byte separator, and the pair that
  \<^verbatim>\<open>strings.SplitN(s, sep, 2)\<close> returns: the part before the first separator and,
  when there is one, the rest after it.
\<close>

fun index_of :: "char \<Rightarrow> string \<Rightarrow> nat option" where
  "index_of c [] = None"
| "index_of c (x # xs) = (if x = c then Some 0 else map_option Suc (index_of c xs))"

definition split2 :: "char \<Rightarrow> string \<Rightarrow> string \<times> string option" where
  "split2 c s = (case index_of c s of None \<Rightarrow> (s, None)
                 | Some i \<Rightarrow> (take i s, Some (drop (Suc i) s)))"

lemma index_of_None [go_strings]: "index_of c s = None \<longleftrightarrow> c \<notin> set s"
  by (induction s) auto

lemma index_of_Some:
  "index_of c s = Some i \<Longrightarrow> s = take i s @ c # drop (Suc i) s \<and> c \<notin> set (take i s)"
  by (induction s arbitrary: i) (auto split: if_splits)

lemma index_of_append: "c \<notin> set xs \<Longrightarrow> index_of c (xs @ c # ys) = Some (length xs)"
  by (induction xs) auto

lemma split2_None: "c \<notin> set s \<Longrightarrow> split2 c s = (s, None)"
  by (auto simp: split2_def index_of_None split: option.splits)

lemma split2_Some: "c \<notin> set a \<Longrightarrow> split2 c (a @ c # r) = (a, Some r)"
  by (simp add: split2_def index_of_append)

lemma split2_eq [go_strings]:
  "split2 c s = (a, b) \<longleftrightarrow>
     (case b of None \<Rightarrow> c \<notin> set s \<and> a = s
      | Some r \<Rightarrow> c \<notin> set a \<and> s = a @ c # r)"
proof (cases "c \<in> set s")
  case False
  then show ?thesis by (auto simp: split2_None split: option.splits)
next
  case True
  then obtain p r where s: "s = p @ c # r" and p: "c \<notin> set p"
    by (meson split_list_first)
  have sp: "split2 c s = (p, Some r)" by (simp add: s split2_Some[OF p])
  have un: "a = p \<and> x = r" if "c \<notin> set a" "s = a @ c # x" for x
    using split2_Some[OF that(1), of x] sp that(2) by simp
  show ?thesis
  proof (cases b)
    case None
    with True sp show ?thesis by simp
  next
    case (Some x)
    with s p sp un[of x] show ?thesis by auto
  qed
qed

lemma split_unique:
  fixes c :: char
  assumes "c \<notin> set a" "c \<notin> set b"
  shows "a @ c # x = b @ c # y \<longleftrightarrow> a = b \<and> x = y"
proof
  assume eq: "a @ c # x = b @ c # y"
  have "(a, Some x) = (b, Some y)"
    unfolding split2_Some[OF assms(1), symmetric] split2_Some[OF assms(2), symmetric] eq ..
  then show "a = b \<and> x = y" by simp
qed simp

text \<open>\<^verbatim>\<open>strings.Join\<close> and \<^verbatim>\<open>strings.ReplaceAll\<close> of one byte by a string.\<close>

fun join :: "string \<Rightarrow> string list \<Rightarrow> string" where
  "join sep [] = []"
| "join sep [x] = x"
| "join sep (x # y # ys) = x @ sep @ join sep (y # ys)"

definition replace_char :: "char \<Rightarrow> string \<Rightarrow> string \<Rightarrow> string" where
  "replace_char c r s = concat (map (\<lambda>x. if x = c then r else [x]) s)"

text \<open>\<^verbatim>\<open>strings.Split\<close> at one byte.\<close>

fun split_on :: "char \<Rightarrow> string \<Rightarrow> string list" where
  "split_on c [] = [[]]"
| "split_on c (x # xs) =
     (if x = c then [] # split_on c xs
      else (case split_on c xs of [] \<Rightarrow> [[x]] | y # ys \<Rightarrow> (x # y) # ys))"

text \<open>\<^verbatim>\<open>strings.Fields\<close> on ASCII text.\<close>

definition is_space :: "char \<Rightarrow> bool" where
  "is_space c \<longleftrightarrow> (of_char c :: nat) \<in> {9, 10, 11, 12, 13, 32}"

text \<open>\<^verbatim>\<open>strings.TrimSpace\<close> on ASCII text.\<close>

definition trim_space :: "string \<Rightarrow> string" where
  "trim_space l = rev (dropWhile is_space (rev (dropWhile is_space l)))"

function strings_Fields :: "string \<Rightarrow> string list" where
  "strings_Fields [] = []"
| "strings_Fields (c # cs) =
     (if is_space c then strings_Fields cs
      else (c # takeWhile (\<lambda>x. \<not> is_space x) cs) # strings_Fields (dropWhile (\<lambda>x. \<not> is_space x) cs))"
  by pat_completeness auto
termination
  by (relation "measure length") (auto simp: le_imp_less_Suc length_dropWhile_le)

lemma Fields_word:
  assumes "\<forall>c \<in> set w. \<not> is_space c" "w \<noteq> []"
  shows "strings_Fields (w @ rest) = (case rest of [] \<Rightarrow> [w] | c # cs \<Rightarrow>
           if is_space c then w # strings_Fields cs else strings_Fields (w @ rest))"
proof (cases rest)
  case Nil
  from assms(2) obtain a b where w: "w = a # b" by (cases w) auto
  have tw: "takeWhile (\<lambda>x. \<not> is_space x) b = b" and dw: "dropWhile (\<lambda>x. \<not> is_space x) b = []"
    using assms(1) w by (auto simp: takeWhile_eq_all_conv)
  show ?thesis using assms(1) by (simp add: w Nil tw dw)
next
  case (Cons c cs)
  from assms(2) obtain a b where w: "w = a # b" by (cases w) auto
  show ?thesis
  proof (cases "is_space c")
    case True
    have "takeWhile (\<lambda>x. \<not> is_space x) (b @ c # cs) = b" "dropWhile (\<lambda>x. \<not> is_space x) (b @ c # cs) = c # cs"
      using assms(1) w True by (simp_all add: takeWhile_append dropWhile_append)
    with assms(1) w Cons True show ?thesis by simp
  qed (simp add: Cons)
qed

lemma Fields_join:
  "\<forall>w \<in> set ws. w \<noteq> [] \<and> (\<forall>c \<in> set w. \<not> is_space c) \<Longrightarrow> strings_Fields (join '' '' ws) = ws"
proof (induction ws rule: induct_list012)
  case (2 w)
  then show ?case using Fields_word[of w "[]"] by simp
next
  case (3 w v vs)
  have "is_space (CHR '' '')" by (simp add: is_space_def)
  with 3 show ?case using Fields_word[of w "'' '' @ join '' '' (v # vs)"] by simp
qed simp

text \<open>\<^verbatim>\<open>strings.ToUpper\<close> on ASCII letters; other bytes are kept.\<close>

definition upper_char :: "char \<Rightarrow> char" where
  "upper_char c = (if 97 \<le> (of_char c :: nat) \<and> (of_char c :: nat) \<le> 122
                   then char_of ((of_char c :: nat) - 32) else c)"

definition to_upper :: "string \<Rightarrow> string" where
  "to_upper s = map upper_char s"

lemma of_upper_char:
  "(of_char (upper_char c) :: nat) =
     (if 97 \<le> (of_char c :: nat) \<and> (of_char c :: nat) \<le> 122 then of_char c - 32 else of_char c)"
proof -
  have "(of_char c :: nat) - 32 < 256"
    using nat_of_char_less_256[of c] by linarith
  then show ?thesis by (simp add: upper_char_def)
qed

text \<open>Upper-casing is injective on text without upper-case letters, such as object names.\<close>

definition no_upper :: "string \<Rightarrow> bool" where
  "no_upper s \<longleftrightarrow> (\<forall>c \<in> set s. \<not> (65 \<le> (of_char c :: nat) \<and> (of_char c :: nat) \<le> 90))"

lemma upper_char_inj:
  assumes "upper_char c = upper_char d" and "no_upper [c]" and "no_upper [d]"
  shows "c = d"
proof -
  define m n where mn: "m = (of_char c :: nat)" "n = (of_char d :: nat)"
  from assms(1) have "(of_char (upper_char c) :: nat) = of_char (upper_char d)" by simp
  then have eq: "(if 97 \<le> m \<and> m \<le> 122 then m - 32 else m) = (if 97 \<le> n \<and> n \<le> 122 then n - 32 else n)"
    by (simp only: of_upper_char mn)
  have off: "\<not> (65 \<le> m \<and> m \<le> 90)" "\<not> (65 \<le> n \<and> n \<le> 90)"
    using assms(2,3) by (simp_all add: no_upper_def mn)
  from eq off have "m = n" by (cases "97 \<le> m \<and> m \<le> 122"; cases "97 \<le> n \<and> n \<le> 122") auto
  then show ?thesis by (simp add: mn)
qed

lemma to_upper_inj: "to_upper s = to_upper t \<Longrightarrow> no_upper s \<Longrightarrow> no_upper t \<Longrightarrow> s = t"
proof (induction s arbitrary: t)
  case Nil
  then show ?case by (simp add: to_upper_def)
next
  case (Cons c s)
  then obtain d u where t: "t = d # u" by (cases t) (auto simp: to_upper_def)
  from Cons.prems t have up: "upper_char c = upper_char d" "to_upper s = to_upper u"
    by (simp_all add: to_upper_def)
  from Cons.prems t have no: "no_upper [c]" "no_upper [d]" "no_upper s" "no_upper u"
    by (simp_all add: no_upper_def)
  have "c = d" by (rule upper_char_inj[OF up(1) no(1,2)])
  moreover have "s = u" by (rule Cons.IH[OF up(2) no(3,4)])
  ultimately show ?case by (simp add: t)
qed

text \<open>Decimal printing, \<^verbatim>\<open>%d\<close>.\<close>

fun nat_str :: "nat \<Rightarrow> string" where
  "nat_str n = (if n < 10 then [char_of (48 + n)]
                else nat_str (n div 10) @ [char_of (48 + n mod 10)])"

declare nat_str.simps [simp del]

definition int_str :: "int \<Rightarrow> string" where
  "int_str i = (if i < 0 then CHR ''-'' # nat_str (nat (- i)) else nat_str (nat i))"

lemma nat_str_digits: "c \<in> set (nat_str n) \<Longrightarrow> 48 \<le> (of_char c :: nat) \<and> (of_char c :: nat) \<le> 57"
proof (induction n rule: nat_str.induct)
  case (1 n)
  show ?case
  proof (cases "n < 10")
    case True
    with "1.prems" show ?thesis by (auto simp: nat_str.simps[of n] of_char_of)
  next
    case False
    from "1.prems" have "c \<in> set (nat_str (n div 10)) \<or> c = char_of (48 + n mod 10)"
      using False by (auto simp: nat_str.simps[of n])
    then show ?thesis
    proof
      assume "c \<in> set (nat_str (n div 10))"
      then show ?thesis using "1.IH" False by simp
    next
      assume "c = char_of (48 + n mod 10)"
      moreover have "n mod 10 < 10" by simp
      ultimately show ?thesis by (simp add: of_char_of)
    qed
  qed
qed

lemma nat_str_inj: "nat_str m = nat_str n \<Longrightarrow> m = n"
proof (induction m arbitrary: n rule: nat_str.induct)
  case (1 m)
  have last: "last (nat_str k) = char_of (48 + k mod 10)" for k
    by (subst nat_str.simps) simp
  have but: "butlast (nat_str k) = (if k < 10 then [] else nat_str (k div 10))" for k
    by (subst nat_str.simps) simp
  have ne: "nat_str k \<noteq> []" for k
    by (subst nat_str.simps) simp
  have "(of_char (char_of (48 + m mod 10)) :: nat) = of_char (char_of (48 + n mod 10))"
    using "1.prems" last[of m] last[of n] by simp
  moreover have "m mod 10 < 10" "n mod 10 < 10" by simp_all
  ultimately have md: "m mod 10 = n mod 10" by (simp add: of_char_of)
  from "1.prems" but[of m] but[of n]
  have bb: "(if m < 10 then [] else nat_str (m div 10)) = (if n < 10 then [] else nat_str (n div 10))"
    by simp
  show ?case
  proof (cases "m < 10")
    case True
    with bb ne[of "n div 10"] have "n < 10" by (auto split: if_splits)
    with True md show ?thesis by simp
  next
    case False
    with bb ne[of "m div 10"] have n: "\<not> n < 10" by (auto split: if_splits)
    with bb False have "nat_str (m div 10) = nat_str (n div 10)" by simp
    then have "m div 10 = n div 10" using "1.IH" False by blast
    then show ?thesis using md by (metis div_mult_mod_eq)
  qed
qed

text \<open>
  \<^verbatim>\<open>%q\<close>: a double-quoted Go literal. Control bytes are written as escapes; bytes
  from 128 on are kept (they belong to printable UTF-8 text).
\<close>

definition hex_digit :: "nat \<Rightarrow> char" where
  "hex_digit n = (if n < 10 then char_of (48 + n) else char_of (87 + n))"

definition quote_char :: "char \<Rightarrow> string" where
  "quote_char c =
     (let n = (of_char c :: nat) in
      if n = 34 then [char_of (92 :: nat), c]
      else if n = 92 then [c, c]
      else if n = 7 then [char_of (92 :: nat), CHR ''a'']
      else if n = 8 then [char_of (92 :: nat), CHR ''b'']
      else if n = 12 then [char_of (92 :: nat), CHR ''f'']
      else if n = 10 then [char_of (92 :: nat), CHR ''n'']
      else if n = 13 then [char_of (92 :: nat), CHR ''r'']
      else if n = 9 then [char_of (92 :: nat), CHR ''t'']
      else if n = 11 then [char_of (92 :: nat), CHR ''v'']
      else if n < 32 \<or> n = 127 then [char_of (92 :: nat), CHR ''x'', hex_digit (n div 16), hex_digit (n mod 16)]
      else [c])"

definition go_quote :: "string \<Rightarrow> string" where
  "go_quote s = char_of (34 :: nat) # concat (map quote_char s) @ [char_of (34 :: nat)]"

section \<open>Optional pointers and defaults\<close>

text \<open>
  \<^verbatim>\<open>if x == "" { x = d }\<close> and the read of an optional boolean with a default.
\<close>

definition or_default :: "string \<Rightarrow> string \<Rightarrow> string" where
  "or_default d x = (if x = [] then d else x)"

definition bool_or :: "bool \<Rightarrow> bool option \<Rightarrow> bool" where
  "bool_or d x = (case x of None \<Rightarrow> d | Some b \<Rightarrow> b)"

lemma or_default_nonempty [simp]: "d \<noteq> [] \<Longrightarrow> or_default d x \<noteq> []"
  by (simp add: or_default_def)

section \<open>Lists\<close>

lemma filter_singleton_count: "length (filter P xs) = 0 \<longleftrightarrow> (\<forall>x \<in> set xs. \<not> P x)"
  by (simp add: filter_empty_conv)

lemma concat_map_empty_iff: "concat (map f xs) = [] \<longleftrightarrow> (\<forall>x \<in> set xs. f x = [])"
  by (induction xs) auto

section \<open>Maps\<close>

text \<open>
  \<^verbatim>\<open>for _, b := range xs { m[f(b)] = b }\<close>: the last element with a key wins.
\<close>

definition index_by :: "('a \<Rightarrow> 'k) \<Rightarrow> 'a list \<Rightarrow> 'k \<rightharpoonup> 'a" where
  "index_by f xs = foldl (\<lambda>m x. m(f x \<mapsto> x)) Map.empty xs"

lemma index_by_snoc [simp]:
  "index_by f [] = Map.empty" "index_by f (xs @ [x]) = (index_by f xs)(f x \<mapsto> x)"
  by (simp_all add: index_by_def)

lemma index_by_Some: "index_by f xs k = Some x \<Longrightarrow> x \<in> set xs \<and> f x = k"
  by (induction xs rule: rev_induct) (auto split: if_splits)

lemma index_by_None: "index_by f xs k = None \<longleftrightarrow> k \<notin> f ` set xs"
  by (induction xs rule: rev_induct) auto

end
