(* ===== verification/Kube_Objects.thy ===== *)
theory Kube_Objects
  imports Prelude
begin

text \<open>
  The Kubernetes API objects the operator builds and reads, as records. They are data
  declared outside the repository (\<^verbatim>\<open>k8s.io/api\<close>); the records carry the fields
  that the operator sets or inspects. A nil map is the empty map, a nil slice the empty
  list, an unset pointer \<^const>\<open>None\<close>; quantities are kept as their literals and times are
  integers in nanoseconds with the zero time 0.
\<close>

section \<open>Metadata and conditions\<close>

type_synonym time = int
type_synonym duration = int

text \<open>\<open>om_Controller\<close> is the UID of the owner that is marked as the controller.\<close>

record ObjectMeta =
  om_Name :: string
  om_Namespace :: string
  om_Labels :: gomap
  om_Annotations :: gomap
  om_Finalizers :: "string list"
  om_CreationTimestamp :: time
  om_DeletionTimestamp :: "time option"
  om_UID :: string
  om_Controller :: "string option"

definition new_meta :: "string \<Rightarrow> string \<Rightarrow> gomap \<Rightarrow> ObjectMeta" where
  "new_meta name ns labels =
     \<lparr>om_Name = name, om_Namespace = ns, om_Labels = labels, om_Annotations = Map.empty,
      om_Finalizers = [], om_CreationTimestamp = 0, om_DeletionTimestamp = None,
      om_UID = [], om_Controller = None\<rparr>"

definition meta_key :: "ObjectMeta \<Rightarrow> nsname" where
  "meta_key m = (om_Namespace m, om_Name m)"

definition ConditionTrue :: string where [const_defs]: "ConditionTrue = ''True''"
definition ConditionFalse :: string where [const_defs]: "ConditionFalse = ''False''"

record Condition =
  c_Type :: string
  c_Status :: string
  c_Reason :: string
  c_Message :: string
  c_LastTransitionTime :: time

definition new_cond :: "string \<Rightarrow> string \<Rightarrow> string \<Rightarrow> string \<Rightarrow> Condition" where
  "new_cond ty st reason msg =
     \<lparr>c_Type = ty, c_Status = st, c_Reason = reason, c_Message = msg, c_LastTransitionTime = 0\<rparr>"

text \<open>The condition of a given type, if the list has one.\<close>

definition find_cond :: "string \<Rightarrow> Condition list \<Rightarrow> Condition option" where
  "find_cond ty cs = find (\<lambda>c. c_Type c = ty) cs"

section \<open>Pods\<close>

datatype EnvVarSource = SecretKeySelector string string | ObjectFieldSelector string

record EnvVar =
  ev_Name :: string
  ev_Value :: string
  ev_ValueFrom :: "EnvVarSource option"

definition env_val :: "string \<Rightarrow> string \<Rightarrow> EnvVar" where
  "env_val n v = \<lparr>ev_Name = n, ev_Value = v, ev_ValueFrom = None\<rparr>"

definition env_secret :: "string \<Rightarrow> string \<Rightarrow> string \<Rightarrow> EnvVar" where
  "env_secret n s k = \<lparr>ev_Name = n, ev_Value = [], ev_ValueFrom = Some (SecretKeySelector s k)\<rparr>"

record VolumeMount =
  vm_Name :: string
  vm_MountPath :: string
  vm_SubPath :: string
  vm_ReadOnly :: bool

definition mount :: "string \<Rightarrow> string \<Rightarrow> VolumeMount" where
  "mount n p = \<lparr>vm_Name = n, vm_MountPath = p, vm_SubPath = [], vm_ReadOnly = False\<rparr>"

text \<open>A config-map volume carries its name and its (key, path) items.\<close>

datatype VolumeSource =
    EmptyDirVolume "string option"
  | ConfigMapVolume string "(string \<times> string) list"
  | PVCVolume string
  | SecretVolume string

record Volume =
  v_Name :: string
  v_Source :: VolumeSource

record Capabilities =
  cap_Add :: "string list"
  cap_Drop :: "string list"

record SeccompProfile =
  sp_Type :: string
  sp_LocalhostProfile :: "string option"

definition SeccompProfileTypeUnconfined :: string where
  [const_defs]: "SeccompProfileTypeUnconfined = ''Unconfined''"
definition SeccompProfileTypeRuntimeDefault :: string where
  [const_defs]: "SeccompProfileTypeRuntimeDefault = ''RuntimeDefault''"
definition SeccompProfileTypeLocalhost :: string where
  [const_defs]: "SeccompProfileTypeLocalhost = ''Localhost''"

lemma seccomp_distinct [simp]:
  "SeccompProfileTypeRuntimeDefault \<noteq> SeccompProfileTypeUnconfined"
  "SeccompProfileTypeLocalhost \<noteq> SeccompProfileTypeUnconfined"
  "SeccompProfileTypeRuntimeDefault \<noteq> SeccompProfileTypeLocalhost"
  by (simp_all add: const_defs)

record SELinuxOptions =
  se_User :: string
  se_Role :: string
  se_Type :: string
  se_Level :: string

record SecurityContext =
  sc_Capabilities :: "Capabilities option"
  sc_Privileged :: "bool option"
  sc_SELinuxOptions :: "SELinuxOptions option"
  sc_RunAsUser :: "int option"
  sc_RunAsGroup :: "int option"
  sc_RunAsNonRoot :: "bool option"
  sc_ReadOnlyRootFilesystem :: "bool option"
  sc_AllowPrivilegeEscalation :: "bool option"
  sc_ProcMount :: "string option"
  sc_SeccompProfile :: "SeccompProfile option"

record PodSecurityContext =
  psc_SELinuxOptions :: "SELinuxOptions option"
  psc_RunAsUser :: "int option"
  psc_RunAsGroup :: "int option"
  psc_RunAsNonRoot :: "bool option"
  psc_SupplementalGroups :: "int list"
  psc_FSGroup :: "int option"
  psc_Sysctls :: "(string \<times> string) list"
  psc_FSGroupChangePolicy :: "string option"
  psc_SeccompProfile :: "SeccompProfile option"

record ResourceRequirements =
  rr_Requests :: gomap
  rr_Limits :: gomap

record Probe =
  pr_Path :: string
  pr_Port :: int
  pr_Scheme :: string
  pr_InitialDelaySeconds :: int
  pr_PeriodSeconds :: int
  pr_TimeoutSeconds :: int
  pr_SuccessThreshold :: int
  pr_FailureThreshold :: int

record ContainerPort =
  cp_Name :: string
  cp_ContainerPort :: int
  cp_Protocol :: string

record Container =
  ct_Name :: string
  ct_Image :: string
  ct_ImagePullPolicy :: string
  ct_Command :: "string list"
  ct_Env :: "EnvVar list"
  ct_Resources :: ResourceRequirements
  ct_VolumeMounts :: "VolumeMount list"
  ct_Ports :: "ContainerPort list"
  ct_LivenessProbe :: "Probe option"
  ct_ReadinessProbe :: "Probe option"
  ct_SecurityContext :: "SecurityContext option"

definition new_container :: "string \<Rightarrow> string \<Rightarrow> Container" where
  "new_container name img =
     \<lparr>ct_Name = name, ct_Image = img, ct_ImagePullPolicy = [], ct_Command = [], ct_Env = [],
      ct_Resources = \<lparr>rr_Requests = Map.empty, rr_Limits = Map.empty\<rparr>, ct_VolumeMounts = [],
      ct_Ports = [], ct_LivenessProbe = None, ct_ReadinessProbe = None,
      ct_SecurityContext = None\<rparr>"

record PodSpec =
  pd_InitContainers :: "Container list"
  pd_Containers :: "Container list"
  pd_Volumes :: "Volume list"
  pd_ServiceAccountName :: string
  pd_RestartPolicy :: string
  pd_SecurityContext :: "PodSecurityContext option"
  pd_AutomountServiceAccountToken :: "bool option"

section \<open>Workloads and configuration\<close>

record ConfigMap =
  cm_Meta :: ObjectMeta
  cm_Data :: gomap
  cm_BinaryData :: gomap

record Secret =
  sec_Meta :: ObjectMeta
  sec_Data :: gomap

record PodTemplateSpec =
  pt_Labels :: gomap
  pt_Annotations :: gomap
  pt_Spec :: PodSpec

record Job =
  job_Meta :: ObjectMeta
  job_BackoffLimit :: "int option"
  job_ActiveDeadlineSeconds :: "int option"
  job_TTLSecondsAfterFinished :: "int option"
  job_Template :: PodTemplateSpec
  job_Succeeded :: int
  job_Failed :: int

record Deployment =
  dep_Meta :: ObjectMeta
  dep_Replicas :: int
  dep_Selector :: gomap
  dep_Template :: PodTemplateSpec
  dep_Strategy :: string
  dep_ReadyReplicas :: int

text \<open>
  The part of a pod's status that the operator reads: for each container its name and,
  when it has terminated, the termination message.
\<close>

record ContainerStatus =
  cst_Name :: string
  cst_Terminated :: "string option"

record Pod =
  pod_Meta :: ObjectMeta
  pod_ContainerStatuses :: "ContainerStatus list"

end
