(* ===== verification/Api_Types.thy ===== *)
theory Api_Types
  imports Kube_Objects Complex_Main
begin

text \<open>
  The custom resources of the operator (\<^verbatim>\<open>src/api/v1alpha1/*_types.go\<close>):
  Agent, AgentRun, Channel, Provider and Integration, one record per Go struct and one
  field per Go field. A Go string type with named constants stays a \<^typ>\<open>string\<close>, since
  objects read from the API server may hold other values, and each constant is a
  definition; the distinctness of the constants of a type is a simp rule. A
  \<^verbatim>\<open>*float64\<close> read from JSON is a finite binary fraction and is modelled by
  \<^typ>\<open>rat\<close>.
\<close>

section \<open>Shared types\<close>

record SecretKeyRef =
  skr_Name :: string
  skr_Key :: string

record SecretEnvVar =
  sev_Name :: string
  sev_SecretRef :: SecretKeyRef

record OCIRef =
  oci_Ref :: string
  oci_Digest :: string
  oci_PullPolicy :: string
  oci_PullSecret :: "SecretKeyRef option"

record AnthropicCallDefaults =
  acd_Effort :: string
  acd_ThinkingBudgetTokens :: "int option"
  acd_DisableParallelToolUse :: "bool option"

record OpenAICallDefaults =
  ocd_ReasoningEffort :: string
  ocd_ServiceTier :: string

record GoogleSafetySetting =
  gss_Category :: string
  gss_Threshold :: string

record GoogleCallDefaults =
  gcd_ThinkingLevel :: string
  gcd_ThinkingBudgetTokens :: "int option"
  gcd_SafetySettings :: "GoogleSafetySetting list"

record ProviderCallDefaults =
  pcd_Anthropic :: "AnthropicCallDefaults option"
  pcd_OpenAI :: "OpenAICallDefaults option"
  pcd_Google :: "GoogleCallDefaults option"

record ProviderBinding =
  pb_Name :: string
  pb_Overrides :: "ProviderCallDefaults option"

record ContextFileRef =
  cfr_ConfigMapRef :: SecretKeyRef

record ToolEnvVar =
  tev_Name :: string
  tev_Value :: string

record ToolBinding =
  tb_Name :: string
  tb_OCI :: OCIRef
  tb_Description :: string
  tb_Category :: string
  tb_UIHint :: string
  tb_Env :: "ToolEnvVar list"

record MemorySaveRuleSpec =
  msr_Tool :: string
  msr_MatchOutput :: string
  msr_MatchArgs :: gomap
  msr_Type :: string
  msr_Scope :: string

record ContextInjectRuleSpec =
  cir_Tool :: string
  cir_Query :: string
  cir_Limit :: int

record ToolHooksSpec =
  th_BlockedCommands :: "string list"
  th_AllowedPaths :: "string list"
  th_AuditTools :: "string list"
  th_MemorySaveRules :: "MemorySaveRuleSpec list"
  th_ContextInjectTools :: "ContextInjectRuleSpec list"

record ConcurrencySpec =
  con_MaxRuns :: int
  con_Policy :: string

record StorageSpec =
  st_Size :: string
  st_StorageClass :: string

record NetworkPolicySpec =
  np_Enabled :: bool

record TelegramChannelConfig =
  tg_BotTokenSecret :: SecretKeyRef
  tg_AllowedUsers :: "string list"
  tg_AllowedChats :: "string list"

record SlackChannelConfig =
  sl_BotTokenSecret :: SecretKeyRef
  sl_AllowedChannels :: "string list"

record DiscordChannelConfig =
  dc_BotTokenSecret :: SecretKeyRef
  dc_AllowedChannels :: "string list"

record GitLabChannelConfig =
  glc_Events :: "string list"
  glc_Actions :: "string list"
  glc_Labels :: "string list"
  glc_Secret :: SecretKeyRef

record GitLabLabelChannelConfig =
  gll_IntegrationRef :: string
  gll_Target :: string
  gll_Labels :: "string list"
  gll_State :: string
  gll_PollInterval :: "duration option"

record GitLabCommentChannelConfig =
  gcc_IntegrationRef :: string
  gcc_PlanningLabel :: string
  gcc_State :: string
  gcc_PollInterval :: "duration option"

record GitHubChannelConfig =
  ghc_Events :: "string list"
  ghc_Actions :: "string list"
  ghc_Labels :: "string list"
  ghc_Secret :: SecretKeyRef

record WebhookChannelConfig =
  wcc_Secret :: "SecretKeyRef option"

record IngressTLS =
  tls_ClusterIssuer :: string
  tls_Issuer :: string

record WebhookIngressConfig =
  wi_Host :: string
  wi_Path :: string
  wi_IngressClassName :: string
  wi_TLS :: "IngressTLS option"

record IntegrationBinding =
  ib_Name :: string
  ib_ReadOnly :: bool
  ib_AutoContext :: bool

record DelegationSpec =
  dl_Team :: "string list"
  dl_MaxFanOut :: int

record MemorySpec =
  mem_ServerRef :: string
  mem_Project :: string
  mem_ContextLimit :: int
  mem_AutoSummarize :: "bool option"
  mem_AutoSave :: "bool option"
  mem_AutoSearch :: "bool option"

record SecurityOverrides =
  so_Pod :: "PodSecurityContext option"
  so_Container :: "SecurityContext option"
  so_AutomountServiceAccountToken :: "bool option"

definition ConditionSecurityPolicyViolations :: string where
  [const_defs]: "ConditionSecurityPolicyViolations = ''SecurityPolicyViolations''"

section \<open>Agent\<close>

definition AgentModeDaemon :: string where [const_defs]: "AgentModeDaemon = ''daemon''"
definition AgentModeTask :: string where [const_defs]: "AgentModeTask = ''task''"

lemma agent_mode_distinct [simp]: "AgentModeDaemon \<noteq> AgentModeTask" "AgentModeTask \<noteq> AgentModeDaemon"
  by (simp_all add: const_defs)

definition AgentPhasePending :: string where [const_defs]: "AgentPhasePending = ''Pending''"
definition AgentPhaseRunning :: string where [const_defs]: "AgentPhaseRunning = ''Running''"
definition AgentPhaseReady :: string where [const_defs]: "AgentPhaseReady = ''Ready''"
definition AgentPhaseFailed :: string where [const_defs]: "AgentPhaseFailed = ''Failed''"

lemma agent_phase_distinct [simp]:
  "distinct [AgentPhasePending, AgentPhaseRunning, AgentPhaseReady, AgentPhaseFailed]"
  "AgentPhasePending \<noteq> AgentPhaseRunning" "AgentPhaseRunning \<noteq> AgentPhasePending"
  by (simp_all add: const_defs)

record AgentSpec =
  as_Mode :: string
  as_Image :: string
  as_ImagePullPolicy :: string
  as_BuiltinTools :: "string list"
  as_Temperature :: "rat option"
  as_MaxOutputTokens :: "int option"
  as_MaxSteps :: "int option"
  as_MaxTokensBudget :: "int option"
  as_MaxRetries :: "int option"
  as_Model :: string
  as_PrimaryProvider :: string
  as_TitleModel :: string
  as_ProviderRefs :: "ProviderBinding list"
  as_FallbackModels :: "string list"
  as_SystemPrompt :: string
  as_ContextFiles :: "ContextFileRef list"
  as_Delegation :: "DelegationSpec option"
  as_Tools :: "ToolBinding list"
  as_PermissionTools :: "string list"
  as_EnableQuestionTool :: bool
  as_Env :: "(string \<times> string) list"
  as_Secrets :: "SecretEnvVar list"
  as_Storage :: "StorageSpec option"
  as_Memory :: "MemorySpec option"
  as_Integrations :: "IntegrationBinding list"
  as_ToolHooks :: "ToolHooksSpec option"
  as_Schedule :: string
  as_SchedulePrompt :: string
  as_Concurrency :: "ConcurrencySpec option"
  as_Resources :: "ResourceRequirements option"
  as_ServiceAccountName :: string
  as_Timeout :: string
  as_NetworkPolicy :: "NetworkPolicySpec option"
  as_PodAnnotations :: gomap
  as_Security :: "SecurityOverrides option"

record AgentStatus =
  ast_Phase :: string
  ast_ServiceURL :: string
  ast_ReadyReplicas :: int
  ast_StoragePVC :: string
  ast_ActiveModel :: string
  ast_Conditions :: "Condition list"

record Agent =
  ag_Meta :: ObjectMeta
  ag_Spec :: AgentSpec
  ag_Status :: AgentStatus

definition DefaultFantasyImage :: string where
  "DefaultFantasyImage = ''ghcr.io/samyn92/agentops-runtime-fantasy:0.18.0''"

definition RuntimeImage :: "Agent \<Rightarrow> string" where
  "RuntimeImage a = (if as_Image (ag_Spec a) \<noteq> [] then as_Image (ag_Spec a) else DefaultFantasyImage)"

definition PullIfNotPresent :: string where [const_defs]: "PullIfNotPresent = ''IfNotPresent''"

definition RuntimeImagePullPolicy :: "Agent \<Rightarrow> string" where
  "RuntimeImagePullPolicy a =
     (if as_ImagePullPolicy (ag_Spec a) \<noteq> [] then as_ImagePullPolicy (ag_Spec a) else PullIfNotPresent)"

definition BuiltinToolCount :: "Agent \<Rightarrow> nat" where
  "BuiltinToolCount a = length (as_BuiltinTools (ag_Spec a))"

definition AgentConditionReady :: string where [const_defs]: "AgentConditionReady = ''Ready''"
definition AgentConditionProvidersReady :: string where
  [const_defs]: "AgentConditionProvidersReady = ''ProvidersReady''"
definition AgentConditionResourcesReady :: string where
  [const_defs]: "AgentConditionResourcesReady = ''ResourcesReady''"

section \<open>AgentRun\<close>

definition AgentRunPhasePending :: string where [const_defs]: "AgentRunPhasePending = ''Pending''"
definition AgentRunPhaseQueued :: string where [const_defs]: "AgentRunPhaseQueued = ''Queued''"
definition AgentRunPhaseRunning :: string where [const_defs]: "AgentRunPhaseRunning = ''Running''"
definition AgentRunPhaseSucceeded :: string where
  [const_defs]: "AgentRunPhaseSucceeded = ''Succeeded''"
definition AgentRunPhaseFailed :: string where [const_defs]: "AgentRunPhaseFailed = ''Failed''"

lemma run_phase_distinct [simp]:
  "AgentRunPhasePending \<noteq> AgentRunPhaseQueued" "AgentRunPhaseQueued \<noteq> AgentRunPhasePending"
  "AgentRunPhasePending \<noteq> AgentRunPhaseRunning" "AgentRunPhaseRunning \<noteq> AgentRunPhasePending"
  "AgentRunPhasePending \<noteq> AgentRunPhaseSucceeded" "AgentRunPhaseSucceeded \<noteq> AgentRunPhasePending"
  "AgentRunPhasePending \<noteq> AgentRunPhaseFailed" "AgentRunPhaseFailed \<noteq> AgentRunPhasePending"
  "AgentRunPhaseQueued \<noteq> AgentRunPhaseRunning" "AgentRunPhaseRunning \<noteq> AgentRunPhaseQueued"
  "AgentRunPhaseQueued \<noteq> AgentRunPhaseSucceeded" "AgentRunPhaseSucceeded \<noteq> AgentRunPhaseQueued"
  "AgentRunPhaseQueued \<noteq> AgentRunPhaseFailed" "AgentRunPhaseFailed \<noteq> AgentRunPhaseQueued"
  "AgentRunPhaseRunning \<noteq> AgentRunPhaseSucceeded" "AgentRunPhaseSucceeded \<noteq> AgentRunPhaseRunning"
  "AgentRunPhaseRunning \<noteq> AgentRunPhaseFailed" "AgentRunPhaseFailed \<noteq> AgentRunPhaseRunning"
  "AgentRunPhaseSucceeded \<noteq> AgentRunPhaseFailed" "AgentRunPhaseFailed \<noteq> AgentRunPhaseSucceeded"
  by (simp_all add: const_defs)

lemma run_phase_nonempty [simp]:
  "AgentRunPhasePending \<noteq> []" "AgentRunPhaseQueued \<noteq> []" "AgentRunPhaseRunning \<noteq> []"
  "AgentRunPhaseSucceeded \<noteq> []" "AgentRunPhaseFailed \<noteq> []"
  by (simp_all add: const_defs)

record AgentRunOutcomeSpec =
  ros_Intent :: string

record AgentRunArtifact =
  art_Kind :: string
  art_Provider :: string
  art_URL :: string
  art_Ref :: string
  art_Title :: string

record AgentRunOutcomeStatus =
  ro_Intent :: string
  ro_Artifacts :: "AgentRunArtifact list"
  ro_Summary :: string

record AgentRunGitSpec =
  rg_IntegrationRef :: string
  rg_Branch :: string
  rg_BaseBranch :: string
  rg_Project :: string

record AgentRunSpec =
  rs_AgentRef :: string
  rs_Prompt :: string
  rs_Source :: string
  rs_SourceRef :: string
  rs_Git :: "AgentRunGitSpec option"
  rs_Outcome :: "AgentRunOutcomeSpec option"

record AgentRunStatus =
  rst_Phase :: string
  rst_Mode :: string
  rst_StartTime :: "time option"
  rst_CompletionTime :: "time option"
  rst_JobName :: string
  rst_Output :: string
  rst_ToolCalls :: int
  rst_TokensUsed :: int
  rst_Cost :: string
  rst_Model :: string
  rst_TraceID :: string
  rst_Outcome :: "AgentRunOutcomeStatus option"
  rst_Conditions :: "Condition list"

record AgentRun =
  run_Meta :: ObjectMeta
  run_Spec :: AgentRunSpec
  run_Status :: AgentRunStatus

definition AgentRunConditionComplete :: string where
  [const_defs]: "AgentRunConditionComplete = ''Complete''"

section \<open>Channel\<close>

definition ChannelTypeTelegram :: string where [const_defs]: "ChannelTypeTelegram = ''telegram''"
definition ChannelTypeSlack :: string where [const_defs]: "ChannelTypeSlack = ''slack''"
definition ChannelTypeDiscord :: string where [const_defs]: "ChannelTypeDiscord = ''discord''"
definition ChannelTypeGitLab :: string where [const_defs]: "ChannelTypeGitLab = ''gitlab''"
definition ChannelTypeGitHub :: string where [const_defs]: "ChannelTypeGitHub = ''github''"
definition ChannelTypeWebhook :: string where [const_defs]: "ChannelTypeWebhook = ''webhook''"
definition ChannelTypeGitLabLabel :: string where [const_defs]: "ChannelTypeGitLabLabel = ''gitlab-label''"
definition ChannelTypeGitLabComment :: string where
  [const_defs]: "ChannelTypeGitLabComment = ''gitlab-comment''"

lemma channel_type_distinct:
  "distinct [ChannelTypeTelegram, ChannelTypeSlack, ChannelTypeDiscord, ChannelTypeGitLab,
     ChannelTypeGitHub, ChannelTypeWebhook, ChannelTypeGitLabLabel, ChannelTypeGitLabComment]"
  by (simp add: const_defs)

definition IsEventType :: "string \<Rightarrow> bool" where
  "IsEventType t \<longleftrightarrow> t = ChannelTypeGitLab \<or> t = ChannelTypeGitHub \<or> t = ChannelTypeWebhook
     \<or> t = ChannelTypeGitLabLabel \<or> t = ChannelTypeGitLabComment"

definition IsPollType :: "string \<Rightarrow> bool" where
  "IsPollType t \<longleftrightarrow> t = ChannelTypeGitLabLabel \<or> t = ChannelTypeGitLabComment"

definition ChannelPhasePending :: string where [const_defs]: "ChannelPhasePending = ''Pending''"
definition ChannelPhaseReady :: string where [const_defs]: "ChannelPhaseReady = ''Ready''"
definition ChannelPhaseFailed :: string where [const_defs]: "ChannelPhaseFailed = ''Failed''"

record ChannelSpec =
  cs_Type :: string
  cs_AgentRef :: string
  cs_Telegram :: "TelegramChannelConfig option"
  cs_Slack :: "SlackChannelConfig option"
  cs_Discord :: "DiscordChannelConfig option"
  cs_GitLab :: "GitLabChannelConfig option"
  cs_GitLabLabel :: "GitLabLabelChannelConfig option"
  cs_GitLabComment :: "GitLabCommentChannelConfig option"
  cs_GitHub :: "GitHubChannelConfig option"
  cs_WebhookConfig :: "WebhookChannelConfig option"
  cs_Prompt :: string
  cs_Webhook :: "WebhookIngressConfig option"
  cs_Image :: string
  cs_ImagePullPolicy :: string
  cs_Replicas :: "int option"
  cs_Resources :: "ResourceRequirements option"
  cs_Security :: "SecurityOverrides option"

record ChannelStatus =
  chst_Phase :: string
  chst_ServiceURL :: string
  chst_WebhookURL :: string
  chst_Conditions :: "Condition list"

record Channel =
  ch_Meta :: ObjectMeta
  ch_Spec :: ChannelSpec
  ch_Status :: ChannelStatus

section \<open>Provider\<close>

definition ProviderTypeAnthropic :: string where [const_defs]: "ProviderTypeAnthropic = ''anthropic''"
definition ProviderTypeOpenAI :: string where [const_defs]: "ProviderTypeOpenAI = ''openai''"
definition ProviderTypeGoogle :: string where [const_defs]: "ProviderTypeGoogle = ''google''"
definition ProviderTypeAzure :: string where [const_defs]: "ProviderTypeAzure = ''azure''"
definition ProviderTypeBedrock :: string where [const_defs]: "ProviderTypeBedrock = ''bedrock''"
definition ProviderTypeOpenRouter :: string where [const_defs]: "ProviderTypeOpenRouter = ''openrouter''"
definition ProviderTypeOpenAICompat :: string where
  [const_defs]: "ProviderTypeOpenAICompat = ''openaicompat''"

lemma provider_type_distinct:
  "distinct [ProviderTypeAnthropic, ProviderTypeOpenAI, ProviderTypeGoogle, ProviderTypeAzure,
     ProviderTypeBedrock, ProviderTypeOpenRouter, ProviderTypeOpenAICompat]"
  by (simp add: const_defs)

definition ProviderPhasePending :: string where [const_defs]: "ProviderPhasePending = ''Pending''"
definition ProviderPhaseReady :: string where [const_defs]: "ProviderPhaseReady = ''Ready''"
definition ProviderPhaseFailed :: string where [const_defs]: "ProviderPhaseFailed = ''Failed''"

record OAuth2ClientCredentials =
  oa_TokenURL :: string
  oa_ClientIDSecret :: SecretKeyRef
  oa_ClientSecretSecret :: SecretKeyRef
  oa_Scope :: string
  oa_Audience :: string

record ProviderEndpoint =
  pe_BaseURL :: string
  pe_Headers :: gomap
  pe_OAuth2ClientCredentials :: "OAuth2ClientCredentials option"

record VertexConfig =
  vx_Project :: string
  vx_Location :: string

record ProviderConfig =
  pc_Organization :: string
  pc_Project :: string
  pc_UseResponsesAPI :: bool
  pc_AzureAPIVersion :: string
  pc_Vertex :: "VertexConfig option"
  pc_Bedrock :: bool

record ProviderSpec =
  ps_Type :: string
  ps_ApiKeySecret :: "SecretKeyRef option"
  ps_Endpoint :: "ProviderEndpoint option"
  ps_Config :: "ProviderConfig option"
  ps_Defaults :: "ProviderCallDefaults option"

record ProviderStatus =
  pst_Phase :: string
  pst_Message :: string
  pst_Conditions :: "Condition list"
  pst_BoundAgents :: int

record Provider =
  prov_Meta :: ObjectMeta
  prov_Spec :: ProviderSpec
  prov_Status :: ProviderStatus

definition ProviderConditionSecretReady :: string where
  [const_defs]: "ProviderConditionSecretReady = ''SecretReady''"
definition ProviderConditionConfigValid :: string where
  [const_defs]: "ProviderConditionConfigValid = ''ConfigValid''"
definition ProviderConditionInUse :: string where [const_defs]: "ProviderConditionInUse = ''InUse''"
definition ProviderFinalizer :: string where
  [const_defs]: "ProviderFinalizer = ''agents.agentops.io/provider-protection''"

section \<open>Integration\<close>

definition IntegrationKindGitHubRepo :: string where
  [const_defs]: "IntegrationKindGitHubRepo = ''github-repo''"
definition IntegrationKindGitHubOrg :: string where
  [const_defs]: "IntegrationKindGitHubOrg = ''github-org''"
definition IntegrationKindGitLabProject :: string where
  [const_defs]: "IntegrationKindGitLabProject = ''gitlab-project''"
definition IntegrationKindGitLabGroup :: string where
  [const_defs]: "IntegrationKindGitLabGroup = ''gitlab-group''"
definition IntegrationKindGitRepo :: string where [const_defs]: "IntegrationKindGitRepo = ''git-repo''"
definition IntegrationKindS3Bucket :: string where [const_defs]: "IntegrationKindS3Bucket = ''s3-bucket''"
definition IntegrationKindDocumentation :: string where
  [const_defs]: "IntegrationKindDocumentation = ''documentation''"

lemma integration_kind_distinct:
  "distinct [IntegrationKindGitHubRepo, IntegrationKindGitHubOrg, IntegrationKindGitLabProject,
     IntegrationKindGitLabGroup, IntegrationKindGitRepo, IntegrationKindS3Bucket,
     IntegrationKindDocumentation]"
  by (simp add: const_defs)

definition IntegrationPhasePending :: string where [const_defs]: "IntegrationPhasePending = ''Pending''"
definition IntegrationPhaseReady :: string where [const_defs]: "IntegrationPhaseReady = ''Ready''"
definition IntegrationPhaseFailed :: string where [const_defs]: "IntegrationPhaseFailed = ''Failed''"

record IntegrationTriggerGit =
  tgit_Branch :: string
  tgit_BaseBranch :: string

record IntegrationTrigger =
  tr_On :: string
  tr_Actions :: "string list"
  tr_Labels :: "string list"
  tr_AgentRef :: string
  tr_Prompt :: string
  tr_Git :: "IntegrationTriggerGit option"

record GitHubResourceConfig =
  gh_Owner :: string
  gh_Repo :: string
  gh_DefaultBranch :: string
  gh_APIURL :: string

record GitHubOrgResourceConfig =
  gho_Org :: string
  gho_RepoFilter :: "string list"
  gho_APIURL :: string

record GitLabResourceConfig =
  gl_BaseURL :: string
  gl_Project :: string
  gl_DefaultBranch :: string

record GitLabGroupResourceConfig =
  glg_BaseURL :: string
  glg_Group :: string
  glg_Projects :: "string list"
  glg_ReadOnly :: bool

record GitResourceConfig =
  git_URL :: string
  git_Branch :: string
  git_SSHKeySecret :: "SecretKeyRef option"

record S3ResourceConfig =
  s3_Bucket :: string
  s3_Region :: string
  s3_Endpoint :: string
  s3_Prefix :: string

record DocumentationResourceConfig =
  doc_URLs :: "string list"
  doc_ConfigMapRef :: "SecretKeyRef option"

record IntegrationSpec =
  is_Kind :: string
  is_DisplayName :: string
  is_Description :: string
  is_Credentials :: "SecretKeyRef option"
  is_GitHub :: "GitHubResourceConfig option"
  is_GitHubOrg :: "GitHubOrgResourceConfig option"
  is_GitLab :: "GitLabResourceConfig option"
  is_GitLabGroup :: "GitLabGroupResourceConfig option"
  is_Git :: "GitResourceConfig option"
  is_S3 :: "S3ResourceConfig option"
  is_Documentation :: "DocumentationResourceConfig option"
  is_Triggers :: "IntegrationTrigger list"

record IntegrationStatus =
  ist_Phase :: string
  ist_Conditions :: "Condition list"

record Integration =
  int_Meta :: ObjectMeta
  int_Spec :: IntegrationSpec
  int_Status :: IntegrationStatus

definition IntegrationConditionReady :: string where
  [const_defs]: "IntegrationConditionReady = ''Ready''"
definition IntegrationConditionInUse :: string where
  [const_defs]: "IntegrationConditionInUse = ''InUse''"
definition IntegrationFinalizer :: string where
  [const_defs]: "IntegrationFinalizer = ''agents.agentops.io/integration-protection''"

section \<open>Zero values\<close>

text \<open>The Go zero values of the spec and status structs.\<close>

definition zero_AgentSpec :: AgentSpec where
  "zero_AgentSpec =
     \<lparr>as_Mode = [], as_Image = [], as_ImagePullPolicy = [], as_BuiltinTools = [],
      as_Temperature = None, as_MaxOutputTokens = None, as_MaxSteps = None,
      as_MaxTokensBudget = None, as_MaxRetries = None, as_Model = [], as_PrimaryProvider = [],
      as_TitleModel = [], as_ProviderRefs = [], as_FallbackModels = [], as_SystemPrompt = [],
      as_ContextFiles = [], as_Delegation = None, as_Tools = [], as_PermissionTools = [],
      as_EnableQuestionTool = False, as_Env = [], as_Secrets = [], as_Storage = None,
      as_Memory = None, as_Integrations = [], as_ToolHooks = None, as_Schedule = [],
      as_SchedulePrompt = [], as_Concurrency = None, as_Resources = None,
      as_ServiceAccountName = [], as_Timeout = [], as_NetworkPolicy = None,
      as_PodAnnotations = Map.empty, as_Security = None\<rparr>"

definition zero_AgentStatus :: AgentStatus where
  "zero_AgentStatus =
     \<lparr>ast_Phase = [], ast_ServiceURL = [], ast_ReadyReplicas = 0, ast_StoragePVC = [],
      ast_ActiveModel = [], ast_Conditions = []\<rparr>"

definition zero_AgentRunSpec :: AgentRunSpec where
  "zero_AgentRunSpec =
     \<lparr>rs_AgentRef = [], rs_Prompt = [], rs_Source = [], rs_SourceRef = [], rs_Git = None,
      rs_Outcome = None\<rparr>"

definition zero_AgentRunStatus :: AgentRunStatus where
  "zero_AgentRunStatus =
     \<lparr>rst_Phase = [], rst_Mode = [], rst_StartTime = None, rst_CompletionTime = None,
      rst_JobName = [], rst_Output = [], rst_ToolCalls = 0, rst_TokensUsed = 0, rst_Cost = [],
      rst_Model = [], rst_TraceID = [], rst_Outcome = None, rst_Conditions = []\<rparr>"

definition zero_ChannelSpec :: ChannelSpec where
  "zero_ChannelSpec =
     \<lparr>cs_Type = [], cs_AgentRef = [], cs_Telegram = None, cs_Slack = None,
      cs_Discord = None, cs_GitLab = None, cs_GitLabLabel = None, cs_GitLabComment = None,
      cs_GitHub = None, cs_WebhookConfig = None, cs_Prompt = [], cs_Webhook = None, cs_Image = [],
      cs_ImagePullPolicy = [], cs_Replicas = None, cs_Resources = None, cs_Security = None\<rparr>"

definition zero_ChannelStatus :: ChannelStatus where
  "zero_ChannelStatus =
     \<lparr>chst_Phase = [], chst_ServiceURL = [], chst_WebhookURL = [],
      chst_Conditions = []\<rparr>"

definition zero_ProviderSpec :: ProviderSpec where
  "zero_ProviderSpec =
     \<lparr>ps_Type = [], ps_ApiKeySecret = None, ps_Endpoint = None, ps_Config = None,
      ps_Defaults = None\<rparr>"

definition zero_ProviderStatus :: ProviderStatus where
  "zero_ProviderStatus =
     \<lparr>pst_Phase = [], pst_Message = [], pst_Conditions = [], pst_BoundAgents = 0\<rparr>"

definition zero_IntegrationSpec :: IntegrationSpec where
  "zero_IntegrationSpec =
     \<lparr>is_Kind = [], is_DisplayName = [], is_Description = [], is_Credentials = None,
      is_GitHub = None, is_GitHubOrg = None, is_GitLab = None, is_GitLabGroup = None,
      is_Git = None, is_S3 = None, is_Documentation = None, is_Triggers = []\<rparr>"

definition zero_IntegrationStatus :: IntegrationStatus where
  "zero_IntegrationStatus =
     \<lparr>ist_Phase = [], ist_Conditions = []\<rparr>"

end
