(* ===== verification/Resource_Common.thy ===== *)
theory Resource_Common
  imports Api_Types
begin

text \<open>
  \<^verbatim>\<open>src/internal/resources/common.go\<close>: the label and volume names shared by the
  builders, the naming convention of child objects, the check of OCI references and the
  quoting of values that go into \<^verbatim>\<open>sh -c\<close> commands. A reference lexer for the
  fragment of the POSIX shell language that the builders generate gives the meaning of a
  command line; it is the specification the quoting is verified against.
\<close>

section \<open>Constants\<close>

definition LabelAgent :: string where [const_defs]: "LabelAgent = ''agents.agentops.io/agent''"
definition LabelComponent :: string where
  [const_defs]: "LabelComponent = ''agents.agentops.io/component''"
definition LabelManagedBy :: string where [const_defs]: "LabelManagedBy = ''app.kubernetes.io/managed-by''"
definition ManagedByValue :: string where [const_defs]: "ManagedByValue = ''agentops-operator''"
definition LabelRun :: string where [const_defs]: "LabelRun = ''agents.agentops.io/run''"

definition AgentRuntimePort :: int where "AgentRuntimePort = 4096"

definition CraneImage :: string where "CraneImage = ''gcr.io/go-containerregistry/crane:debug''"
definition DefaultMCPGatewayImage :: string where
  "DefaultMCPGatewayImage = ''ghcr.io/samyn92/mcp-gateway:latest''"
definition envMCPGatewayImage :: string where "envMCPGatewayImage = ''AGENTOPS_MCP_GATEWAY_IMAGE''"

definition VolumeData :: string where [const_defs]: "VolumeData = ''data''"
definition VolumeTools :: string where [const_defs]: "VolumeTools = ''tools''"
definition VolumeConfig :: string where [const_defs]: "VolumeConfig = ''operator-config''"
definition VolumeTmp :: string where [const_defs]: "VolumeTmp = ''tmp''"
definition MountTmp :: string where [const_defs]: "MountTmp = ''/tmp''"
definition ContainerRuntime :: string where [const_defs]: "ContainerRuntime = ''agent-runtime''"
definition MountData :: string where [const_defs]: "MountData = ''/data''"
definition MountTools :: string where [const_defs]: "MountTools = ''/tools''"
definition MountConfig :: string where [const_defs]: "MountConfig = ''/etc/operator''"

lemma label_distinct [simp]:
  "LabelAgent \<noteq> LabelComponent" "LabelComponent \<noteq> LabelAgent"
  "LabelAgent \<noteq> LabelManagedBy" "LabelManagedBy \<noteq> LabelAgent"
  "LabelComponent \<noteq> LabelManagedBy" "LabelManagedBy \<noteq> LabelComponent"
  "LabelRun \<noteq> LabelAgent" "LabelAgent \<noteq> LabelRun"
  by (simp_all add: const_defs)

definition DefaultOTelEndpoint :: string where
  "DefaultOTelEndpoint = ''tempo.observability.svc.cluster.local:4317''"
definition DefaultNATSEndpoint :: string where
  "DefaultNATSEndpoint = ''nats://agentops-nats.agent-system.svc.cluster.local:4222''"

record InfraConfig =
  ic_OTelEndpoint :: string
  ic_NATSURL :: string

definition OTel :: "InfraConfig \<Rightarrow> string" where
  "OTel c = (if ic_OTelEndpoint c \<noteq> [] then ic_OTelEndpoint c else DefaultOTelEndpoint)"

definition NATS :: "InfraConfig \<Rightarrow> string" where
  "NATS c = (if ic_NATSURL c \<noteq> [] then ic_NATSURL c else DefaultNATSEndpoint)"

section \<open>Labels and names\<close>

definition CommonLabels :: "string \<Rightarrow> string \<Rightarrow> gomap" where
  "CommonLabels agentName component =
     [LabelAgent \<mapsto> agentName, LabelComponent \<mapsto> component, LabelManagedBy \<mapsto> ManagedByValue]"

lemma CommonLabels_agent [simp]: "CommonLabels a c LabelAgent = Some a"
  by (simp add: CommonLabels_def)

lemma CommonLabels_component [simp]: "CommonLabels a c LabelComponent = Some c"
  by (simp add: CommonLabels_def)

definition ObjectName :: "string \<Rightarrow> string \<Rightarrow> string" where
  "ObjectName agentName suffix = (if suffix = [] then agentName else agentName @ ''-'' @ suffix)"

lemma ObjectName_inj: "ObjectName a s = ObjectName b s \<longleftrightarrow> a = b"
  by (simp add: ObjectName_def)

definition MCPServerObjectName :: "string \<Rightarrow> string" where
  "MCPServerObjectName mcpName = ''mcp-'' @ mcpName"

section \<open>OCI references\<close>

definition is_alnum :: "char \<Rightarrow> bool" where
  "is_alnum c = (let n = (of_char c :: nat) in
     (48 \<le> n \<and> n \<le> 57) \<or> (65 \<le> n \<and> n \<le> 90) \<or> (97 \<le> n \<and> n \<le> 122))"

definition oci_char :: "char \<Rightarrow> bool" where
  "oci_char c = (is_alnum c \<or> c \<in> set ''._-/:@'')"

text \<open>The regular expression \<^verbatim>\<open>^[a-zA-Z0-9][a-zA-Z0-9._\-/:@]+$\<close>.\<close>

fun ociRefPattern :: "string \<Rightarrow> bool" where
  "ociRefPattern [] = False"
| "ociRefPattern (c # cs) = (is_alnum c \<and> cs \<noteq> [] \<and> list_all oci_char cs)"

definition ValidateOCIRef :: "string \<Rightarrow> string option" where
  "ValidateOCIRef ref =
     (if ref = [] then Some ''OCI reference is empty''
      else if \<not> ociRefPattern ref
      then Some (''OCI reference '' @ go_quote ref @ '' contains invalid characters'')
      else None)"

section \<open>Shell quoting\<close>

abbreviation squote :: char where "squote \<equiv> CHR 0x27"
abbreviation backslash :: char where "backslash \<equiv> CHR 0x5C"

definition ShellQuote :: "string \<Rightarrow> string" where
  "ShellQuote s = squote # replace_char squote [squote, backslash, squote, squote] s @ [squote]"

definition MCPGatewayImage :: "(string \<Rightarrow> string) \<Rightarrow> string" where
  "MCPGatewayImage getenv =
     (if getenv envMCPGatewayImage \<noteq> [] then getenv envMCPGatewayImage else DefaultMCPGatewayImage)"

subsection \<open>A reference lexer for the shell\<close>

text \<open>
  Tokens of a command line: a word after quote removal, or a control operator. The lexer
  refuses (\<^const>\<open>None\<close>) every character that the shell would expand or treat specially
  outside quotes, so a command line it accepts runs exactly the words it returns.
\<close>

datatype sh_token = Word string | Op string

definition emit :: "string option \<Rightarrow> sh_token list \<Rightarrow> sh_token list" where
  "emit cur ts = (case cur of None \<Rightarrow> ts | Some w \<Rightarrow> Word w # ts)"

definition word_so_far :: "string option \<Rightarrow> string" where
  "word_so_far cur = (case cur of None \<Rightarrow> [] | Some w \<Rightarrow> w)"

definition sh_plain :: "char \<Rightarrow> bool" where
  "sh_plain c = (is_alnum c \<or> c \<in> set ''._-/:@,+%'')"

fun sh_lex :: "string option \<Rightarrow> string \<Rightarrow> sh_token list option"
and sh_single :: "string \<Rightarrow> string \<Rightarrow> sh_token list option" where
  "sh_lex cur [] = Some (emit cur [])"
| "sh_lex cur (c # cs) =
     (if c = CHR '' '' then map_option (emit cur) (sh_lex None cs)
      else if c = squote then sh_single (word_so_far cur) cs
      else if c = backslash then
        (case cs of [] \<Rightarrow> None | d # ds \<Rightarrow> sh_lex (Some (word_so_far cur @ [d])) ds)
      else if c \<in> set ''&|'' then
        (case cs of [] \<Rightarrow> map_option (\<lambda>ts. emit cur (Op [c] # ts)) (sh_lex None [])
         | d # ds \<Rightarrow> if d = c then map_option (\<lambda>ts. emit cur (Op [c, c] # ts)) (sh_lex None ds)
                    else map_option (\<lambda>ts. emit cur (Op [c] # ts)) (sh_lex None (d # ds)))
      else if c \<in> set '';<>()'' then map_option (\<lambda>ts. emit cur (Op [c] # ts)) (sh_lex None cs)
      else if sh_plain c then sh_lex (Some (word_so_far cur @ [c])) cs
      else None)"
| "sh_single w [] = None"
| "sh_single w (c # cs) = (if c = squote then sh_lex (Some w) cs else sh_single (w @ [c]) cs)"

definition sh_tokens :: "string \<Rightarrow> sh_token list option" where
  "sh_tokens s = sh_lex None s"

lemma sh_single_quoted:
  "sh_single w (replace_char squote [squote, backslash, squote, squote] s @ squote # rest) =
     sh_lex (Some (w @ s)) rest"
proof (induction s arbitrary: w)
  case Nil
  show ?case by (simp add: replace_char_def)
next
  case (Cons c s)
  show ?case
  proof (cases "c = squote")
    case True
    have "sh_single w (replace_char squote [squote, backslash, squote, squote] (c # s) @ squote # rest)
        = sh_single (w @ [squote]) (replace_char squote [squote, backslash, squote, squote] s @ squote # rest)"
      by (simp add: True replace_char_def word_so_far_def)
    then show ?thesis using Cons.IH[of "w @ [squote]"] True by simp
  next
    case False
    then have "sh_single w (replace_char squote [squote, backslash, squote, squote] (c # s) @ squote # rest)
        = sh_single (w @ [c]) (replace_char squote [squote, backslash, squote, squote] s @ squote # rest)"
      by (simp add: replace_char_def)
    then show ?thesis using Cons.IH[of "w @ [c]"] by simp
  qed
qed

lemma sh_lex_ShellQuote:
  "sh_lex cur (ShellQuote s @ rest) = sh_lex (Some (word_so_far cur @ s)) rest"
  by (simp add: ShellQuote_def sh_single_quoted)

text \<open>
  C40. Quoting is faithful: the shell reads the quoted form of any string as one word, and
  that word is the string itself, whatever characters it contains.
\<close>

theorem ShellQuote_roundtrip: "sh_tokens (ShellQuote s) = Some [Word s]"
  using sh_lex_ShellQuote[of None s "[]"] by (simp add: sh_tokens_def word_so_far_def emit_def)

lemma sh_lex_plain:
  "list_all sh_plain s \<Longrightarrow> sh_lex cur (s @ rest) = (if s = [] then sh_lex cur rest
     else sh_lex (Some (word_so_far cur @ s)) rest)"
proof (induction s arbitrary: cur)
  case Nil
  then show ?case by simp
next
  case (Cons c s)
  then have c: "sh_plain c" and s: "list_all sh_plain s" by simp_all
  have "c \<noteq> CHR '' '' \<and> c \<noteq> squote \<and> c \<noteq> backslash \<and> c \<notin> set ''&|'' \<and> c \<notin> set '';<>()''"
    using c by (auto simp: sh_plain_def is_alnum_def)
  then have "sh_lex cur ((c # s) @ rest) = sh_lex (Some (word_so_far cur @ [c])) (s @ rest)"
    using c by simp
  also have "\<dots> = sh_lex (Some (word_so_far cur @ c # s)) rest"
    using Cons.IH[OF s, of "Some (word_so_far cur @ [c])"] by (simp add: word_so_far_def)
  finally show ?case by simp
qed

lemma oci_char_sh_plain: "oci_char c \<Longrightarrow> sh_plain c"
  by (auto simp: oci_char_def sh_plain_def)

lemma alnum_sh_plain: "is_alnum c \<Longrightarrow> sh_plain c"
  by (simp add: sh_plain_def)

text \<open>
  A reference accepted by \<^const>\<open>ValidateOCIRef\<close> is a plain shell word even without quotes.
\<close>

lemma ValidateOCIRef_safe: "ValidateOCIRef ref = None \<Longrightarrow> sh_tokens ref = Some [Word ref]"
proof -
  assume "ValidateOCIRef ref = None"
  then have "ociRefPattern ref" and "ref \<noteq> []" by (auto simp: ValidateOCIRef_def split: if_splits)
  then have "list_all sh_plain ref"
    by (cases ref) (simp_all add: list_all_iff oci_char_sh_plain alnum_sh_plain)
  then show ?thesis
    using sh_lex_plain[of ref None "[]"] \<open>ref \<noteq> []\<close> by (simp add: sh_tokens_def word_so_far_def emit_def)
qed

end
