(* ===== verification/Config_Types.thy ===== *)
theory Config_Types
  imports Resource_Common
begin

text \<open>
  The JSON structure mounted at \<^verbatim>\<open>/etc/operator/config.json\<close>
  (\<^verbatim>\<open>src/internal/resources/configmap.go\<close>), one record per Go struct. A nil slice and
  an empty one are the same list.
\<close>

section \<open>Config types\<close>

record ToolEntry =
  te_Name :: string
  te_Path :: string
  te_Description :: string
  te_Category :: string
  te_UIHint :: string

record ProviderOAuth2Entry =
  poe_TokenURL :: string
  poe_ClientIDEnv :: string
  poe_ClientSecretEnv :: string
  poe_Scopes :: "string list"

record ProviderVertexEntry =
  pve_Project :: string
  pve_Location :: string

record AnthropicCallDefaultsEntry =
  ace_Effort :: string
  ace_ThinkingBudgetTokens :: "int option"
  ace_DisableParallelToolUse :: "bool option"

record OpenAICallDefaultsEntry =
  oce_ReasoningEffort :: string
  oce_ServiceTier :: string

record GoogleSafetySettingEntry =
  gse_Category :: string
  gse_Threshold :: string

record GoogleCallDefaultsEntry =
  gce_ThinkingLevel :: string
  gce_ThinkingBudgetTokens :: "int option"
  gce_SafetySettings :: "GoogleSafetySettingEntry list"

record ProviderCallDefaultsEntry =
  pde_Anthropic :: "AnthropicCallDefaultsEntry option"
  pde_OpenAI :: "OpenAICallDefaultsEntry option"
  pde_Google :: "GoogleCallDefaultsEntry option"

record ProviderEntry =
  pen_Name :: string
  pen_Type :: string
  pen_BaseURL :: string
  pen_Headers :: gomap
  pen_Organization :: string
  pen_Project :: string
  pen_UseResponsesAPI :: bool
  pen_AzureAPIVersion :: string
  pen_Vertex :: "ProviderVertexEntry option"
  pen_Bedrock :: bool
  pen_CallDefaults :: "ProviderCallDefaultsEntry option"
  pen_OAuth2 :: "ProviderOAuth2Entry option"

record MemorySaveRule =
  mse_Tool :: string
  mse_MatchOutput :: string
  mse_MatchArgs :: gomap
  mse_Type :: string
  mse_Scope :: string

record ContextInjectRule =
  cie_Tool :: string
  cie_Query :: string
  cie_Limit :: int

record ToolHooksEntry =
  the_BlockedCommands :: "string list"
  the_AllowedPaths :: "string list"
  the_AuditTools :: "string list"
  the_MemorySaveRules :: "MemorySaveRule list"
  the_ContextInjectTools :: "ContextInjectRule list"

record ContextEntry =
  cx_Path :: string

record IntegrationGitHubEntry =
  ige_Owner :: string
  ige_Repo :: string
  ige_DefaultBranch :: string
  ige_APIURL :: string

record IntegrationGitHubOrgEntry =
  igo_Org :: string
  igo_RepoFilter :: "string list"
  igo_APIURL :: string

record IntegrationGitLabEntry =
  igl_BaseURL :: string
  igl_Project :: string
  igl_DefaultBranch :: string

record IntegrationGitLabGroupEntry =
  igg_BaseURL :: string
  igg_Group :: string
  igg_Projects :: "string list"

record IntegrationGitEntry =
  igt_URL :: string
  igt_Branch :: string

record IntegrationS3Entry =
  is3_Bucket :: string
  is3_Region :: string
  is3_Endpoint :: string
  is3_Prefix :: string

record IntegrationDocumentationEntry =
  ido_URLs :: "string list"

record IntegrationEntry =
  ie_Name :: string
  ie_Kind :: string
  ie_DisplayName :: string
  ie_Description :: string
  ie_ReadOnly :: bool
  ie_AutoContext :: bool
  ie_GitHub :: "IntegrationGitHubEntry option"
  ie_GitHubOrg :: "IntegrationGitHubOrgEntry option"
  ie_GitLab :: "IntegrationGitLabEntry option"
  ie_GitLabGroup :: "IntegrationGitLabGroupEntry option"
  ie_Git :: "IntegrationGitEntry option"
  ie_S3 :: "IntegrationS3Entry option"
  ie_Documentation :: "IntegrationDocumentationEntry option"

record MemoryConfigEntry =
  mce_ServerURL :: string
  mce_Project :: string
  mce_ContextLimit :: int
  mce_AutoSummarize :: bool
  mce_AutoSave :: bool
  mce_AutoSearch :: bool

record DelegationConfigEntry =
  dce_Team :: "string list"
  dce_MaxFanOut :: int

record AgentConfig =
  ac_Runtime :: string
  ac_Providers :: "ProviderEntry list"
  ac_PrimaryProvider :: string
  ac_PrimaryModel :: string
  ac_FallbackModels :: "string list"
  ac_TitleModel :: string
  ac_SystemPrompt :: string
  ac_PlatformProtocol :: string
  ac_BuiltinTools :: "string list"
  ac_Tools :: "ToolEntry list"
  ac_ToolHooks :: "ToolHooksEntry option"
  ac_ContextFiles :: "ContextEntry list"
  ac_Temperature :: "rat option"
  ac_MaxOutputTokens :: "int option"
  ac_MaxSteps :: "int option"
  ac_MaxTokensBudget :: "int option"
  ac_MaxRetries :: "int option"
  ac_MaxToolResultChars :: int
  ac_BudgetFraction :: "rat option"
  ac_PermissionTools :: "string list"
  ac_EnableQuestionTool :: bool
  ac_Resources :: "IntegrationEntry list"
  ac_Memory :: "MemoryConfigEntry option"
  ac_Delegation :: "DelegationConfigEntry option"

text \<open>The JSON encoder and decoder, and the error message each may give.\<close>

record config_codec =
  marshal_config :: "AgentConfig \<Rightarrow> string + string"
  unmarshal_config :: "string \<Rightarrow> string + AgentConfig"

end
