(* ===== verification/Agent_Config.thy ===== *)
theory Agent_Config
  imports Config_Types
begin

text \<open>
  \<^verbatim>\<open>src/internal/resources/configmap.go\<close>: the runtime configuration of an agent
  (\<^verbatim>\<open>config.json\<close>), the platform protocol texts, the merge of per-call defaults and
  the per-run configuration. The JSON encoder and decoder of \<open>AgentConfig\<close> are arguments.
\<close>

section \<open>Protocol texts\<close>

abbreviation newline :: char where "newline \<equiv> CHR 0x0A"

definition memoryProtocolHeader :: string where
  "memoryProtocolHeader = join [newline]
     [[],
      ''## Memory System'',
      [],
      ''You have persistent memory (survives restarts). Context from past sessions is auto-injected before each turn.'',
      []]"

definition memoryProtocolSave :: string where
  "memoryProtocolSave = join [newline]
     [[],
      ''### Saving '' @ [CHR 0xE2, CHR 0x80, CHR 0x94] @ '' call mem_save after:'',
      ''- Bug fixes, architecture/design decisions, non-obvious discoveries'',
      ''- Config changes, established patterns, user preferences'',
      [],
      ''Format: type (bugfix|decision|discovery|pattern|config|preference|learning), title (verb + what, searchable), content (what/why/where, plus gotchas if any), tags (keywords).'',
      [],
      ''Save small focused memories as you go '' @ [CHR 0xE2, CHR 0x80, CHR 0x94] @ '' don't batch.'',
      []]"

definition memoryProtocolSaveDisabled :: string where
  "memoryProtocolSaveDisabled = join [newline]
     [[],
      ''### Saving'',
      ''Do NOT call mem_save. The user manages memory via the console.'',
      []]"

definition memoryProtocolSearch :: string where
  "memoryProtocolSearch = join [newline]
     [[],
      ''### Searching '' @ [CHR 0xE2, CHR 0x80, CHR 0x94] @ '' call mem_search when:'',
      ''- User references past work (\"remember\", \"last time\", \"what did we do\", \"that bug\")'',
      ''- User asks \"what have we done\" '' @ [CHR 0xE2, CHR 0x80, CHR 0x94] @ '' search first, don't guess'',
      [],
      ''Ask before searching on your own initiative during troubleshooting.'',
      ''Do NOT search on conversation start or for simple questions.'',
      []]"

definition memoryProtocolSearchDisabled :: string where
  "memoryProtocolSearchDisabled = join [newline]
     [[],
      ''### Searching'',
      ''Do NOT call mem_search or mem_context. The user manages memory lookups via the console.'',
      []]"


definition buildMemoryProtocol :: "MemorySpec \<Rightarrow> string" where
  "buildMemoryProtocol memory =
     (let autoSave = bool_or True (mem_AutoSave memory);
          autoSearch = bool_or True (mem_AutoSearch memory)
      in memoryProtocolHeader
         @ (if autoSave then memoryProtocolSave else memoryProtocolSaveDisabled)
         @ (if autoSearch then memoryProtocolSearch else memoryProtocolSearchDisabled))"

definition delegationProtocolTeamHeader :: string where
  "delegationProtocolTeamHeader = join [newline]
     [[],
      ''## Delegation'',
      [],
      ''You coordinate work by delegating to your team of specialized agents. Use list_task_agents to see who is available. Use run_agent for single tasks or run_agents for parallel fan-out of independent subtasks.'',
      [],
      ''When writing delegation prompts, include:'',
      ''- Clear task description with acceptance criteria'',
      ''- Relevant context the agent needs (not your full conversation)'',
      ''- Specific resource references (repo, branch) when applicable'',
      []]"

definition buildDelegationProtocol :: "DelegationSpec option \<Rightarrow> string" where
  "buildDelegationProtocol delegation =
     (case delegation of
        None \<Rightarrow> []
      | Some d \<Rightarrow>
          if dl_Team d = [] then []
          else delegationProtocolTeamHeader
               @ newline # ''Your team:'' @ [newline]
               @ concat (map (\<lambda>member. ''  - '' @ member @ [newline]) (dl_Team d))
               @ (if 0 < dl_MaxFanOut d \<and> dl_MaxFanOut d < 10
                  then newline # ''Maximum parallel delegations per fan-out: '' @ int_str (dl_MaxFanOut d)
                       @ ''.'' @ [newline]
                  else []))"

definition buildPlatformProtocol :: "Agent \<Rightarrow> string" where
  "buildPlatformProtocol agent =
     (let identity = ''You are '' @ om_Name (ag_Meta agent) @ '', a '' @ as_Mode (ag_Spec agent)
            @ '' agent in the '' @ om_Namespace (ag_Meta agent) @ '' namespace.'';
          delegation = buildDelegationProtocol (as_Delegation (ag_Spec agent));
          parts = [identity]
            @ (if delegation \<noteq> [] then [delegation] else [])
            @ (case as_Memory (ag_Spec agent) of None \<Rightarrow> [] | Some m \<Rightarrow> [buildMemoryProtocol m])
      in if parts = [] then [] else join [newline] parts)"

section \<open>Names and URLs\<close>

definition resolveMemoryServerURL :: "string \<Rightarrow> string \<Rightarrow> string" where
  "resolveMemoryServerURL serverRef ns =
     (if serverRef = [] then [] else ''http://'' @ serverRef @ ''.'' @ ns @ ''.svc:'' @ int_str 7437)"

definition ProviderEnvVarName :: "string \<Rightarrow> string" where
  "ProviderEnvVarName providerName = to_upper providerName @ ''_API_KEY''"

definition OAuth2ClientIDEnvVar :: "string \<Rightarrow> string" where
  "OAuth2ClientIDEnvVar providerName = to_upper providerName @ ''_OAUTH2_CLIENT_ID''"

definition OAuth2ClientSecretEnvVar :: "string \<Rightarrow> string" where
  "OAuth2ClientSecretEnvVar providerName = to_upper providerName @ ''_OAUTH2_CLIENT_SECRET''"

section \<open>Per-call defaults\<close>

definition convertCallDefaults :: "ProviderCallDefaults option \<Rightarrow> ProviderCallDefaultsEntry option" where
  "convertCallDefaults src =
     (case src of
        None \<Rightarrow> None
      | Some s \<Rightarrow> Some
          \<lparr>pde_Anthropic = map_option (\<lambda>a.
             \<lparr>ace_Effort = acd_Effort a, ace_ThinkingBudgetTokens = acd_ThinkingBudgetTokens a,
              ace_DisableParallelToolUse = acd_DisableParallelToolUse a\<rparr>) (pcd_Anthropic s),
           pde_OpenAI = map_option (\<lambda>oa.
             \<lparr>oce_ReasoningEffort = ocd_ReasoningEffort oa, oce_ServiceTier = ocd_ServiceTier oa\<rparr>)
             (pcd_OpenAI s),
           pde_Google = map_option (\<lambda>g.
             \<lparr>gce_ThinkingLevel = gcd_ThinkingLevel g,
              gce_ThinkingBudgetTokens = gcd_ThinkingBudgetTokens g,
              gce_SafetySettings = map (\<lambda>ss. \<lparr>gse_Category = gss_Category ss,
                gse_Threshold = gss_Threshold ss\<rparr>) (gcd_SafetySettings g)\<rparr>) (pcd_Google s)\<rparr>)"

definition mergeCallDefaults ::
  "ProviderCallDefaultsEntry option \<Rightarrow> ProviderCallDefaultsEntry option \<Rightarrow> ProviderCallDefaultsEntry option" where
  "mergeCallDefaults base override =
     (case base of None \<Rightarrow> override | Some b \<Rightarrow>
      (case override of None \<Rightarrow> base | Some ov \<Rightarrow>
        (let result = b;
             result = (case pde_Anthropic ov of None \<Rightarrow> result
               | Some oa \<Rightarrow>
                   (case pde_Anthropic result of
                      None \<Rightarrow> result\<lparr>pde_Anthropic := Some oa\<rparr>
                    | Some merged \<Rightarrow>
                        (let merged = (if ace_Effort oa \<noteq> [] then merged\<lparr>ace_Effort := ace_Effort oa\<rparr> else merged);
                             merged = (if ace_ThinkingBudgetTokens oa \<noteq> None
                               then merged\<lparr>ace_ThinkingBudgetTokens := ace_ThinkingBudgetTokens oa\<rparr> else merged);
                             merged = (if ace_DisableParallelToolUse oa \<noteq> None
                               then merged\<lparr>ace_DisableParallelToolUse := ace_DisableParallelToolUse oa\<rparr> else merged)
                         in result\<lparr>pde_Anthropic := Some merged\<rparr>)));
             result = (case pde_OpenAI ov of None \<Rightarrow> result
               | Some oo \<Rightarrow>
                   (case pde_OpenAI result of
                      None \<Rightarrow> result\<lparr>pde_OpenAI := Some oo\<rparr>
                    | Some merged \<Rightarrow>
                        (let merged = (if oce_ReasoningEffort oo \<noteq> []
                               then merged\<lparr>oce_ReasoningEffort := oce_ReasoningEffort oo\<rparr> else merged);
                             merged = (if oce_ServiceTier oo \<noteq> []
                               then merged\<lparr>oce_ServiceTier := oce_ServiceTier oo\<rparr> else merged)
                         in result\<lparr>pde_OpenAI := Some merged\<rparr>)));
             result = (case pde_Google ov of None \<Rightarrow> result
               | Some og \<Rightarrow>
                   (case pde_Google result of
                      None \<Rightarrow> result\<lparr>pde_Google := Some og\<rparr>
                    | Some merged \<Rightarrow>
                        (let merged = (if gce_ThinkingLevel og \<noteq> []
                               then merged\<lparr>gce_ThinkingLevel := gce_ThinkingLevel og\<rparr> else merged);
                             merged = (if gce_ThinkingBudgetTokens og \<noteq> None
                               then merged\<lparr>gce_ThinkingBudgetTokens := gce_ThinkingBudgetTokens og\<rparr> else merged);
                             merged = (if gce_SafetySettings og \<noteq> []
                               then merged\<lparr>gce_SafetySettings := gce_SafetySettings og\<rparr> else merged)
                         in result\<lparr>pde_Google := Some merged\<rparr>)))
         in Some result)))"

section \<open>Entries\<close>

definition buildProviderEntry :: "Provider \<Rightarrow> ProviderBinding option \<Rightarrow> ProviderEntry" where
  "buildProviderEntry prov binding =
     (let name = om_Name (prov_Meta prov); spec = prov_Spec prov;
          entry = \<lparr>pen_Name = name, pen_Type = ps_Type spec, pen_BaseURL = [], pen_Headers = Map.empty,
            pen_Organization = [], pen_Project = [], pen_UseResponsesAPI = False, pen_AzureAPIVersion = [],
            pen_Vertex = None, pen_Bedrock = False, pen_CallDefaults = None, pen_OAuth2 = None\<rparr>;
          entry = (case ps_Endpoint spec of None \<Rightarrow> entry
            | Some ep \<Rightarrow> entry\<lparr>pen_BaseURL := pe_BaseURL ep, pen_Headers := pe_Headers ep,
                pen_OAuth2 := map_option (\<lambda>oauth.
                  \<lparr>poe_TokenURL = oa_TokenURL oauth, poe_ClientIDEnv = OAuth2ClientIDEnvVar name,
                   poe_ClientSecretEnv = OAuth2ClientSecretEnvVar name,
                   poe_Scopes = (if oa_Scope oauth \<noteq> [] then strings_Fields (oa_Scope oauth) else [])\<rparr>)
                  (pe_OAuth2ClientCredentials ep)\<rparr>);
          entry = (case ps_Config spec of None \<Rightarrow> entry
            | Some cfg \<Rightarrow> entry\<lparr>pen_Organization := pc_Organization cfg, pen_Project := pc_Project cfg,
                pen_UseResponsesAPI := pc_UseResponsesAPI cfg, pen_AzureAPIVersion := pc_AzureAPIVersion cfg,
                pen_Bedrock := pc_Bedrock cfg,
                pen_Vertex := map_option (\<lambda>v. \<lparr>pve_Project = vx_Project v, pve_Location = vx_Location v\<rparr>)
                  (pc_Vertex cfg)\<rparr>);
          callDefaults = convertCallDefaults (ps_Defaults spec);
          callDefaults = (case Option.bind binding pb_Overrides of
              None \<Rightarrow> callDefaults
            | Some ov \<Rightarrow> mergeCallDefaults callDefaults (convertCallDefaults (Some ov)))
      in entry\<lparr>pen_CallDefaults := callDefaults\<rparr>)"

definition mapIntegrationKind :: "IntegrationEntry \<Rightarrow> Integration \<Rightarrow> IntegrationEntry" where
  "mapIntegrationKind entry res =
     (let spec = int_Spec res; kind = is_Kind spec in
      if kind = IntegrationKindGitHubRepo then
        (case is_GitHub spec of None \<Rightarrow> entry
         | Some g \<Rightarrow> entry\<lparr>ie_GitHub := Some \<lparr>ige_Owner = gh_Owner g, ige_Repo = gh_Repo g,
             ige_DefaultBranch = gh_DefaultBranch g, ige_APIURL = gh_APIURL g\<rparr>\<rparr>)
      else if kind = IntegrationKindGitHubOrg then
        (case is_GitHubOrg spec of None \<Rightarrow> entry
         | Some g \<Rightarrow> entry\<lparr>ie_GitHubOrg := Some \<lparr>igo_Org = gho_Org g, igo_RepoFilter = gho_RepoFilter g,
             igo_APIURL = gho_APIURL g\<rparr>\<rparr>)
      else if kind = IntegrationKindGitLabProject then
        (case is_GitLab spec of None \<Rightarrow> entry
         | Some g \<Rightarrow> entry\<lparr>ie_GitLab := Some \<lparr>igl_BaseURL = gl_BaseURL g, igl_Project = gl_Project g,
             igl_DefaultBranch = gl_DefaultBranch g\<rparr>\<rparr>)
      else if kind = IntegrationKindGitLabGroup then
        (case is_GitLabGroup spec of None \<Rightarrow> entry
         | Some g \<Rightarrow> entry\<lparr>ie_GitLabGroup := Some \<lparr>igg_BaseURL = glg_BaseURL g, igg_Group = glg_Group g,
             igg_Projects = glg_Projects g\<rparr>\<rparr>)
      else if kind = IntegrationKindGitRepo then
        (case is_Git spec of None \<Rightarrow> entry
         | Some g \<Rightarrow> entry\<lparr>ie_Git := Some \<lparr>igt_URL = git_URL g, igt_Branch = git_Branch g\<rparr>\<rparr>)
      else if kind = IntegrationKindS3Bucket then
        (case is_S3 spec of None \<Rightarrow> entry
         | Some g \<Rightarrow> entry\<lparr>ie_S3 := Some \<lparr>is3_Bucket = s3_Bucket g, is3_Region = s3_Region g,
             is3_Endpoint = s3_Endpoint g, is3_Prefix = s3_Prefix g\<rparr>\<rparr>)
      else if kind = IntegrationKindDocumentation then
        (case is_Documentation spec of None \<Rightarrow> entry
         | Some g \<Rightarrow> entry\<lparr>ie_Documentation := Some \<lparr>ido_URLs = doc_URLs g\<rparr>\<rparr>)
      else entry)"

definition memory_entry :: "Agent \<Rightarrow> MemoryConfigEntry option" where
  "memory_entry agent =
     (case as_Memory (ag_Spec agent) of
        None \<Rightarrow> None
      | Some m \<Rightarrow>
          (let serverURL = resolveMemoryServerURL (mem_ServerRef m) (om_Namespace (ag_Meta agent)) in
           if serverURL \<noteq> [] then Some
             \<lparr>mce_ServerURL = serverURL,
              mce_Project = or_default (om_Name (ag_Meta agent)) (mem_Project m),
              mce_ContextLimit = (if mem_ContextLimit m = 0 then 5 else mem_ContextLimit m),
              mce_AutoSummarize = bool_or True (mem_AutoSummarize m),
              mce_AutoSave = bool_or True (mem_AutoSave m),
              mce_AutoSearch = bool_or True (mem_AutoSearch m)\<rparr>
           else None))"

definition tool_entry :: "ToolBinding \<Rightarrow> ToolEntry" where
  "tool_entry tool =
     \<lparr>te_Name = tb_Name tool, te_Path = MountTools @ ''/'' @ tb_Name tool,
      te_Description = tb_Description tool, te_Category = tb_Category tool, te_UIHint = tb_UIHint tool\<rparr>"

definition hooks_entry :: "ToolHooksSpec \<Rightarrow> ToolHooksEntry" where
  "hooks_entry h =
     \<lparr>the_BlockedCommands = th_BlockedCommands h, the_AllowedPaths = th_AllowedPaths h,
      the_AuditTools = th_AuditTools h,
      the_MemorySaveRules = map (\<lambda>r. \<lparr>mse_Tool = msr_Tool r, mse_MatchOutput = msr_MatchOutput r,
        mse_MatchArgs = msr_MatchArgs r, mse_Type = msr_Type r, mse_Scope = msr_Scope r\<rparr>)
        (th_MemorySaveRules h),
      the_ContextInjectTools = map (\<lambda>r. \<lparr>cie_Tool = cir_Tool r, cie_Query = cir_Query r,
        cie_Limit = cir_Limit r\<rparr>) (th_ContextInjectTools h)\<rparr>"

text \<open>A name without a binding reads the zero binding from the Go map.\<close>

definition binding_of :: "IntegrationBinding list \<Rightarrow> string \<Rightarrow> IntegrationBinding" where
  "binding_of bs name =
     (case index_by ib_Name bs name of
        Some b \<Rightarrow> b | None \<Rightarrow> \<lparr>ib_Name = [], ib_ReadOnly = False, ib_AutoContext = False\<rparr>)"

definition integration_entry :: "IntegrationBinding list \<Rightarrow> Integration \<Rightarrow> IntegrationEntry" where
  "integration_entry bs res =
     (let name = om_Name (int_Meta res); binding = binding_of bs name in
      mapIntegrationKind
        \<lparr>ie_Name = name, ie_Kind = is_Kind (int_Spec res), ie_DisplayName = is_DisplayName (int_Spec res),
         ie_Description = is_Description (int_Spec res), ie_ReadOnly = ib_ReadOnly binding,
         ie_AutoContext = ib_AutoContext binding, ie_GitHub = None, ie_GitHubOrg = None, ie_GitLab = None,
         ie_GitLabGroup = None, ie_Git = None, ie_S3 = None, ie_Documentation = None\<rparr> res)"

text \<open>The configuration that \<open>BuildAgentConfigMap\<close> assembles before it is encoded.\<close>

definition agent_config :: "Agent \<Rightarrow> Integration list \<Rightarrow> Provider list \<Rightarrow> AgentConfig" where
  "agent_config agent integrations providers =
     (let spec = ag_Spec agent in
      \<lparr>ac_Runtime = ''fantasy'',
       ac_Providers = map (\<lambda>prov. buildProviderEntry prov
         (index_by pb_Name (as_ProviderRefs spec) (om_Name (prov_Meta prov)))) providers,
       ac_PrimaryProvider = as_PrimaryProvider spec, ac_PrimaryModel = as_Model spec,
       ac_FallbackModels = as_FallbackModels spec, ac_TitleModel = as_TitleModel spec,
       ac_SystemPrompt = as_SystemPrompt spec, ac_PlatformProtocol = buildPlatformProtocol agent,
       ac_BuiltinTools = as_BuiltinTools spec, ac_Tools = map tool_entry (as_Tools spec),
       ac_ToolHooks = map_option hooks_entry (as_ToolHooks spec), ac_ContextFiles = [],
       ac_Temperature = as_Temperature spec, ac_MaxOutputTokens = as_MaxOutputTokens spec,
       ac_MaxSteps = as_MaxSteps spec, ac_MaxTokensBudget = as_MaxTokensBudget spec,
       ac_MaxRetries = as_MaxRetries spec, ac_MaxToolResultChars = 0, ac_BudgetFraction = None,
       ac_PermissionTools = as_PermissionTools spec, ac_EnableQuestionTool = as_EnableQuestionTool spec,
       ac_Resources = map (integration_entry (as_Integrations spec)) integrations,
       ac_Memory = memory_entry agent,
       ac_Delegation = map_option (\<lambda>d. \<lparr>dce_Team = dl_Team d, dce_MaxFanOut = dl_MaxFanOut d\<rparr>)
         (as_Delegation spec)\<rparr>)"

definition config_key :: string where "config_key = ''config.json''"

definition new_configmap :: "ObjectMeta \<Rightarrow> string \<Rightarrow> ConfigMap" where
  "new_configmap m data = \<lparr>cm_Meta = m, cm_Data = [config_key \<mapsto> data], cm_BinaryData = Map.empty\<rparr>"

definition BuildAgentConfigMap ::
  "config_codec \<Rightarrow> Agent \<Rightarrow> Integration list \<Rightarrow> Provider list \<Rightarrow> string + ConfigMap" where
  "BuildAgentConfigMap C agent integrations providers =
     (case marshal_config C (agent_config agent integrations providers) of
        Inl e \<Rightarrow> Inl (''marshal operator config: '' @ e)
      | Inr data \<Rightarrow> Inr (new_configmap
          (new_meta (ObjectName (om_Name (ag_Meta agent)) ''config'') (om_Namespace (ag_Meta agent))
             (CommonLabels (om_Name (ag_Meta agent)) ''config'')) data))"

text \<open>
  The loop over the git tool entries: entries whose name the base configuration already has
  are skipped (the set of existing names is not extended in the loop).
\<close>

definition add_git_tools :: "ToolEntry list \<Rightarrow> AgentConfig \<Rightarrow> AgentConfig" where
  "add_git_tools gitToolEntries config =
     (let existing = te_Name ` set (ac_Tools config) in
      config\<lparr>ac_Tools := ac_Tools config @ filter (\<lambda>gt. te_Name gt \<notin> existing) gitToolEntries\<rparr>)"

definition BuildAgentRunConfigMap ::
  "config_codec \<Rightarrow> ConfigMap \<Rightarrow> string \<Rightarrow> ToolEntry list \<Rightarrow> string + ConfigMap" where
  "BuildAgentRunConfigMap C baseConfigMap runName gitToolEntries =
     (let configJSON = (case cm_Data baseConfigMap config_key of None \<Rightarrow> [] | Some d \<Rightarrow> d) in
      case unmarshal_config C configJSON of
        Inl e \<Rightarrow> Inl (''unmarshal base config: '' @ e)
      | Inr config \<Rightarrow>
          (case marshal_config C (add_git_tools gitToolEntries config) of
             Inl e \<Rightarrow> Inl (''marshal run config: '' @ e)
           | Inr data \<Rightarrow> Inr (new_configmap
               (new_meta (runName @ ''-config'') (om_Namespace (cm_Meta baseConfigMap))
                  ((om_Labels (cm_Meta baseConfigMap))(LabelRun \<mapsto> runName))) data)))"

section \<open>Properties\<close>

text \<open>Non-zero override fields win: what each field of a merge is.\<close>

definition pick_str :: "string \<Rightarrow> string \<Rightarrow> string" where
  "pick_str b ov = (if ov = [] then b else ov)"

definition pick_opt :: "'a option \<Rightarrow> 'a option \<Rightarrow> 'a option" where
  "pick_opt b ov = (case ov of None \<Rightarrow> b | Some x \<Rightarrow> Some x)"

definition merge_anthropic :: "AnthropicCallDefaultsEntry \<Rightarrow> AnthropicCallDefaultsEntry \<Rightarrow> AnthropicCallDefaultsEntry" where
  "merge_anthropic b ov = \<lparr>ace_Effort = pick_str (ace_Effort b) (ace_Effort ov),
     ace_ThinkingBudgetTokens = pick_opt (ace_ThinkingBudgetTokens b) (ace_ThinkingBudgetTokens ov),
     ace_DisableParallelToolUse = pick_opt (ace_DisableParallelToolUse b) (ace_DisableParallelToolUse ov)\<rparr>"

definition merge_openai :: "OpenAICallDefaultsEntry \<Rightarrow> OpenAICallDefaultsEntry \<Rightarrow> OpenAICallDefaultsEntry" where
  "merge_openai b ov = \<lparr>oce_ReasoningEffort = pick_str (oce_ReasoningEffort b) (oce_ReasoningEffort ov),
     oce_ServiceTier = pick_str (oce_ServiceTier b) (oce_ServiceTier ov)\<rparr>"

definition merge_google :: "GoogleCallDefaultsEntry \<Rightarrow> GoogleCallDefaultsEntry \<Rightarrow> GoogleCallDefaultsEntry" where
  "merge_google b ov = \<lparr>gce_ThinkingLevel = pick_str (gce_ThinkingLevel b) (gce_ThinkingLevel ov),
     gce_ThinkingBudgetTokens = pick_opt (gce_ThinkingBudgetTokens b) (gce_ThinkingBudgetTokens ov),
     gce_SafetySettings = (if gce_SafetySettings ov = [] then gce_SafetySettings b else gce_SafetySettings ov)\<rparr>"

text \<open>Pointwise merge of two optional values.\<close>

definition merge_opt :: "('a \<Rightarrow> 'a \<Rightarrow> 'a) \<Rightarrow> 'a option \<Rightarrow> 'a option \<Rightarrow> 'a option" where
  "merge_opt f b ov = (case (b, ov) of (None, _) \<Rightarrow> ov | (_, None) \<Rightarrow> b | (Some x, Some y) \<Rightarrow> Some (f x y))"

definition merge_defaults_spec :: "ProviderCallDefaultsEntry \<Rightarrow> ProviderCallDefaultsEntry \<Rightarrow> ProviderCallDefaultsEntry" where
  "merge_defaults_spec b ov =
     \<lparr>pde_Anthropic = merge_opt merge_anthropic (pde_Anthropic b) (pde_Anthropic ov),
      pde_OpenAI = merge_opt merge_openai (pde_OpenAI b) (pde_OpenAI ov),
      pde_Google = merge_opt merge_google (pde_Google b) (pde_Google ov)\<rparr>"

lemma merge_opt_assoc:
  "(\<And>x y z. f (f x y) z = f x (f y z)) \<Longrightarrow>
   merge_opt f (merge_opt f a b) c = merge_opt f a (merge_opt f b c)"
  by (cases a; cases b; cases c) (simp_all add: merge_opt_def)

lemma merge_opt_idem: "(\<And>x. f x x = x) \<Longrightarrow> merge_opt f a a = a"
  by (cases a) (simp_all add: merge_opt_def)

lemmas merge_parts = merge_anthropic_def merge_openai_def merge_google_def pick_str_def pick_opt_def

lemma merge_part_assoc:
  "merge_anthropic (merge_anthropic a b) c = merge_anthropic a (merge_anthropic b c)"
  "merge_openai (merge_openai d e) f = merge_openai d (merge_openai e f)"
  "merge_google (merge_google g h) i = merge_google g (merge_google h i)"
  by (simp_all add: merge_parts split: option.splits)

lemma merge_part_idem: "merge_anthropic a a = a" "merge_openai b b = b" "merge_google c c = c"
  by (simp_all add: merge_parts split: option.splits)

lemma mergeCallDefaults_spec: "mergeCallDefaults b ov = merge_opt merge_defaults_spec b ov"
proof (cases b; cases ov)
  fix x y assume "b = Some x" "ov = Some y"
  then show ?thesis
    by (cases "pde_Anthropic x"; cases "pde_Anthropic y"; cases "pde_OpenAI x"; cases "pde_OpenAI y";
        cases "pde_Google x"; cases "pde_Google y")
      (auto simp: mergeCallDefaults_def merge_opt_def merge_defaults_spec_def merge_parts Let_def
        split: option.splits)
qed (simp_all add: mergeCallDefaults_def merge_opt_def)

text \<open>
  Merging per-call defaults is the field-wise merge in which non-zero override fields win,
  so it is associative, idempotent and has the absent value as unit: the order in which
  layers of defaults are combined does not matter as long as their precedence is kept.
\<close>

theorem mergeCallDefaults_correct:
  "mergeCallDefaults b ov = merge_opt merge_defaults_spec b ov \<and>
   mergeCallDefaults (mergeCallDefaults b ov) ov' = mergeCallDefaults b (mergeCallDefaults ov ov') \<and>
   mergeCallDefaults b b = b \<and> mergeCallDefaults None b = b \<and> mergeCallDefaults b None = b"
proof -
  have "merge_defaults_spec (merge_defaults_spec x y) z = merge_defaults_spec x (merge_defaults_spec y z)" for x y z
    by (simp add: merge_defaults_spec_def merge_opt_assoc merge_part_assoc)
  moreover have "merge_defaults_spec x x = x" for x
    by (simp add: merge_defaults_spec_def merge_opt_idem merge_part_idem)
  ultimately show ?thesis
    by (simp add: mergeCallDefaults_spec merge_opt_assoc merge_opt_idem)
      (simp add: merge_opt_def split: option.splits)
qed

lemma add_git_tools_distinct:
  "\<lbrakk>distinct (map te_Name (ac_Tools c)); distinct (map te_Name ts)\<rbrakk> \<Longrightarrow>
   distinct (map te_Name (ac_Tools (add_git_tools ts c)))"
  by (force simp: add_git_tools_def Let_def distinct_map_filter image_iff)

lemma te_Name_tool_entry [simp]: "map te_Name (map tool_entry ts) = map tb_Name ts"
  by (simp add: tool_entry_def)

text \<open>
  The per-run configuration extends the agent's configuration and changes nothing else.
  Given that decoding gives back the encoded configuration, the run's config.json encodes the
  agent's configuration with the git tools of new names appended, the tool names stay
  distinct, and the user's system prompt is the one of the spec.
\<close>

theorem run_config_extends_agent_config:
  assumes "BuildAgentConfigMap C agent ints provs = Inr base"
    and "BuildAgentRunConfigMap C base runName gitTools = Inr cm"
    and roundtrip: "\<And>d. marshal_config C (agent_config agent ints provs) = Inr d \<Longrightarrow>
           unmarshal_config C d = Inr (agent_config agent ints provs)"
    and "distinct (map tb_Name (as_Tools (ag_Spec agent)))" "distinct (map te_Name gitTools)"
  shows "\<exists>cfg d. marshal_config C cfg = Inr d \<and> cm_Data cm = [config_key \<mapsto> d] \<and>
     cfg = (agent_config agent ints provs)\<lparr>ac_Tools := ac_Tools cfg\<rparr> \<and>
     ac_Tools cfg = map tool_entry (as_Tools (ag_Spec agent)) @
       filter (\<lambda>t. te_Name t \<notin> tb_Name ` set (as_Tools (ag_Spec agent))) gitTools \<and>
     distinct (map te_Name (ac_Tools cfg)) \<and>
     ac_SystemPrompt cfg = as_SystemPrompt (ag_Spec agent) \<and>
     om_Name (cm_Meta cm) = runName @ ''-config'' \<and> om_Labels (cm_Meta cm) LabelRun = Some runName"
proof -
  let ?base = "agent_config agent ints provs"
  let ?cfg = "add_git_tools gitTools ?base"
  from assms(1) obtain d0 where d0: "marshal_config C ?base = Inr d0" and b: "cm_Data base config_key = Some d0"
    by (auto simp: BuildAgentConfigMap_def new_configmap_def split: sum.splits)
  from assms(2) b roundtrip[OF d0] obtain d where d: "marshal_config C ?cfg = Inr d"
    and cm: "cm = new_configmap (new_meta (runName @ ''-config'') (om_Namespace (cm_Meta base))
                  ((om_Labels (cm_Meta base))(LabelRun \<mapsto> runName))) d"
    by (auto simp: BuildAgentRunConfigMap_def Let_def split: sum.splits)
  have tools: "ac_Tools ?base = map tool_entry (as_Tools (ag_Spec agent))"
    by (simp add: agent_config_def Let_def)
  have names: "te_Name ` tool_entry ` A = tb_Name ` A" for A
    by (auto simp: tool_entry_def image_iff)
  have dist: "distinct (map te_Name (ac_Tools ?cfg))"
    by (rule add_git_tools_distinct[OF _ assms(5)]) (simp only: tools te_Name_tool_entry assms(4))
  have "ac_SystemPrompt ?cfg = as_SystemPrompt (ag_Spec agent)"
    "?cfg = ?base\<lparr>ac_Tools := ac_Tools ?cfg\<rparr>"
    "ac_Tools ?cfg = map tool_entry (as_Tools (ag_Spec agent)) @
       filter (\<lambda>t. te_Name t \<notin> tb_Name ` set (as_Tools (ag_Spec agent))) gitTools"
    by (simp_all add: add_git_tools_def tools names Let_def) (simp add: agent_config_def Let_def)
  then show ?thesis using d dist
    by (intro exI[of _ ?cfg] exI[of _ d]) (simp add: cm new_configmap_def new_meta_def)
qed

definition demo_agent :: Agent where
  "demo_agent = \<lparr>ag_Meta = new_meta ''dev'' ''ns'' Map.empty,
     ag_Spec = zero_AgentSpec\<lparr>as_Mode := AgentModeTask, as_SystemPrompt := ''Be brief.''\<rparr>,
     ag_Status = zero_AgentStatus\<rparr>"

theorem run_config_extends_agent_config_witness:
  "\<exists>cfg. cfg = (agent_config demo_agent [] [])\<lparr>ac_Tools := ac_Tools cfg\<rparr> \<and>
     ac_Tools cfg = [\<lparr>te_Name = ''github'', te_Path = ''/tools/github'', te_Description = [], te_Category = [], te_UIHint = []\<rparr>]"
proof -
  let ?C = "\<lparr>marshal_config = \<lambda>_. Inr ''{}'', unmarshal_config = \<lambda>_. Inr (agent_config demo_agent [] [])\<rparr>"
  let ?t = "\<lparr>te_Name = ''github'', te_Path = ''/tools/github'', te_Description = [], te_Category = [], te_UIHint = []\<rparr>"
  obtain base where base: "BuildAgentConfigMap ?C demo_agent [] [] = Inr base"
    by (simp add: BuildAgentConfigMap_def)
  obtain cm where cm: "BuildAgentRunConfigMap ?C base ''run'' [?t] = Inr cm"
    by (simp add: BuildAgentRunConfigMap_def Let_def)
  have "as_Tools (ag_Spec demo_agent) = []" by (simp add: demo_agent_def zero_AgentSpec_def)
  then show ?thesis
    using run_config_extends_agent_config[OF base cm] by auto
qed

end
