(* ===== verification/Git_Workspace.thy ===== *)
theory Git_Workspace
  imports Agent_Config
begin

text \<open>
  \<^verbatim>\<open>src/internal/resources/agent_git.go\<close>: how a run's git specification and an
  Integration give a workspace configuration, the environment variables and tool entries
  derived from it, and the GitLab identity of a daemon agent.
\<close>

section \<open>Workspace resolution\<close>

definition ProviderGitHub :: string where [const_defs]: "ProviderGitHub = ''github''"
definition ProviderGitLab :: string where [const_defs]: "ProviderGitLab = ''gitlab''"
definition ProviderGit :: string where [const_defs]: "ProviderGit = ''git''"

record GitWorkspaceConfig =
  gw_Provider :: string
  gw_CloneURL :: string
  gw_Branch :: string
  gw_BaseBranch :: string
  gw_Credentials :: "SecretKeyRef option"
  gw_GitHubOwner :: string
  gw_GitHubRepo :: string
  gw_GitHubAPIURL :: string
  gw_GitLabProject :: string
  gw_GitLabBaseURL :: string

definition err_nil :: "string \<Rightarrow> string \<Rightarrow> string \<Rightarrow> string" where
  "err_nil name kind field =
     ''integration '' @ go_quote name @ '' kind is '' @ kind @ '' but spec.'' @ field @ '' is nil''"

definition ResolveGitWorkspace :: "AgentRunGitSpec \<Rightarrow> Integration \<Rightarrow> string + GitWorkspaceConfig" where
  "ResolveGitWorkspace gitSpec resource =
     (let spec = int_Spec resource; name = om_Name (int_Meta resource); kind = is_Kind spec;
          cfg = \<lparr>gw_Provider = [], gw_CloneURL = [], gw_Branch = rg_Branch gitSpec,
                 gw_BaseBranch = rg_BaseBranch gitSpec, gw_Credentials = is_Credentials spec,
                 gw_GitHubOwner = [], gw_GitHubRepo = [], gw_GitHubAPIURL = [],
                 gw_GitLabProject = [], gw_GitLabBaseURL = []\<rparr>;
          resolved =
            (if kind = IntegrationKindGitHubRepo then
               (case is_GitHub spec of
                  None \<Rightarrow> Inl (err_nil name ''github-repo'' ''github'')
                | Some gh \<Rightarrow>
                    (let cfg = cfg\<lparr>gw_Provider := ProviderGitHub,
                           gw_CloneURL := ''https://github.com/'' @ gh_Owner gh @ ''/'' @ gh_Repo gh @ ''.git'',
                           gw_GitHubOwner := gh_Owner gh, gw_GitHubRepo := gh_Repo gh,
                           gw_GitHubAPIURL := gh_APIURL gh\<rparr>;
                         cfg = (if gw_BaseBranch cfg = [] then cfg\<lparr>gw_BaseBranch := gh_DefaultBranch gh\<rparr> else cfg)
                     in Inr (if gw_GitHubAPIURL cfg \<noteq> []
                             then cfg\<lparr>gw_CloneURL := gw_GitHubAPIURL cfg @ ''/'' @ gh_Owner gh @ ''/'' @ gh_Repo gh @ ''.git''\<rparr>
                             else cfg)))
             else if kind = IntegrationKindGitLabProject then
               (case is_GitLab spec of
                  None \<Rightarrow> Inl (err_nil name ''gitlab-project'' ''gitlab'')
                | Some gl \<Rightarrow>
                    (let cfg = cfg\<lparr>gw_Provider := ProviderGitLab,
                           gw_CloneURL := gl_BaseURL gl @ ''/'' @ gl_Project gl @ ''.git'',
                           gw_GitLabProject := gl_Project gl, gw_GitLabBaseURL := gl_BaseURL gl\<rparr>
                     in Inr (if gw_BaseBranch cfg = [] then cfg\<lparr>gw_BaseBranch := gl_DefaultBranch gl\<rparr> else cfg)))
             else if kind = IntegrationKindGitLabGroup then
               (case is_GitLabGroup spec of
                  None \<Rightarrow> Inl (err_nil name ''gitlab-group'' ''gitlabGroup'')
                | Some glg \<Rightarrow>
                    if rg_Project gitSpec = [] then
                      Inl (''integration '' @ go_quote name
                           @ '' is a gitlab-group; spec.git.project (full project path, e.g. ''
                           @ go_quote (glg_Group glg) @ ''/<repo>) is required'')
                    else if \<not> has_prefix (rg_Project gitSpec) (glg_Group glg @ ''/'') then
                      Inl (''project '' @ go_quote (rg_Project gitSpec) @ '' is not within gitlab-group ''
                           @ go_quote (glg_Group glg))
                    else if glg_Projects glg \<noteq> [] \<and> rg_Project gitSpec \<notin> set (glg_Projects glg) then
                      Inl (''project '' @ go_quote (rg_Project gitSpec)
                           @ '' is not in the allow-list for gitlab-group '' @ go_quote name)
                    else Inr (cfg\<lparr>gw_Provider := ProviderGitLab,
                           gw_CloneURL := glg_BaseURL glg @ ''/'' @ rg_Project gitSpec @ ''.git'',
                           gw_GitLabProject := rg_Project gitSpec, gw_GitLabBaseURL := glg_BaseURL glg\<rparr>))
             else if kind = IntegrationKindGitRepo then
               (case is_Git spec of
                  None \<Rightarrow> Inl (err_nil name ''git-repo'' ''git'')
                | Some g \<Rightarrow>
                    (let cfg = cfg\<lparr>gw_Provider := ProviderGit, gw_CloneURL := git_URL g\<rparr>
                     in Inr (if gw_BaseBranch cfg = [] then cfg\<lparr>gw_BaseBranch := git_Branch g\<rparr> else cfg)))
             else Inl (''integration '' @ go_quote name @ '' kind '' @ go_quote kind @ '' is not a git resource''))
      in case resolved of
           Inl e \<Rightarrow> Inl e
         | Inr cfg \<Rightarrow> Inr (if gw_BaseBranch cfg = [] then cfg\<lparr>gw_BaseBranch := ''main''\<rparr> else cfg))"

section \<open>Environment and tools\<close>

definition GitEnvVars :: "GitWorkspaceConfig \<Rightarrow> EnvVar list" where
  "GitEnvVars g =
     [env_val ''GIT_PROVIDER'' (gw_Provider g), env_val ''GIT_REPO_URL'' (gw_CloneURL g),
      env_val ''GIT_BRANCH'' (gw_Branch g), env_val ''GIT_BASE_BRANCH'' (gw_BaseBranch g)]
     @ (if gw_Provider g = ProviderGitHub then
          [env_val ''GIT_OWNER'' (gw_GitHubOwner g), env_val ''GIT_REPO'' (gw_GitHubRepo g)]
          @ (if gw_GitHubAPIURL g \<noteq> [] then [env_val ''GITHUB_API_URL'' (gw_GitHubAPIURL g)] else [])
        else if gw_Provider g = ProviderGitLab then
          [env_val ''GIT_PROJECT'' (gw_GitLabProject g), env_val ''GITLAB_URL'' (gw_GitLabBaseURL g),
           env_val ''GITLAB_PROJECT'' (gw_GitLabProject g)]
        else [])
     @ (case gw_Credentials g of
          None \<Rightarrow> []
        | Some c \<Rightarrow>
            (let tokenEnvName = (if gw_Provider g = ProviderGitHub then ''GH_TOKEN''
                                 else if gw_Provider g = ProviderGitLab then ''GITLAB_TOKEN''
                                 else ''GIT_TOKEN'')
             in env_secret tokenEnvName (skr_Name c) (skr_Key c)
                # (if tokenEnvName \<noteq> ''GIT_TOKEN'' then [env_secret ''GIT_TOKEN'' (skr_Name c) (skr_Key c)] else [])))"

text \<open>The selection loop of \<open>GitLabEnvFromIntegrations\<close>: it stops at the first group.\<close>

fun choose_gitlab :: "Integration option \<Rightarrow> Integration list \<Rightarrow> Integration option" where
  "choose_gitlab chosen [] = chosen"
| "choose_gitlab chosen (i # is) =
     (let kind = is_Kind (int_Spec i);
          chosen = (if kind = IntegrationKindGitLabGroup then Some i
                    else if kind = IntegrationKindGitLabProject
                    then (case chosen of None \<Rightarrow> Some i | Some c \<Rightarrow> Some c)
                    else chosen)
      in case chosen of
           Some c \<Rightarrow> if is_Kind (int_Spec c) = IntegrationKindGitLabGroup then chosen
                     else choose_gitlab chosen is
         | None \<Rightarrow> choose_gitlab chosen is)"

definition GitLabEnvFromIntegrations :: "Integration list \<Rightarrow> IntegrationBinding list \<Rightarrow> EnvVar list" where
  "GitLabEnvFromIntegrations integrations bindings =
     (case choose_gitlab None integrations of
        None \<Rightarrow> []
      | Some chosen \<Rightarrow>
          (let spec = int_Spec chosen;
               bindingRO = ib_ReadOnly (binding_of bindings (om_Name (int_Meta chosen)));
               start =
                 (if is_Kind spec = IntegrationKindGitLabProject then
                    (case is_GitLab spec of None \<Rightarrow> None
                     | Some gl \<Rightarrow> Some ([env_val ''GITLAB_URL'' (gl_BaseURL gl),
                                         env_val ''GITLAB_PROJECT'' (gl_Project gl)], bindingRO))
                  else if is_Kind spec = IntegrationKindGitLabGroup then
                    (case is_GitLabGroup spec of None \<Rightarrow> None
                     | Some gl \<Rightarrow> Some ([env_val ''GITLAB_URL'' (glg_BaseURL gl),
                                         env_val ''GITLAB_GROUP'' (glg_Group gl)]
                                        @ (if glg_Projects gl \<noteq> []
                                           then [env_val ''GITLAB_PROJECTS'' (join '','' (glg_Projects gl))] else []),
                                        if glg_ReadOnly gl then True else bindingRO))
                  else Some ([], bindingRO))
           in case start of
                None \<Rightarrow> []
              | Some (env, readOnly) \<Rightarrow>
                  env
                  @ (if readOnly then [env_val ''GITLAB_READONLY'' ''true''] else [])
                  @ (case is_Credentials spec of
                       None \<Rightarrow> []
                     | Some c \<Rightarrow> map (\<lambda>n. env_secret n (skr_Name c) (skr_Key c))
                                      [''GITLAB_TOKEN'', ''GIT_TOKEN''])))"

abbreviation em_dash :: string where "em_dash \<equiv> [CHR 0xE2, CHR 0x80, CHR 0x94]"

definition GitToolEntries :: "GitWorkspaceConfig \<Rightarrow> ToolEntry list" where
  "GitToolEntries g =
     (if gw_Provider g = ProviderGitHub then
        [\<lparr>te_Name = ''github'', te_Path = MountTools @ ''/github'',
          te_Description = ''GitHub API '' @ em_dash @ '' PRs, issues, branches, checks, workflows'',
          te_Category = ''git'', te_UIHint = ''github''\<rparr>]
      else if gw_Provider g = ProviderGitLab then
        [\<lparr>te_Name = ''gitlab'', te_Path = MountTools @ ''/gitlab'',
          te_Description = ''GitLab API '' @ em_dash @ '' MRs, issues, pipelines, projects'',
          te_Category = ''git'', te_UIHint = ''gitlab''\<rparr>]
      else [])"

section \<open>Properties\<close>

lemma git_provider_distinct [simp]:
  "ProviderGitHub \<noteq> ProviderGitLab" "ProviderGitLab \<noteq> ProviderGitHub"
  "ProviderGit \<noteq> ProviderGitLab" "ProviderGit \<noteq> ProviderGitHub"
  by (simp_all add: const_defs)

lemma git_kind_distinct [simp]:
  "IntegrationKindGitHubRepo \<noteq> IntegrationKindGitLabProject"
  "IntegrationKindGitHubRepo \<noteq> IntegrationKindGitLabGroup"
  "IntegrationKindGitHubRepo \<noteq> IntegrationKindGitRepo"
  "IntegrationKindGitLabProject \<noteq> IntegrationKindGitHubRepo"
  "IntegrationKindGitLabProject \<noteq> IntegrationKindGitLabGroup"
  "IntegrationKindGitLabProject \<noteq> IntegrationKindGitRepo"
  "IntegrationKindGitLabGroup \<noteq> IntegrationKindGitHubRepo"
  "IntegrationKindGitLabGroup \<noteq> IntegrationKindGitLabProject"
  "IntegrationKindGitLabGroup \<noteq> IntegrationKindGitRepo"
  "IntegrationKindGitRepo \<noteq> IntegrationKindGitHubRepo"
  "IntegrationKindGitRepo \<noteq> IntegrationKindGitLabProject"
  "IntegrationKindGitRepo \<noteq> IntegrationKindGitLabGroup"
  by (simp_all add: const_defs)

text \<open>What makes a run's git specification and an Integration fit together.\<close>

definition in_group :: "AgentRunGitSpec \<Rightarrow> GitLabGroupResourceConfig \<Rightarrow> bool" where
  "in_group g glg \<longleftrightarrow> (\<exists>repo. rg_Project g = glg_Group glg @ ''/'' @ repo) \<and>
     (glg_Projects glg = [] \<or> rg_Project g \<in> set (glg_Projects glg))"

definition git_resolvable :: "AgentRunGitSpec \<Rightarrow> Integration \<Rightarrow> bool" where
  "git_resolvable g r \<longleftrightarrow>
     (let spec = int_Spec r in
      is_Kind spec = IntegrationKindGitHubRepo \<and> is_GitHub spec \<noteq> None \<or>
      is_Kind spec = IntegrationKindGitLabProject \<and> is_GitLab spec \<noteq> None \<or>
      is_Kind spec = IntegrationKindGitLabGroup \<and> (\<exists>glg. is_GitLabGroup spec = Some glg \<and> in_group g glg) \<or>
      is_Kind spec = IntegrationKindGitRepo \<and> is_Git spec \<noteq> None)"

lemma ResolveGitWorkspace_ok:
  "(\<exists>cfg. ResolveGitWorkspace g r = Inr cfg) \<longleftrightarrow> git_resolvable g r"
  by (auto simp: ResolveGitWorkspace_def git_resolvable_def in_group_def has_prefix_iff Let_def
      split: option.splits)

lemma ResolveGitWorkspace_fields:
  assumes "ResolveGitWorkspace g r = Inr cfg"
  shows "gw_BaseBranch cfg \<noteq> []" "gw_Branch cfg = rg_Branch g"
    "gw_Credentials cfg = is_Credentials (int_Spec r)"
    "rg_BaseBranch g \<noteq> [] \<Longrightarrow> gw_BaseBranch cfg = rg_BaseBranch g"
  using assms
  by (auto simp: ResolveGitWorkspace_def Let_def split: if_splits option.splits sum.splits)

lemma ResolveGitWorkspace_group:
  assumes "ResolveGitWorkspace g r = Inr cfg" "is_Kind (int_Spec r) = IntegrationKindGitLabGroup"
    "is_GitLabGroup (int_Spec r) = Some glg"
  shows "in_group g glg" "gw_CloneURL cfg = glg_BaseURL glg @ ''/'' @ rg_Project g @ ''.git''"
    "gw_GitLabProject cfg = rg_Project g" "gw_Provider cfg = ProviderGitLab"
  using assms
  by (auto simp: ResolveGitWorkspace_def in_group_def has_prefix_iff Let_def split: if_splits sum.splits)


definition demo_group :: Integration where
  "demo_group = \<lparr>int_Meta = new_meta ''gl'' ''ns'' Map.empty,
     int_Spec = zero_IntegrationSpec\<lparr>is_Kind := IntegrationKindGitLabGroup,
       is_GitLabGroup := Some \<lparr>glg_BaseURL = ''https://gl'', glg_Group = ''team'', glg_Projects = [], glg_ReadOnly = False\<rparr>\<rparr>,
     int_Status = zero_IntegrationStatus\<rparr>"


definition token_names :: "string list" where
  "token_names = [''GH_TOKEN'', ''GITLAB_TOKEN'', ''GIT_TOKEN'']"

text \<open>
  The environment of a git workspace has no duplicate names, and the credential reaches
  the container only by reference to the Secret, under GIT_TOKEN and the platform's name.
\<close>

theorem GitEnvVars_tokens:
  "distinct (map ev_Name (GitEnvVars cfg)) \<and>
   list_all (\<lambda>e. (ev_ValueFrom e = None) \<noteq> (ev_Name e \<in> set token_names)) (GitEnvVars cfg) \<and>
   (env_secret ''GIT_TOKEN'' s k \<in> set (GitEnvVars cfg) \<longleftrightarrow>
      map_option (\<lambda>c. (skr_Name c, skr_Key c)) (gw_Credentials cfg) = Some (s, k))"
  by (cases "gw_Credentials cfg")
    (auto simp: GitEnvVars_def token_names_def env_val_def env_secret_def Let_def)

section \<open>The GitLab identity of a daemon\<close>

abbreviation is_group :: "Integration \<Rightarrow> bool" where
  "is_group i \<equiv> is_Kind (int_Spec i) = IntegrationKindGitLabGroup"

abbreviation is_project :: "Integration \<Rightarrow> bool" where
  "is_project i \<equiv> is_Kind (int_Spec i) = IntegrationKindGitLabProject"

lemma choose_gitlab_Some:
  "is_project c \<Longrightarrow> choose_gitlab (Some c) is = (case find is_group is of Some g \<Rightarrow> Some g | None \<Rightarrow> Some c)"
  by (induction "is") (auto simp: Let_def)

lemma choose_gitlab_spec:
  "choose_gitlab None is = (case find is_group is of Some g \<Rightarrow> Some g | None \<Rightarrow> find is_project is)"
  by (induction "is") (auto simp: Let_def choose_gitlab_Some split: option.splits)

lemma find_SomeD: "find P xs = Some x \<Longrightarrow> P x \<and> x \<in> set xs"
  by (auto simp: find_Some_iff)

text \<open>
  A daemon carries one GitLab identity: the first bound group, or the first bound
  project when there is no group. Its environment is empty exactly when there is none or its
  block is missing; read-only is set exactly when the binding or the group asks for it; the
  token is only referenced.
\<close>

theorem GitLabEnvFromIntegrations_correct:
  "let env = GitLabEnvFromIntegrations ints bs;
       chosen = (case find is_group ints of Some g \<Rightarrow> Some g | None \<Rightarrow> find is_project ints)
   in case chosen of
        None \<Rightarrow> env = []
      | Some c \<Rightarrow>
          (env = [] \<longleftrightarrow> (if is_group c then is_GitLabGroup (int_Spec c) = None else is_GitLab (int_Spec c) = None)) \<and>
          (env = [] \<or>
            (env_val ''GITLAB_READONLY'' ''true'' \<in> set env \<longleftrightarrow>
              ib_ReadOnly (binding_of bs (om_Name (int_Meta c))) \<or>
              is_group c \<and> map_option glg_ReadOnly (is_GitLabGroup (int_Spec c)) = Some True) \<and>
            list_all (\<lambda>e. (ev_ValueFrom e = None) \<noteq> (ev_Name e \<in> set token_names)) env)"
proof (cases "find is_group ints")
  case (Some c)
  then have "is_group c" by (auto dest: find_SomeD)
  with Some show ?thesis
    by (auto simp: GitLabEnvFromIntegrations_def choose_gitlab_spec Let_def token_names_def
        env_val_def env_secret_def split: option.splits)
next
  case None
  show ?thesis
  proof (cases "find is_project ints")
    case None2: None
    with None show ?thesis by (simp add: GitLabEnvFromIntegrations_def choose_gitlab_spec Let_def)
  next
    case (Some c)
    then have "is_project c" by (auto dest: find_SomeD)
    with None Some show ?thesis
      by (auto simp: GitLabEnvFromIntegrations_def choose_gitlab_spec Let_def token_names_def
          env_val_def env_secret_def split: option.splits)
  qed
qed

end
