(* ===== verification/Security.thy ===== *)
theory Security
  imports Resource_Common
begin

text \<open>
  \<^verbatim>\<open>src/internal/resources/security.go\<close>: the restricted-by-default security
  contexts, the merge of user overrides onto that floor and \<open>ApplySecurity\<close>, the single
  entry point that finalises the security of every pod the operator renders.
\<close>

section \<open>The restricted floor\<close>

definition RestrictedRunAsUser :: int where "RestrictedRunAsUser = 65532"

definition RestrictedContainerSecurityContext :: SecurityContext where
  "RestrictedContainerSecurityContext =
     \<lparr>sc_Capabilities = Some \<lparr>cap_Add = [], cap_Drop = [''ALL'', ''NET_RAW'']\<rparr>,
      sc_Privileged = None, sc_SELinuxOptions = None, sc_RunAsUser = None, sc_RunAsGroup = None,
      sc_RunAsNonRoot = Some True, sc_ReadOnlyRootFilesystem = Some True,
      sc_AllowPrivilegeEscalation = Some False, sc_ProcMount = None,
      sc_SeccompProfile =
        Some \<lparr>sp_Type = SeccompProfileTypeRuntimeDefault, sp_LocalhostProfile = None\<rparr>\<rparr>"

definition RestrictedPodSecurityContext :: PodSecurityContext where
  "RestrictedPodSecurityContext =
     \<lparr>psc_SELinuxOptions = None, psc_RunAsUser = Some RestrictedRunAsUser,
      psc_RunAsGroup = Some RestrictedRunAsUser, psc_RunAsNonRoot = Some True,
      psc_SupplementalGroups = [], psc_FSGroup = Some RestrictedRunAsUser, psc_Sysctls = [],
      psc_FSGroupChangePolicy = None,
      psc_SeccompProfile =
        Some \<lparr>sp_Type = SeccompProfileTypeRuntimeDefault, sp_LocalhostProfile = None\<rparr>\<rparr>"

definition TmpVolume :: Volume where
  "TmpVolume = \<lparr>v_Name = VolumeTmp, v_Source = EmptyDirVolume (Some ''64Mi'')\<rparr>"

definition ResourceCPU :: string where [const_defs]: "ResourceCPU = ''cpu''"
definition ResourceMemory :: string where [const_defs]: "ResourceMemory = ''memory''"
definition ResourceEphemeralStorage :: string where
  [const_defs]: "ResourceEphemeralStorage = ''ephemeral-storage''"

definition SidecarResources :: ResourceRequirements where
  "SidecarResources =
     \<lparr>rr_Requests = [ResourceCPU \<mapsto> ''5m'', ResourceMemory \<mapsto> ''16Mi'', ResourceEphemeralStorage \<mapsto> ''16Mi''],
      rr_Limits = [ResourceCPU \<mapsto> ''100m'', ResourceMemory \<mapsto> ''64Mi'', ResourceEphemeralStorage \<mapsto> ''64Mi'']\<rparr>"

definition TmpVolumeMount :: VolumeMount where
  "TmpVolumeMount = mount VolumeTmp MountTmp"

definition ensureEphemeralStorage :: "ResourceRequirements \<Rightarrow> ResourceRequirements" where
  "ensureEphemeralStorage r =
     (let r1 = (if rr_Requests r ResourceEphemeralStorage = None
                then r\<lparr>rr_Requests := (rr_Requests r)(ResourceEphemeralStorage \<mapsto> ''64Mi'')\<rparr> else r)
      in if rr_Limits r1 ResourceEphemeralStorage = None
         then r1\<lparr>rr_Limits := (rr_Limits r1)(ResourceEphemeralStorage \<mapsto> ''128Mi'')\<rparr> else r1)"

section \<open>Safety-floor merge\<close>

text \<open>
  The merges read the override field by field. Each step takes the context and the
  violations so far and returns both, in the order of the source.
\<close>

definition msg_pod_nonroot :: string where
  "msg_pod_nonroot = ''pod.runAsNonRoot=false rejected: must be true (restricted PSS)''"
definition msg_pod_user :: string where
  "msg_pod_user = ''pod.runAsUser=0 rejected: must be non-zero (restricted PSS)''"
definition msg_pod_seccomp :: string where
  "msg_pod_seccomp = ''pod.seccompProfile.type=Unconfined rejected: must be RuntimeDefault or Localhost (restricted PSS)''"

definition mergePodSecurityContext ::
  "PodSecurityContext option \<Rightarrow> PodSecurityContext \<times> string list" where
  "mergePodSecurityContext override =
     (case override of
        None \<Rightarrow> (RestrictedPodSecurityContext, [])
      | Some ov \<Rightarrow>
          (let out = RestrictedPodSecurityContext;
               v1 = (if psc_RunAsNonRoot ov = Some False then [msg_pod_nonroot] else []);
               (out, v2) = (case psc_RunAsUser ov of None \<Rightarrow> (out, [])
                            | Some u \<Rightarrow> if u = 0 then (out, [msg_pod_user])
                                        else (out\<lparr>psc_RunAsUser := Some u\<rparr>, []));
               out = (case psc_RunAsGroup ov of None \<Rightarrow> out
                      | Some g \<Rightarrow> out\<lparr>psc_RunAsGroup := Some g\<rparr>);
               out = (case psc_FSGroup ov of None \<Rightarrow> out
                      | Some g \<Rightarrow> out\<lparr>psc_FSGroup := Some g\<rparr>);
               out = (if psc_SupplementalGroups ov \<noteq> []
                      then out\<lparr>psc_SupplementalGroups := psc_SupplementalGroups ov\<rparr> else out);
               out = (case psc_FSGroupChangePolicy ov of None \<Rightarrow> out
                      | Some p \<Rightarrow> out\<lparr>psc_FSGroupChangePolicy := Some p\<rparr>);
               (out, v3) = (case psc_SeccompProfile ov of None \<Rightarrow> (out, [])
                            | Some sp \<Rightarrow> if sp_Type sp = SeccompProfileTypeUnconfined
                                         then (out, [msg_pod_seccomp])
                                         else (out\<lparr>psc_SeccompProfile := Some sp\<rparr>, []));
               out = (case psc_SELinuxOptions ov of None \<Rightarrow> out
                      | Some so \<Rightarrow> out\<lparr>psc_SELinuxOptions := Some so\<rparr>)
           in (out, v1 @ v2 @ v3)))"

definition msg_c_escalation :: string where
  "msg_c_escalation = ''container.allowPrivilegeEscalation=true rejected (restricted PSS)''"
definition msg_c_privileged :: string where
  "msg_c_privileged = ''container.privileged=true rejected (restricted PSS)''"
definition msg_c_rootfs :: string where
  "msg_c_rootfs = ''container.readOnlyRootFilesystem=false rejected (restricted PSS)''"
definition msg_c_nonroot :: string where
  "msg_c_nonroot = ''container.runAsNonRoot=false rejected (restricted PSS)''"
definition msg_c_user :: string where
  "msg_c_user = ''container.runAsUser=0 rejected (restricted PSS)''"
definition msg_c_caps :: "string list \<Rightarrow> string" where
  "msg_c_caps add = ''container.capabilities.add=['' @ join '' '' add @
     ''] rejected (restricted PSS '' @ [CHR 0xE2, CHR 0x80, CHR 0x94] @ '' no adds permitted)''"
definition msg_c_seccomp :: string where
  "msg_c_seccomp = ''container.seccompProfile.type=Unconfined rejected (restricted PSS)''"

definition mergeContainerSecurityContext ::
  "SecurityContext option \<Rightarrow> SecurityContext \<times> string list" where
  "mergeContainerSecurityContext override =
     (case override of
        None \<Rightarrow> (RestrictedContainerSecurityContext, [])
      | Some ov \<Rightarrow>
          (let out = RestrictedContainerSecurityContext;
               v1 = (if sc_AllowPrivilegeEscalation ov = Some True then [msg_c_escalation] else []);
               v2 = (if sc_Privileged ov = Some True then [msg_c_privileged] else []);
               v3 = (if sc_ReadOnlyRootFilesystem ov = Some False then [msg_c_rootfs] else []);
               v4 = (if sc_RunAsNonRoot ov = Some False then [msg_c_nonroot] else []);
               (out, v5) = (case sc_RunAsUser ov of None \<Rightarrow> (out, [])
                            | Some u \<Rightarrow> if u = 0 then (out, [msg_c_user])
                                        else (out\<lparr>sc_RunAsUser := Some u\<rparr>, []));
               out = (case sc_RunAsGroup ov of None \<Rightarrow> out
                      | Some g \<Rightarrow> out\<lparr>sc_RunAsGroup := Some g\<rparr>);
               v6 = (case sc_Capabilities ov of None \<Rightarrow> []
                     | Some cap \<Rightarrow> if cap_Add cap \<noteq> [] then [msg_c_caps (cap_Add cap)] else []);
               (out, v7) = (case sc_SeccompProfile ov of None \<Rightarrow> (out, [])
                            | Some sp \<Rightarrow> if sp_Type sp = SeccompProfileTypeUnconfined
                                         then (out, [msg_c_seccomp])
                                         else (out\<lparr>sc_SeccompProfile := Some sp\<rparr>, []));
               out = (case sc_SELinuxOptions ov of None \<Rightarrow> out
                      | Some so \<Rightarrow> out\<lparr>sc_SELinuxOptions := Some so\<rparr>)
           in (out, v1 @ v2 @ v3 @ v4 @ v5 @ v6 @ v7)))"

section \<open>Apply\<close>

definition ComputeSecurityViolations :: "SecurityOverrides option \<Rightarrow> string list" where
  "ComputeSecurityViolations overrides =
     (case overrides of None \<Rightarrow> []
      | Some ov \<Rightarrow> snd (mergePodSecurityContext (so_Pod ov))
                   @ snd (mergeContainerSecurityContext (so_Container ov)))"

text \<open>The local closure \<open>applyContainer\<close> of \<open>ApplySecurity\<close>.\<close>

definition applyContainer :: "Container \<Rightarrow> SecurityContext option \<Rightarrow> Container" where
  "applyContainer c override =
     (let c1 = c\<lparr>ct_SecurityContext := Some (case override of
                   None \<Rightarrow> RestrictedContainerSecurityContext | Some sc \<Rightarrow> sc)\<rparr>
      in if \<exists>vm \<in> set (ct_VolumeMounts c1). vm_Name vm = VolumeTmp then c1
         else c1\<lparr>ct_VolumeMounts := ct_VolumeMounts c1 @ [TmpVolumeMount]\<rparr>)"

definition ApplySecurity ::
  "PodSpec \<Rightarrow> string \<Rightarrow> SecurityOverrides option \<Rightarrow> PodSpec \<times> string list" where
  "ApplySecurity podSpec mainContainerName overrides =
     (let podOverride = Option.bind overrides so_Pod;
          containerOverride = Option.bind overrides so_Container;
          automount = Option.bind overrides so_AutomountServiceAccountToken;
          (mergedPod, podViolations) = mergePodSecurityContext podOverride;
          (mergedMain, mainViolations) = mergeContainerSecurityContext containerOverride;
          violations = podViolations @ mainViolations;
          p1 = podSpec\<lparr>pd_SecurityContext := Some mergedPod,
                       pd_AutomountServiceAccountToken := Some (automount = Some True),
                       pd_InitContainers := map (\<lambda>c. applyContainer c None) (pd_InitContainers podSpec),
                       pd_Containers :=
                         map (\<lambda>c. if ct_Name c = mainContainerName then applyContainer c (Some mergedMain)
                                  else applyContainer c None) (pd_Containers podSpec)\<rparr>;
          p2 = (if \<exists>v \<in> set (pd_Volumes p1). v_Name v = VolumeTmp then p1
                else p1\<lparr>pd_Volumes := pd_Volumes p1 @ [TmpVolume]\<rparr>)
      in (p2, violations))"

section \<open>The restricted profile\<close>

text \<open>
  The controls of the restricted Pod Security Standard that a rendered security context
  decides, plus the repository's own stricter ones (read-only root filesystem, no added
  capability, a non-zero UID). The SELinux options are not among them: the merge hands
  them through.
\<close>

definition restricted_container :: "SecurityContext \<Rightarrow> bool" where
  "restricted_container sc \<longleftrightarrow>
     sc_AllowPrivilegeEscalation sc = Some False \<and> sc_Privileged sc \<noteq> Some True \<and>
     sc_RunAsNonRoot sc = Some True \<and> sc_RunAsUser sc \<noteq> Some 0 \<and>
     sc_ReadOnlyRootFilesystem sc = Some True \<and> sc_ProcMount sc = None \<and>
     (case sc_Capabilities sc of None \<Rightarrow> False
      | Some cap \<Rightarrow> cap_Add cap = [] \<and> ''ALL'' \<in> set (cap_Drop cap)) \<and>
     (case sc_SeccompProfile sc of None \<Rightarrow> False
      | Some sp \<Rightarrow> sp_Type sp \<noteq> SeccompProfileTypeUnconfined)"

definition restricted_pod_context :: "PodSecurityContext \<Rightarrow> bool" where
  "restricted_pod_context psc \<longleftrightarrow>
     psc_RunAsNonRoot psc = Some True \<and> psc_Sysctls psc = [] \<and>
     (case psc_RunAsUser psc of None \<Rightarrow> False | Some u \<Rightarrow> u \<noteq> 0) \<and>
     (case psc_SeccompProfile psc of None \<Rightarrow> False
      | Some sp \<Rightarrow> sp_Type sp \<noteq> SeccompProfileTypeUnconfined)"

definition has_tmp_mount :: "Container \<Rightarrow> bool" where
  "has_tmp_mount c \<longleftrightarrow> VolumeTmp \<in> vm_Name ` set (ct_VolumeMounts c)"

definition container_ok :: "Container \<Rightarrow> bool" where
  "container_ok c \<longleftrightarrow> has_tmp_mount c \<and>
     (case ct_SecurityContext c of None \<Rightarrow> False | Some sc \<Rightarrow> restricted_container sc)"

definition restricted_pod :: "PodSpec \<Rightarrow> bool" where
  "restricted_pod p \<longleftrightarrow>
     (case pd_SecurityContext p of None \<Rightarrow> False | Some psc \<Rightarrow> restricted_pod_context psc) \<and>
     list_all container_ok (pd_InitContainers p) \<and> list_all container_ok (pd_Containers p) \<and>
     VolumeTmp \<in> v_Name ` set (pd_Volumes p)"

text \<open>An override that stays above the floor: nothing in it has to be clamped.\<close>

definition pod_override_ok :: "PodSecurityContext \<Rightarrow> bool" where
  "pod_override_ok ov \<longleftrightarrow> psc_RunAsNonRoot ov \<noteq> Some False \<and> psc_RunAsUser ov \<noteq> Some 0 \<and>
     map_option sp_Type (psc_SeccompProfile ov) \<noteq> Some SeccompProfileTypeUnconfined"

definition container_override_ok :: "SecurityContext \<Rightarrow> bool" where
  "container_override_ok ov \<longleftrightarrow>
     sc_AllowPrivilegeEscalation ov \<noteq> Some True \<and> sc_Privileged ov \<noteq> Some True \<and>
     sc_ReadOnlyRootFilesystem ov \<noteq> Some False \<and> sc_RunAsNonRoot ov \<noteq> Some False \<and>
     sc_RunAsUser ov \<noteq> Some 0 \<and> (case sc_Capabilities ov of None \<Rightarrow> True | Some cap \<Rightarrow> cap_Add cap = []) \<and>
     map_option sp_Type (sc_SeccompProfile ov) \<noteq> Some SeccompProfileTypeUnconfined"

lemmas security_msgs =
  msg_pod_nonroot_def msg_pod_user_def msg_pod_seccomp_def msg_c_escalation_def msg_c_privileged_def
  msg_c_rootfs_def msg_c_nonroot_def msg_c_user_def msg_c_seccomp_def

lemma bex_image: "(\<exists>v \<in> A. f v = x) \<longleftrightarrow> x \<in> f ` A"
  by auto

lemma VolumeMount_TmpVolumeMount [simp]:
  "vm_Name TmpVolumeMount = VolumeTmp" "v_Name TmpVolume = VolumeTmp"
  by (simp_all add: TmpVolumeMount_def TmpVolume_def mount_def)

lemma restricted_floor [simp]:
  "restricted_container RestrictedContainerSecurityContext"
  "restricted_pod_context RestrictedPodSecurityContext"
  by (simp_all add: restricted_container_def restricted_pod_context_def RestrictedRunAsUser_def
      RestrictedContainerSecurityContext_def RestrictedPodSecurityContext_def)

lemma mergePod_restricted [simp]: "restricted_pod_context (fst (mergePodSecurityContext ov))"
  by (cases ov)
    (auto simp: mergePodSecurityContext_def restricted_pod_context_def RestrictedRunAsUser_def
      RestrictedPodSecurityContext_def Let_def split: option.splits)

lemma mergeContainer_restricted [simp]: "restricted_container (fst (mergeContainerSecurityContext ov))"
  by (cases ov)
    (auto simp: mergeContainerSecurityContext_def restricted_container_def
      RestrictedContainerSecurityContext_def Let_def split: option.splits)

lemma mergePod_violations:
  "snd (mergePodSecurityContext ov) = [] \<longleftrightarrow> (case ov of None \<Rightarrow> True | Some o' \<Rightarrow> pod_override_ok o')"
  by (cases ov)
    (auto simp: mergePodSecurityContext_def pod_override_ok_def Let_def split: option.splits)

lemma mergeContainer_violations:
  "snd (mergeContainerSecurityContext ov) = [] \<longleftrightarrow>
     (case ov of None \<Rightarrow> True | Some o' \<Rightarrow> container_override_ok o')"
  by (cases ov)
    (auto simp: mergeContainerSecurityContext_def container_override_ok_def Let_def
      split: option.splits)

lemma applyContainer_simps [simp]:
  "ct_Name (applyContainer c ov) = ct_Name c"
  "ct_SecurityContext (applyContainer c ov) = Some (case ov of None \<Rightarrow> RestrictedContainerSecurityContext | Some sc \<Rightarrow> sc)"
  "applyContainer (applyContainer c ov) ov' = (applyContainer c ov')"
  by (auto simp: applyContainer_def Let_def)

lemma applyContainer_ok:
  "(case ov of None \<Rightarrow> True | Some sc \<Rightarrow> restricted_container sc) \<Longrightarrow> container_ok (applyContainer c ov)"
  by (auto simp: container_ok_def has_tmp_mount_def applyContainer_def Let_def bex_image
      split: option.splits)

lemma ApplySecurity_sel [simp]:
  "pd_InitContainers (fst (ApplySecurity p m ov)) = map (\<lambda>c. applyContainer c None) (pd_InitContainers p)"
  "pd_Containers (fst (ApplySecurity p m ov)) =
     map (\<lambda>c. applyContainer c (if ct_Name c = m
                then Some (fst (mergeContainerSecurityContext (Option.bind ov so_Container))) else None))
       (pd_Containers p)"
  "pd_SecurityContext (fst (ApplySecurity p m ov)) =
     Some (fst (mergePodSecurityContext (Option.bind ov so_Pod)))"
  "pd_AutomountServiceAccountToken (fst (ApplySecurity p m ov)) =
     Some (Option.bind ov so_AutomountServiceAccountToken = Some True)"
  "pd_Volumes (fst (ApplySecurity p m ov)) =
     (if VolumeTmp \<in> v_Name ` set (pd_Volumes p) then pd_Volumes p else pd_Volumes p @ [TmpVolume])"
  "pd_ServiceAccountName (fst (ApplySecurity p m ov)) = pd_ServiceAccountName p"
  "pd_RestartPolicy (fst (ApplySecurity p m ov)) = pd_RestartPolicy p"
  by (auto simp: ApplySecurity_def Let_def bex_image split: prod.splits)

lemma snd_ApplySecurity:
  "snd (ApplySecurity p m ov) = snd (mergePodSecurityContext (Option.bind ov so_Pod)) @
     snd (mergeContainerSecurityContext (Option.bind ov so_Container))"
  by (simp add: ApplySecurity_def Let_def split: prod.splits)

lemma PodSpec_eqI:
  assumes "pd_InitContainers p = pd_InitContainers q" "pd_Containers p = pd_Containers q"
    "pd_Volumes p = pd_Volumes q" "pd_ServiceAccountName p = pd_ServiceAccountName q"
    "pd_RestartPolicy p = pd_RestartPolicy q" "pd_SecurityContext p = pd_SecurityContext q"
    "pd_AutomountServiceAccountToken p = pd_AutomountServiceAccountToken q"
  shows "p = (q :: PodSpec)"
  using assms by simp

section \<open>Properties\<close>



text \<open>
  User overrides reach the main container only, and re-applying the security of a pod
  changes nothing: the operation is idempotent, also when the first application used other
  overrides.
\<close>

theorem ApplySecurity_scope_idempotent:
  "list_all (\<lambda>c. ct_SecurityContext c = Some RestrictedContainerSecurityContext)
     (pd_InitContainers (fst (ApplySecurity p m ov'))) \<and>
   list_all (\<lambda>c. ct_Name c = m \<or> ct_SecurityContext c = Some RestrictedContainerSecurityContext)
     (pd_Containers (fst (ApplySecurity p m ov'))) \<and>
   ApplySecurity (fst (ApplySecurity p m ov')) m ov = ApplySecurity p m ov"
proof -
  have "fst (ApplySecurity (fst (ApplySecurity p m ov')) m ov) = fst (ApplySecurity p m ov)"
    by (rule PodSpec_eqI) auto
  moreover have "snd (ApplySecurity (fst (ApplySecurity p m ov')) m ov) = snd (ApplySecurity p m ov)"
    by (simp add: snd_ApplySecurity)
  ultimately show ?thesis
    by (auto simp: prod_eq_iff list_all_iff)
qed

end
