(* ===== verification/Agent_Pod.thy ===== *)
theory Agent_Pod
  imports Git_Workspace Security "HOL-Library.List_Lexorder" "HOL-Library.Char_ord"
begin

text \<open>
  \<^verbatim>\<open>src/internal/resources/agent_deployment.go\<close> and
  \<^verbatim>\<open>agent_job.go\<close>: the pod of an agent, the Deployment of a daemon and the Job of a
  task run. \<^verbatim>\<open>time.ParseDuration\<close> is the argument \<open>parseDuration\<close>, from text to
  nanoseconds.
\<close>

section \<open>Volumes and init containers\<close>

definition AgentServiceAccountName :: "Agent \<Rightarrow> string" where
  "AgentServiceAccountName agent =
     (if as_ServiceAccountName (ag_Spec agent) \<noteq> [] then as_ServiceAccountName (ag_Spec agent)
      else ObjectName (om_Name (ag_Meta agent)) ''agent'')"

definition context_name :: "nat \<Rightarrow> string" where
  "context_name i = ''context-'' @ nat_str i"

definition init_name :: "string \<Rightarrow> string" where
  "init_name tool = ''init-pull-tool-'' @ tool"

definition buildVolumes :: "Agent \<Rightarrow> bool \<Rightarrow> Volume list" where
  "buildVolumes agent taskMode =
     (let name = om_Name (ag_Meta agent); spec = ag_Spec agent in
      [\<lparr>v_Name = VolumeTools, v_Source = EmptyDirVolume None\<rparr>,
       \<lparr>v_Name = VolumeConfig, v_Source = ConfigMapVolume (ObjectName name ''config'') []\<rparr>]
      @ (if \<not> taskMode \<and> as_Storage spec \<noteq> None
         then [\<lparr>v_Name = VolumeData, v_Source = PVCVolume (ObjectName name ''storage'')\<rparr>]
         else [\<lparr>v_Name = VolumeData, v_Source = EmptyDirVolume None\<rparr>])
      @ map (\<lambda>(i, cf). \<lparr>v_Name = context_name i,
               v_Source = ConfigMapVolume (skr_Name (cfr_ConfigMapRef cf))
                 [(skr_Key (cfr_ConfigMapRef cf), skr_Key (cfr_ConfigMapRef cf))]\<rparr>)
          (enumerate 0 (as_ContextFiles spec))
      @ concat (map (\<lambda>tool. case oci_PullSecret (tb_OCI tool) of
                       None \<Rightarrow> []
                     | Some ps \<Rightarrow> [\<lparr>v_Name = ''pull-secret-init-pull-tool-'' @ tb_Name tool,
                                   v_Source = SecretVolume (skr_Name ps)\<rparr>])
                  (as_Tools spec)))"

definition crane_cmd :: "string \<Rightarrow> string \<Rightarrow> string" where
  "crane_cmd ref destPath = ''mkdir -p '' @ ShellQuote destPath @ '' && crane export '' @ ShellQuote ref
     @ '' - | tar -xf - -C '' @ ShellQuote destPath"

definition pull_cmd :: "string \<Rightarrow> string \<Rightarrow> string \<Rightarrow> string" where
  "pull_cmd configDir key cmd = ''mkdir -p '' @ configDir @ '' && cp /tmp/pull-secret/'' @ key @ '' '' @ configDir
     @ ''/config.json && '' @ cmd"

definition buildCraneInitContainer ::
  "string \<Rightarrow> string \<Rightarrow> string \<Rightarrow> string \<Rightarrow> string \<Rightarrow> SecretKeyRef option \<Rightarrow> Container" where
  "buildCraneInitContainer name ref destPath volumeName mountPath pullSecret =
     (let cmd = crane_cmd ref destPath;
          c = (new_container name CraneImage)\<lparr>ct_Command := [''sh'', ''-c'', cmd],
                ct_Env := [env_val ''HOME'' MountTmp], ct_VolumeMounts := [mount volumeName mountPath]\<rparr>
      in case pullSecret of
           None \<Rightarrow> c
         | Some ps \<Rightarrow>
             (let configDir = ''/tmp/docker-config'';
                  cmd = pull_cmd configDir (skr_Key ps) cmd
              in c\<lparr>ct_Command := [''sh'', ''-c'', cmd],
                   ct_Env := ct_Env c @ [env_val ''DOCKER_CONFIG'' configDir],
                   ct_VolumeMounts := ct_VolumeMounts c @
                     [(mount (''pull-secret-'' @ name) ''/tmp/pull-secret'')\<lparr>vm_ReadOnly := True\<rparr>]\<rparr>))"

definition buildInitContainers :: "Agent \<Rightarrow> Container list" where
  "buildInitContainers agent =
     map (\<lambda>tool. buildCraneInitContainer (init_name (tb_Name tool)) (oci_Ref (tb_OCI tool))
            (MountTools @ ''/'' @ tb_Name tool) VolumeTools MountTools (oci_PullSecret (tb_OCI tool)))
       (as_Tools (ag_Spec agent))"

section \<open>Environment\<close>

definition providerNeedsOAuth2 :: "Provider \<Rightarrow> bool" where
  "providerNeedsOAuth2 prov \<longleftrightarrow>
     (case ps_Endpoint (prov_Spec prov) of None \<Rightarrow> False
      | Some ep \<Rightarrow> pe_OAuth2ClientCredentials ep \<noteq> None)"

definition secret_ref_env :: "string \<Rightarrow> SecretKeyRef \<Rightarrow> EnvVar" where
  "secret_ref_env n r = env_secret n (skr_Name r) (skr_Key r)"

definition provider_env :: "Provider \<Rightarrow> EnvVar list" where
  "provider_env prov =
     (let name = om_Name (prov_Meta prov); spec = prov_Spec prov in
      (case ps_ApiKeySecret spec of None \<Rightarrow> []
       | Some r \<Rightarrow> [secret_ref_env (ProviderEnvVarName name) r])
      @ (case Option.bind (ps_Endpoint spec) pe_OAuth2ClientCredentials of
           None \<Rightarrow> []
         | Some oauth \<Rightarrow> [secret_ref_env (OAuth2ClientIDEnvVar name) (oa_ClientIDSecret oauth),
                          secret_ref_env (OAuth2ClientSecretEnvVar name) (oa_ClientSecretSecret oauth)]))"

definition buildEnvVars ::
  "Agent \<Rightarrow> Provider list \<Rightarrow> Integration list \<Rightarrow> bool \<Rightarrow> InfraConfig \<Rightarrow> EnvVar list" where
  "buildEnvVars agent providers integrations taskMode infra =
     (let name = om_Name (ag_Meta agent); spec = ag_Spec agent in
      [env_val ''AGENT_NAME'' name, env_val ''AGENT_NAMESPACE'' (om_Namespace (ag_Meta agent)),
       env_val ''AGENT_MODE'' (as_Mode spec), env_val ''AGENT_RUNTIME'' ''fantasy'',
       env_val ''WORKSPACE'' MountData,
       env_val ''OTEL_EXPORTER_OTLP_ENDPOINT'' (OTel infra), env_val ''OTEL_SERVICE_NAME'' name,
       env_val ''NATS_URL'' (NATS infra)]
      @ map (\<lambda>k. env_val k (case map_of (as_Env spec) k of None \<Rightarrow> [] | Some v \<Rightarrow> v))
          (sort (map fst (as_Env spec)))
      @ concat (map (\<lambda>tool. map (\<lambda>te. env_val (tev_Name te) (tev_Value te)) (tb_Env tool)) (as_Tools spec))
      @ map (\<lambda>s. secret_ref_env (sev_Name s) (sev_SecretRef s)) (as_Secrets spec)
      @ concat (map provider_env providers)
      @ (if \<not> taskMode \<and> integrations \<noteq> []
         then GitLabEnvFromIntegrations integrations (as_Integrations spec) else []))"

section \<open>The pod\<close>

definition healthz_probe :: "int \<Rightarrow> int \<Rightarrow> Probe" where
  "healthz_probe delay period =
     \<lparr>pr_Path = ''/healthz'', pr_Port = AgentRuntimePort, pr_Scheme = ''HTTP'',
      pr_InitialDelaySeconds = delay, pr_PeriodSeconds = period, pr_TimeoutSeconds = 1,
      pr_SuccessThreshold = 1, pr_FailureThreshold = 3\<rparr>"

definition buildMainContainer ::
  "Agent \<Rightarrow> Provider list \<Rightarrow> Integration list \<Rightarrow> bool \<Rightarrow> InfraConfig \<Rightarrow> Container" where
  "buildMainContainer agent providers integrations taskMode infra =
     (let spec = ag_Spec agent;
          volumeMounts = [mount VolumeTools MountTools, mount VolumeConfig MountConfig, mount VolumeData MountData]
            @ map (\<lambda>(i, cf). (mount (context_name i) (''/etc/context/'' @ skr_Key (cfr_ConfigMapRef cf)))
                     \<lparr>vm_SubPath := skr_Key (cfr_ConfigMapRef cf)\<rparr>) (enumerate 0 (as_ContextFiles spec));
          container = (new_container ContainerRuntime (RuntimeImage agent))
            \<lparr>ct_Command := [''/app/agent-runtime'', if taskMode then ''task'' else ''daemon''],
             ct_Env := buildEnvVars agent providers integrations taskMode infra,
             ct_VolumeMounts := volumeMounts\<rparr>;
          container = (case as_Resources spec of None \<Rightarrow> container
                       | Some r \<Rightarrow> container\<lparr>ct_Resources := r\<rparr>);
          container = container\<lparr>ct_Resources := ensureEphemeralStorage (ct_Resources container),
                        ct_ImagePullPolicy := RuntimeImagePullPolicy agent\<rparr>
      in if taskMode then container
         else container\<lparr>ct_LivenessProbe := Some (healthz_probe 10 30),
                ct_ReadinessProbe := Some (healthz_probe 5 10),
                ct_Ports := [\<lparr>cp_Name = ''http'', cp_ContainerPort = AgentRuntimePort, cp_Protocol = ''TCP''\<rparr>]\<rparr>)"

definition buildAgentPodSpec ::
  "Agent \<Rightarrow> Provider list \<Rightarrow> Integration list \<Rightarrow> bool \<Rightarrow> InfraConfig \<Rightarrow> PodSpec" where
  "buildAgentPodSpec agent providers integrations taskMode infra =
     fst (ApplySecurity
       \<lparr>pd_InitContainers = buildInitContainers agent,
        pd_Containers = [buildMainContainer agent providers integrations taskMode infra],
        pd_Volumes = buildVolumes agent taskMode,
        pd_ServiceAccountName = AgentServiceAccountName agent,
        pd_RestartPolicy = [], pd_SecurityContext = None, pd_AutomountServiceAccountToken = None\<rparr>
       ContainerRuntime (as_Security (ag_Spec agent)))"

definition runtime_selector :: "string \<Rightarrow> gomap" where
  "runtime_selector name = [LabelAgent \<mapsto> name, LabelComponent \<mapsto> ''runtime'']"

definition BuildAgentDeployment ::
  "Agent \<Rightarrow> Provider list \<Rightarrow> Integration list \<Rightarrow> InfraConfig \<Rightarrow> Deployment" where
  "BuildAgentDeployment agent providers integrations infra =
     (let name = om_Name (ag_Meta agent); labels = CommonLabels name ''runtime'' in
      \<lparr>dep_Meta = new_meta name (om_Namespace (ag_Meta agent)) labels,
       dep_Replicas = 1, dep_Selector = runtime_selector name,
       dep_Template = \<lparr>pt_Labels = labels, pt_Annotations = as_PodAnnotations (ag_Spec agent),
         pt_Spec = buildAgentPodSpec agent providers integrations False infra\<rparr>,
       dep_Strategy = (if as_Storage (ag_Spec agent) \<noteq> None then ''Recreate'' else []),
       dep_ReadyReplicas = 0\<rparr>)"

section \<open>The Job of a task run\<close>

text \<open>The loops that change the first element with a property and break.\<close>

fun update_first :: "('a \<Rightarrow> bool) \<Rightarrow> ('a \<Rightarrow> 'a) \<Rightarrow> 'a list \<Rightarrow> 'a list" where
  "update_first P f [] = []"
| "update_first P f (x # xs) = (if P x then f x # xs else x # update_first P f xs)"

definition annotation_env :: "gomap \<Rightarrow> string \<Rightarrow> string \<Rightarrow> EnvVar list" where
  "annotation_env annotations key n =
     (case annotations key of None \<Rightarrow> [] | Some v \<Rightarrow> if v \<noteq> [] then [env_val n v] else [])"

definition AnnotationTraceparent :: string where
  "AnnotationTraceparent = ''agents.agentops.io/traceparent''"
definition AnnotationParentAgent :: string where
  "AnnotationParentAgent = ''agents.agentops.io/parent-agent''"

definition run_env :: "AgentRun \<Rightarrow> GitWorkspaceConfig option \<Rightarrow> EnvVar list" where
  "run_env run gitCfg =
     [env_val ''AGENT_PROMPT'' (rs_Prompt (run_Spec run)), env_val ''AGENT_RUN_NAME'' (om_Name (run_Meta run))]
     @ annotation_env (om_Annotations (run_Meta run)) AnnotationTraceparent ''TRACEPARENT''
     @ annotation_env (om_Annotations (run_Meta run)) AnnotationParentAgent ''AGENT_RUN_SOURCE_AGENT''
     @ (case gitCfg of None \<Rightarrow> [] | Some g \<Rightarrow> GitEnvVars g)"

definition is_config_volume :: "Volume \<Rightarrow> bool" where
  "is_config_volume v \<longleftrightarrow> v_Name v = VolumeConfig \<and> (case v_Source v of ConfigMapVolume _ _ \<Rightarrow> True | _ \<Rightarrow> False)"

definition rename_config :: "string \<Rightarrow> Volume \<Rightarrow> Volume" where
  "rename_config n v = v\<lparr>v_Source := (case v_Source v of ConfigMapVolume _ items \<Rightarrow> ConfigMapVolume n items | s \<Rightarrow> s)\<rparr>"

text \<open>
  \<^verbatim>\<open>int64(d.Seconds())\<close> is the whole number of seconds of a positive duration; the
  rounding of the intermediate \<^verbatim>\<open>float64\<close> cannot show below 2^22 seconds.
\<close>

definition whole_seconds :: "duration \<Rightarrow> int" where "whole_seconds d = d div 1000000000"

definition job_deadline :: "(string \<Rightarrow> duration option) \<Rightarrow> string \<Rightarrow> int" where
  "job_deadline parseDuration timeout =
     (if timeout \<noteq> []
      then (case parseDuration timeout of None \<Rightarrow> 1800
            | Some d \<Rightarrow> if 0 < d then whole_seconds d else 1800)
      else 1800)"

definition BuildAgentRunJob ::
  "(string \<Rightarrow> duration option) \<Rightarrow> AgentRun \<Rightarrow> Agent \<Rightarrow> Provider list \<Rightarrow> GitWorkspaceConfig option \<Rightarrow>
   string \<Rightarrow> InfraConfig \<Rightarrow> Job" where
  "BuildAgentRunJob parseDuration run agent providers gitCfg runConfigMapName infra =
     (let labels = (CommonLabels (om_Name (ag_Meta agent)) ''task-run'')(LabelRun \<mapsto> om_Name (run_Meta run));
          podSpec = buildAgentPodSpec agent providers [] True infra;
          podSpec = podSpec\<lparr>pd_Containers := update_first (\<lambda>c. ct_Name c = ContainerRuntime)
                      (\<lambda>c. c\<lparr>ct_Env := ct_Env c @ run_env run gitCfg\<rparr>) (pd_Containers podSpec)\<rparr>;
          podSpec = (if runConfigMapName \<noteq> []
                     then podSpec\<lparr>pd_Volumes := update_first is_config_volume (rename_config runConfigMapName)
                            (pd_Volumes podSpec)\<rparr>
                     else podSpec);
          podSpec = podSpec\<lparr>pd_RestartPolicy := ''Never''\<rparr>
      in \<lparr>job_Meta = new_meta (om_Name (run_Meta run)) (om_Namespace (run_Meta run)) labels,
          job_BackoffLimit = Some 0,
          job_ActiveDeadlineSeconds = Some (job_deadline parseDuration (as_Timeout (ag_Spec agent))),
          job_TTLSecondsAfterFinished = Some 120,
          job_Template = \<lparr>pt_Labels = labels, pt_Annotations = as_PodAnnotations (ag_Spec agent), pt_Spec = podSpec\<rparr>,
          job_Succeeded = 0, job_Failed = 0\<rparr>)"

definition AgentServiceURL :: "Agent \<Rightarrow> string" where
  "AgentServiceURL agent = ''http://'' @ om_Name (ag_Meta agent) @ ''.'' @ om_Namespace (ag_Meta agent)
     @ ''.svc:'' @ int_str AgentRuntimePort"

section \<open>Properties of the init containers\<close>

definition crane_tokens :: "string \<Rightarrow> string \<Rightarrow> sh_token list" where
  "crane_tokens ref dest =
     [Word ''mkdir'', Word ''-p'', Word dest, Op ''&&'', Word ''crane'', Word ''export'', Word ref, Word ''-'',
      Op ''|'', Word ''tar'', Word ''-xf'', Word ''-'', Word ''-C'', Word dest]"

lemma sh_lex_crane: "sh_lex None (crane_cmd ref dest) = Some (crane_tokens ref dest)"
  using sh_lex_ShellQuote[of None dest "[]"]
  by (simp add: crane_cmd_def crane_tokens_def sh_plain_def is_alnum_def word_so_far_def emit_def
      sh_lex_ShellQuote)

text \<open>The keys that the API server accepts in a Secret: letters, digits, '-', '.' and '_'.\<close>

definition secret_key_ok :: "string \<Rightarrow> bool" where
  "secret_key_ok k \<longleftrightarrow> k \<noteq> [] \<and> list_all (\<lambda>c. is_alnum c \<or> c \<in> set ''-._'') k"

lemma secret_key_plain: "secret_key_ok k \<Longrightarrow> list_all sh_plain k"
  by (auto simp: secret_key_ok_def sh_plain_def list_all_iff)

definition pull_tokens :: "string \<Rightarrow> sh_token list" where
  "pull_tokens k = [Word ''mkdir'', Word ''-p'', Word ''/tmp/docker-config'', Op ''&&'', Word ''cp'',
     Word (''/tmp/pull-secret/'' @ k), Word ''/tmp/docker-config/config.json'', Op ''&&'']"

lemma sh_lex_pull:
  assumes "secret_key_ok k"
  shows "sh_lex None (pull_cmd ''/tmp/docker-config'' k cmd) = map_option (\<lambda>ts. pull_tokens k @ ts) (sh_lex None cmd)"
proof -
  have k: "k \<noteq> []" using assms by (simp add: secret_key_ok_def)
  have "sh_lex cur (k @ rest) = sh_lex (Some (word_so_far cur @ k)) rest" for cur rest
    using sh_lex_plain[OF secret_key_plain[OF assms]] k by simp
  then show ?thesis
    by (simp add: pull_cmd_def pull_tokens_def sh_plain_def is_alnum_def word_so_far_def emit_def option.map_comp comp_def)
qed



section \<open>Properties of the pod\<close>

definition mounts_resolve :: "PodSpec \<Rightarrow> bool" where
  "mounts_resolve p \<longleftrightarrow>
     list_all (\<lambda>c. list_all (\<lambda>m. vm_Name m \<in> v_Name ` set (pd_Volumes p)) (ct_VolumeMounts c))
       (pd_InitContainers p @ pd_Containers p)"

lemma volume_const_distinct [simp]:
  "VolumeTools \<noteq> VolumeConfig" "VolumeTools \<noteq> VolumeData" "VolumeConfig \<noteq> VolumeData"
  "VolumeTmp \<noteq> VolumeTools" "VolumeTmp \<noteq> VolumeConfig" "VolumeTmp \<noteq> VolumeData"
  by (simp_all add: const_defs)

lemma map_enumerate_fst: "map (\<lambda>(i, x). f i) (enumerate n xs) = map f [n..<n + length xs]"
proof -
  have "map (\<lambda>(i, x). f i) (enumerate n xs) = map f (map fst (enumerate n xs))"
    unfolding map_map by (simp add: case_prod_unfold comp_def)
  then show ?thesis unfolding map_fst_enumerate .
qed

lemma volume_names:
  "map v_Name (buildVolumes agent tm) =
     [VolumeTools, VolumeConfig, VolumeData] @ map context_name [0..<length (as_ContextFiles (ag_Spec agent))] @
     map (\<lambda>t. ''pull-secret-'' @ init_name (tb_Name t))
       (filter (\<lambda>t. oci_PullSecret (tb_OCI t) \<noteq> None) (as_Tools (ag_Spec agent)))"
proof -
  have pull: "map v_Name (concat (map (\<lambda>tool. case oci_PullSecret (tb_OCI tool) of None \<Rightarrow> []
                     | Some ps \<Rightarrow> [\<lparr>v_Name = ''pull-secret-init-pull-tool-'' @ tb_Name tool,
                                   v_Source = SecretVolume (skr_Name ps)\<rparr>]) ts)) =
      map (\<lambda>t. ''pull-secret-'' @ init_name (tb_Name t)) (filter (\<lambda>t. oci_PullSecret (tb_OCI t) \<noteq> None) ts)" for ts
    by (induction ts) (auto simp: init_name_def split: option.splits)
  have ctx: "map v_Name (map (\<lambda>(i, cf). \<lparr>v_Name = context_name i, v_Source = f cf\<rparr>) (enumerate 0 cfs)) =
      map context_name [0..<length cfs]" for f :: "ContextFileRef \<Rightarrow> VolumeSource" and cfs
  proof -
    have "v_Name \<circ> (\<lambda>(i, cf). \<lparr>v_Name = context_name i, v_Source = f cf\<rparr>) = (\<lambda>(i, cf). context_name i)"
      by (auto simp: fun_eq_iff)
    then show ?thesis using map_enumerate_fst[of context_name 0 cfs] by simp
  qed
  show ?thesis
    unfolding buildVolumes_def Let_def map_append ctx pull by simp
qed

lemma applyContainer_mounts:
  "vm_Name ` set (ct_VolumeMounts (applyContainer c ov)) = insert VolumeTmp (vm_Name ` set (ct_VolumeMounts c))"
  by (auto simp: applyContainer_def Let_def bex_image)

lemma init_mounts:
  "vm_Name ` set (ct_VolumeMounts (buildCraneInitContainer n ref d vol mnt ps)) =
     insert vol (case ps of None \<Rightarrow> {} | Some _ \<Rightarrow> {''pull-secret-'' @ n})"
  by (auto simp: buildCraneInitContainer_def Let_def mount_def split: option.splits)

lemma main_mounts:
  "map vm_Name (ct_VolumeMounts (buildMainContainer agent ps ints tm infra)) =
     [VolumeTools, VolumeConfig, VolumeData] @ map context_name [0..<length (as_ContextFiles (ag_Spec agent))]"
proof -
  have "vm_Name \<circ> (\<lambda>(i, cf). (mount (context_name i) (g cf))\<lparr>vm_SubPath := h cf\<rparr>) = (\<lambda>(i, cf). context_name i)"
    for g h :: "ContextFileRef \<Rightarrow> string"
    by (auto simp: fun_eq_iff mount_def)
  then show ?thesis
    using map_enumerate_fst[of context_name 0 "as_ContextFiles (ag_Spec agent)"]
    by (simp add: buildMainContainer_def Let_def mount_def split: option.splits)
qed

lemma name_chars:
  "CHR ''-'' \<notin> set VolumeTools" "CHR ''-'' \<notin> set VolumeData" "CHR ''-'' \<notin> set VolumeTmp"
  by (simp_all add: const_defs)

lemma context_name_inj: "context_name i = context_name j \<longleftrightarrow> i = j"
  using nat_str_inj by (auto simp: context_name_def)

lemma volume_names_distinct:
  assumes "distinct (map tb_Name (as_Tools (ag_Spec agent)))"
  shows "distinct (map v_Name (buildVolumes agent tm))"
proof -
  have "distinct (map (\<lambda>t. ''pull-secret-'' @ init_name (tb_Name t))
      (filter (\<lambda>t. oci_PullSecret (tb_OCI t) \<noteq> None) (as_Tools (ag_Spec agent))))"
    using assms by (auto simp: distinct_map init_name_def inj_on_def)
  moreover have "distinct (map context_name [0..<n])" for n
    by (simp add: distinct_map inj_on_def context_name_inj)
  ultimately show ?thesis
    unfolding volume_names by (auto simp: context_name_def init_name_def const_defs)
qed

lemma tmp_not_built: "VolumeTmp \<notin> v_Name ` set (buildVolumes agent tm)"
proof -
  have "VolumeTmp \<notin> set (map v_Name (buildVolumes agent tm))"
    unfolding volume_names by (auto simp: context_name_def init_name_def const_defs)
  then show ?thesis by simp
qed

lemma buildAgentPodSpec_sel:
  "pd_InitContainers (buildAgentPodSpec agent ps ints tm infra) =
     map (\<lambda>c. applyContainer c None) (buildInitContainers agent)"
  "pd_Containers (buildAgentPodSpec agent ps ints tm infra) =
     [applyContainer (buildMainContainer agent ps ints tm infra)
        (Some (fst (mergeContainerSecurityContext (Option.bind (as_Security (ag_Spec agent)) so_Container))))]"
  "pd_Volumes (buildAgentPodSpec agent ps ints tm infra) = buildVolumes agent tm @ [TmpVolume]"
proof -
  have "ct_Name (buildMainContainer agent ps ints tm infra) = ContainerRuntime"
    by (simp add: buildMainContainer_def new_container_def Let_def split: option.splits)
  then show "pd_InitContainers (buildAgentPodSpec agent ps ints tm infra) =
     map (\<lambda>c. applyContainer c None) (buildInitContainers agent)"
    "pd_Containers (buildAgentPodSpec agent ps ints tm infra) =
     [applyContainer (buildMainContainer agent ps ints tm infra)
        (Some (fst (mergeContainerSecurityContext (Option.bind (as_Security (ag_Spec agent)) so_Container))))]"
    "pd_Volumes (buildAgentPodSpec agent ps ints tm infra) = buildVolumes agent tm @ [TmpVolume]"
    using tmp_not_built by (simp_all add: buildAgentPodSpec_def)
qed

lemma pod_mounts_resolve: "mounts_resolve (buildAgentPodSpec agent ps ints tm infra)"
proof -
  let ?p = "buildAgentPodSpec agent ps ints tm infra"
  have vols: "v_Name ` set (pd_Volumes ?p) = insert VolumeTmp (set (map v_Name (buildVolumes agent tm)))"
    by (auto simp: buildAgentPodSpec_sel)
  have main: "vm_Name ` set (ct_VolumeMounts (buildMainContainer agent ps ints tm infra)) =
      set (map vm_Name (ct_VolumeMounts (buildMainContainer agent ps ints tm infra)))" by simp
  have sub: "insert VolumeTmp A \<subseteq> v_Name ` set (pd_Volumes ?p)"
    if "A \<subseteq> set (map v_Name (buildVolumes agent tm))" for A
    using that unfolding vols by blast
  have "vm_Name ` set (ct_VolumeMounts c) \<subseteq> v_Name ` set (pd_Volumes ?p)"
    if c: "c \<in> set (pd_InitContainers ?p)" for c
  proof -
    obtain t where t: "t \<in> set (as_Tools (ag_Spec agent))"
      and c': "c = applyContainer (buildCraneInitContainer (init_name (tb_Name t)) (oci_Ref (tb_OCI t))
            (MountTools @ ''/'' @ tb_Name t) VolumeTools MountTools (oci_PullSecret (tb_OCI t))) None"
      using c by (auto simp: buildAgentPodSpec_sel buildInitContainers_def)
    show ?thesis unfolding c' applyContainer_mounts init_mounts
      by (rule sub) (use t in \<open>auto simp: volume_names split: option.splits\<close>)
  qed
  moreover have "vm_Name ` set (ct_VolumeMounts c) \<subseteq> v_Name ` set (pd_Volumes ?p)"
    if c: "c \<in> set (pd_Containers ?p)" for c
  proof -
    have "vm_Name ` set (ct_VolumeMounts c) =
        insert VolumeTmp (vm_Name ` set (ct_VolumeMounts (buildMainContainer agent ps ints tm infra)))"
      using c by (auto simp: buildAgentPodSpec_sel applyContainer_mounts)
    then show ?thesis unfolding main main_mounts
      by (simp only:) (rule sub, auto simp: volume_names)
  qed
  ultimately show ?thesis unfolding mounts_resolve_def list_all_iff set_append by blast
qed

lemma update_first_map:
  "(\<And>x. g (f x) = g x) \<Longrightarrow> map g (update_first P f xs) = map g xs"
  by (induction xs) auto

lemma update_first_none: "\<forall>x \<in> set xs. \<not> P x \<Longrightarrow> update_first P f xs = xs"
  by (induction xs) auto

text \<open>The pod of a run's Job, in terms of the agent's pod.\<close>

lemma job_pod_sel:
  fixes run agent provs gitCfg cmName infra pd
  defines "j \<equiv> pt_Spec (job_Template (BuildAgentRunJob pd run agent provs gitCfg cmName infra))"
    and "p \<equiv> buildAgentPodSpec agent provs [] True infra"
  shows "pd_InitContainers j = pd_InitContainers p"
    "pd_Containers j = map (\<lambda>c. c\<lparr>ct_Env := ct_Env c @ run_env run gitCfg\<rparr>) (pd_Containers p)"
    "pd_SecurityContext j = pd_SecurityContext p" "pd_RestartPolicy j = ''Never''"
    "map v_Name (pd_Volumes j) = map v_Name (pd_Volumes p)"
    "pd_Volumes j = (if cmName = [] then pd_Volumes p
                     else update_first is_config_volume (rename_config cmName) (pd_Volumes p))"
proof -
  have main: "ct_Name (buildMainContainer agent provs [] True infra) = ContainerRuntime"
    by (simp add: buildMainContainer_def new_container_def Let_def split: option.splits)
  show "pd_Containers j = map (\<lambda>c. c\<lparr>ct_Env := ct_Env c @ run_env run gitCfg\<rparr>) (pd_Containers p)"
    by (simp add: j_def p_def BuildAgentRunJob_def Let_def buildAgentPodSpec_sel main)
  show "map v_Name (pd_Volumes j) = map v_Name (pd_Volumes p)"
    by (simp add: j_def p_def BuildAgentRunJob_def Let_def update_first_map rename_config_def)
qed (simp_all add: j_def p_def BuildAgentRunJob_def Let_def)

lemma job_pod_mounts:
  "mounts_resolve (pt_Spec (job_Template (BuildAgentRunJob pd run agent provs gitCfg cmName infra)))"
proof -
  let ?j = "pt_Spec (job_Template (BuildAgentRunJob pd run agent provs gitCfg cmName infra))"
  let ?p = "buildAgentPodSpec agent provs [] True infra"
  have "v_Name ` set (pd_Volumes ?j) = v_Name ` set (pd_Volumes ?p)"
    using job_pod_sel(5)[of pd run agent provs gitCfg cmName infra] by (metis set_map)
  then show ?thesis
    using pod_mounts_resolve[of agent provs "[]" True infra]
    by (simp add: mounts_resolve_def job_pod_sel(1,2) list_all_iff ball_Un)
qed

lemma agent_pod_restricted: "restricted_pod (buildAgentPodSpec agent ps ints tm infra)"
  by (auto simp: buildAgentPodSpec_def restricted_pod_def list_all_iff intro!: applyContainer_ok)

lemma job_pod_restricted:
  "restricted_pod (pt_Spec (job_Template (BuildAgentRunJob pd run agent provs gitCfg cmName infra)))"
proof -
  let ?j = "pt_Spec (job_Template (BuildAgentRunJob pd run agent provs gitCfg cmName infra))"
  let ?p = "buildAgentPodSpec agent provs [] True infra"
  have "v_Name ` set (pd_Volumes ?j) = v_Name ` set (pd_Volumes ?p)"
    using job_pod_sel(5)[of pd run agent provs gitCfg cmName infra] by (metis set_map)
  then show ?thesis
    using agent_pod_restricted[of agent provs "[]" True infra]
    by (simp add: restricted_pod_def job_pod_sel(1,2,3) list_all_iff container_ok_def has_tmp_mount_def)
qed

lemma pod_volumes_distinct:
  "distinct (map tb_Name (as_Tools (ag_Spec agent))) \<Longrightarrow>
   distinct (map v_Name (pd_Volumes (buildAgentPodSpec agent ps ints tm infra)))"
  using volume_names_distinct[of agent tm] tmp_not_built[of agent tm] by (simp add: buildAgentPodSpec_sel)



lemma config_volume_renamed:
  assumes "cmName \<noteq> []"
  shows "update_first is_config_volume (rename_config cmName) (buildVolumes agent tm @ rest) =
    \<lparr>v_Name = VolumeTools, v_Source = EmptyDirVolume None\<rparr>
    # \<lparr>v_Name = VolumeConfig, v_Source = ConfigMapVolume cmName []\<rparr> # tl (tl (buildVolumes agent tm @ rest))"
  by (simp add: buildVolumes_def is_config_volume_def rename_config_def Let_def)

text \<open>
  The Job of a task run runs the agent's pod once and for this run: it is never restarted
  or retried and has a deadline; its single container has the agent's environment followed by
  the prompt, the run's name, the trace context and the git workspace; and with a per-run
  configuration the config volume, and only it, is taken from there.
\<close>

theorem BuildAgentRunJob_correct:
  "let j = BuildAgentRunJob parseDuration run agent provs gitCfg cmName infra;
       p = pt_Spec (job_Template j); base = buildAgentPodSpec agent provs [] True infra
   in meta_key (job_Meta j) = meta_key (run_Meta run) \<and>
      om_Labels (job_Meta j) LabelAgent = Some (om_Name (ag_Meta agent)) \<and>
      om_Labels (job_Meta j) LabelRun = Some (om_Name (run_Meta run)) \<and>
      job_BackoffLimit j = Some 0 \<and> pd_RestartPolicy p = ''Never'' \<and>
      (\<exists>n \<ge> 0. job_ActiveDeadlineSeconds j = Some n) \<and>
      map ct_Env (pd_Containers p) = [buildEnvVars agent provs [] True infra @ run_env run gitCfg] \<and>
      env_val ''AGENT_PROMPT'' (rs_Prompt (run_Spec run)) \<in> set (run_env run gitCfg) \<and>
      map v_Source (pd_Volumes p) =
        (if cmName = [] then map v_Source (pd_Volumes base)
         else (map v_Source (pd_Volumes base))[1 := ConfigMapVolume cmName []])"
proof -
  let ?p = "pt_Spec (job_Template (BuildAgentRunJob parseDuration run agent provs gitCfg cmName infra))"
  have env: "ct_Env (buildMainContainer agent provs [] True infra) = buildEnvVars agent provs [] True infra"
    by (simp add: buildMainContainer_def Let_def split: option.splits)
  have "map ct_Env (pd_Containers ?p) = [buildEnvVars agent provs [] True infra @ run_env run gitCfg]"
    by (simp add: job_pod_sel(2) buildAgentPodSpec_sel env[symmetric] applyContainer_def Let_def)
  moreover have "map v_Source (pd_Volumes ?p) =
        (if cmName = [] then map v_Source (pd_Volumes (buildAgentPodSpec agent provs [] True infra))
         else (map v_Source (pd_Volumes (buildAgentPodSpec agent provs [] True infra)))[1 := ConfigMapVolume cmName []])"
    unfolding job_pod_sel(6) buildAgentPodSpec_sel(3)
    by (simp add: config_volume_renamed) (simp add: buildVolumes_def Let_def)
  moreover have "0 \<le> job_deadline parseDuration (as_Timeout (ag_Spec agent))"
    by (auto simp: job_deadline_def whole_seconds_def split: option.splits)
  ultimately show ?thesis
    by (simp add: Let_def job_pod_sel(4)) (simp add: BuildAgentRunJob_def meta_key_def new_meta_def run_env_def Let_def)
qed

lemma secret_env_eq [simp]: "ev_Name (secret_ref_env n r) = n"
  by (simp add: secret_ref_env_def env_secret_def)

lemma provider_env_subset:
  "prov \<in> set provs \<Longrightarrow> set (provider_env prov) \<subseteq> set (buildEnvVars agent provs ints tm infra)"
  by (auto simp: buildEnvVars_def Let_def)

text \<open>
  C38: configuration and pod agree on OAuth2 providers: for each such provider the names that
  config.json tells the runtime to read are variables of the agent's container, and they
  reference the provider's own client secrets.
\<close>

theorem oauth2_env_contract:
  assumes "prov \<in> set provs"
    and "Option.bind (ps_Endpoint (prov_Spec prov)) pe_OAuth2ClientCredentials = Some oauth"
  shows "\<exists>e o2. e \<in> set (ac_Providers (agent_config agent ints provs)) \<and> pen_Name e = om_Name (prov_Meta prov) \<and>
      pen_OAuth2 e = Some o2 \<and> poe_TokenURL o2 = oa_TokenURL oauth \<and>
      secret_ref_env (poe_ClientIDEnv o2) (oa_ClientIDSecret oauth) \<in> set (buildEnvVars agent provs ints' tm infra) \<and>
      secret_ref_env (poe_ClientSecretEnv o2) (oa_ClientSecretSecret oauth) \<in> set (buildEnvVars agent provs ints' tm infra)"
proof -
  let ?e = "buildProviderEntry prov (index_by pb_Name (as_ProviderRefs (ag_Spec agent)) (om_Name (prov_Meta prov)))"
  from assms(2) obtain ep where ep: "ps_Endpoint (prov_Spec prov) = Some ep"
    and oa: "pe_OAuth2ClientCredentials ep = Some oauth" by (cases "ps_Endpoint (prov_Spec prov)") auto
  have "?e \<in> set (ac_Providers (agent_config agent ints provs))"
    using assms(1) by (simp add: agent_config_def Let_def)
  moreover have "pen_Name ?e = om_Name (prov_Meta prov)"
    "\<exists>o2. pen_OAuth2 ?e = Some o2 \<and> poe_TokenURL o2 = oa_TokenURL oauth \<and>
      poe_ClientIDEnv o2 = OAuth2ClientIDEnvVar (om_Name (prov_Meta prov)) \<and>
      poe_ClientSecretEnv o2 = OAuth2ClientSecretEnvVar (om_Name (prov_Meta prov))"
    by (simp_all add: buildProviderEntry_def ep oa Let_def split: option.splits)
  moreover have "secret_ref_env (OAuth2ClientIDEnvVar (om_Name (prov_Meta prov))) (oa_ClientIDSecret oauth) \<in> set (provider_env prov)"
    "secret_ref_env (OAuth2ClientSecretEnvVar (om_Name (prov_Meta prov))) (oa_ClientSecretSecret oauth) \<in> set (provider_env prov)"
    by (simp_all add: provider_env_def ep oa Let_def)
  ultimately show ?thesis
    using provider_env_subset[OF assms(1), of agent ints' tm infra] by (metis subsetD)
qed

definition demo_oauth :: OAuth2ClientCredentials where
  "demo_oauth = \<lparr>oa_TokenURL = ''https://idp/token'', oa_ClientIDSecret = \<lparr>skr_Name = ''s'', skr_Key = ''id''\<rparr>,
     oa_ClientSecretSecret = \<lparr>skr_Name = ''s'', skr_Key = ''secret''\<rparr>, oa_Scope = [], oa_Audience = []\<rparr>"

definition demo_provider :: Provider where
  "demo_provider = \<lparr>prov_Meta = new_meta ''dnabot'' ''ns'' Map.empty,
     prov_Spec = zero_ProviderSpec\<lparr>ps_Type := ProviderTypeOpenAICompat,
       ps_Endpoint := Some \<lparr>pe_BaseURL = ''https://llm'', pe_Headers = Map.empty, pe_OAuth2ClientCredentials = Some demo_oauth\<rparr>\<rparr>,
     prov_Status = zero_ProviderStatus\<rparr>"

theorem oauth2_env_contract_witness:
  "\<exists>e o2. e \<in> set (ac_Providers (agent_config demo_agent [] [demo_provider])) \<and> pen_Name e = ''dnabot'' \<and>
      pen_OAuth2 e = Some o2 \<and> poe_TokenURL o2 = ''https://idp/token''"
proof -
  have "Option.bind (ps_Endpoint (prov_Spec demo_provider)) pe_OAuth2ClientCredentials = Some demo_oauth"
    "om_Name (prov_Meta demo_provider) = ''dnabot''" "oa_TokenURL demo_oauth = ''https://idp/token''"
    by (simp_all add: demo_provider_def demo_oauth_def new_meta_def)
  then show ?thesis
    using oauth2_env_contract[of demo_provider "[demo_provider]" demo_oauth demo_agent "[]" "[]" True
        "\<lparr>ic_OTelEndpoint = [], ic_NATSURL = []\<rparr>"] by fastforce
qed

end
