(* ===== verification/Kube_Api.thy ===== *)
theory Kube_Api
  imports Agent_Pod
begin

text \<open>
  The services the controllers call: the Kubernetes API server behind the controller-runtime
  client, the clock, the agents' HTTP endpoints, and the functions of other packages. They
  are not part of the repository, so they are arguments of the controllers: a record of
  operations on an abstract world \<^typ>\<open>'w\<close>. What the controllers may rely on is stated as
  the laws of two locales; \<open>Kube_Store\<close> interprets both on an in-memory API server.
  \<^verbatim>\<open>src/internal/controller/common.go\<close> starts here with \<open>patchStatus\<close>.
\<close>

section \<open>Errors and results\<close>

datatype apierr = NotFound string | AlreadyExists string | ApiError string

fun err_text :: "apierr \<Rightarrow> string" where
  "err_text (NotFound m) = m"
| "err_text (AlreadyExists m) = m"
| "err_text (ApiError m) = m"

definition wrap_err :: "string \<Rightarrow> apierr \<Rightarrow> apierr" where
  "wrap_err p e = ApiError (p @ '': '' @ err_text e)"

fun IsNotFound :: "apierr \<Rightarrow> bool" where
  "IsNotFound (NotFound _) = True" | "IsNotFound _ = False"

fun IsAlreadyExists :: "apierr \<Rightarrow> bool" where
  "IsAlreadyExists (AlreadyExists _) = True" | "IsAlreadyExists _ = False"

record ctrl_result =
  requeue_after :: duration

definition done_result :: ctrl_result where "done_result = \<lparr>requeue_after = 0\<rparr>"

text \<open>\<^verbatim>\<open>requeueInterval\<close>: ten seconds.\<close>

definition requeueInterval :: duration where "requeueInterval = 10 * 1000000000"

definition requeue_result :: ctrl_result where "requeue_result = \<lparr>requeue_after = requeueInterval\<rparr>"

lemma requeue_not_done [simp]: "requeue_result \<noteq> done_result" "done_result \<noteq> requeue_result"
  by (simp_all add: requeue_result_def done_result_def requeueInterval_def)

section \<open>The services\<close>

record agent_request =
  arq_Method :: string
  arq_URL :: string
  arq_Prompt :: "string option"
  arq_Headers :: "(string \<times> string) list"

record agent_response =
  ars_StatusCode :: int
  ars_Body :: string

record 'w kube =
  k_now :: "'w \<Rightarrow> time"
  k_get_run :: "'w \<Rightarrow> nsname \<Rightarrow> apierr + AgentRun"
  k_get_agent :: "'w \<Rightarrow> nsname \<Rightarrow> apierr + Agent"
  k_get_provider :: "'w \<Rightarrow> nsname \<Rightarrow> apierr + Provider"
  k_get_integration :: "'w \<Rightarrow> nsname \<Rightarrow> apierr + Integration"
  k_get_configmap :: "'w \<Rightarrow> nsname \<Rightarrow> apierr + ConfigMap"
  k_get_job :: "'w \<Rightarrow> nsname \<Rightarrow> apierr + Job"
  k_list_runs :: "'w \<Rightarrow> string \<Rightarrow> string \<Rightarrow> string \<Rightarrow> apierr + AgentRun list"
  k_list_pods :: "'w \<Rightarrow> string \<Rightarrow> string \<Rightarrow> string \<Rightarrow> apierr + Pod list"
  k_update_run :: "'w \<Rightarrow> AgentRun \<Rightarrow> 'w \<times> (apierr + AgentRun)"
  k_patch_run_status :: "'w \<Rightarrow> AgentRun \<Rightarrow> AgentRun \<Rightarrow> 'w \<times> apierr option"
  k_create_configmap :: "'w \<Rightarrow> ConfigMap \<Rightarrow> 'w \<times> apierr option"
  k_create_job :: "'w \<Rightarrow> Job \<Rightarrow> 'w \<times> apierr option"
  k_http :: "'w \<Rightarrow> agent_request \<Rightarrow> 'w \<times> (string + agent_response)"

text \<open>
  The JSON documents the controllers decode. A stream decoder fills what it can before it
  fails, so \<open>gl_dec_prompt\<close> returns the struct and whether decoding succeeded.
\<close>

record daemon_reply =
  dr_Busy :: bool
  dr_Output :: string
  dr_ToolCalls :: int
  dr_TokensUsed :: int
  dr_Cost :: string
  dr_Model :: string
  dr_TraceID :: string

record taskRunOutput =
  tro_Output :: string
  tro_Steps :: int
  tro_Model :: string
  tro_Success :: bool
  tro_Error :: string
  tro_TraceID :: string

record golib =
  gl_parseDuration :: "string \<Rightarrow> duration option"
  gl_durationString :: "duration \<Rightarrow> string"
  gl_set_condition :: "time \<Rightarrow> Condition list \<Rightarrow> Condition \<Rightarrow> Condition list"
  gl_set_owner :: "ObjectMeta \<Rightarrow> ObjectMeta \<Rightarrow> apierr + ObjectMeta"
  gl_run_patch_data :: "AgentRun \<Rightarrow> AgentRun \<Rightarrow> string + string"
  gl_sort_runs :: "AgentRun list \<Rightarrow> AgentRun list"
  gl_dec_prompt :: "string \<Rightarrow> daemon_reply \<times> bool"
  gl_dec_status :: "string \<Rightarrow> daemon_reply option"
  gl_dec_task :: "string \<Rightarrow> taskRunOutput option"
  gl_codec :: config_codec

section \<open>Status patches\<close>

text \<open>
  \<open>patchStatus\<close> with a merge patch from \<open>base\<close>: no request is sent when the patch document
  is empty.
\<close>

definition patchStatus :: "'w kube \<Rightarrow> golib \<Rightarrow> 'w \<Rightarrow> AgentRun \<Rightarrow> AgentRun \<Rightarrow> 'w \<times> apierr option" where
  "patchStatus K G w obj base =
     (case gl_run_patch_data G base obj of
        Inl e \<Rightarrow> (w, Some (ApiError (''compute status patch: '' @ e)))
      | Inr patchData \<Rightarrow>
          if length patchData \<le> 2 \<or> patchData = ''{}'' then (w, None)
          else k_patch_run_status K w base obj)"

text \<open>
  A JSON merge patch sets the fields in which the object differs from the base and leaves the
  others as they are stored.
\<close>

definition merge_field :: "('s \<Rightarrow> 'f) \<Rightarrow> 's \<Rightarrow> 's \<Rightarrow> 's \<Rightarrow> 'f" where
  "merge_field f base obj stored = (if f base = f obj then f stored else f obj)"

definition merge_run_status :: "AgentRunStatus \<Rightarrow> AgentRunStatus \<Rightarrow> AgentRunStatus \<Rightarrow> AgentRunStatus" where
  "merge_run_status base obj stored =
     \<lparr>rst_Phase = merge_field rst_Phase base obj stored,
      rst_Mode = merge_field rst_Mode base obj stored,
      rst_StartTime = merge_field rst_StartTime base obj stored,
      rst_CompletionTime = merge_field rst_CompletionTime base obj stored,
      rst_JobName = merge_field rst_JobName base obj stored,
      rst_Output = merge_field rst_Output base obj stored,
      rst_ToolCalls = merge_field rst_ToolCalls base obj stored,
      rst_TokensUsed = merge_field rst_TokensUsed base obj stored,
      rst_Cost = merge_field rst_Cost base obj stored,
      rst_Model = merge_field rst_Model base obj stored,
      rst_TraceID = merge_field rst_TraceID base obj stored,
      rst_Outcome = merge_field rst_Outcome base obj stored,
      rst_Conditions = merge_field rst_Conditions base obj stored\<rparr>"

lemma merge_run_status_same [simp]:
  "merge_run_status s obj s = obj" "merge_run_status s s stored = stored"
  by (simp_all add: merge_run_status_def merge_field_def)

section \<open>Laws\<close>

text \<open>
  The library functions: \<^verbatim>\<open>meta.SetStatusCondition\<close> stores the given condition under its
  type and leaves the other types alone, \<^verbatim>\<open>sort.Slice\<close> with the comparison by creation
  time permutes and sorts, a merge patch document is empty exactly when nothing changed, and
  setting the controller reference keeps name, namespace and labels.
\<close>

definition same_condition :: "Condition \<Rightarrow> Condition \<Rightarrow> bool" where
  "same_condition c d \<longleftrightarrow> c_Type c = c_Type d \<and> c_Status c = c_Status d \<and>
     c_Reason c = c_Reason d \<and> c_Message c = c_Message d"

locale golib_laws =
  fixes G :: golib
  assumes set_condition_same:
      "\<exists>d. find_cond (c_Type c) (gl_set_condition G t cs c) = Some d \<and> same_condition c d"
    and set_condition_other:
      "ty \<noteq> c_Type c \<Longrightarrow> find_cond ty (gl_set_condition G t cs c) = find_cond ty cs"
    and sort_runs_set: "set (gl_sort_runs G rs) = set rs"
    and sort_runs_sorted:
      "sorted_wrt (\<lambda>a b. om_CreationTimestamp (run_Meta a) \<le> om_CreationTimestamp (run_Meta b)) (gl_sort_runs G rs)"
    and patch_data_total: "\<exists>d. gl_run_patch_data G base obj = Inr d"
    and patch_data_empty: "gl_run_patch_data G base obj = Inr d \<Longrightarrow> length d \<le> 2 \<longleftrightarrow> base = obj"
    and set_owner_keeps: "gl_set_owner G own m = Inr m' \<Longrightarrow>
      om_Name m' = om_Name m \<and> om_Namespace m' = om_Namespace m \<and> om_Labels m' = om_Labels m"

text \<open>
  The API server as far as AgentRuns are concerned. \<open>runs w\<close> are the stored objects. Reads
  return stored objects; a write of the main resource keeps the stored status and a status
  patch merges into the stored status only; a failed write, a read, a write to another kind
  and an HTTP call leave the runs alone.
\<close>

definition run_key :: "AgentRun \<Rightarrow> nsname" where "run_key r = meta_key (run_Meta r)"

locale kube_runs =
  fixes K :: "'w kube" and runs :: "'w \<Rightarrow> nsname \<rightharpoonup> AgentRun"
  assumes runs_finite: "finite (dom (runs w))"
    and runs_key: "runs w k = Some r \<Longrightarrow> run_key r = k"
    and get_run: "k_get_run K w k = Inr r \<Longrightarrow> runs w k = Some r"
    and list_runs: "k_list_runs K w ns lk lv = Inr rs \<Longrightarrow>
      set rs = {r. \<exists>n. runs w (ns, n) = Some r \<and> om_Labels (run_Meta r) lk = Some lv} \<and> distinct rs"
    and update_run_ok: "k_update_run K w r = (w', Inr r') \<Longrightarrow>
      \<exists>old. runs w (run_key r) = Some old \<and> r' = r\<lparr>run_Status := run_Status old\<rparr> \<and>
            runs w' = (runs w)(run_key r \<mapsto> r')"
    and update_run_err: "k_update_run K w r = (w', Inl e) \<Longrightarrow> runs w' = runs w"
    and patch_status_ok: "k_patch_run_status K w base obj = (w', None) \<Longrightarrow>
      \<exists>old. runs w (run_key obj) = Some old \<and>
            runs w' = (runs w)(run_key obj \<mapsto>
              old\<lparr>run_Status := merge_run_status (run_Status base) (run_Status obj) (run_Status old)\<rparr>)"
    and patch_status_err: "k_patch_run_status K w base obj = (w', Some e) \<Longrightarrow> runs w' = runs w"
    and create_configmap_runs: "k_create_configmap K w cm = (w', x) \<Longrightarrow> runs w' = runs w"
    and create_job_runs: "k_create_job K w j = (w', x) \<Longrightarrow> runs w' = runs w"
    and http_runs: "k_http K w rq = (w', resp) \<Longrightarrow> runs w' = runs w"

end
