(* ===== verification/AgentRun_Controller.thy ===== *)
theory AgentRun_Controller
  imports Kube_Api
begin

text \<open>
  \<^verbatim>\<open>src/internal/controller/agentrun_controller.go\<close>: the reconciler of AgentRuns. The
  in-memory object \<open>run\<close> and the world are threaded through; tracing and logging are left
  out. \<open>statusPatch\<close> is the merge-patch base, the object as it was read.
\<close>

section \<open>Status updates\<close>

definition set_cond :: "golib \<Rightarrow> time \<Rightarrow> AgentRun \<Rightarrow> Condition \<Rightarrow> AgentRun" where
  "set_cond G t run c =
     run\<lparr>run_Status := (run_Status run)\<lparr>rst_Conditions :=
       gl_set_condition G t (rst_Conditions (run_Status run)) c\<rparr>\<rparr>"

definition complete_cond :: "string \<Rightarrow> string \<Rightarrow> Condition" where
  "complete_cond reason msg = new_cond AgentRunConditionComplete ConditionTrue reason msg"

definition setRunFailedStatus :: "golib \<Rightarrow> time \<Rightarrow> AgentRun \<Rightarrow> string \<Rightarrow> AgentRun" where
  "setRunFailedStatus G now run message =
     set_cond G now
       (run\<lparr>run_Status := (run_Status run)\<lparr>rst_Phase := AgentRunPhaseFailed,
          rst_CompletionTime := Some now, rst_Output := message\<rparr>\<rparr>)
       (complete_cond ''Failed'' message)"

section \<open>Concurrency\<close>

definition running :: "AgentRun \<Rightarrow> bool" where
  "running r \<longleftrightarrow> rst_Phase (run_Status r) = AgentRunPhaseRunning"

definition max_runs :: "Agent \<Rightarrow> int" where
  "max_runs agent = (case as_Concurrency (ag_Spec agent) of None \<Rightarrow> 1
     | Some c \<Rightarrow> if 0 < con_MaxRuns c then con_MaxRuns c else 1)"

definition run_policy :: "Agent \<Rightarrow> string" where
  "run_policy agent = (case as_Concurrency (ag_Spec agent) of None \<Rightarrow> ''queue''
     | Some c \<Rightarrow> if con_Policy c \<noteq> [] then con_Policy c else ''queue'')"

definition other_running :: "AgentRun \<Rightarrow> AgentRun list \<Rightarrow> AgentRun list" where
  "other_running run rs = filter (\<lambda>r. om_Name (run_Meta r) \<noteq> om_Name (run_Meta run) \<and> running r) rs"

definition cancelled_status :: "golib \<Rightarrow> time \<Rightarrow> AgentRun \<Rightarrow> AgentRun \<Rightarrow> AgentRun" where
  "cancelled_status G now current oldest =
     set_cond G now
       (oldest\<lparr>run_Status := (run_Status oldest)\<lparr>rst_Phase := AgentRunPhaseFailed,
          rst_CompletionTime := Some now, rst_Output := ''Cancelled by replace policy''\<rparr>\<rparr>)
       (complete_cond ''Cancelled'' (''Replaced by '' @ om_Name (run_Meta current)))"

definition cancelOldestRun ::
  "'w kube \<Rightarrow> golib \<Rightarrow> 'w \<Rightarrow> AgentRun \<Rightarrow> AgentRun list \<Rightarrow> 'w \<times> apierr option" where
  "cancelOldestRun K G w current runList =
     (case gl_sort_runs G (other_running current runList) of
        [] \<Rightarrow> (w, None)
      | oldest # _ \<Rightarrow> patchStatus K G w (cancelled_status G (k_now K w) current oldest) oldest)"

text \<open>Returns the world, the object and either an error or whether the run may proceed.\<close>

definition checkConcurrency ::
  "'w kube \<Rightarrow> golib \<Rightarrow> 'w \<Rightarrow> AgentRun \<Rightarrow> Agent \<Rightarrow> AgentRun \<Rightarrow> 'w \<times> AgentRun \<times> (apierr + bool)" where
  "checkConcurrency K G w run agent statusPatch =
     (case k_list_runs K w (om_Namespace (run_Meta run)) LabelAgent (om_Name (ag_Meta agent)) of
        Inl e \<Rightarrow> (w, run, Inl e)
      | Inr runList \<Rightarrow>
          if int (length (other_running run runList)) \<ge> max_runs agent then
            (if run_policy agent = ''queue'' then
               (if rst_Phase (run_Status run) \<noteq> AgentRunPhaseQueued then
                  (let run = run\<lparr>run_Status := (run_Status run)\<lparr>rst_Phase := AgentRunPhaseQueued\<rparr>\<rparr> in
                   case patchStatus K G w run statusPatch of
                     (w, Some e) \<Rightarrow> (w, run, Inl e)
                   | (w, None) \<Rightarrow> (w, run, Inr False))
                else (w, run, Inr False))
             else if run_policy agent = ''reject'' then
               (let run = setRunFailedStatus G (k_now K w) run ''Rejected: max concurrent runs exceeded'' in
                case patchStatus K G w run statusPatch of
                  (w, Some e) \<Rightarrow> (w, run, Inl e)
                | (w, None) \<Rightarrow> (w, run, Inr False))
             else if run_policy agent = ''replace'' then
               (case cancelOldestRun K G w run runList of
                  (w, Some e) \<Rightarrow> (w, run, Inl e)
                | (w, None) \<Rightarrow> (w, run, Inr True))
             else (w, run, Inr True))
          else (w, run, Inr True))"

section \<open>Task runs\<close>

definition no_output :: taskRunOutput where
  "no_output = \<lparr>tro_Output = ''(no output captured)'', tro_Steps = 0, tro_Model = [], tro_Success = False,
     tro_Error = [], tro_TraceID = []\<rparr>"

text \<open>The termination messages in the order in which the nested loops meet them.\<close>

definition terminated_messages :: "Pod list \<Rightarrow> string list" where
  "terminated_messages pods =
     concat (map (\<lambda>pod. List.map_filter
       (\<lambda>cs. if cst_Name cs = ''agent-runtime'' then cst_Terminated cs else None)
       (pod_ContainerStatuses pod)) pods)"

definition getJobOutput :: "'w kube \<Rightarrow> golib \<Rightarrow> 'w \<Rightarrow> Job \<Rightarrow> taskRunOutput" where
  "getJobOutput K G w job =
     (case k_list_pods K w (om_Namespace (job_Meta job)) ''job-name'' (om_Name (job_Meta job)) of
        Inl e \<Rightarrow> no_output
      | Inr pods \<Rightarrow>
          (case filter (\<lambda>msg. msg \<noteq> []) (terminated_messages pods) of
             [] \<Rightarrow> no_output
           | msg # _ \<Rightarrow>
               (case gl_dec_task G msg of
                  None \<Rightarrow> no_output\<lparr>tro_Output := msg\<rparr>
                | Some parsed \<Rightarrow> if tro_Output parsed \<noteq> [] then parsed else no_output\<lparr>tro_Output := msg\<rparr>)))"

definition task_succeeded :: "golib \<Rightarrow> time \<Rightarrow> AgentRun \<Rightarrow> taskRunOutput \<Rightarrow> AgentRun" where
  "task_succeeded G now run result =
     set_cond G now
       (run\<lparr>run_Status := (run_Status run)\<lparr>rst_Phase := AgentRunPhaseSucceeded, rst_CompletionTime := Some now,
          rst_Output := tro_Output result,
          rst_Model := (if tro_Model result \<noteq> [] then tro_Model result else rst_Model (run_Status run)),
          rst_TraceID := (if tro_TraceID result \<noteq> [] then tro_TraceID result else rst_TraceID (run_Status run)),
          rst_ToolCalls := tro_Steps result\<rparr>\<rparr>)
       (complete_cond ''Succeeded'' [])"

definition task_failed :: "golib \<Rightarrow> time \<Rightarrow> AgentRun \<Rightarrow> taskRunOutput \<Rightarrow> AgentRun" where
  "task_failed G now run result =
     (let out = (if tro_Error result \<noteq> [] then tro_Error result else ''Job failed'') in
      set_cond G now
        (run\<lparr>run_Status := (run_Status run)\<lparr>rst_Phase := AgentRunPhaseFailed, rst_CompletionTime := Some now,
           rst_Output := out,
           rst_Model := (if tro_Model result \<noteq> [] then tro_Model result else rst_Model (run_Status run)),
           rst_TraceID := (if tro_TraceID result \<noteq> [] then tro_TraceID result else rst_TraceID (run_Status run))\<rparr>\<rparr>)
        (complete_cond ''Failed'' out))"

definition task_started :: "time \<Rightarrow> AgentRun \<Rightarrow> string \<Rightarrow> string \<Rightarrow> AgentRun" where
  "task_started now run jobName model =
     run\<lparr>run_Status := (run_Status run)\<lparr>rst_Phase := AgentRunPhaseRunning, rst_StartTime := Some now,
       rst_JobName := jobName, rst_Model := model\<rparr>\<rparr>"

text \<open>
  The first half of the branch that creates the Job: the git workspace and the per-run
  configuration. The result is an error, a failed run, or the workspace and the name of the
  per-run ConfigMap.
\<close>

datatype prep = PrepError apierr | PrepFailed string | PrepOK "GitWorkspaceConfig option" string

definition prepareGit :: "'w kube \<Rightarrow> golib \<Rightarrow> 'w \<Rightarrow> AgentRun \<Rightarrow> Agent \<Rightarrow> 'w \<times> prep" where
  "prepareGit K G w run agent =
     (case rs_Git (run_Spec run) of
        None \<Rightarrow> (w, PrepOK None [])
      | Some git \<Rightarrow>
          (case k_get_integration K w (om_Namespace (run_Meta run), rg_IntegrationRef git) of
             Inl e \<Rightarrow> (w, PrepFailed (''Integration '' @ go_quote (rg_IntegrationRef git) @ '' not found: '' @ err_text e))
           | Inr integration \<Rightarrow>
               (case ResolveGitWorkspace git integration of
                  Inl e \<Rightarrow> (w, PrepFailed (''git workspace config error: '' @ e))
                | Inr gitCfg \<Rightarrow>
                    (case k_get_configmap K w (om_Namespace (run_Meta run), ObjectName (om_Name (ag_Meta agent)) ''config'') of
                       Inl e \<Rightarrow> (w, PrepError (wrap_err ''get base config'' e))
                     | Inr baseConfigMap \<Rightarrow>
                         (case BuildAgentRunConfigMap (gl_codec G) baseConfigMap (om_Name (run_Meta run)) (GitToolEntries gitCfg) of
                            Inl e \<Rightarrow> (w, PrepError (ApiError (''build run config: '' @ e)))
                          | Inr runCM \<Rightarrow>
                              (case gl_set_owner G (run_Meta run) (cm_Meta runCM) of
                                 Inl e \<Rightarrow> (w, PrepError e)
                               | Inr m \<Rightarrow>
                                   (case k_create_configmap K w (runCM\<lparr>cm_Meta := m\<rparr>) of
                                      (w, Some e) \<Rightarrow>
                                        if \<not> IsAlreadyExists e then (w, PrepError (wrap_err ''create run config'' e))
                                        else (w, PrepOK (Some gitCfg) (om_Name m))
                                    | (w, None) \<Rightarrow> (w, PrepOK (Some gitCfg) (om_Name m)))))))))"

definition resolve_providers :: "'w kube \<Rightarrow> 'w \<Rightarrow> Agent \<Rightarrow> Provider list" where
  "resolve_providers K w agent =
     List.map_filter (\<lambda>ref. case k_get_provider K w (om_Namespace (ag_Meta agent), pb_Name ref) of
                              Inl _ \<Rightarrow> None | Inr p \<Rightarrow> Some p)
       (as_ProviderRefs (ag_Spec agent))"

definition createTaskJob :: "'w kube \<Rightarrow> golib \<Rightarrow> InfraConfig \<Rightarrow> 'w \<Rightarrow> AgentRun \<Rightarrow> Agent \<Rightarrow> Provider list \<Rightarrow>
    'w \<times> AgentRun \<times> (apierr + ctrl_result)" where
  "createTaskJob K G infra w run agent resolvedProviders =
     (case prepareGit K G w run agent of
        (w, PrepError e) \<Rightarrow> (w, run, Inl e)
      | (w, PrepFailed msg) \<Rightarrow> (w, setRunFailedStatus G (k_now K w) run msg, Inr done_result)
      | (w, PrepOK gitCfg runConfigMapName) \<Rightarrow>
          (let job = BuildAgentRunJob (gl_parseDuration G) run agent resolvedProviders gitCfg runConfigMapName infra in
           case gl_set_owner G (run_Meta run) (job_Meta job) of
             Inl e \<Rightarrow> (w, run, Inl e)
           | Inr m \<Rightarrow>
               (let job = job\<lparr>job_Meta := m\<lparr>om_Labels := (om_Labels m)(LabelAgent \<mapsto> om_Name (ag_Meta agent))\<rparr>\<rparr>;
                    started = (\<lambda>w. (w, task_started (k_now K w) run (om_Name (job_Meta job)) (as_Model (ag_Spec agent)),
                                     Inr requeue_result))
                in case k_create_job K w job of
                     (w, Some e) \<Rightarrow> if \<not> IsAlreadyExists e then (w, run, Inl e) else started w
                   | (w, None) \<Rightarrow> started w)))"

definition reconcileTaskRun :: "'w kube \<Rightarrow> golib \<Rightarrow> InfraConfig \<Rightarrow> 'w \<Rightarrow> AgentRun \<Rightarrow> Agent \<Rightarrow>
    'w \<times> AgentRun \<times> (apierr + ctrl_result)" where
  "reconcileTaskRun K G infra w run agent =
     (let resolvedProviders = resolve_providers K w agent in
      case k_get_job K w (run_key run) of
        Inl e \<Rightarrow> if IsNotFound e then createTaskJob K G infra w run agent resolvedProviders else (w, run, Inl e)
      | Inr existingJob \<Rightarrow>
          if 0 < job_Succeeded existingJob
          then (w, task_succeeded G (k_now K w) run (getJobOutput K G w existingJob), Inr done_result)
          else if 0 < job_Failed existingJob
          then (w, task_failed G (k_now K w) run (getJobOutput K G w existingJob), Inr done_result)
          else (w, run, Inr requeue_result))"

section \<open>Daemon runs\<close>

definition default_timeout :: duration where "default_timeout = 30 * 60 * 1000000000"

definition run_timeout :: "golib \<Rightarrow> Agent \<Rightarrow> duration" where
  "run_timeout G agent =
     (if as_Timeout (ag_Spec agent) \<noteq> []
      then (case gl_parseDuration G (as_Timeout (ag_Spec agent)) of
              None \<Rightarrow> default_timeout | Some d \<Rightarrow> if 0 < d then d else default_timeout)
      else default_timeout)"

text \<open>\<^verbatim>\<open>Duration.Round(time.Second)\<close> of a positive duration.\<close>

definition round_second :: "duration \<Rightarrow> duration" where
  "round_second d = (let r = d mod 1000000000 in
     if r + r < 1000000000 then d - r else d + (1000000000 - r))"

definition msg_timed_out :: "golib \<Rightarrow> duration \<Rightarrow> duration \<Rightarrow> string" where
  "msg_timed_out G elapsed timeout = ''Run timed out after '' @ gl_durationString G (round_second elapsed)
     @ '' (limit: '' @ gl_durationString G timeout @ '')''"

definition daemon_succeeded :: "golib \<Rightarrow> time \<Rightarrow> AgentRun \<Rightarrow> daemon_reply \<Rightarrow> AgentRun" where
  "daemon_succeeded G now run st =
     set_cond G now
       (run\<lparr>run_Status := (run_Status run)\<lparr>rst_Phase := AgentRunPhaseSucceeded, rst_CompletionTime := Some now,
          rst_Output := dr_Output st, rst_ToolCalls := dr_ToolCalls st, rst_TokensUsed := dr_TokensUsed st,
          rst_Cost := dr_Cost st, rst_Model := dr_Model st,
          rst_TraceID := (if dr_TraceID st \<noteq> [] then dr_TraceID st else rst_TraceID (run_Status run))\<rparr>\<rparr>)
       (complete_cond ''Succeeded'' [])"

definition status_request :: "Agent \<Rightarrow> agent_request" where
  "status_request agent = \<lparr>arq_Method = ''GET'', arq_URL = AgentServiceURL agent @ ''/status'',
     arq_Prompt = None, arq_Headers = []\<rparr>"

definition timed_out :: "golib \<Rightarrow> time \<Rightarrow> AgentRun \<Rightarrow> Agent \<Rightarrow> bool" where
  "timed_out G now run agent \<longleftrightarrow>
     (case rst_StartTime (run_Status run) of None \<Rightarrow> False | Some t \<Rightarrow> now - t > run_timeout G agent)"

definition pollDaemonRunStatus :: "'w kube \<Rightarrow> golib \<Rightarrow> 'w \<Rightarrow> AgentRun \<Rightarrow> Agent \<Rightarrow>
    'w \<times> AgentRun \<times> (apierr + ctrl_result)" where
  "pollDaemonRunStatus K G w run agent =
     (if timed_out G (k_now K w) run agent
      then (w, setRunFailedStatus G (k_now K w) run
              (msg_timed_out G (k_now K w - the (rst_StartTime (run_Status run))) (run_timeout G agent)), Inr done_result)
      else
        (case k_http K w (status_request agent) of
           (w, Inl e) \<Rightarrow> (w, run, Inr requeue_result)
         | (w, Inr resp) \<Rightarrow>
             (case gl_dec_status G (ars_Body resp) of
                None \<Rightarrow> (w, run, Inr requeue_result)
              | Some st \<Rightarrow>
                  if dr_Busy st then (w, run, Inr requeue_result)
                  else (w, daemon_succeeded G (k_now K w) run st, Inr done_result))))"

definition annotation_header :: "gomap \<Rightarrow> string \<Rightarrow> string \<Rightarrow> (string \<times> string) list" where
  "annotation_header annotations key n =
     (case annotations key of None \<Rightarrow> [] | Some v \<Rightarrow> if v \<noteq> [] then [(n, v)] else [])"

definition prompt_request :: "AgentRun \<Rightarrow> Agent \<Rightarrow> agent_request" where
  "prompt_request run agent =
     \<lparr>arq_Method = ''POST'', arq_URL = AgentServiceURL agent @ ''/prompt'',
      arq_Prompt = Some (rs_Prompt (run_Spec run)),
      arq_Headers = [(''Content-Type'', ''application/json'')]
        @ annotation_header (om_Annotations (run_Meta run)) AnnotationTraceparent ''Traceparent''
        @ annotation_header (om_Annotations (run_Meta run)) AnnotationParentAgent ''X-AgentOps-Parent-Agent''
        @ [(''X-AgentOps-Run-Name'', om_Name (run_Meta run))]\<rparr>"

definition daemon_started :: "time \<Rightarrow> AgentRun \<Rightarrow> string \<Rightarrow> AgentRun" where
  "daemon_started now run model =
     run\<lparr>run_Status := (run_Status run)\<lparr>rst_Phase := AgentRunPhaseRunning, rst_StartTime := Some now,
       rst_Model := model\<rparr>\<rparr>"

definition reconcileDaemonRun :: "'w kube \<Rightarrow> golib \<Rightarrow> 'w \<Rightarrow> AgentRun \<Rightarrow> Agent \<Rightarrow>
    'w \<times> AgentRun \<times> (apierr + ctrl_result)" where
  "reconcileDaemonRun K G w run agent =
     (if running run then pollDaemonRunStatus K G w run agent
      else
        (case k_http K w (prompt_request run agent) of
           (w, Inl e) \<Rightarrow> (w, run, Inr requeue_result)
         | (w, Inr resp) \<Rightarrow>
             if 400 \<le> ars_StatusCode resp
             then (w, setRunFailedStatus G (k_now K w) run
                     (''Agent returned '' @ int_str (ars_StatusCode resp) @ '': '' @ take 1048576 (ars_Body resp)),
                   Inr done_result)
             else
               (let (result, ok) = gl_dec_prompt G (ars_Body resp) in
                if dr_Output result \<noteq> []
                then (w, daemon_succeeded G (k_now K w) run result, Inr done_result)
                else (w, daemon_started (k_now K w) run (as_Model (ag_Spec agent)), Inr requeue_result))))"

section \<open>Reconcile\<close>

definition terminal :: "AgentRun \<Rightarrow> bool" where
  "terminal r \<longleftrightarrow> rst_Phase (run_Status r) = AgentRunPhaseSucceeded \<or> rst_Phase (run_Status r) = AgentRunPhaseFailed"

text \<open>Ensuring the agent label: an update of the main resource, whose response replaces the object.\<close>

definition ensureLabel :: "'w kube \<Rightarrow> 'w \<Rightarrow> AgentRun \<Rightarrow> Agent \<Rightarrow> 'w \<times> (apierr + AgentRun)" where
  "ensureLabel K w run agent =
     (if om_Labels (run_Meta run) LabelAgent \<noteq> Some (om_Name (ag_Meta agent))
      then k_update_run K w (run\<lparr>run_Meta := (run_Meta run)\<lparr>om_Labels :=
             (om_Labels (run_Meta run))(LabelAgent \<mapsto> om_Name (ag_Meta agent))\<rparr>\<rparr>)
      else (w, Inr run))"

definition waiting_cond :: "Agent \<Rightarrow> Condition" where
  "waiting_cond agent = new_cond ''AgentReady'' ConditionFalse ''AgentNotRunning''
     (''Agent '' @ go_quote (om_Name (ag_Meta agent)) @ '' is in phase ''
      @ go_quote (ast_Phase (ag_Status agent)) @ '', waiting for Running'')"

definition dispatch :: "'w kube \<Rightarrow> golib \<Rightarrow> InfraConfig \<Rightarrow> 'w \<Rightarrow> AgentRun \<Rightarrow> Agent \<Rightarrow>
    'w \<times> AgentRun \<times> (apierr + ctrl_result)" where
  "dispatch K G infra w run agent =
     (if as_Mode (ag_Spec agent) = AgentModeTask then reconcileTaskRun K G infra w run agent
      else if as_Mode (ag_Spec agent) = AgentModeDaemon then reconcileDaemonRun K G w run agent
      else (w, setRunFailedStatus G (k_now K w) run (''Unknown agent mode: '' @ as_Mode (ag_Spec agent)), Inr done_result))"

text \<open>From the concurrency check to the final patch.\<close>

definition reconcileAdmitted :: "'w kube \<Rightarrow> golib \<Rightarrow> InfraConfig \<Rightarrow> 'w \<Rightarrow> AgentRun \<Rightarrow> Agent \<Rightarrow> AgentRun \<Rightarrow>
    'w \<times> (apierr + ctrl_result)" where
  "reconcileAdmitted K G infra w run agent statusPatch =
     (case checkConcurrency K G w run agent statusPatch of
        (w, run, Inl e) \<Rightarrow> (w, Inl e)
      | (w, run, Inr allowed) \<Rightarrow>
          if \<not> allowed then (w, Inr requeue_result)
          else
            (let run = (if rst_Phase (run_Status run) = []
                        then run\<lparr>run_Status := (run_Status run)\<lparr>rst_Phase := AgentRunPhasePending\<rparr>\<rparr> else run)
             in case dispatch K G infra w run agent of
                  (w, run, outcome) \<Rightarrow>
                    (case patchStatus K G w run statusPatch of
                       (w, Some e) \<Rightarrow> (w, Inl e)
                     | (w, None) \<Rightarrow> (w, outcome))))"

definition daemon_not_ready :: "AgentRun \<Rightarrow> Agent \<Rightarrow> bool" where
  "daemon_not_ready run agent \<longleftrightarrow> as_Mode (ag_Spec agent) = AgentModeDaemon \<and> \<not> running run \<and>
     ast_Phase (ag_Status agent) \<noteq> AgentPhaseRunning"

definition Reconcile :: "'w kube \<Rightarrow> golib \<Rightarrow> InfraConfig \<Rightarrow> 'w \<Rightarrow> nsname \<Rightarrow> 'w \<times> (apierr + ctrl_result)" where
  "Reconcile K G infra w req =
     (case k_get_run K w req of
        Inl e \<Rightarrow> if IsNotFound e then (w, Inr done_result) else (w, Inl e)
      | Inr run \<Rightarrow>
          if terminal run then (w, Inr done_result)
          else
            (let statusPatch = run in
             case k_get_agent K w (om_Namespace (run_Meta run), rs_AgentRef (run_Spec run)) of
               Inl e \<Rightarrow>
                 (case patchStatus K G w (setRunFailedStatus G (k_now K w) run
                          (''Agent '' @ go_quote (rs_AgentRef (run_Spec run)) @ '' not found'')) statusPatch of
                    (w, Some e) \<Rightarrow> (w, Inl e)
                  | (w, None) \<Rightarrow> (w, Inr done_result))
             | Inr agent \<Rightarrow>
                 (case ensureLabel K w run agent of
                    (w, Inl e) \<Rightarrow> (w, Inl e)
                  | (w, Inr run) \<Rightarrow>
                      (let run = run\<lparr>run_Status := (run_Status run)\<lparr>rst_Mode := as_Mode (ag_Spec agent)\<rparr>\<rparr> in
                       if daemon_not_ready run agent then
                         (if rst_Phase (run_Status run) \<noteq> AgentRunPhasePending then
                            (let run = set_cond G (k_now K w)
                                   (run\<lparr>run_Status := (run_Status run)\<lparr>rst_Phase := AgentRunPhasePending\<rparr>\<rparr>)
                                   (waiting_cond agent)
                             in case patchStatus K G w run statusPatch of
                                  (w, Some e) \<Rightarrow> (w, Inl e)
                                | (w, None) \<Rightarrow> (w, Inr requeue_result))
                          else (w, Inr requeue_result))
                       else reconcileAdmitted K G infra w run agent statusPatch))))"

end
