(* ===== verification/AgentRun_Proofs.thy ===== *)
theory AgentRun_Proofs
  imports AgentRun_Controller
begin

text \<open>
  The AgentRun reconciler against its contract. A reconcile is described by what it does to
  the stored runs: every run evolves by \<open>run_evolves\<close>, and the runs as a whole take one step
  of \<open>reconcile_effect\<close>. The lemmas are proved once from the laws of the API server and of
  the library functions.
\<close>

section \<open>The contract\<close>

definition completed :: "AgentRun \<Rightarrow> bool" where
  "completed r \<longleftrightarrow> terminal r \<and> rst_CompletionTime (run_Status r) \<noteq> None \<and>
     map_option c_Status (find_cond AgentRunConditionComplete (rst_Conditions (run_Status r))) = Some ConditionTrue"

definition started :: "AgentRun \<Rightarrow> bool" where
  "started r \<longleftrightarrow> running r \<and> rst_StartTime (run_Status r) \<noteq> None"

text \<open>The change of the in-memory object by a dispatch.\<close>

definition status_step :: "AgentRun \<Rightarrow> AgentRun \<Rightarrow> bool" where
  "status_step r r' \<longleftrightarrow> run_Meta r' = run_Meta r \<and> run_Spec r' = run_Spec r \<and>
     rst_Outcome (run_Status r') = rst_Outcome (run_Status r) \<and>
     (r' = r \<or> completed r' \<or> started r')"

definition run_label :: "AgentRun \<Rightarrow> string option" where
  "run_label r = om_Labels (run_Meta r) LabelAgent"

definition labelled :: "string \<Rightarrow> AgentRun \<Rightarrow> AgentRun" where
  "labelled a r = r\<lparr>run_Meta := (run_Meta r)\<lparr>om_Labels := (om_Labels (run_Meta r))(LabelAgent \<mapsto> a)\<rparr>\<rparr>"

definition run_evolves :: "AgentRun \<Rightarrow> AgentRun \<Rightarrow> bool" where
  "run_evolves r r' \<longleftrightarrow> r' = r \<or>
     \<not> terminal r \<and> run_key r' = run_key r \<and> run_Spec r' = run_Spec r \<and>
     rst_Outcome (run_Status r') = rst_Outcome (run_Status r) \<and>
     (terminal r' \<longrightarrow> completed r') \<and> (running r' \<longrightarrow> running r \<or> started r')"

lemma terminal_not_running: "terminal r \<Longrightarrow> \<not> running r"
  by (auto simp: terminal_def running_def)

lemma labelled_sel [simp]:
  "run_Status (labelled a r) = run_Status r" "run_Spec (labelled a r) = run_Spec r"
  "run_key (labelled a r) = run_key r" "run_label (labelled a r) = Some a"
  "terminal (labelled a r) = terminal r" "running (labelled a r) = running r"
  by (simp_all add: labelled_def run_key_def meta_key_def run_label_def terminal_def running_def)

lemma labelled_id: "run_label r = Some a \<Longrightarrow> labelled a r = r"
proof -
  assume "run_label r = Some a"
  then have "(om_Labels (run_Meta r))(LabelAgent \<mapsto> a) = om_Labels (run_Meta r)"
    by (auto simp: run_label_def fun_eq_iff)
  then show ?thesis by (simp add: labelled_def)
qed

text \<open>
  The running runs of an agent in a namespace, and what one reconcile of the run \<open>key\<close> does to
  the stored runs: nothing, set the agent label, move the run to a state that is not running,
  admit it below the limit, or admit it after cancelling another running run of the agent.
\<close>

definition active :: "(nsname \<rightharpoonup> AgentRun) \<Rightarrow> string \<Rightarrow> string \<Rightarrow> nsname set" where
  "active M ns a = {k. fst k = ns \<and> (\<exists>r. M k = Some r \<and> running r \<and> run_label r = Some a)}"

inductive reconcile_effect ::
  "Agent option \<Rightarrow> nsname \<Rightarrow> (nsname \<rightharpoonup> AgentRun) \<Rightarrow> (nsname \<rightharpoonup> AgentRun) \<Rightarrow> bool" for ag key where
  eff_skip: "reconcile_effect ag key M M"
| eff_label: "\<lbrakk>M key = Some r; \<not> terminal r; ag = Some agent\<rbrakk> \<Longrightarrow>
    reconcile_effect ag key M (M(key \<mapsto> labelled (om_Name (ag_Meta agent)) r))"
| eff_idle: "\<lbrakk>M key = Some r; run_evolves r r'; \<not> running r'\<rbrakk> \<Longrightarrow>
    reconcile_effect ag key M (M(key \<mapsto> r'))"
| eff_admit: "\<lbrakk>M key = Some r; \<not> terminal r; ag = Some agent; run_evolves r r';
    run_label r' = Some (om_Name (ag_Meta agent));
    int (card (active M (fst key) (om_Name (ag_Meta agent)) - {key})) < max_runs agent \<or>
      run_policy agent \<notin> {''queue'', ''reject'', ''replace''}\<rbrakk> \<Longrightarrow>
    reconcile_effect ag key M (M(key \<mapsto> r'))"
| eff_replace: "\<lbrakk>M key = Some r; \<not> terminal r; ag = Some agent; run_policy agent = ''replace''; run_evolves r r';
    run_label r' = Some (om_Name (ag_Meta agent));
    k \<in> active M (fst key) (om_Name (ag_Meta agent)); k \<noteq> key; M k = Some v; run_evolves v v'; completed v'\<rbrakk> \<Longrightarrow>
    reconcile_effect ag key M (M(key \<mapsto> r', k \<mapsto> v'))"

text \<open>The object a reconcile works on, against the stored run.\<close>

definition view_of :: "AgentRun \<Rightarrow> AgentRun \<Rightarrow> bool" where
  "view_of r run \<longleftrightarrow> run_Meta run = run_Meta r \<and> run_Spec run = run_Spec r \<and>
     rst_Outcome (run_Status run) = rst_Outcome (run_Status r) \<and> \<not> terminal run \<and> (running run \<longrightarrow> running r)"

lemma completed_status: "completed (r\<lparr>run_Status := run_Status r'\<rparr>) = completed r'"
  "started (r\<lparr>run_Status := run_Status r'\<rparr>) = started r'"
  "terminal (r\<lparr>run_Status := run_Status r'\<rparr>) = terminal r'"
  "running (r\<lparr>run_Status := run_Status r'\<rparr>) = running r'"
  by (simp_all add: completed_def started_def terminal_def running_def)

lemma evolves_status:
  assumes "view_of r run" "status_step run run'" "\<not> terminal r"
  shows "run_evolves r (r\<lparr>run_Status := run_Status run'\<rparr>)"
  using assms
  by (auto simp: run_evolves_def view_of_def status_step_def completed_status run_key_def
      started_def completed_def dest: terminal_not_running)

lemma active_upd:
  "active (M(key \<mapsto> r)) ns a - {key} = active M ns a - {key}"
  by (auto simp: active_def)

lemma evolves_labelled: "run_evolves (labelled a r) r' \<Longrightarrow> \<not> terminal r \<Longrightarrow> run_evolves r r'"
  by (auto simp: run_evolves_def)

lemma effect_after_label:
  assumes "reconcile_effect (Some agent) key (M(key \<mapsto> labelled (om_Name (ag_Meta agent)) r)) M'"
    and "M key = Some r" "\<not> terminal r"
  shows "reconcile_effect (Some agent) key M M'"
  using assms(1)
proof (cases rule: reconcile_effect.cases)
  case eff_skip
  then show ?thesis using assms(2,3) by (auto intro: eff_label)
next
  case (eff_label r1 agent1)
  then have "M' = M(key \<mapsto> labelled (om_Name (ag_Meta agent)) r)"
    by (auto simp: labelled_id)
  then show ?thesis using assms(2,3) by (auto intro: reconcile_effect.eff_label)
next
  case (eff_idle r1 r')
  then have "run_evolves r r'" "M' = M(key \<mapsto> r')" using evolves_labelled assms(3) by auto
  then show ?thesis using assms(2) eff_idle by (auto intro: reconcile_effect.eff_idle)
next
  case (eff_admit r1 agent1 r')
  then have "run_evolves r r'" "M' = M(key \<mapsto> r')" using evolves_labelled assms(3) by auto
  then show ?thesis using assms(2,3) eff_admit by (auto simp: active_upd intro!: reconcile_effect.eff_admit)
next
  case (eff_replace r1 agent1 r' k v v')
  then have "run_evolves r r'" "M' = M(key \<mapsto> r', k \<mapsto> v')" using evolves_labelled assms(3) by auto
  moreover have "k \<in> active M (fst key) (om_Name (ag_Meta agent))"
    using eff_replace active_upd[of M key] by auto
  ultimately show ?thesis
    using assms(2,3) eff_replace by (auto intro!: reconcile_effect.eff_replace)
qed

section \<open>Reconciling over a lawful API server\<close>

locale run_reconciler = kube_runs K runs + golib_laws G
  for K :: "'w kube" and runs :: "'w \<Rightarrow> nsname \<rightharpoonup> AgentRun" and G :: golib
begin

lemma set_cond_complete [simp]:
  "map_option c_Status (find_cond AgentRunConditionComplete
     (rst_Conditions (run_Status (set_cond G t r (complete_cond reason msg))))) = Some ConditionTrue"
  using set_condition_same[of "complete_cond reason msg" t "rst_Conditions (run_Status r)"]
  by (auto simp: set_cond_def complete_cond_def new_cond_def same_condition_def)

lemma set_cond_sel [simp]:
  "run_Meta (set_cond G t r c) = run_Meta r" "run_Spec (set_cond G t r c) = run_Spec r"
  "rst_Phase (run_Status (set_cond G t r c)) = rst_Phase (run_Status r)"
  "rst_Outcome (run_Status (set_cond G t r c)) = rst_Outcome (run_Status r)"
  "rst_CompletionTime (run_Status (set_cond G t r c)) = rst_CompletionTime (run_Status r)"
  "rst_StartTime (run_Status (set_cond G t r c)) = rst_StartTime (run_Status r)"
  "rst_Output (run_Status (set_cond G t r c)) = rst_Output (run_Status r)"
  by (simp_all add: set_cond_def)

lemma final_steps:
  "status_step r (setRunFailedStatus G t r msg)" "status_step r (task_succeeded G t r res)"
  "status_step r (task_failed G t r res)" "status_step r (daemon_succeeded G t r st)"
  "completed (cancelled_status G t c r)" "completed (setRunFailedStatus G t r msg)"
  "completed (task_succeeded G t r res)" "completed (task_failed G t r res)"
  by (simp_all add: status_step_def completed_def terminal_def setRunFailedStatus_def task_succeeded_def
      task_failed_def daemon_succeeded_def cancelled_status_def Let_def)

lemma start_steps:
  "status_step r (task_started t r j m)" "status_step r (daemon_started t r m)" "status_step r r"
  by (simp_all add: status_step_def started_def running_def task_started_def daemon_started_def)

lemmas steps = final_steps start_steps

lemma prepareGit_runs: "prepareGit K G w run agent = (w', p) \<Longrightarrow> runs w' = runs w"
  by (auto simp: prepareGit_def split: option.splits sum.splits prod.splits if_splits dest: create_configmap_runs)

lemma createTaskJob_step:
  assumes "createTaskJob K G infra w run agent ps = (w', run', out)"
  shows "runs w' = runs w \<and> status_step run run'"
proof -
  obtain w1 p where p: "prepareGit K G w run agent = (w1, p)" by fastforce
  show ?thesis
    using assms prepareGit_runs[OF p] steps
    by (auto simp: createTaskJob_def p Let_def split: prep.splits sum.splits prod.splits option.splits if_splits
        dest: create_job_runs)
qed

lemma reconcileTaskRun_step:
  "reconcileTaskRun K G infra w run agent = (w', run', out) \<Longrightarrow> runs w' = runs w \<and> status_step run run'"
  using createTaskJob_step steps
  by (auto simp: reconcileTaskRun_def Let_def split: sum.splits if_splits)

lemma pollDaemonRunStatus_step:
  "pollDaemonRunStatus K G w run agent = (w', run', out) \<Longrightarrow> runs w' = runs w \<and> status_step run run'"
  using steps
  by (auto simp: pollDaemonRunStatus_def split: sum.splits if_splits prod.splits option.splits dest: http_runs)

lemma reconcileDaemonRun_step:
  "reconcileDaemonRun K G w run agent = (w', run', out) \<Longrightarrow> runs w' = runs w \<and> status_step run run'"
  using steps pollDaemonRunStatus_step
  by (auto simp: reconcileDaemonRun_def split: sum.splits if_splits prod.splits dest: http_runs)

lemma dispatch_step:
  "dispatch K G infra w run agent = (w', run', out) \<Longrightarrow> runs w' = runs w \<and> status_step run run'"
  using steps reconcileTaskRun_step reconcileDaemonRun_step
  by (auto simp: dispatch_def split: if_splits)

text \<open>
  A status patch whose base has the stored status stores the object's status, or fails and
  changes nothing.
\<close>

lemma patchStatus_effect:
  assumes "patchStatus K G w obj base = (w', e)" "runs w (run_key obj) = Some old"
    "run_Status base = run_Status old"
  shows "if e = None then runs w' = (runs w)(run_key obj \<mapsto> old\<lparr>run_Status := run_Status obj\<rparr>)
         else runs w' = runs w"
proof -
  obtain d where d: "gl_run_patch_data G base obj = Inr d" using patch_data_total by blast
  show ?thesis
  proof (cases "length d \<le> 2")
    case True
    then have "base = obj" using patch_data_empty[OF d] by simp
    then have "old\<lparr>run_Status := run_Status obj\<rparr> = old" using assms(3) by simp
    then show ?thesis using assms(1,2) True d by (auto simp: patchStatus_def fun_eq_iff)
  next
    case False
    then have "k_patch_run_status K w base obj = (w', e)"
      using assms(1) d by (auto simp: patchStatus_def split: if_splits)
    then show ?thesis
      using patch_status_ok[of w base obj w'] patch_status_err[of w base obj w'] assms(2,3)
      by (cases e) auto
  qed
qed

text \<open>The list that the concurrency check counts is the set of other active runs.\<close>

lemma other_running_active:
  assumes "k_list_runs K w (fst key) LabelAgent a = Inr rl" "run_key run = key"
  shows "run_key ` set (other_running run rl) = active (runs w) (fst key) a - {key}"
    and "card (active (runs w) (fst key) a - {key}) = length (other_running run rl)"
proof -
  have rl: "set rl = {r. \<exists>n. runs w (fst key, n) = Some r \<and> run_label r = Some a}" "distinct rl"
    using list_runs[OF assms(1)] by (auto simp: run_label_def)
  have names: "om_Name (run_Meta r) \<noteq> om_Name (run_Meta run) \<longleftrightarrow> k \<noteq> key"
    if "runs w k = Some r" "fst k = fst key" for r k
    using runs_key[OF that(1)] that(2) assms(2) by (auto simp: run_key_def meta_key_def prod_eq_iff)
  show eq: "run_key ` set (other_running run rl) = active (runs w) (fst key) a - {key}"
  proof (intro set_eqI iffI)
    fix k assume "k \<in> run_key ` set (other_running run rl)"
    then obtain r n where r: "runs w (fst key, n) = Some r" "run_label r = Some a" "k = run_key r" "running r"
      "om_Name (run_Meta r) \<noteq> om_Name (run_Meta run)"
      by (auto simp: other_running_def rl)
    then show "k \<in> active (runs w) (fst key) a - {key}"
      using runs_key[OF r(1)] names[OF r(1)] by (auto simp: active_def)
  next
    fix k assume "k \<in> active (runs w) (fst key) a - {key}"
    then obtain r where r: "runs w k = Some r" "fst k = fst key" "running r" "run_label r = Some a" "k \<noteq> key"
      by (auto simp: active_def)
    then have "r \<in> set (other_running run rl)"
      using names[OF r(1,2)] by (auto simp: other_running_def rl) (metis prod.collapse)
    then show "k \<in> run_key ` set (other_running run rl)" using runs_key[OF r(1)] by force
  qed
  have "inj_on run_key (set (other_running run rl))"
    by (auto simp: inj_on_def other_running_def rl) (metis option.inject runs_key)
  then show "card (active (runs w) (fst key) a - {key}) = length (other_running run rl)"
    using rl(2) distinct_card[of "other_running run rl"] by (simp flip: eq add: card_image) (simp add: other_running_def)
qed

lemma cancelled_evolves: "running v \<Longrightarrow> run_evolves v (v\<lparr>run_Status := run_Status (cancelled_status G t c v)\<rparr>)"
  "completed (v\<lparr>run_Status := run_Status (cancelled_status G t c v)\<rparr>)"
proof -
  have st: "completed (v\<lparr>run_Status := run_Status (cancelled_status G t c v)\<rparr>)"
    using final_steps(5)[of t c v] by (simp add: completed_def terminal_def)
  then show "completed (v\<lparr>run_Status := run_Status (cancelled_status G t c v)\<rparr>)" .
  show "running v \<Longrightarrow> run_evolves v (v\<lparr>run_Status := run_Status (cancelled_status G t c v)\<rparr>)"
    using st by (auto simp: run_evolves_def run_key_def cancelled_status_def terminal_def running_def)
qed

lemma patchStatus_error: "patchStatus K G w obj base = (w', Some e) \<Longrightarrow> runs w' = runs w"
  using patch_status_err by (auto simp: patchStatus_def split: sum.splits if_splits)

lemma cancel_error: "cancelOldestRun K G w run rl = (w', Some e) \<Longrightarrow> runs w' = runs w"
  using patchStatus_error by (auto simp: cancelOldestRun_def split: list.splits)

lemma cancelOldestRun_effect:
  assumes list: "k_list_runs K w (fst key) LabelAgent a = Inr rl" and key: "run_key run = key"
    and some: "other_running run rl \<noteq> []" and c: "cancelOldestRun K G w run rl = (w', None)"
  obtains k v where "k \<in> active (runs w) (fst key) a" "k \<noteq> key" "runs w k = Some v" "running v"
    "runs w' = (runs w)(k \<mapsto> v\<lparr>run_Status := run_Status (cancelled_status G (k_now K w) run v)\<rparr>)"
proof -
  let ?s = "gl_sort_runs G (other_running run rl)"
  have "?s \<noteq> []" using some sort_runs_set[of "other_running run rl"] by force
  then obtain v vs where s: "?s = v # vs" by (cases ?s) auto
  then have v: "v \<in> set (other_running run rl)"
    using sort_runs_set[of "other_running run rl"] by force
  then have act: "run_key v \<in> active (runs w) (fst key) a - {key}"
    using other_running_active(1)[OF list key] by blast
  have run: "running v" using v by (simp add: other_running_def)
  have st: "runs w (run_key v) = Some v"
    using v list_runs[OF list] runs_key by (fastforce simp: other_running_def)
  let ?o = "cancelled_status G (k_now K w) run v"
  have ko: "run_key ?o = run_key v" by (simp add: cancelled_status_def run_key_def)
  have p: "patchStatus K G w ?o v = (w', None)" using c s by (simp add: cancelOldestRun_def)
  have "runs w' = (runs w)(run_key v \<mapsto> v\<lparr>run_Status := run_Status ?o\<rparr>)"
    using patchStatus_effect[OF p, of v] st ko by simp
  then show thesis using that[OF _ _ st run] act by blast
qed

text \<open>A patch that leaves the run in a state other than running is an idle step.\<close>

lemma patch_idle:
  assumes "patchStatus K G w obj base = (w', e)" "runs w key = Some r" "run_key obj = key"
    "run_Status base = run_Status r" "run_evolves r (r\<lparr>run_Status := run_Status obj\<rparr>)"
    "\<not> running (r\<lparr>run_Status := run_Status obj\<rparr>)"
  shows "reconcile_effect ag key (runs w) (runs w')"
proof -
  have "if e = None then runs w' = (runs w)(key \<mapsto> r\<lparr>run_Status := run_Status obj\<rparr>) else runs w' = runs w"
    using patchStatus_effect[OF assms(1), of r] assms(2-4) by simp
  then show ?thesis
    using eff_idle[where M = "runs w" and key = key, OF assms(2,5,6)] by (cases e) (simp_all add: eff_skip)
qed

lemma queued_step:
  "view_of r run \<Longrightarrow> \<not> terminal r \<Longrightarrow> run_evolves r (r\<lparr>run_Status := (run_Status run)\<lparr>rst_Phase := AgentRunPhaseQueued\<rparr>\<rparr>)"
  "\<not> running (r\<lparr>run_Status := (run_Status run)\<lparr>rst_Phase := AgentRunPhaseQueued\<rparr>\<rparr>)"
  by (auto simp: run_evolves_def view_of_def run_key_def terminal_def running_def)

text \<open>The policies at the limit: the run is queued or rejected, or it displaces the oldest one.\<close>

lemma failed_not_running: "\<not> running (r\<lparr>run_Status := run_Status (setRunFailedStatus G t run msg)\<rparr>)"
  using final_steps(6)[of t run msg] by (auto simp: completed_status completed_def dest: terminal_not_running)

lemma concurrency_refused:
  assumes st: "runs w key = Some r" and v: "view_of r run" and nt: "\<not> terminal r"
    and base: "run_Status base = run_Status r"
    and list: "k_list_runs K w (fst key) LabelAgent (om_Name (ag_Meta agent)) = Inr rl"
    and full: "int (length (other_running run rl)) \<ge> max_runs agent"
    and policy: "run_policy agent \<in> {''queue'', ''reject''}"
    and c: "checkConcurrency K G w run agent base = (w', run', res)"
  shows "res \<noteq> Inr True \<and> reconcile_effect (Some agent) key (runs w) (runs w')"
proof -
  let ?q = "run\<lparr>run_Status := (run_Status run)\<lparr>rst_Phase := AgentRunPhaseQueued\<rparr>\<rparr>"
  let ?f = "setRunFailedStatus G (k_now K w) run ''Rejected: max concurrent runs exceeded''"
  have rk: "run_key run = key" using v runs_key[OF st] by (auto simp: view_of_def run_key_def)
  have ns: "om_Namespace (run_Meta run) = fst key" using rk by (auto simp: run_key_def meta_key_def)
  have k: "run_key ?q = key" "run_key ?f = key" using rk by (simp_all add: run_key_def setRunFailedStatus_def)
  obtain w1 e1 where q: "patchStatus K G w ?q base = (w1, e1)" by fastforce
  obtain w2 e2 where f: "patchStatus K G w ?f base = (w2, e2)" by fastforce
  have "reconcile_effect (Some agent) key (runs w) (runs w1)"
    by (rule patch_idle[OF q st k(1) base]) (simp_all add: queued_step(1)[OF v nt] queued_step(2))
  moreover have "reconcile_effect (Some agent) key (runs w) (runs w2)"
    by (rule patch_idle[OF f st k(2) base evolves_status[OF v final_steps(1) nt] failed_not_running])
  ultimately show ?thesis
    using c ns list full policy q f
    by (auto simp: checkConcurrency_def Let_def intro: eff_skip split: if_splits option.splits)
qed

lemma concurrency_replaced:
  assumes rk: "run_key run = key"
    and list: "k_list_runs K w (fst key) LabelAgent (om_Name (ag_Meta agent)) = Inr rl"
    and full: "int (length (other_running run rl)) \<ge> max_runs agent" and policy: "run_policy agent = ''replace''"
    and c: "checkConcurrency K G w run agent base = (w', run', res)"
  shows "case res of Inl e \<Rightarrow> runs w' = runs w
    | Inr b \<Rightarrow> b \<and> run' = run \<and>
        (\<exists>k v v'. k \<in> active (runs w) (fst key) (om_Name (ag_Meta agent)) \<and> k \<noteq> key \<and> runs w k = Some v \<and>
            run_evolves v v' \<and> completed v' \<and> runs w' = (runs w)(k \<mapsto> v'))"
proof -
  have ns: "om_Namespace (run_Meta run) = fst key" using rk by (auto simp: run_key_def meta_key_def)
  obtain w1 e where p: "cancelOldestRun K G w run rl = (w1, e)" by fastforce
  show ?thesis
  proof (cases e)
    case None
    have "other_running run rl \<noteq> []" using full by (auto simp: max_runs_def split: option.splits if_splits)
    then obtain k v where k: "k \<in> active (runs w) (fst key) (om_Name (ag_Meta agent))" "k \<noteq> key"
      "runs w k = Some v" "running v"
      "runs w1 = (runs w)(k \<mapsto> v\<lparr>run_Status := run_Status (cancelled_status G (k_now K w) run v)\<rparr>)"
      using cancelOldestRun_effect[OF list rk] p None by blast
    have "res = Inr True" "run' = run" "w' = w1"
      using c ns list full policy p None by (simp_all add: checkConcurrency_def)
    then show ?thesis
      using k cancelled_evolves(1)[OF k(4)] cancelled_evolves(2) by (simp only: sum.case) blast
  next
    case (Some err)
    then have "runs w1 = runs w" using p cancel_error by blast
    then show ?thesis using c ns list full policy p Some by (auto simp: checkConcurrency_def)
  qed
qed

text \<open>What the concurrency check does to the stored runs, and when it admits the run.\<close>

lemma checkConcurrency_effect:
  assumes st: "runs w key = Some r" and v: "view_of r run" and nt: "\<not> terminal r"
    and base: "run_Status base = run_Status r"
    and c: "checkConcurrency K G w run agent base = (w', run', res)"
  shows "case res of
      Inl e \<Rightarrow> reconcile_effect (Some agent) key (runs w) (runs w')
    | Inr False \<Rightarrow> reconcile_effect (Some agent) key (runs w) (runs w')
    | Inr True \<Rightarrow> run' = run \<and>
        (runs w' = runs w \<and>
           (int (card (active (runs w) (fst key) (om_Name (ag_Meta agent)) - {key})) < max_runs agent \<or>
            run_policy agent \<notin> {''queue'', ''reject'', ''replace''}) \<or>
         run_policy agent = ''replace'' \<and>
         (\<exists>k v v'. k \<in> active (runs w) (fst key) (om_Name (ag_Meta agent)) \<and> k \<noteq> key \<and> runs w k = Some v \<and>
            run_evolves v v' \<and> completed v' \<and> runs w' = (runs w)(k \<mapsto> v')))"
proof -
  have rk: "run_key run = key" using v runs_key[OF st] by (auto simp: view_of_def run_key_def)
  have ns: "om_Namespace (run_Meta run) = fst key" using rk by (auto simp: run_key_def meta_key_def)
  show ?thesis
  proof (cases "k_list_runs K w (fst key) LabelAgent (om_Name (ag_Meta agent))")
    case (Inl e)
    then show ?thesis using c ns by (auto simp: checkConcurrency_def intro: eff_skip)
  next
    case (Inr rl)
    consider (below) "int (length (other_running run rl)) < max_runs agent \<or>
          run_policy agent \<notin> {''queue'', ''reject'', ''replace''}"
      | (refused) "int (length (other_running run rl)) \<ge> max_runs agent" "run_policy agent \<in> {''queue'', ''reject''}"
      | (replaced) "int (length (other_running run rl)) \<ge> max_runs agent" "run_policy agent = ''replace''"
      by force
    then show ?thesis
    proof cases
      case below
      then have "w' = w" "run' = run" "res = Inr True"
        using c ns Inr by (auto simp: checkConcurrency_def split: if_splits)
      then show ?thesis using below other_running_active(2)[OF Inr rk] by simp
    next
      case refused
      then show ?thesis using concurrency_refused[OF st v nt base Inr refused c] by (auto split: sum.split bool.split)
    next
      case replaced
      show ?thesis
        using concurrency_replaced[OF rk Inr replaced c] replaced(2) by (auto intro: eff_skip split: sum.split bool.split)
    qed
  qed
qed

lemma pending_view:
  "view_of r run \<Longrightarrow> \<not> terminal r \<Longrightarrow>
   view_of r (if rst_Phase (run_Status run) = []
              then run\<lparr>run_Status := (run_Status run)\<lparr>rst_Phase := AgentRunPhasePending\<rparr>\<rparr> else run)"
  by (auto simp: view_of_def terminal_def running_def)

lemma reconcileAdmitted_effect:
  assumes st: "runs w key = Some r" and v: "view_of r run" and nt: "\<not> terminal r"
    and base: "run_Status base = run_Status r" and lab: "run_label r = Some (om_Name (ag_Meta agent))"
    and c: "reconcileAdmitted K G infra w run agent base = (w', res)"
  shows "reconcile_effect (Some agent) key (runs w) (runs w')"
proof -
  obtain w1 run1 res1 where cc: "checkConcurrency K G w run agent base = (w1, run1, res1)" by (metis prod_cases3)
  note eff = checkConcurrency_effect[OF st v nt base cc]
  show ?thesis
  proof (cases "res1 = Inr True")
    case False
    then have "w' = w1" using c cc by (cases res1) (auto simp: reconcileAdmitted_def)
    then show ?thesis using eff False by (cases res1) (auto split: bool.splits)
  next
    case True
    let ?run = "if rst_Phase (run_Status run) = []
              then run\<lparr>run_Status := (run_Status run)\<lparr>rst_Phase := AgentRunPhasePending\<rparr>\<rparr> else run"
    have run1: "run1 = run" using eff True by simp
    obtain w2 run2 out where d: "dispatch K G infra w1 ?run agent = (w2, run2, out)" by (metis prod_cases3)
    have w2: "runs w2 = runs w1" and step: "status_step ?run run2" using dispatch_step[OF d] by blast+
    obtain w3 e where p: "patchStatus K G w2 run2 base = (w3, e)" by fastforce
    have w': "w' = w3" using c cc True run1 d p by (auto simp: reconcileAdmitted_def Let_def split: option.splits)
    have k2: "run_key run2 = key"
      using step v runs_key[OF st] by (auto simp: status_step_def view_of_def run_key_def split: if_splits)
    have same: "runs w2 key = Some r" using eff True w2 st by auto
    let ?r' = "r\<lparr>run_Status := run_Status run2\<rparr>"
    have ev: "run_evolves r ?r'" by (rule evolves_status[OF pending_view[OF v nt] step nt])
    have lab': "run_label ?r' = Some (om_Name (ag_Meta agent))" using lab by (simp add: run_label_def)
    have fin: "runs w' = (runs w1)(key \<mapsto> ?r') \<or> runs w' = runs w1"
      using patchStatus_effect[OF p, of r] same k2 base w2 w' by (cases e) auto
    have self: "run_evolves r r" by (simp add: run_evolves_def)
    have keep: "(runs w)(key \<mapsto> r) = runs w" using st by (simp add: map_upd_triv)
    from eff True consider
      (below) "runs w1 = runs w"
        "int (card (active (runs w) (fst key) (om_Name (ag_Meta agent)) - {key})) < max_runs agent \<or>
            run_policy agent \<notin> {''queue'', ''reject'', ''replace''}"
      | (repl) k v v' where "run_policy agent = ''replace''"
          "k \<in> active (runs w) (fst key) (om_Name (ag_Meta agent))" "k \<noteq> key" "runs w k = Some v"
          "run_evolves v v'" "completed v'" "runs w1 = (runs w)(k \<mapsto> v')"
      by auto
    then show ?thesis
    proof cases
      case below
      then show ?thesis
        using fin eff_admit[where M = "runs w" and key = key, OF st nt refl ev lab' below(2)] by (auto intro: eff_skip)
    next
      case repl
      have "runs w' = (runs w)(key \<mapsto> ?r', k \<mapsto> v') \<or> runs w' = (runs w)(key \<mapsto> r, k \<mapsto> v')"
        using fin repl(3,7) keep by (auto simp: fun_upd_twist)
      then show ?thesis
        using eff_replace[where M = "runs w" and key = key, OF st nt refl repl(1) ev lab' repl(2-6)]
          eff_replace[where M = "runs w" and key = key, OF st nt refl repl(1) self lab repl(2-6)] by auto
    qed
  qed
qed

lemma ensureLabel_effect:
  assumes st: "runs w key = Some r" and e: "ensureLabel K w r agent = (w', res)"
  shows "case res of Inl _ \<Rightarrow> runs w' = runs w
    | Inr r1 \<Rightarrow> r1 = labelled (om_Name (ag_Meta agent)) r \<and> runs w' = (runs w)(key \<mapsto> r1)"
proof (cases "run_label r = Some (om_Name (ag_Meta agent))")
  case True
  then have "labelled (om_Name (ag_Meta agent)) r = r" by (rule labelled_id)
  then show ?thesis using e st True by (auto simp: ensureLabel_def run_label_def map_upd_triv)
next
  case False
  let ?l = "labelled (om_Name (ag_Meta agent)) r"
  have u: "k_update_run K w ?l = (w', res)"
    using e False by (simp add: ensureLabel_def run_label_def labelled_def)
  have k: "run_key ?l = key" using runs_key[OF st] by simp
  show ?thesis
  proof (cases res)
    case (Inl e)
    then show ?thesis using update_run_err u by simp
  next
    case (Inr r1)
    then have "r1 = ?l\<lparr>run_Status := run_Status r\<rparr> \<and> runs w' = (runs w)(key \<mapsto> r1)"
      using update_run_ok[of w ?l w' r1] u k st by auto
    moreover have "?l\<lparr>run_Status := run_Status r\<rparr> = ?l" by (simp add: labelled_def)
    ultimately show ?thesis using Inr by simp
  qed
qed

lemma mode_view: "\<not> terminal r \<Longrightarrow> view_of r (r\<lparr>run_Status := (run_Status r)\<lparr>rst_Mode := m\<rparr>\<rparr>)"
  by (auto simp: view_of_def terminal_def running_def)

lemma waiting_evolves:
  assumes "\<not> terminal r" "view_of r run"
  shows "run_evolves r (r\<lparr>run_Status := run_Status (set_cond G t
           (run\<lparr>run_Status := (run_Status run)\<lparr>rst_Phase := AgentRunPhasePending\<rparr>\<rparr>) c)\<rparr>)"
    "\<not> running (r\<lparr>run_Status := run_Status (set_cond G t
           (run\<lparr>run_Status := (run_Status run)\<lparr>rst_Phase := AgentRunPhasePending\<rparr>\<rparr>) c)\<rparr>)"
  using assms by (auto simp: run_evolves_def view_of_def run_key_def terminal_def running_def)

lemma agent_missing_effect:
  assumes st: "runs w key = Some r" and nt: "\<not> terminal r"
    and p: "patchStatus K G w (setRunFailedStatus G t r msg) r = (w', e)"
  shows "reconcile_effect None key (runs w) (runs w')"
proof (rule patch_idle[OF p st _ refl _ failed_not_running])
  show "run_key (setRunFailedStatus G t r msg) = key"
    using runs_key[OF st] by (simp add: run_key_def setRunFailedStatus_def)
  have "view_of r r" using nt by (simp add: view_of_def)
  then show "run_evolves r (r\<lparr>run_Status := run_Status (setRunFailedStatus G t r msg)\<rparr>)"
    by (rule evolves_status[OF _ final_steps(1) nt])
qed

text \<open>A run that carries the label of its agent: it waits for a daemon that is not ready, or it goes through
the concurrency check.\<close>

lemma labelled_effect:
  fixes agent r m
  defines "run \<equiv> r\<lparr>run_Status := (run_Status r)\<lparr>rst_Mode := m\<rparr>\<rparr>"
  assumes st: "runs w key = Some r" and nt: "\<not> terminal r" and base: "run_Status base = run_Status r"
    and lab: "run_label r = Some (om_Name (ag_Meta agent))"
    and c: "if daemon_not_ready run agent
      then w' = w \<or> (\<exists>e. patchStatus K G w (set_cond G (k_now K w)
        (run\<lparr>run_Status := (run_Status run)\<lparr>rst_Phase := AgentRunPhasePending\<rparr>\<rparr>) (waiting_cond agent)) base = (w', e))
      else reconcileAdmitted K G infra w run agent base = (w', res)"
  shows "reconcile_effect (Some agent) key (runs w) (runs w')"
proof -
  have view: "view_of r run" unfolding run_def by (rule mode_view[OF nt])
  show ?thesis
  proof (cases "daemon_not_ready run agent")
    case True
    have k: "run_key (set_cond G (k_now K w)
        (run\<lparr>run_Status := (run_Status run)\<lparr>rst_Phase := AgentRunPhasePending\<rparr>\<rparr>) (waiting_cond agent)) = key"
      using runs_key[OF st] by (simp add: run_def run_key_def)
    show ?thesis using c True patch_idle[OF _ st k base waiting_evolves[OF nt view]] by (auto intro: eff_skip)
  next
    case False
    then show ?thesis using c by (auto intro: reconcileAdmitted_effect[OF st view nt base lab])
  qed
qed

lemma Reconcile_effect:
  assumes "Reconcile K G infra w key = (w', res)"
  shows "(\<exists>ag. (case ag of None \<Rightarrow> True | Some agent \<Rightarrow>
            \<exists>r. runs w key = Some r \<and> k_get_agent K w (fst key, rs_AgentRef (run_Spec r)) = Inr agent) \<and>
          reconcile_effect ag key (runs w) (runs w'))"
proof (cases "\<exists>r. k_get_run K w key = Inr r \<and> \<not> terminal r")
  case False
  then have "w' = w" using assms by (cases "k_get_run K w key") (auto simp: Reconcile_def split: if_splits)
  then show ?thesis by (intro exI[of _ None]) (auto intro: eff_skip)
next
  case True
  then obtain r where get: "k_get_run K w key = Inr r" and nt: "\<not> terminal r" by blast
  note st = get_run[OF get]
  have ns: "om_Namespace (run_Meta r) = fst key" using runs_key[OF st] by (auto simp: run_key_def meta_key_def)
  show ?thesis
  proof (cases "k_get_agent K w (fst key, rs_AgentRef (run_Spec r))")
    case (Inl e)
    obtain w1 e1 where p: "patchStatus K G w (setRunFailedStatus G (k_now K w) r
        (''Agent '' @ go_quote (rs_AgentRef (run_Spec r)) @ '' not found'')) r = (w1, e1)" by fastforce
    have "w' = w1" using assms get nt Inl ns p by (auto simp: Reconcile_def Let_def split: option.splits)
    then show ?thesis using agent_missing_effect[OF st nt p] by (intro exI[of _ None]) auto
  next
    case ag: (Inr agent)
    let ?r1 = "labelled (om_Name (ag_Meta agent)) r"
    obtain w1 res1 where l: "ensureLabel K w r agent = (w1, res1)" by fastforce
    have "reconcile_effect (Some agent) key (runs w) (runs w')"
    proof (cases res1)
      case (Inl e)
      then have "w' = w1" using assms get nt ag ns l by (auto simp: Reconcile_def Let_def)
      then show ?thesis using ensureLabel_effect[OF st l] Inl by (auto intro: eff_skip)
    next
      case (Inr r1)
      then have r1: "r1 = ?r1" and w1: "runs w1 = (runs w)(key \<mapsto> ?r1)" using ensureLabel_effect[OF st l] by auto
      have "reconcile_effect (Some agent) key (runs w1) (runs w')"
      proof (rule labelled_effect[where m = "as_Mode (ag_Spec agent)" and base = r])
        show "runs w1 key = Some ?r1" using w1 by simp
      qed (use assms get nt ag ns l Inr r1 in
          \<open>auto simp: Reconcile_def Let_def split: if_splits option.splits prod.splits\<close>)
      then show ?thesis using effect_after_label[where M = "runs w" and key = key, OF _ st nt] w1 by simp
    qed
    then show ?thesis using st ag by (intro exI[of _ "Some agent"]) auto
  qed
qed

end

end
