(* ===== verification/Kube_Client.thy ===== *)
theory Kube_Client
  imports Kube_Api
begin

text \<open>
  The typed view that the controllers of Agents, Channels, Providers and Integrations have of
  the API server: one record of client operations per kind of object, the status patch of
  \<^verbatim>\<open>src/internal/controller/common.go\<close> on any kind, and the finalizer helpers of
  controller-runtime. The laws are the locales \<open>reader\<close>, \<open>writer\<close> and \<open>finalizer_laws\<close>;
  \<open>mem_client\<close> is a client of a list of stored objects that satisfies them.
\<close>

section \<open>Clients\<close>

record ('w, 'o) client =
  c_get :: "'w \<Rightarrow> nsname \<Rightarrow> apierr + 'o"
  c_list :: "'w \<Rightarrow> string \<Rightarrow> apierr + 'o list"
  c_create :: "'w \<Rightarrow> 'o \<Rightarrow> 'w \<times> apierr option"
  c_update :: "'w \<Rightarrow> 'o \<Rightarrow> 'w \<times> apierr option"
  c_patch_status :: "'w \<Rightarrow> 'o \<Rightarrow> 'o \<Rightarrow> 'w \<times> apierr option"
  c_patch_data :: "'o \<Rightarrow> 'o \<Rightarrow> string + string"

text \<open>\<open>patchStatus\<close> on any kind of object: \<open>obj\<close> against the copy \<open>base\<close> taken before.\<close>

definition patchObjStatus :: "('w, 'o) client \<Rightarrow> 'w \<Rightarrow> 'o \<Rightarrow> 'o \<Rightarrow> 'w \<times> apierr option" where
  "patchObjStatus C w obj base =
     (case c_patch_data C base obj of
        Inl e \<Rightarrow> (w, Some (ApiError (''compute status patch: '' @ e)))
      | Inr patchData \<Rightarrow>
          if length patchData \<le> 2 \<or> patchData = ''{}'' then (w, None)
          else c_patch_status C w base obj)"

text \<open>\<^verbatim>\<open>controllerutil.AddFinalizer\<close>, \<^verbatim>\<open>RemoveFinalizer\<close> and \<^verbatim>\<open>ContainsFinalizer\<close>.\<close>

record finlib =
  fl_add :: "string \<Rightarrow> ObjectMeta \<Rightarrow> ObjectMeta \<times> bool"
  fl_remove :: "string \<Rightarrow> ObjectMeta \<Rightarrow> ObjectMeta"
  fl_contains :: "string \<Rightarrow> ObjectMeta \<Rightarrow> bool"

locale finalizer_laws =
  fixes F :: finlib
  assumes contains_iff: "fl_contains F f m \<longleftrightarrow> f \<in> set (om_Finalizers m)"
    and add_new: "f \<notin> set (om_Finalizers m) \<Longrightarrow>
      \<exists>fs. fl_add F f m = (m\<lparr>om_Finalizers := fs\<rparr>, True) \<and> set fs = insert f (set (om_Finalizers m))"
    and add_present: "f \<in> set (om_Finalizers m) \<Longrightarrow> fl_add F f m = (m, False)"
    and remove: "\<exists>fs. fl_remove F f m = m\<lparr>om_Finalizers := fs\<rparr> \<and> set fs = set (om_Finalizers m) - {f}"

text \<open>
  Reads return stored objects. A write of the main resource keeps the stored status, and
  removes an object that is marked for deletion once it has no finalizer; a status patch
  merges into the stored status only; a failed write changes nothing.
\<close>

locale reader =
  fixes C :: "('w, 'o) client" and objs :: "'w \<Rightarrow> nsname \<rightharpoonup> 'o" and meta :: "'o \<Rightarrow> ObjectMeta"
  assumes objs_key: "objs w k = Some x \<Longrightarrow> meta_key (meta x) = k"
    and get_ok: "c_get C w k = Inr x \<Longrightarrow> objs w k = Some x"
    and list_ok: "c_list C w ns = Inr xs \<Longrightarrow> set xs = {x. \<exists>n. objs w (ns, n) = Some x} \<and> distinct xs"

context reader
begin

lemma list_none:
  assumes "c_list C w ns = Inr xs" "filter P xs = []" "objs w (ns, n) = Some x"
  shows "\<not> P x"
  using list_ok[OF assms(1)] assms(2,3) by (auto simp: filter_empty_conv)

lemma list_count:
  assumes "c_list C w ns = Inr xs"
  shows "length (filter P xs) = card {n. \<exists>x. objs w (ns, n) = Some x \<and> P x}"
proof -
  let ?S = "set (filter P xs)"
  have s: "set xs = {x. \<exists>n. objs w (ns, n) = Some x}" "distinct xs" using list_ok[OF assms] by auto
  have name: "om_Name (meta x) = n" if "objs w (ns, n) = Some x" for n x
    using objs_key[OF that] by (simp add: meta_key_def)
  have "inj_on (\<lambda>x. om_Name (meta x)) ?S"
  proof (rule inj_onI)
    fix x y assume "x \<in> ?S" "y \<in> ?S" and e: "om_Name (meta x) = om_Name (meta y)"
    then obtain m n where "objs w (ns, m) = Some x" "objs w (ns, n) = Some y" using s by auto
    then show "x = y" using name e by (metis option.inject)
  qed
  then have "card ((\<lambda>x. om_Name (meta x)) ` ?S) = length (filter P xs)"
    using distinct_card[of "filter P xs"] s(2) by (simp add: card_image)
  moreover have "(\<lambda>x. om_Name (meta x)) ` ?S = {n. \<exists>x. objs w (ns, n) = Some x \<and> P x}"
    using s name by (force simp: image_iff)
  ultimately show ?thesis by simp
qed

end

locale writer = reader C objs meta
  for C :: "('w, 'o) client" and objs :: "'w \<Rightarrow> nsname \<rightharpoonup> 'o" and meta :: "'o \<Rightarrow> ObjectMeta" +
  fixes status :: "'o \<Rightarrow> 's" and with_status :: "'o \<Rightarrow> 's \<Rightarrow> 'o" and merge :: "'s \<Rightarrow> 's \<Rightarrow> 's \<Rightarrow> 's"
  assumes meta_with_status: "meta (with_status x s) = meta x"
    and merge_same: "merge s t s = t"
    and update_ok: "\<lbrakk>c_update C w x = (w', None); objs w (meta_key (meta x)) = Some old;
        om_DeletionTimestamp (meta x) = om_DeletionTimestamp (meta old)\<rbrakk> \<Longrightarrow>
      objs w' = (objs w)(meta_key (meta x) :=
        if om_DeletionTimestamp (meta x) \<noteq> None \<and> om_Finalizers (meta x) = [] then None
        else Some (with_status x (status old)))"
    and update_err: "c_update C w x = (w', Some e) \<Longrightarrow> objs w' = objs w"
    and patch_status_ok: "c_patch_status C w base x = (w', None) \<Longrightarrow>
      \<exists>old. objs w (meta_key (meta x)) = Some old \<and>
        objs w' = (objs w)(meta_key (meta x) \<mapsto> with_status old (merge (status base) (status x) (status old)))"
    and patch_status_err: "c_patch_status C w base x = (w', Some e) \<Longrightarrow> objs w' = objs w"
    and patch_data_ok: "\<exists>d. c_patch_data C base x = Inr d"
    and patch_data_empty: "c_patch_data C base x = Inr d \<Longrightarrow> length d \<le> 2 \<longleftrightarrow> base = x"
begin

text \<open>
  A status patch against the stored object stores the new status, or nothing when it fails.
\<close>

lemma patch_stored:
  assumes p: "patchObjStatus C w x old = (w', r)" and k: "objs w k = Some old"
    and x: "x = with_status old (status x)"
  shows "(r = None \<longrightarrow> objs w' = (objs w)(k \<mapsto> x)) \<and> (r \<noteq> None \<longrightarrow> objs w' = objs w)"
proof -
  have key: "meta_key (meta x) = k"
    using x objs_key[OF k] meta_with_status by metis
  obtain d where d: "c_patch_data C old x = Inr d" using patch_data_ok by blast
  show ?thesis
  proof (cases "length d \<le> 2")
    case True
    then have "old = x" using patch_data_empty[OF d] by simp
    with True show ?thesis using p d k by (auto simp: patchObjStatus_def map_upd_triv)
  next
    case False
    then have s: "c_patch_status C w old x = (w', r)" using p d by (auto simp: patchObjStatus_def split: if_splits)
    show ?thesis
    proof (cases r)
      case None
      with patch_status_ok[of w old x w'] s obtain o2 where
        "objs w k = Some o2" "objs w' = (objs w)(k \<mapsto> with_status o2 (merge (status old) (status x) (status o2)))"
        unfolding key by blast
      then show ?thesis using k x merge_same None by simp
    qed (use patch_status_err s in auto)
  qed
qed

end

section \<open>Deletion protection\<close>

text \<open>
  What a controller that guards a kind of object by a finalizer may do to the stored objects
  when it handles the key \<open>k\<close> while the stored Agents are \<open>As\<close>: nothing, a change of status,
  adding its finalizer to an object that is not being deleted, or releasing an object that is
  being deleted and that no Agent of its namespace refers to.
\<close>

inductive guard_step ::
  "('o \<Rightarrow> ObjectMeta) \<Rightarrow> string \<Rightarrow> (Agent \<Rightarrow> string \<Rightarrow> bool) \<Rightarrow> (nsname \<rightharpoonup> Agent) \<Rightarrow> nsname \<Rightarrow>
   (nsname \<rightharpoonup> 'o) \<Rightarrow> (nsname \<rightharpoonup> 'o) \<Rightarrow> bool"
  for meta fin refers As k where
  guard_keep: "guard_step meta fin refers As k M M"
| guard_status: "\<lbrakk>M k = Some x; meta y = meta x\<rbrakk> \<Longrightarrow> guard_step meta fin refers As k M (M(k \<mapsto> y))"
| guard_protect: "\<lbrakk>M k = Some x; om_DeletionTimestamp (meta x) = None;
    set (om_Finalizers (meta y)) = insert fin (set (om_Finalizers (meta x)))\<rbrakk> \<Longrightarrow>
    guard_step meta fin refers As k M (M(k \<mapsto> y))"
| guard_release: "\<lbrakk>M k = Some x; om_DeletionTimestamp (meta x) \<noteq> None;
    \<And>n a. As (fst k, n) = Some a \<Longrightarrow> \<not> refers a (snd k)\<rbrakk> \<Longrightarrow>
    guard_step meta fin refers As k M (M(k := z))"

definition protected :: "('o \<Rightarrow> ObjectMeta) \<Rightarrow> string \<Rightarrow> (nsname \<rightharpoonup> 'o) \<Rightarrow> nsname \<Rightarrow> bool" where
  "protected meta fin M k \<longleftrightarrow> (\<exists>x. M k = Some x \<and> fin \<in> set (om_Finalizers (meta x)))"

context writer
begin

lemma patch_guarded:
  assumes "patchObjStatus C w x old = (w', r)" "objs w k = Some old" "x = with_status old (status x)"
  shows "guard_step meta fin refers As k (objs w) (objs w')"
proof (cases "r = None")
  case True
  then have "objs w' = (objs w)(k \<mapsto> x)" using patch_stored[OF assms] by simp
  moreover have "meta x = meta old" using assms(3) meta_with_status by metis
  ultimately show ?thesis using assms(2) guard_status[where M = "objs w" and x = old] by simp
next
  case False
  then show ?thesis using patch_stored[OF assms] guard_keep by metis
qed

lemma update_protects:
  assumes u: "c_update C w x = (w', r)" and k: "objs w k = Some old" "meta_key (meta x) = k"
    and d: "om_DeletionTimestamp (meta x) = None" "om_DeletionTimestamp (meta old) = None"
    and f: "set (om_Finalizers (meta x)) = insert fin (set (om_Finalizers (meta old)))"
  shows "guard_step meta fin refers As k (objs w) (objs w')"
proof (cases r)
  case None
  then have "objs w' = (objs w)(k \<mapsto> with_status x (status old))"
    using update_ok[of w x w' old] u k d by simp
  then show ?thesis 
    using guard_protect[where M = "objs w" and x = old] k d f by (simp add: meta_with_status)
qed (use u update_err guard_keep in metis)

lemma update_releases:
  assumes u: "c_update C w x = (w', r)" and k: "objs w k = Some old" "meta_key (meta x) = k"
    and d: "om_DeletionTimestamp (meta x) = om_DeletionTimestamp (meta old)" "om_DeletionTimestamp (meta old) \<noteq> None"
    and free: "\<And>n a. As (fst k, n) = Some a \<Longrightarrow> \<not> refers a (snd k)"
  shows "guard_step meta fin refers As k (objs w) (objs w')"
proof (cases r)
  case None
  then obtain z where "objs w' = (objs w)(k := z)" using update_ok[of w x w' old] u k d(1) by simp
  then show ?thesis 
    using guard_release[where M = "objs w" and x = old and As = As and k = k and meta = meta] k(1) d(2) free by simp
qed (use u update_err guard_keep in metis)

end

text \<open>
  Histories of reconciles of any objects of the kind, interleaved with steps of other actors,
  which may change everything but do not remove a finalizer that is not theirs nor an object
  that still has one. \<open>reconcile\<close> is the controller; the histories are those in which the
  object \<open>k\<close> is referred to whenever the controller runs.
\<close>

inductive referenced_history ::
  "('o \<Rightarrow> ObjectMeta) \<Rightarrow> string \<Rightarrow> (Agent \<Rightarrow> string \<Rightarrow> bool) \<Rightarrow> ('w \<Rightarrow> nsname \<rightharpoonup> Agent) \<Rightarrow> ('w \<Rightarrow> nsname \<rightharpoonup> 'o) \<Rightarrow>
   ('w \<Rightarrow> nsname \<Rightarrow> 'w \<times> (apierr + ctrl_result)) \<Rightarrow> nsname \<Rightarrow> 'w \<Rightarrow> 'w \<Rightarrow> bool"
  for meta fin refers agents objs reconcile k w0 where
  history_init: "referenced_history meta fin refers agents objs reconcile k w0 w0"
| history_reconcile: "\<lbrakk>referenced_history meta fin refers agents objs reconcile k w0 w;
    agents w (fst k, n) = Some a; refers a (snd k); reconcile w req = (w', res)\<rbrakk> \<Longrightarrow>
    referenced_history meta fin refers agents objs reconcile k w0 w'"
| history_other: "\<lbrakk>referenced_history meta fin refers agents objs reconcile k w0 w;
    protected meta fin (objs w) k \<longrightarrow> protected meta fin (objs w') k\<rbrakk> \<Longrightarrow>
    referenced_history meta fin refers agents objs reconcile k w0 w'"

lemma history_one:
  assumes "agents w0 (fst k, n) = Some a" "refers a (snd k)" "reconcile w0 req = (w', res)"
  shows "referenced_history meta fin refers agents objs reconcile k w0 w'"
  by (rule history_reconcile[where w = w0 and refers = refers and reconcile = reconcile]) (use assms in \<open>auto intro: history_init\<close>)

locale guarded_kind =
  fixes meta :: "'o \<Rightarrow> ObjectMeta" and fin :: string and refers :: "Agent \<Rightarrow> string \<Rightarrow> bool"
    and agents :: "'w \<Rightarrow> nsname \<rightharpoonup> Agent" and objs :: "'w \<Rightarrow> nsname \<rightharpoonup> 'o"
    and reconcile :: "'w \<Rightarrow> nsname \<Rightarrow> 'w \<times> (apierr + ctrl_result)"
  assumes reconcile_guarded: "reconcile w req = (w', res) \<Longrightarrow>
    guard_step meta fin refers (agents w) req (objs w) (objs w')"
begin

lemma guard_step_protected:
  assumes "guard_step meta fin refers As req M M'" "protected meta fin M k"
    "As (fst k, n) = Some a" "refers a (snd k)"
  shows "protected meta fin M' k"
  using assms by (cases rule: guard_step.cases) (auto simp: protected_def)

lemma survives:
  assumes "referenced_history meta fin refers agents objs reconcile k w0 w" "protected meta fin (objs w0) k"
  shows "protected meta fin (objs w) k"
  using assms
proof (induction rule: referenced_history.induct)
  case (history_reconcile w n a req w' res)
  then show ?case using guard_step_protected[OF reconcile_guarded] by blast
qed auto

end

section \<open>Stored objects by key\<close>

fun keyed :: "('a \<Rightarrow> nsname) \<Rightarrow> 'a list \<Rightarrow> nsname \<Rightarrow> 'a option" where
  "keyed key [] k = None"
| "keyed key (x # xs) k = (if key x = k then Some x else keyed key xs k)"

definition replace_key :: "('a \<Rightarrow> nsname) \<Rightarrow> 'a \<Rightarrow> 'a list \<Rightarrow> 'a list" where
  "replace_key key y xs = map (\<lambda>x. if key x = key y then y else x) xs"

definition visible :: "('a \<Rightarrow> nsname) \<Rightarrow> 'a list \<Rightarrow> 'a list" where
  "visible key xs = remdups (filter (\<lambda>x. keyed key xs (key x) = Some x) xs)"

lemma keyed_key: "keyed key xs k = Some x \<Longrightarrow> key x = k \<and> x \<in> set xs"
  by (induction xs) (auto split: if_splits)

lemma keyed_finite: "finite (dom (keyed key xs))"
proof (rule finite_subset)
  show "dom (keyed key xs) \<subseteq> key ` set xs" using keyed_key[of key xs] by (force simp: dom_def)
qed simp

lemma keyed_replace_apply:
  "keyed key (replace_key key y xs) k = (if k = key y then map_option (\<lambda>_. y) (keyed key xs k) else keyed key xs k)"
  by (induction xs) (auto simp: replace_key_def)

lemma keyed_replace:
  "keyed key xs (key y) \<noteq> None \<Longrightarrow> keyed key (replace_key key y xs) = (keyed key xs)(key y \<mapsto> y)"
  by (rule ext) (auto simp: keyed_replace_apply)

lemma visible_set: "x \<in> set (visible key xs) \<longleftrightarrow> keyed key xs (key x) = Some x"
  using keyed_key[of key xs "key x" x] by (auto simp: visible_def)

section \<open>A client of stored objects\<close>

text \<open>
  The client of a kind of object that a world keeps as a list, with the selector and the
  updater of that list.
\<close>

definition mem_client ::
  "('o \<Rightarrow> ObjectMeta) \<Rightarrow> ('o \<Rightarrow> 's) \<Rightarrow> ('o \<Rightarrow> 's \<Rightarrow> 'o) \<Rightarrow> ('s \<Rightarrow> 's \<Rightarrow> 's \<Rightarrow> 's) \<Rightarrow>
   ('w \<Rightarrow> 'o list) \<Rightarrow> ('o list \<Rightarrow> 'w \<Rightarrow> 'w) \<Rightarrow> ('w, 'o) client" where
  "mem_client meta status with_status merge sel upd =
     (let key = (\<lambda>x. meta_key (meta x)); lookup = (\<lambda>w. keyed key (sel w)) in
      \<lparr>c_get = (\<lambda>w k. case lookup w k of None \<Rightarrow> Inl (NotFound ''not found'') | Some x \<Rightarrow> Inr x),
       c_list = (\<lambda>w ns. Inr (filter (\<lambda>x. om_Namespace (meta x) = ns) (visible key (sel w)))),
       c_create = (\<lambda>w x. if lookup w (key x) = None then (upd (x # sel w) w, None)
                         else (w, Some (AlreadyExists ''exists''))),
       c_update = (\<lambda>w x. case lookup w (key x) of None \<Rightarrow> (w, Some (NotFound ''not found''))
          | Some old \<Rightarrow>
              if om_DeletionTimestamp (meta x) \<noteq> None \<and> om_Finalizers (meta x) = []
              then (upd (filter (\<lambda>y. key y \<noteq> key x) (sel w)) w, None)
              else (upd (replace_key key (with_status x (status old)) (sel w)) w, None)),
       c_patch_status = (\<lambda>w base x. case lookup w (key x) of None \<Rightarrow> (w, Some (NotFound ''not found''))
          | Some old \<Rightarrow>
              (upd (replace_key key (with_status old (merge (status base) (status x) (status old))) (sel w)) w, None)),
       c_patch_data = (\<lambda>base x. Inr (if base = x then ''{}'' else ''{status}''))\<rparr>)"

lemma keyed_filter: "keyed key (filter (\<lambda>y. key y \<noteq> k) xs) = (keyed key xs)(k := None)"
  by (induction xs) (auto simp: fun_eq_iff)

lemma mem_reader:
  "reader (mem_client meta status with_status merge sel upd) (\<lambda>w. keyed (\<lambda>x. meta_key (meta x)) (sel w)) meta"
proof
  fix w :: 'a and ns :: string and xs :: "'b list"
  assume "c_list (mem_client meta status with_status merge sel upd) w ns = Inr xs"
  then have xs: "xs = filter (\<lambda>x. om_Namespace (meta x) = ns) (visible (\<lambda>x. meta_key (meta x)) (sel w))"
    by (simp add: mem_client_def Let_def)
  have "x \<in> set xs \<longleftrightarrow> (\<exists>n. keyed (\<lambda>x. meta_key (meta x)) (sel w) (ns, n) = Some x)" for x
    using keyed_key[of "\<lambda>x. meta_key (meta x)" "sel w" _ x] by (auto simp: xs visible_set meta_key_def)
  then show "set xs = {x. \<exists>n. keyed (\<lambda>x. meta_key (meta x)) (sel w) (ns, n) = Some x} \<and> distinct xs"
    by (auto simp: xs visible_def)
qed (auto simp: mem_client_def Let_def dest: keyed_key split: option.splits)

lemma mem_writer:
  assumes sel_upd: "\<And>xs w. sel (upd xs w) = xs" and ms: "\<And>x s. meta (with_status x s) = meta x"
    and merge: "\<And>s t. merge s t s = t"
  shows "writer (mem_client meta status with_status merge sel upd) (\<lambda>w. keyed (\<lambda>x. meta_key (meta x)) (sel w))
    meta status with_status merge"
proof (intro writer.intro writer_axioms.intro mem_reader)
  let ?C = "mem_client meta status with_status merge sel upd" and ?key = "\<lambda>x. meta_key (meta x)"
  fix w w' base x old e d
  show "meta (with_status x s) = meta x" for s by (rule ms)
  show "merge s t s = t" for s t by (rule merge)
  show "keyed ?key (sel w') = (keyed ?key (sel w))(?key x :=
        if om_DeletionTimestamp (meta x) \<noteq> None \<and> om_Finalizers (meta x) = [] then None
        else Some (with_status x (status old)))"
    if "c_update ?C w x = (w', None)" "keyed ?key (sel w) (?key x) = Some old"
    using that keyed_replace[of ?key "sel w" "with_status x (status old)"]
    by (auto simp: mem_client_def Let_def sel_upd keyed_filter ms split: if_splits)
  show "\<exists>old. keyed ?key (sel w) (?key x) = Some old \<and> keyed ?key (sel w') =
      (keyed ?key (sel w))(?key x \<mapsto> with_status old (merge (status base) (status x) (status old)))"
    if "c_patch_status ?C w base x = (w', None)"
  proof -
    from that obtain old where old: "keyed ?key (sel w) (?key x) = Some old"
      by (auto simp: mem_client_def Let_def split: option.splits)
    then have "?key old = ?key x" using keyed_key[of ?key] by blast
    then show ?thesis
      using that old keyed_replace[of ?key "sel w" "with_status old (merge (status base) (status x) (status old))"]
      by (auto simp: mem_client_def Let_def sel_upd ms)
  qed
  show "keyed ?key (sel w') = keyed ?key (sel w)" if "c_update ?C w x = (w', Some e)"
    using that by (auto simp: mem_client_def Let_def split: option.splits if_splits)
  show "keyed ?key (sel w') = keyed ?key (sel w)" if "c_patch_status ?C w base x = (w', Some e)"
    using that by (auto simp: mem_client_def Let_def split: option.splits)
  show "\<exists>d. c_patch_data ?C base x = Inr d" by (simp add: mem_client_def Let_def)
  show "length d \<le> 2 \<longleftrightarrow> base = x" if "c_patch_data ?C base x = Inr d"
    using that by (auto simp: mem_client_def Let_def split: if_splits)
qed

lemma mem_patch_ok:
  assumes "keyed (\<lambda>x. meta_key (meta x)) (sel w) (meta_key (meta x)) \<noteq> None"
  shows "snd (patchObjStatus (mem_client meta status with_status merge sel upd) w x base) = None"
  using assms by (auto simp: patchObjStatus_def mem_client_def Let_def split: option.splits)

lemma mem_patch_world:
  assumes "keyed (\<lambda>x. meta_key (meta x)) (sel w) (meta_key (meta x)) \<noteq> None"
  shows "\<exists>w'. patchObjStatus (mem_client meta status with_status merge sel upd) w x base = (w', None)"
  using assms by (auto simp: patchObjStatus_def mem_client_def Let_def split: option.splits)

text \<open>The finalizer helpers.\<close>

definition std_finlib :: finlib where
  "std_finlib =
     \<lparr>fl_add = (\<lambda>f m. if f \<in> set (om_Finalizers m) then (m, False)
                      else (m\<lparr>om_Finalizers := om_Finalizers m @ [f]\<rparr>, True)),
      fl_remove = (\<lambda>f m. m\<lparr>om_Finalizers := filter (\<lambda>g. g \<noteq> f) (om_Finalizers m)\<rparr>),
      fl_contains = (\<lambda>f m. f \<in> set (om_Finalizers m))\<rparr>"

interpretation fin: finalizer_laws std_finlib
  by unfold_locales (auto simp: std_finlib_def)

end
