(* ===== verification/Kube_Store.thy ===== *)
theory Kube_Store
  imports AgentRun_Proofs Kube_Client
begin

text \<open>
  An in-memory API server, in the role of the fake client of the repository's tests: lists of
  objects, reads by key and by label, updates that keep the status and merge patches of the
  status. It interprets the laws that the reconciler relies on.
\<close>

section \<open>The server\<close>

record store =
  ss_now :: time
  ss_runs :: "AgentRun list"
  ss_agents :: "Agent list"
  ss_providers :: "Provider list"
  ss_integrations :: "Integration list"
  ss_configmaps :: "ConfigMap list"
  ss_jobs :: "Job list"
  ss_pods :: "Pod list"
  ss_http :: "agent_request \<Rightarrow> string + agent_response"

definition found :: "'a option \<Rightarrow> apierr + 'a" where
  "found x = (case x of None \<Rightarrow> Inl (NotFound ''not found'') | Some y \<Rightarrow> Inr y)"

definition store_runs :: "store \<Rightarrow> nsname \<rightharpoonup> AgentRun" where
  "store_runs s = keyed run_key (ss_runs s)"

definition store_update_run :: "store \<Rightarrow> AgentRun \<Rightarrow> store \<times> (apierr + AgentRun)" where
  "store_update_run s r =
     (case store_runs s (run_key r) of
        None \<Rightarrow> (s, Inl (NotFound ''not found''))
      | Some old \<Rightarrow>
          (let r' = r\<lparr>run_Status := run_Status old\<rparr>
           in (s\<lparr>ss_runs := replace_key run_key r' (ss_runs s)\<rparr>, Inr r')))"

definition store_patch_run_status :: "store \<Rightarrow> AgentRun \<Rightarrow> AgentRun \<Rightarrow> store \<times> apierr option" where
  "store_patch_run_status s base obj =
     (case store_runs s (run_key obj) of
        None \<Rightarrow> (s, Some (NotFound ''not found''))
      | Some old \<Rightarrow>
          (let r' = old\<lparr>run_Status := merge_run_status (run_Status base) (run_Status obj) (run_Status old)\<rparr>
           in (s\<lparr>ss_runs := replace_key run_key r' (ss_runs s)\<rparr>, None)))"

definition cm_key :: "ConfigMap \<Rightarrow> nsname" where "cm_key c = meta_key (cm_Meta c)"
definition job_key :: "Job \<Rightarrow> nsname" where "job_key j = meta_key (job_Meta j)"

definition store_kube :: "store kube" where
  "store_kube =
     \<lparr>k_now = ss_now,
      k_get_run = (\<lambda>s k. found (store_runs s k)),
      k_get_agent = (\<lambda>s k. found (keyed (\<lambda>a. meta_key (ag_Meta a)) (ss_agents s) k)),
      k_get_provider = (\<lambda>s k. found (keyed (\<lambda>p. meta_key (prov_Meta p)) (ss_providers s) k)),
      k_get_integration = (\<lambda>s k. found (keyed (\<lambda>i. meta_key (int_Meta i)) (ss_integrations s) k)),
      k_get_configmap = (\<lambda>s k. found (keyed cm_key (ss_configmaps s) k)),
      k_get_job = (\<lambda>s k. found (keyed job_key (ss_jobs s) k)),
      k_list_runs = (\<lambda>s ns lk lv. Inr (filter (\<lambda>r. om_Namespace (run_Meta r) = ns \<and>
                        om_Labels (run_Meta r) lk = Some lv) (visible run_key (ss_runs s)))),
      k_list_pods = (\<lambda>s ns lk lv. Inr (filter (\<lambda>p. om_Namespace (pod_Meta p) = ns \<and>
                        om_Labels (pod_Meta p) lk = Some lv) (ss_pods s))),
      k_update_run = store_update_run,
      k_patch_run_status = store_patch_run_status,
      k_create_configmap = (\<lambda>s c. if keyed cm_key (ss_configmaps s) (cm_key c) = None
                              then (s\<lparr>ss_configmaps := c # ss_configmaps s\<rparr>, None)
                              else (s, Some (AlreadyExists ''exists''))),
      k_create_job = (\<lambda>s j. if keyed job_key (ss_jobs s) (job_key j) = None
                        then (s\<lparr>ss_jobs := j # ss_jobs s\<rparr>, None)
                        else (s, Some (AlreadyExists ''exists''))),
      k_http = (\<lambda>s rq. (s, ss_http s rq))\<rparr>"

text \<open>
  The library functions: conditions are replaced in place or appended, as
  \<^verbatim>\<open>meta.SetStatusCondition\<close> documents; the transition time moves when the status changes.
\<close>

fun std_set_condition :: "time \<Rightarrow> Condition list \<Rightarrow> Condition \<Rightarrow> Condition list" where
  "std_set_condition t [] c = [c\<lparr>c_LastTransitionTime := t\<rparr>]"
| "std_set_condition t (d # ds) c =
     (if c_Type d = c_Type c
      then c\<lparr>c_LastTransitionTime := (if c_Status d = c_Status c then c_LastTransitionTime d else t)\<rparr> # ds
      else d # std_set_condition t ds c)"

definition no_reply :: daemon_reply where
  "no_reply = \<lparr>dr_Busy = False, dr_Output = [], dr_ToolCalls = 0, dr_TokensUsed = 0, dr_Cost = [],
     dr_Model = [], dr_TraceID = []\<rparr>"

text \<open>\<^verbatim>\<open>SetControllerReference\<close> refuses an owner of another namespace and a second controller.\<close>

definition std_set_owner :: "ObjectMeta \<Rightarrow> ObjectMeta \<Rightarrow> apierr + ObjectMeta" where
  "std_set_owner own m =
     (if om_Namespace m \<noteq> om_Namespace own then Inl (ApiError ''cross-namespace owner references are disallowed'')
      else if om_Controller m \<noteq> None \<and> om_Controller m \<noteq> Some (om_UID own) then Inl (ApiError ''already owned'')
      else Inr (m\<lparr>om_Controller := Some (om_UID own)\<rparr>))"

definition std_golib :: golib where
  "std_golib =
     \<lparr>gl_parseDuration = (\<lambda>s. if s = ''1s'' then Some 1000000000 else None),
      gl_durationString = (\<lambda>d. int_str d @ ''ns''),
      gl_set_condition = std_set_condition,
      gl_set_owner = std_set_owner,
      gl_run_patch_data = (\<lambda>base obj. Inr (if base = obj then ''{}'' else ''{status}'')),
      gl_sort_runs = sort_key (\<lambda>r. om_CreationTimestamp (run_Meta r)),
      gl_dec_prompt = (\<lambda>b. (no_reply\<lparr>dr_Output := b\<rparr>, True)),
      gl_dec_status = (\<lambda>b. Some (no_reply\<lparr>dr_Busy := (b = ''busy''), dr_Output := b\<rparr>)),
      gl_dec_task = (\<lambda>b. None),
      gl_codec = \<lparr>marshal_config = (\<lambda>c. Inr (ac_SystemPrompt c)), unmarshal_config = (\<lambda>s. Inl ''unsupported'')\<rparr>\<rparr>"

lemma std_set_condition_find:
  "find_cond ty (std_set_condition t cs c) =
     (if ty = c_Type c
      then Some (c\<lparr>c_LastTransitionTime := (case find_cond ty cs of None \<Rightarrow> t
             | Some d \<Rightarrow> if c_Status d = c_Status c then c_LastTransitionTime d else t)\<rparr>)
      else find_cond ty cs)"
  by (induction cs) (auto simp: find_cond_def)

interpretation std: golib_laws std_golib
proof unfold_locales
  show "\<exists>d. find_cond (c_Type c) (gl_set_condition std_golib t cs c) = Some d \<and> same_condition c d" for c t cs
    by (simp add: std_golib_def std_set_condition_find same_condition_def)
  show "ty \<noteq> c_Type c \<Longrightarrow> find_cond ty (gl_set_condition std_golib t cs c) = find_cond ty cs" for ty c t cs
    by (simp add: std_golib_def std_set_condition_find)
  show "sorted_wrt (\<lambda>a b. om_CreationTimestamp (run_Meta a) \<le> om_CreationTimestamp (run_Meta b)) (gl_sort_runs std_golib rs)" for rs
    using sorted_sort_key[of "\<lambda>r. om_CreationTimestamp (run_Meta r)" rs]
    by (simp add: std_golib_def sorted_map)
qed (auto simp: std_golib_def std_set_owner_def split: if_splits)

interpretation api: kube_runs store_kube store_runs
proof unfold_locales
  show "finite (dom (store_runs w))" for w by (simp add: store_runs_def keyed_finite)
  show "store_runs w k = Some r \<Longrightarrow> run_key r = k" for w k r by (auto simp: store_runs_def dest: keyed_key)
  show "k_get_run store_kube w k = Inr r \<Longrightarrow> store_runs w k = Some r" for w k r
    by (simp add: store_kube_def found_def split: option.splits)
  show "k_list_runs store_kube w ns lk lv = Inr rs \<Longrightarrow>
      set rs = {r. \<exists>n. store_runs w (ns, n) = Some r \<and> om_Labels (run_Meta r) lk = Some lv} \<and> distinct rs"
    for w ns lk lv rs
  proof -
    assume "k_list_runs store_kube w ns lk lv = Inr rs"
    then have rs: "rs = filter (\<lambda>r. om_Namespace (run_Meta r) = ns \<and> om_Labels (run_Meta r) lk = Some lv)
        (visible run_key (ss_runs w))" by (simp add: store_kube_def)
    have "r \<in> set rs \<longleftrightarrow> (\<exists>n. store_runs w (ns, n) = Some r) \<and> om_Labels (run_Meta r) lk = Some lv" for r
      using keyed_key[of run_key "ss_runs w" _ r]
      by (auto simp: rs visible_set store_runs_def run_key_def meta_key_def)
    then show ?thesis by (auto simp: rs visible_def)
  qed
  show "k_update_run store_kube w r = (w', Inr r') \<Longrightarrow>
      \<exists>old. store_runs w (run_key r) = Some old \<and> r' = r\<lparr>run_Status := run_Status old\<rparr> \<and>
            store_runs w' = (store_runs w)(run_key r \<mapsto> r')" for w r w' r'
    using keyed_replace[of run_key "ss_runs w" r']
    by (auto simp: store_kube_def store_update_run_def store_runs_def Let_def run_key_def split: option.splits)
  show "k_patch_run_status store_kube w base obj = (w', None) \<Longrightarrow>
      \<exists>old. store_runs w (run_key obj) = Some old \<and>
            store_runs w' = (store_runs w)(run_key obj \<mapsto>
              old\<lparr>run_Status := merge_run_status (run_Status base) (run_Status obj) (run_Status old)\<rparr>)"
    for w base obj w'
  proof -
    assume p: "k_patch_run_status store_kube w base obj = (w', None)"
    then obtain old where old: "store_runs w (run_key obj) = Some old"
      by (auto simp: store_kube_def store_patch_run_status_def Let_def split: option.splits)
    let ?r = "old\<lparr>run_Status := merge_run_status (run_Status base) (run_Status obj) (run_Status old)\<rparr>"
    have k: "run_key ?r = run_key obj"
      using old by (auto simp: store_runs_def run_key_def dest!: keyed_key)
    show ?thesis
      using p old k keyed_replace[of run_key "ss_runs w" ?r]
      by (auto simp: store_kube_def store_patch_run_status_def store_runs_def Let_def)
  qed
qed (auto simp: store_kube_def store_update_run_def store_patch_run_status_def store_runs_def Let_def
    split: option.splits if_splits)

interpretation store: run_reconciler store_kube store_runs std_golib
  by unfold_locales

end
