(* ===== verification/AgentRun_Properties.thy ===== *)
theory AgentRun_Properties
  imports Kube_Store
begin

text \<open>
  What the AgentRun reconciler guarantees, for every API server and library that obey the laws
  of \<open>kube_runs\<close> and \<open>golib_laws\<close>: refinement of the abstract effect, evolution of single
  runs, the concurrency limit over histories, and the outcome of finished and overdue runs.
\<close>

section \<open>A small cluster\<close>

definition demo_run :: AgentRun where
  "demo_run = \<lparr>run_Meta = new_meta ''r1'' ''ns'' Map.empty,
     run_Spec = zero_AgentRunSpec\<lparr>rs_AgentRef := ''dev'', rs_Prompt := ''hello''\<rparr>, run_Status = zero_AgentRunStatus\<rparr>"

definition demo_store :: store where
  "demo_store = \<lparr>ss_now = 100, ss_runs = [demo_run], ss_agents = [demo_agent], ss_providers = [],
     ss_integrations = [], ss_configmaps = [], ss_jobs = [], ss_pods = [], ss_http = (\<lambda>_. Inl ''refused'')\<rparr>"

definition demo_infra :: InfraConfig where "demo_infra = \<lparr>ic_OTelEndpoint = [], ic_NATSURL = []\<rparr>"

lemma demo_run_stored: "store_runs demo_store (''ns'', ''r1'') = Some demo_run"
  by (simp add: store_runs_def demo_store_def run_key_def demo_run_def meta_key_def new_meta_def)

lemma demo_not_running: "store_runs demo_store k = Some r \<Longrightarrow> \<not> running r"
  by (auto simp: store_runs_def demo_store_def running_def demo_run_def zero_AgentRunStatus_def const_defs
      split: if_splits)

section \<open>Every run evolves\<close>

lemma evolves_refl [simp]: "run_evolves r r"
  by (simp add: run_evolves_def)

lemma labelled_evolves: "\<not> terminal r \<Longrightarrow> run_evolves r (labelled a r)"
  by (simp add: run_evolves_def)

lemma effect_evolves:
  assumes "reconcile_effect ag key M M'"
  shows "rel_option run_evolves (M k) (M' k)"
  using assms
proof (cases rule: reconcile_effect.cases)
  case eff_skip
  then show ?thesis by (simp add: option.rel_refl)
qed (auto simp: option.rel_refl labelled_evolves)

lemma run_reconcilerI: "\<lbrakk>kube_runs K runs; golib_laws G\<rbrakk> \<Longrightarrow> run_reconciler K runs G"
  by (simp add: run_reconciler_def)

text \<open>
  C2: a reconcile refines the abstract effect. Whatever the API server answers (errors at any
  call included), reconciling a run changes the stored runs by one of five effects: nothing,
  the agent label, a move of this run to a state that is not Running, admission below the
  agent's limit, or admission after a running run of the same agent was cancelled (only under
  the replace policy).
\<close>

theorem Reconcile_refines_effect:
  assumes "kube_runs K runs" "golib_laws G" "Reconcile K G infra w key = (w', res)"
  shows "\<exists>ag. (case ag of None \<Rightarrow> True | Some agent \<Rightarrow>
            \<exists>r. runs w key = Some r \<and> k_get_agent K w (fst key, rs_AgentRef (run_Spec r)) = Inr agent) \<and>
          reconcile_effect ag key (runs w) (runs w')"
  by (rule run_reconciler.Reconcile_effect[OF run_reconcilerI[OF assms(1,2)] assms(3)])

theorem Reconcile_refines_effect_witness:
  "\<exists>w' res ag. Reconcile store_kube std_golib demo_infra demo_store (''ns'', ''r1'') = (w', res) \<and>
     reconcile_effect ag (''ns'', ''r1'') (store_runs demo_store) (store_runs w')"
proof -
  obtain w' res where r: "Reconcile store_kube std_golib demo_infra demo_store (''ns'', ''r1'') = (w', res)"
    by fastforce
  show ?thesis
    using Reconcile_refines_effect[OF api.kube_runs_axioms std.golib_laws_axioms r] r by blast
qed

text \<open>
  C3: a run that has Succeeded or Failed is never changed again, and any other run keeps its
  identity, spec and outcome; it enters a terminal phase only together with its completion time
  and a true Complete condition, and Running only with a start time. Runs are neither created
  nor deleted.
\<close>

theorem Reconcile_runs_evolve:
  assumes "kube_runs K runs" "golib_laws G" "Reconcile K G infra w key = (w', res)"
  shows "rel_option run_evolves (runs w k) (runs w' k)"
proof -
  obtain ag where "reconcile_effect ag key (runs w) (runs w')"
    using run_reconciler.Reconcile_effect[OF run_reconcilerI[OF assms(1,2)] assms(3)] by blast
  then show ?thesis by (rule effect_evolves)
qed

theorem Reconcile_runs_evolve_witness:
  "\<exists>w' res r'. Reconcile store_kube std_golib demo_infra demo_store (''ns'', ''r1'') = (w', res) \<and>
     store_runs w' (''ns'', ''r1'') = Some r' \<and> run_evolves demo_run r'"
proof -
  obtain w' res where r: "Reconcile store_kube std_golib demo_infra demo_store (''ns'', ''r1'') = (w', res)"
    by fastforce
  show ?thesis
    using Reconcile_runs_evolve[OF api.kube_runs_axioms std.golib_laws_axioms r, of "(''ns'', ''r1'')"] r
    by (auto simp: demo_run_stored option_rel_Some1)
qed

section \<open>The concurrency limit\<close>

text \<open>
  The agents' limits: each agent is found under its name, its limit is at most \<open>L\<close> and its
  policy is one of the three that the CRD admits.
\<close>

definition agents_within :: "'w kube \<Rightarrow> (nsname \<Rightarrow> nat) \<Rightarrow> 'w \<Rightarrow> bool" where
  "agents_within K L w \<longleftrightarrow> (\<forall>k agent. k_get_agent K w k = Inr agent \<longrightarrow>
     om_Name (ag_Meta agent) = snd k \<and> max_runs agent \<le> int (L k) \<and>
     run_policy agent \<in> {''queue'', ''reject'', ''replace''})"

text \<open>
  What others may do to the runs between reconciles: create runs that are not Running, delete
  runs, and change runs as they like except for making them Running or changing the label or
  the agent reference of a Running run.
\<close>

definition env_step :: "(nsname \<rightharpoonup> AgentRun) \<Rightarrow> (nsname \<rightharpoonup> AgentRun) \<Rightarrow> bool" where
  "env_step M M' \<longleftrightarrow> (\<forall>k r'. M' k = Some r' \<and> running r' \<longrightarrow>
     (\<exists>r. M k = Some r \<and> running r \<and> run_label r' = run_label r \<and> rs_AgentRef (run_Spec r') = rs_AgentRef (run_Spec r)))"

inductive reach ::
  "'w kube \<Rightarrow> golib \<Rightarrow> InfraConfig \<Rightarrow> ('w \<Rightarrow> nsname \<rightharpoonup> AgentRun) \<Rightarrow> (nsname \<Rightarrow> nat) \<Rightarrow> 'w \<Rightarrow> 'w \<Rightarrow> bool"
  for K G infra runs L w0 where
  reach_init: "reach K G infra runs L w0 w0"
| reach_reconcile: "\<lbrakk>reach K G infra runs L w0 w; agents_within K L w; Reconcile K G infra w key = (w', res)\<rbrakk> \<Longrightarrow>
    reach K G infra runs L w0 w'"
| reach_env: "\<lbrakk>reach K G infra runs L w0 w; env_step (runs w) (runs w')\<rbrakk> \<Longrightarrow> reach K G infra runs L w0 w'"

definition runs_inv :: "(nsname \<Rightarrow> nat) \<Rightarrow> (nsname \<rightharpoonup> AgentRun) \<Rightarrow> bool" where
  "runs_inv L M \<longleftrightarrow>
     (\<forall>k r. M k = Some r \<and> running r \<longrightarrow> run_label r = Some (rs_AgentRef (run_Spec r))) \<and>
     (\<forall>ns a. card (active M ns a) \<le> L (ns, a))"

lemma active_finite: "finite (dom M) \<Longrightarrow> finite (active M ns a)"
  by (rule finite_subset[of _ "dom M"]) (auto simp: active_def)

lemma active_subset: "\<lbrakk>finite (dom M); active M' ns a \<subseteq> active M ns a; card (active M ns a) \<le> n\<rbrakk> \<Longrightarrow>
  card (active M' ns a) \<le> n"
  using card_mono[OF active_finite] by (meson le_trans)

lemma env_step_inv:
  assumes "env_step M M'" "runs_inv L M" "finite (dom M)"
  shows "runs_inv L M'"
proof -
  have "active M' ns a \<subseteq> active M ns a" for ns a
    using assms(1) by (fastforce simp: env_step_def active_def)
  then have "card (active M' ns a) \<le> L (ns, a)" for ns a
    using active_subset[OF assms(3)] assms(2) by (simp add: runs_inv_def)
  moreover have "run_label r = Some (rs_AgentRef (run_Spec r))" if "M' k = Some r" "running r" for k r
  proof -
    obtain r0 where "M k = Some r0" "running r0" "run_label r = run_label r0"
      "rs_AgentRef (run_Spec r) = rs_AgentRef (run_Spec r0)"
      using assms(1) \<open>M' k = Some r\<close> \<open>running r\<close> unfolding env_step_def by blast
    then show ?thesis using assms(2) unfolding runs_inv_def by metis
  qed
  ultimately show ?thesis unfolding runs_inv_def by blast
qed

text \<open>Changing one run: what has to be shown for the invariant.\<close>

lemma inv_update:
  assumes inv: "runs_inv L M" and fin: "finite (dom M)"
    and lab: "running r' \<Longrightarrow> run_label r' = Some (rs_AgentRef (run_Spec r'))"
    and card: "running r' \<Longrightarrow> card (insert key (active M (fst key) (rs_AgentRef (run_Spec r')) - {key}))
                 \<le> L (fst key, rs_AgentRef (run_Spec r'))"
  shows "runs_inv L (M(key \<mapsto> r'))"
proof -
  have "card (active (M(key \<mapsto> r')) ns a) \<le> L (ns, a)" for ns a
  proof (cases "running r' \<and> ns = fst key \<and> a = rs_AgentRef (run_Spec r')")
    case True
    then have "active (M(key \<mapsto> r')) ns a \<subseteq> insert key (active M ns a - {key})"
      by (auto simp: active_def)
    moreover have "finite (insert key (active M ns a - {key}))" using active_finite[OF fin] by simp
    ultimately show ?thesis using True card card_mono by (metis order_trans)
  next
    case False
    then have "active (M(key \<mapsto> r')) ns a \<subseteq> active M ns a"
      using lab by (auto simp: active_def split: if_splits)
    then show ?thesis using active_subset[OF fin] inv by (simp add: runs_inv_def)
  qed
  then show ?thesis using inv lab by (auto simp: runs_inv_def)
qed

lemma evolves_spec: "run_evolves r r' \<Longrightarrow> run_Spec r' = run_Spec r"
  by (auto simp: run_evolves_def)

lemma insert_active_card:
  assumes "finite A"
  shows "card (insert k (A - {k})) \<le> Suc (card (A - {k}))"
proof -
  have "card (insert k B) \<le> Suc (card B)" if "finite B" for B
    using that by (simp add: card_insert_if)
  then show ?thesis using assms by blast
qed

lemma inv_label:
  "\<lbrakk>runs_inv L M; M k = Some r; running r\<rbrakk> \<Longrightarrow> run_label r = Some (rs_AgentRef (run_Spec r))"
  unfolding runs_inv_def by blast

text \<open>A cancelled run makes room for exactly one other.\<close>

lemma replace_inv:
  assumes inv: "runs_inv L M" and fin: "finite (dom M)" and k: "k \<in> active M (fst key) a" "k \<noteq> key"
    and v': "\<not> running v'" and r': "run_label r' = Some a" "rs_AgentRef (run_Spec r') = a"
  shows "runs_inv L (M(key \<mapsto> r', k \<mapsto> v'))"
proof -
  let ?M1 = "M(k \<mapsto> v')" and ?A = "active M (fst key) a"
  have inv1: "runs_inv L ?M1" by (rule inv_update[OF inv fin]) (use v' in simp_all)
  have fin1: "finite (dom ?M1)" using fin by simp
  have "active ?M1 (fst key) a - {key} \<subseteq> ?A - {k}" using v' by (auto simp: active_def)
  then have "card (active ?M1 (fst key) a - {key}) \<le> card (?A - {k})"
    using active_finite[OF fin, of "fst key" a] by (intro card_mono) simp_all
  moreover have "Suc (card (?A - {k})) = card ?A"
    using card_Suc_Diff1[OF active_finite[OF fin] k(1)] by simp
  moreover have "card ?A \<le> L (fst key, a)" using inv by (simp add: runs_inv_def)
  ultimately have "card (insert key (active ?M1 (fst key) a - {key})) \<le> L (fst key, a)"
    using insert_active_card[OF active_finite[OF fin1], of key "fst key" a] by linarith
  then have "runs_inv L (?M1(key \<mapsto> r'))"
    using r' by (intro inv_update[OF inv1 fin1]) simp_all
  then show ?thesis using k(2) by (simp add: fun_upd_twist)
qed

lemma effect_inv:
  assumes eff: "reconcile_effect ag key M M'" and inv: "runs_inv L M" and fin: "finite (dom M)"
    and ag: "\<And>agent r. \<lbrakk>ag = Some agent; M key = Some r\<rbrakk> \<Longrightarrow> om_Name (ag_Meta agent) = rs_AgentRef (run_Spec r) \<and>
       max_runs agent \<le> int (L (fst key, rs_AgentRef (run_Spec r))) \<and> run_policy agent \<in> {''queue'', ''reject'', ''replace''}"
  shows "runs_inv L M'"
  using eff
proof (cases rule: reconcile_effect.cases)
  case eff_skip
  then show ?thesis using inv by simp
next
  case (eff_label r agent)
  show ?thesis
  proof (cases "running r")
    case True
    then have "run_label r = Some (om_Name (ag_Meta agent))"
      using inv_label[OF inv eff_label(2)] ag[OF eff_label(4,2)] by simp
    then have "M' = M" using eff_label by (simp add: labelled_id map_upd_triv)
    then show ?thesis using inv by simp
  next
    case False
    then show ?thesis unfolding eff_label(1) by (intro inv_update[OF inv fin]) simp_all
  qed
next
  case (eff_idle r r')
  then show ?thesis by (auto intro: inv_update[OF inv fin])
next
  case (eff_admit r agent r')
  note a = ag[OF eff_admit(4,2)]
  have spec: "run_Spec r' = run_Spec r" by (rule evolves_spec[OF eff_admit(5)])
  let ?A = "active M (fst key) (om_Name (ag_Meta agent))"
  have "card (insert key (?A - {key})) \<le> L (fst key, om_Name (ag_Meta agent))"
    using eff_admit(7) a insert_active_card[OF active_finite[OF fin], of key "fst key" "om_Name (ag_Meta agent)"] by auto
  then show ?thesis
    unfolding eff_admit(1) using eff_admit(6) a spec by (intro inv_update[OF inv fin]) simp_all
next
  case (eff_replace r agent r' k v v')
  note a = ag[OF eff_replace(4,2)]
  have "\<not> running v'" using eff_replace(12) by (auto simp: completed_def dest: terminal_not_running)
  then show ?thesis
    unfolding eff_replace(1) using a eff_replace(7) evolves_spec[OF eff_replace(6)]
    by (intro replace_inv[OF inv fin eff_replace(8,9)]) simp_all
qed

lemma reach_inv:
  assumes "kube_runs K runs" "golib_laws G" "reach K G infra runs L w0 w" "runs_inv L (runs w0)"
  shows "runs_inv L (runs w)"
  using assms(3)
proof (induction rule: reach.induct)
  case reach_init
  then show ?case by (rule assms(4))
next
  case (reach_reconcile w key w' res)
  obtain ag where ag: "case ag of None \<Rightarrow> True | Some agent \<Rightarrow>
      \<exists>r. runs w key = Some r \<and> k_get_agent K w (fst key, rs_AgentRef (run_Spec r)) = Inr agent"
    and eff: "reconcile_effect ag key (runs w) (runs w')"
    using run_reconciler.Reconcile_effect[OF run_reconcilerI[OF assms(1,2)] reach_reconcile(3)] by blast
  show ?case
    by (rule effect_inv[OF eff reach_reconcile.IH kube_runs.runs_finite[OF assms(1)]])
      (use ag reach_reconcile(2) in \<open>auto simp: agents_within_def\<close>)
next
  case (reach_env w w')
  then show ?case using env_step_inv kube_runs.runs_finite[OF assms(1)] by blast
qed


lemma demo_agents: "agents_within store_kube (\<lambda>_. 1) demo_store"
  by (auto simp: agents_within_def store_kube_def found_def demo_store_def demo_agent_def meta_key_def
      new_meta_def max_runs_def run_policy_def zero_AgentSpec_def split: option.splits if_splits)


section \<open>Finished and overdue runs\<close>

text \<open>
  An admitted reconcile: the run is stored, not terminal, carries its agent's label, and fewer
  other runs of the agent are Running than its limit. Then nothing is written before the
  dispatch, and its result is what the final patch stores.
\<close>

definition admitted :: "'w kube \<Rightarrow> 'w \<Rightarrow> nsname \<Rightarrow> AgentRun \<Rightarrow> Agent \<Rightarrow> bool" where
  "admitted K w key r agent \<longleftrightarrow> k_get_run K w key = Inr r \<and> \<not> terminal r \<and>
     k_get_agent K w (fst key, rs_AgentRef (run_Spec r)) = Inr agent \<and>
     run_label r = Some (om_Name (ag_Meta agent)) \<and> \<not> daemon_not_ready r agent \<and>
     (case k_list_runs K w (fst key) LabelAgent (om_Name (ag_Meta agent)) of
        Inl _ \<Rightarrow> False | Inr rl \<Rightarrow> int (length (other_running r rl)) < max_runs agent)"

definition dispatched_run :: "AgentRun \<Rightarrow> Agent \<Rightarrow> AgentRun" where
  "dispatched_run r agent =
     (let run = r\<lparr>run_Status := (run_Status r)\<lparr>rst_Mode := as_Mode (ag_Spec agent)\<rparr>\<rparr> in
      if rst_Phase (run_Status run) = [] then run\<lparr>run_Status := (run_Status run)\<lparr>rst_Phase := AgentRunPhasePending\<rparr>\<rparr>
      else run)"

lemma dispatched_run_sel [simp]:
  "run_Meta (dispatched_run r agent) = run_Meta r" "run_Spec (dispatched_run r agent) = run_Spec r"
  "run_key (dispatched_run r agent) = run_key r"
  "running (dispatched_run r agent) = running r"
  "rst_StartTime (run_Status (dispatched_run r agent)) = rst_StartTime (run_Status r)"
  by (auto simp: dispatched_run_def Let_def run_key_def running_def const_defs)

lemma admitted_Reconcile:
  assumes ad: "admitted K w key r agent" and rk: "run_key r = key"
  shows "Reconcile K G infra w key =
    (case dispatch K G infra w (dispatched_run r agent) agent of (w1, run, outcome) \<Rightarrow>
       case patchStatus K G w1 run r of (w2, Some e) \<Rightarrow> (w2, Inl e) | (w2, None) \<Rightarrow> (w2, outcome))"
proof -
  let ?run = "r\<lparr>run_Status := (run_Status r)\<lparr>rst_Mode := as_Mode (ag_Spec agent)\<rparr>\<rparr>"
  have ns: "om_Namespace (run_Meta r) = fst key" using rk by (auto simp: run_key_def meta_key_def)
  obtain rl where rl: "k_list_runs K w (fst key) LabelAgent (om_Name (ag_Meta agent)) = Inr rl"
    and below: "int (length (other_running r rl)) < max_runs agent"
    using ad by (auto simp: admitted_def split: sum.splits)
  have lab: "ensureLabel K w r agent = (w, Inr r)" using ad by (simp add: ensureLabel_def admitted_def run_label_def)
  have nr: "\<not> daemon_not_ready ?run agent" using ad by (simp add: admitted_def daemon_not_ready_def running_def)
  have "checkConcurrency K G w ?run agent r = (w, ?run, Inr True)"
    using ns rl below by (simp add: checkConcurrency_def other_running_def)
  then have adm: "reconcileAdmitted K G infra w ?run agent r =
      (case dispatch K G infra w (dispatched_run r agent) agent of (w1, run, outcome) \<Rightarrow>
       case patchStatus K G w1 run r of (w2, Some e) \<Rightarrow> (w2, Inl e) | (w2, None) \<Rightarrow> (w2, outcome))"
    by (simp add: reconcileAdmitted_def dispatched_run_def Let_def)
  show ?thesis
    using ad ns lab nr by (simp add: Reconcile_def admitted_def adm Let_def)
qed

text \<open>If the dispatch completes the run, the completion is stored or the patch's error returned.\<close>

lemma admitted_settles:
  assumes laws: "kube_runs K runs" "golib_laws G" and ad: "admitted K w key r agent"
    and d: "dispatch K G infra w (dispatched_run r agent) agent = (w, run', Inr done_result)"
  shows "case Reconcile K G infra w key of
      (w', Inl e) \<Rightarrow> runs w' = runs w
    | (w', Inr x) \<Rightarrow> x = done_result \<and> runs w' = (runs w)(key \<mapsto> r\<lparr>run_Status := run_Status run'\<rparr>)"
proof -
  note rec = run_reconcilerI[OF laws]
  have st: "runs w key = Some r" using ad kube_runs.get_run[OF laws(1)] by (simp add: admitted_def)
  have rk: "run_key r = key" by (rule kube_runs.runs_key[OF laws(1) st])
  obtain w2 e where p: "patchStatus K G w run' r = (w2, e)" by fastforce
  have "run_Meta run' = run_Meta (dispatched_run r agent)"
    using run_reconciler.dispatch_step[OF rec d] by (simp add: status_step_def)
  then have k: "run_key run' = key" using rk by (simp add: run_key_def)
  have "if e = None then runs w2 = (runs w)(key \<mapsto> r\<lparr>run_Status := run_Status run'\<rparr>) else runs w2 = runs w"
    using run_reconciler.patchStatus_effect[OF rec p, of r] st k by simp
  then show ?thesis by (cases e) (simp_all add: admitted_Reconcile[OF ad rk] d p)
qed

text \<open>
  C5: a run whose Job has finished is settled by the next reconcile: it is stored as Succeeded
  with the output the pod reported when the Job succeeded, and as Failed when it failed, with
  completion time and Complete condition; or the error of the status patch is returned, so that
  the reconcile is retried, and nothing has changed.
\<close>

theorem finished_task_is_settled:
  assumes "kube_runs K runs" "golib_laws G" "admitted K w key r agent"
    and "as_Mode (ag_Spec agent) = AgentModeTask" "k_get_job K w key = Inr job"
    and "0 < job_Succeeded job \<or> 0 < job_Failed job"
  shows "case Reconcile K G infra w key of
      (w', Inl e) \<Rightarrow> runs w' = runs w
    | (w', Inr x) \<Rightarrow> x = done_result \<and>
        (\<exists>r'. runs w' = (runs w)(key \<mapsto> r') \<and> completed r' \<and>
           rst_CompletionTime (run_Status r') = Some (k_now K w) \<and>
           (if 0 < job_Succeeded job
            then rst_Phase (run_Status r') = AgentRunPhaseSucceeded \<and>
                 rst_Output (run_Status r') = tro_Output (getJobOutput K G w job)
            else rst_Phase (run_Status r') = AgentRunPhaseFailed))"
proof -
  let ?d = "dispatched_run r agent" and ?o = "getJobOutput K G w job"
  let ?r' = "if 0 < job_Succeeded job then task_succeeded G (k_now K w) ?d ?o else task_failed G (k_now K w) ?d ?o"
  note rec = run_reconcilerI[OF assms(1,2)]
  have st: "runs w key = Some r" using assms(3) kube_runs.get_run[OF assms(1)] by (simp add: admitted_def)
  have rk: "run_key r = key" by (rule kube_runs.runs_key[OF assms(1) st])
  have d: "dispatch K G infra w ?d agent = (w, ?r', Inr done_result)"
    using assms(4-6) rk by (auto simp: dispatch_def reconcileTaskRun_def Let_def)
  have "completed ?r'" using run_reconciler.final_steps(7,8)[OF rec] by simp
  define r' where "r' = r\<lparr>run_Status := run_Status ?r'\<rparr>"
  have "completed r'" using \<open>completed ?r'\<close> by (simp add: r'_def completed_status)
  moreover have "rst_CompletionTime (run_Status r') = Some (k_now K w)"
    "if 0 < job_Succeeded job
     then rst_Phase (run_Status r') = AgentRunPhaseSucceeded \<and> rst_Output (run_Status r') = tro_Output ?o
     else rst_Phase (run_Status r') = AgentRunPhaseFailed"
    by (simp_all add: r'_def task_succeeded_def task_failed_def run_reconciler.set_cond_sel[OF rec] Let_def)
  moreover have "case Reconcile K G infra w key of
      (w', Inl e) \<Rightarrow> runs w' = runs w
    | (w', Inr x) \<Rightarrow> x = done_result \<and> runs w' = (runs w)(key \<mapsto> r')"
    unfolding r'_def by (rule admitted_settles[OF assms(1-3) d])
  ultimately show ?thesis by (auto split: prod.splits sum.splits)
qed

definition done_job :: Job where
  "done_job = (BuildAgentRunJob (\<lambda>_. None) demo_run demo_agent [] None [] demo_infra)\<lparr>job_Succeeded := 1\<rparr>"

definition done_store :: store where
  "done_store = demo_store\<lparr>ss_runs := [labelled ''dev'' demo_run], ss_jobs := [done_job]\<rparr>"

lemmas demo_defs = admitted_def store_kube_def found_def done_store_def demo_store_def store_runs_def run_key_def
  labelled_def demo_run_def demo_agent_def meta_key_def new_meta_def terminal_def run_label_def daemon_not_ready_def
  zero_AgentRunSpec_def zero_AgentRunStatus_def zero_AgentSpec_def other_running_def visible_def running_def
  max_runs_def

lemma done_admitted: "admitted store_kube done_store (''ns'', ''r1'') (labelled ''dev'' demo_run) demo_agent"
  by (simp add: demo_defs const_defs)

lemma done_job_stored: "k_get_job store_kube done_store (''ns'', ''r1'') = Inr done_job"
  by (simp add: demo_defs done_job_def job_key_def BuildAgentRunJob_def Let_def)

theorem finished_task_is_settled_witness:
  "case Reconcile store_kube std_golib demo_infra done_store (''ns'', ''r1'') of
     (w', Inl e) \<Rightarrow> store_runs w' = store_runs done_store
   | (w', Inr x) \<Rightarrow> x = done_result \<and>
        (\<exists>r'. store_runs w' = (store_runs done_store)((''ns'', ''r1'') \<mapsto> r') \<and> completed r' \<and>
           rst_CompletionTime (run_Status r') = Some 100 \<and>
           rst_Phase (run_Status r') = AgentRunPhaseSucceeded \<and>
           rst_Output (run_Status r') = ''(no output captured)'')"
proof -
  have ok: "0 < job_Succeeded done_job" by (simp add: done_job_def)
  have mode: "as_Mode (ag_Spec demo_agent) = AgentModeTask" by (simp add: demo_agent_def)
  have out: "tro_Output (getJobOutput store_kube std_golib done_store done_job) = ''(no output captured)''"
    by (simp add: getJobOutput_def store_kube_def done_store_def demo_store_def no_output_def terminated_messages_def)
  have now: "k_now store_kube done_store = 100" by (simp add: store_kube_def done_store_def demo_store_def)
  show ?thesis
    using finished_task_is_settled[OF api.kube_runs_axioms std.golib_laws_axioms done_admitted mode done_job_stored,
        of demo_infra] ok out now by (auto split: prod.splits sum.splits)
qed

text \<open>
  C6: a daemon run does not run forever. Once more time than the agent's timeout (thirty
  minutes by default) has passed since it started, the next reconcile fails it, without asking
  the agent, or returns the patch's error with nothing changed.
\<close>

theorem overdue_daemon_run_fails:
  assumes "kube_runs K runs" "golib_laws G" "admitted K w key r agent"
    and "as_Mode (ag_Spec agent) = AgentModeDaemon" "running r"
    and "rst_StartTime (run_Status r) = Some t" "k_now K w - t > run_timeout G agent"
  shows "case Reconcile K G infra w key of
      (w', Inl e) \<Rightarrow> runs w' = runs w
    | (w', Inr x) \<Rightarrow> x = done_result \<and>
        (\<exists>r'. runs w' = (runs w)(key \<mapsto> r') \<and> completed r' \<and> rst_Phase (run_Status r') = AgentRunPhaseFailed)"
proof -
  let ?d = "dispatched_run r agent"
  let ?r' = "setRunFailedStatus G (k_now K w) ?d (msg_timed_out G (k_now K w - t) (run_timeout G agent))"
  note rec = run_reconcilerI[OF assms(1,2)]
  have d: "dispatch K G infra w ?d agent = (w, ?r', Inr done_result)"
    using assms(4-7) by (simp add: dispatch_def reconcileDaemonRun_def pollDaemonRunStatus_def timed_out_def)
  have "completed (r\<lparr>run_Status := run_Status ?r'\<rparr>)"
    using run_reconciler.final_steps(6)[OF rec] by (simp add: completed_status)
  then show ?thesis
    using admitted_settles[OF assms(1-3) d]
    by (auto simp: setRunFailedStatus_def run_reconciler.set_cond_sel[OF rec] split: prod.splits sum.splits)
qed

definition daemon_agent :: Agent where
  "daemon_agent = demo_agent\<lparr>ag_Spec := (ag_Spec demo_agent)\<lparr>as_Mode := AgentModeDaemon\<rparr>\<rparr>"

definition overdue_run :: AgentRun where
  "overdue_run = labelled ''dev'' (demo_run\<lparr>run_Status := zero_AgentRunStatus\<lparr>rst_Phase := AgentRunPhaseRunning,
     rst_StartTime := Some 0\<rparr>\<rparr>)"

definition overdue_store :: store where
  "overdue_store = demo_store\<lparr>ss_now := 1800000000001, ss_runs := [overdue_run], ss_agents := [daemon_agent]\<rparr>"

theorem overdue_daemon_run_fails_witness:
  "case Reconcile store_kube std_golib demo_infra overdue_store (''ns'', ''r1'') of
     (w', Inl e) \<Rightarrow> store_runs w' = store_runs overdue_store
   | (w', Inr x) \<Rightarrow> x = done_result \<and>
        (\<exists>r'. store_runs w' = (store_runs overdue_store)((''ns'', ''r1'') \<mapsto> r') \<and> completed r' \<and>
           rst_Phase (run_Status r') = AgentRunPhaseFailed)"
proof -
  have ad: "admitted store_kube overdue_store (''ns'', ''r1'') overdue_run daemon_agent"
    by (simp add: demo_defs overdue_store_def overdue_run_def daemon_agent_def const_defs)
  have t: "k_now store_kube overdue_store - 0 > run_timeout std_golib daemon_agent"
    by (simp add: store_kube_def overdue_store_def run_timeout_def daemon_agent_def demo_agent_def
        zero_AgentSpec_def default_timeout_def)
  show ?thesis
    by (rule overdue_daemon_run_fails[OF api.kube_runs_axioms std.golib_laws_axioms ad _ _ _ t])
      (simp_all add: daemon_agent_def overdue_run_def running_def labelled_def)
qed

section \<open>Two observations on the code\<close>

text \<open>
  The concurrency check does not exempt a run that is already Running: when the limit is lowered
  so that the others fill it, the queue policy moves a Running run back to Queued.
\<close>

lemma running_run_is_demoted:
  assumes "k_list_runs K w (om_Namespace (run_Meta run)) LabelAgent (om_Name (ag_Meta agent)) = Inr rl"
    and "int (length (other_running run rl)) \<ge> max_runs agent" "run_policy agent = ''queue''" "running run"
    and "checkConcurrency K G w run agent base = (w', run', Inr allowed)"
  shows "rst_Phase (run_Status run') = AgentRunPhaseQueued \<and> \<not> allowed"
  using assms by (auto simp: checkConcurrency_def running_def Let_def split: prod.splits option.splits)

text \<open>
  The error of a failed task is lost when the runtime's JSON report has an empty output: the run
  shows the generic message instead of the reported error.
\<close>

lemma failed_task_error_lost:
  assumes "k_list_pods K w (om_Namespace (job_Meta job)) ''job-name'' (om_Name (job_Meta job)) = Inr pods"
    and "filter (\<lambda>msg. msg \<noteq> []) (terminated_messages pods) = msg # msgs"
    and "gl_dec_task G msg = Some parsed" "tro_Output parsed = []" "tro_Error parsed = err" "err \<noteq> []"
  shows "rst_Output (run_Status (task_failed G t run (getJobOutput K G w job))) = ''Job failed''"
  using assms by (simp add: getJobOutput_def task_failed_def set_cond_def no_output_def Let_def)

end
