(* ===== verification/Gateway_Permissions.thy ===== *)
theory Gateway_Permissions
  imports Prelude "HOL-Library.List_Lexorder" "HOL-Library.Char_ord"
begin

text \<open>
  \<^verbatim>\<open>src/images/mcp-gateway/internal/permissions/permissions.go\<close>: the deny/allow rules
  of the MCP gateway. The argument values are decoded JSON; a decoded object is an
  association list with distinct keys in the (unspecified) order in which Go's
  \<^verbatim>\<open>range\<close> visits it. The grammar of rules that the package comment gives is the
  inductive predicate \<open>rule_matches\<close>, and the string-level matcher is verified against it.
\<close>

section \<open>JSON values and their printed form\<close>

text \<open>
  A number is kept as the decimal text that \<^verbatim>\<open>fmt\<close> prints for its
  \<^verbatim>\<open>float64\<close>. \<open>Sprint\<close> is \<^verbatim>\<open>fmt.Sprint\<close> on decoded JSON; it prints maps
  in key order.
\<close>

datatype json = JNull | JBool bool | JNumber string | JString string
  | JArray "json list" | JObject "(string \<times> json) list"

fun Sprint :: "json \<Rightarrow> string" where
  "Sprint JNull = ''<nil>''"
| "Sprint (JBool b) = (if b then ''true'' else ''false'')"
| "Sprint (JNumber s) = s"
| "Sprint (JString s) = s"
| "Sprint (JArray vs) = ''['' @ join '' '' (map Sprint vs) @ '']''"
| "Sprint (JObject kvs) =
     ''map['' @ join '' '' (map (\<lambda>(k, s). k @ '':'' @ s)
        (sort_key fst (map (\<lambda>(k, v). (k, Sprint v)) kvs))) @ '']''"

section \<open>Policies\<close>

record ServerPolicy =
  pol_Mode :: string
  pol_Rules :: "string list"

type_synonym Config = "string \<rightharpoonup> ServerPolicy"

definition matchPattern :: "string \<Rightarrow> string \<Rightarrow> bool" where
  "matchPattern v pattern =
     (if has_suffix pattern ''*''
      then has_prefix v (take (length pattern - 1) pattern)
      else v = pattern)"

definition matchRule :: "string \<Rightarrow> (string \<times> json) list \<Rightarrow> string \<Rightarrow> bool" where
  "matchRule toolName args rule =
     (let (ruleTool, rest) = split2 (CHR '':'') rule in
      if ruleTool \<noteq> toolName then False
      else (case rest of
              None \<Rightarrow> True
            | Some constraint \<Rightarrow>
                (case index_of (CHR ''='') constraint of
                   None \<Rightarrow> False
                 | Some eqIdx \<Rightarrow>
                     (let argName = take eqIdx constraint;
                          argPattern = drop (eqIdx + 1) constraint
                      in if argName = ''*''
                         then list_ex (\<lambda>(k, v). matchPattern (Sprint v) argPattern) args
                         else (case map_of args argName of
                                 None \<Rightarrow> False
                               | Some v \<Rightarrow> matchPattern (Sprint v) argPattern)))))"

fun matchesAnyRule :: "string \<Rightarrow> (string \<times> json) list \<Rightarrow> string list \<Rightarrow> bool" where
  "matchesAnyRule toolName args [] = False"
| "matchesAnyRule toolName args (rule # rules) =
     (if matchRule toolName args rule then True else matchesAnyRule toolName args rules)"

definition Check :: "ServerPolicy option \<Rightarrow> string \<Rightarrow> (string \<times> json) list \<Rightarrow> bool" where
  "Check p toolName args =
     (case p of
        None \<Rightarrow> True
      | Some p \<Rightarrow>
          (let matched = matchesAnyRule toolName args (pol_Rules p) in
           if pol_Mode p = ''deny'' then \<not> matched
           else if pol_Mode p = ''allow'' then matched
           else True))"

text \<open>
  \<open>Load\<close>: the file's bytes (or the read error) go through the JSON decoder, which is an
  argument.
\<close>

definition Load :: "(string \<Rightarrow> string + string) \<Rightarrow> (string \<Rightarrow> string + Config) \<Rightarrow> string \<Rightarrow> string + Config" where
  "Load readFile unmarshal path =
     (case readFile path of
        Inl e \<Rightarrow> Inl (''read permissions config: '' @ e)
      | Inr data \<Rightarrow>
          (case unmarshal data of
             Inl e \<Rightarrow> Inl (''parse permissions config: '' @ e)
           | Inr cfg \<Rightarrow> Inr cfg))"

section \<open>The rule grammar\<close>

inductive glob :: "string \<Rightarrow> string \<Rightarrow> bool" where
  glob_exact: "\<nexists>q. p = q @ ''*'' \<Longrightarrow> glob p p"
| glob_prefix: "glob (q @ r) (q @ ''*'')"

inductive rule_matches :: "string \<Rightarrow> (string \<rightharpoonup> json) \<Rightarrow> string \<Rightarrow> bool" where
  whole_tool: "CHR '':'' \<notin> set tool \<Longrightarrow> rule_matches tool args tool"
| one_arg: "\<lbrakk>CHR '':'' \<notin> set tool; CHR ''='' \<notin> set a; a \<noteq> ''*''; args a = Some v; glob (Sprint v) p\<rbrakk> \<Longrightarrow>
     rule_matches tool args (tool @ '':'' @ a @ ''='' @ p)"
| any_arg: "\<lbrakk>CHR '':'' \<notin> set tool; v \<in> ran args; glob (Sprint v) p\<rbrakk> \<Longrightarrow>
     rule_matches tool args (tool @ '':*='' @ p)"

inductive_simps glob_iff: "glob s p"

lemma matchPattern_glob [go_strings]: "matchPattern v p \<longleftrightarrow> glob v p"
proof (cases "has_suffix p ''*''")
  case True
  then obtain q where "p = q @ ''*''" by (auto simp: has_suffix_iff)
  then show ?thesis by (auto simp: matchPattern_def go_strings glob_iff)
next
  case False
  then show ?thesis by (auto simp: matchPattern_def go_strings glob_iff)
qed

text \<open>The rule as the parser takes it apart.\<close>

lemma matchRule_whole:
  "CHR '':'' \<notin> set rule \<Longrightarrow> matchRule tool args rule \<longleftrightarrow> rule = tool"
  by (auto simp: matchRule_def split2_None)

lemma matchRule_malformed:
  assumes "CHR '':'' \<notin> set t" "CHR ''='' \<notin> set c"
  shows "\<not> matchRule tool args (t @ '':'' @ c)"
  using assms index_of_None[of "CHR ''=''" c] by (simp add: matchRule_def split2_Some Let_def)

lemma matchRule_arg:
  assumes "CHR '':'' \<notin> set t" "CHR ''='' \<notin> set a"
  shows "matchRule tool args (t @ '':'' @ a @ ''='' @ p) \<longleftrightarrow>
    t = tool \<and> (if a = ''*'' then \<exists>(k, v) \<in> set args. glob (Sprint v) p
                else \<exists>v. map_of args a = Some v \<and> glob (Sprint v) p)"
  using assms
  by (auto simp: matchRule_def split2_Some index_of_append Let_def matchPattern_glob list_ex_iff
      split: option.splits)

lemma rule_cases:
  obtains (whole) "CHR '':'' \<notin> set rule"
  | (malformed) t c where "rule = t @ '':'' @ c" "CHR '':'' \<notin> set t" "CHR ''='' \<notin> set c"
  | (arg) t a p where "rule = t @ '':'' @ a @ ''='' @ p" "CHR '':'' \<notin> set t" "CHR ''='' \<notin> set a"
proof (cases "CHR '':'' \<in> set rule")
  case True
  then obtain t c where t: "rule = t @ '':'' @ c" "CHR '':'' \<notin> set t"
    by (metis append_Cons append_Nil split_list_first)
  show thesis
  proof (cases "CHR ''='' \<in> set c")
    case True
    then obtain a p where "c = a @ ''='' @ p" "CHR ''='' \<notin> set a"
      by (metis append_Cons append_Nil split_list_first)
    with t show thesis by (intro arg) auto
  qed (use t malformed in blast)
qed (use whole in blast)

inductive_cases rule_matchesE: "rule_matches tool args rule"

lemma rule_matches_arg:
  assumes t: "CHR '':'' \<notin> set t" and a: "CHR ''='' \<notin> set a"
  shows "rule_matches tool args (t @ '':'' @ a @ ''='' @ p) \<longleftrightarrow>
    t = tool \<and> (if a = ''*'' then \<exists>v \<in> ran args. glob (Sprint v) p
                else \<exists>v. args a = Some v \<and> glob (Sprint v) p)"
    (is "?l \<longleftrightarrow> ?r")
proof
  assume ?l
  then show ?r
  proof (cases rule: rule_matches.cases)
    case whole_tool
    then show ?thesis by auto
  next
    case (one_arg a' v p')
    then have "t = tool" "a @ CHR ''='' # p = a' @ CHR ''='' # p'"
      using t split_unique[of "CHR '':''" t tool] by auto
    then show ?thesis using one_arg a split_unique[of "CHR ''=''" a a'] by auto
  next
    case (any_arg v p')
    then have "t = tool" "a @ CHR ''='' # p = ''*'' @ CHR ''='' # p'"
      using t split_unique[of "CHR '':''" t tool] by auto
    then show ?thesis using any_arg a split_unique[of "CHR ''=''" a "''*''"] by auto
  qed
next
  assume r: ?r
  show ?l
  proof (cases "a = ''*''")
    case True
    with r obtain v where "v \<in> ran args" "glob (Sprint v) p" "t = tool" by auto
    then show ?thesis using t True any_arg[of tool v args p] by simp
  next
    case False
    with r obtain v where "args a = Some v" "glob (Sprint v) p" "t = tool" by auto
    then show ?thesis using t a False one_arg[of tool a args v p] by simp
  qed
qed

lemma rule_matches_malformed:
  assumes t: "CHR '':'' \<notin> set t" and c: "CHR ''='' \<notin> set c"
  shows "\<not> rule_matches tool args (t @ '':'' @ c)"
proof
  assume "rule_matches tool args (t @ '':'' @ c)"
  then show False
  proof (cases rule: rule_matches.cases)
    case (one_arg a v p)
    then show False using t c split_unique[of "CHR '':''" t tool] by auto
  next
    case (any_arg v p)
    then show False using t c split_unique[of "CHR '':''" t tool] by auto
  qed auto
qed

lemma rule_matches_whole:
  "CHR '':'' \<notin> set rule \<Longrightarrow> rule_matches tool args rule \<longleftrightarrow> rule = tool"
  by (auto elim: rule_matchesE intro: whole_tool)

lemma matchesAnyRule_iff: "matchesAnyRule tool args rules \<longleftrightarrow> (\<exists>r \<in> set rules. matchRule tool args r)"
  by (induction rules) auto

lemma matchRule_iff:
  assumes "distinct (map fst args)"
  shows "matchRule tool args rule \<longleftrightarrow> rule_matches tool (map_of args) rule"
proof (cases rule rule: rule_cases)
  case whole
  then show ?thesis by (simp add: matchRule_whole rule_matches_whole)
next
  case (malformed t c)
  then show ?thesis using matchRule_malformed rule_matches_malformed by simp
next
  case (arg t a p)
  have "(\<exists>(k, v) \<in> set args. glob (Sprint v) p) \<longleftrightarrow> (\<exists>v \<in> ran (map_of args). glob (Sprint v) p)"
    using assms by (force simp: ran_distinct)
  then show ?thesis
    unfolding arg(1) matchRule_arg[OF arg(2,3)] rule_matches_arg[OF arg(2,3)] by simp
qed

section \<open>Properties\<close>

text \<open>
  C32: the matcher implements the rule grammar, for every policy: with distinct argument
  names a deny policy permits exactly the calls that no rule denotes, an allow policy
  exactly those that some rule denotes; a missing policy or another mode permits all.
\<close>

theorem Check_correct:
  assumes "distinct (map fst args)"
  shows "Check p tool args \<longleftrightarrow>
    (case p of None \<Rightarrow> True
     | Some pol \<Rightarrow>
         (let denoted = (\<exists>r \<in> set (pol_Rules pol). rule_matches tool (map_of args) r) in
          if pol_Mode pol = ''deny'' then \<not> denoted
          else if pol_Mode pol = ''allow'' then denoted else True))"
  by (cases p) (simp_all add: Check_def Let_def matchesAnyRule_iff matchRule_iff[OF assms])

theorem Check_correct_witness:
  "distinct (map fst [(''path'', JString ''/etc/passwd'')]) \<and>
   \<not> Check (Some \<lparr>pol_Mode = ''deny'', pol_Rules = [''read:path=/etc/*'']\<rparr>) ''read''
       [(''path'', JString ''/etc/passwd'')] \<and>
   (\<exists>r \<in> set [''read:path=/etc/*'']. rule_matches ''read'' (map_of [(''path'', JString ''/etc/passwd'')]) r)"
proof -
  let ?args = "[(''path'', JString ''/etc/passwd'')]"
  let ?p = "\<lparr>pol_Mode = ''deny'', pol_Rules = [''read:path=/etc/*'']\<rparr>"
  have "\<not> Check (Some ?p) ''read'' ?args" by code_simp
  then show ?thesis using Check_correct[of ?args "Some ?p" "''read''"] by (simp add: Let_def)
qed

text \<open>
  Adding rules tightens a deny policy and widens an allow policy.
\<close>

lemma Check_deny_antimono:
  "\<lbrakk>set rs \<subseteq> set rs'; Check (Some \<lparr>pol_Mode = ''deny'', pol_Rules = rs'\<rparr>) tool args\<rbrakk> \<Longrightarrow>
   Check (Some \<lparr>pol_Mode = ''deny'', pol_Rules = rs\<rparr>) tool args"
  by (auto simp: Check_def Let_def matchesAnyRule_iff)

lemma Check_allow_mono:
  "\<lbrakk>set rs \<subseteq> set rs'; Check (Some \<lparr>pol_Mode = ''allow'', pol_Rules = rs\<rparr>) tool args\<rbrakk> \<Longrightarrow>
   Check (Some \<lparr>pol_Mode = ''allow'', pol_Rules = rs'\<rparr>) tool args"
  by (auto simp: Check_def Let_def matchesAnyRule_iff)

end
