(* ===== verification/Gateway_Proxy.thy ===== *)
theory Gateway_Proxy
  imports Gateway_Permissions
begin

text \<open>
  The proxy mode of the MCP gateway:
  \<^verbatim>\<open>src/images/mcp-gateway/internal/proxy/proxy.go\<close> and the start-up functions of
  \<^verbatim>\<open>src/images/mcp-gateway/main.go\<close>. A handler takes a request and returns what it
  does: a response of its own, or the request it hands to the reverse proxy. The JSON
  decoders are arguments of the model (every theorem holds for all of them).
\<close>

section \<open>Requests and responses\<close>

text \<open>The body is None when reading it fails.\<close>

record http_request =
  rq_Method :: string
  rq_Path :: string
  rq_Scheme :: string
  rq_Host :: string
  rq_Body :: "string option"

record jsonRPCRequest =
  jr_JSONRPC :: string
  jr_ID :: "string option"
  jr_Method :: string
  jr_Params :: string

record toolsCallParams =
  tc_Name :: string
  tc_Arguments :: "(string \<times> json) list"

record json_codec =
  dec_request :: "string \<Rightarrow> jsonRPCRequest option"
  dec_params :: "string \<Rightarrow> toolsCallParams option"

text \<open>The error object that \<open>checkToolCall\<close> encodes: id, code and message.\<close>

datatype response_body = PlainText string | RPCError "string option" int string

datatype outcome =
    Respond int response_body
  | Redirect string
  | Forward http_request

record proxy_server =
  px_upstream_Scheme :: string
  px_upstream_Host :: string
  px_serverName :: string
  px_policy :: "ServerPolicy option"

section \<open>Handlers\<close>

text \<open>The reverse proxy's director: only the scheme and the host change.\<close>

definition proxy_Director :: "proxy_server \<Rightarrow> http_request \<Rightarrow> http_request" where
  "proxy_Director s r = r\<lparr>rq_Scheme := px_upstream_Scheme s, rq_Host := px_upstream_Host s\<rparr>"

definition handlePassthrough :: "proxy_server \<Rightarrow> http_request \<Rightarrow> outcome" where
  "handlePassthrough s r = Forward (proxy_Director s r)"

definition msg_malformed :: string where
  "msg_malformed = ''tools/call blocked: malformed parameters''"

definition msg_blocked :: "string \<Rightarrow> string \<Rightarrow> string" where
  "msg_blocked tool mode = ''tool call '' @ go_quote tool @ '' blocked by gateway policy ('' @ mode @ '' mode)''"

text \<open>\<open>checkToolCall\<close> returns None when the call is allowed, else the response it wrote.\<close>

definition checkToolCall :: "json_codec \<Rightarrow> proxy_server \<Rightarrow> jsonRPCRequest \<Rightarrow> outcome option" where
  "checkToolCall D s req =
     (case px_policy s of
        None \<Rightarrow> None
      | Some pol \<Rightarrow>
          (case dec_params D (jr_Params req) of
             None \<Rightarrow> Some (Respond 200 (RPCError (jr_ID req) (- 32600) msg_malformed))
           | Some params \<Rightarrow>
               if \<not> Check (Some pol) (tc_Name params) (tc_Arguments params)
               then Some (Respond 403 (RPCError (jr_ID req) (- 32600)
                            (msg_blocked (tc_Name params) (pol_Mode pol))))
               else None))"

definition body_limit :: nat where "body_limit = 1048576"

definition handlePost :: "json_codec \<Rightarrow> proxy_server \<Rightarrow> http_request \<Rightarrow> outcome" where
  "handlePost D s r =
     (case rq_Body r of
        None \<Rightarrow> Respond 400 (PlainText ''{\"error\":\"failed to read body\"}'')
      | Some raw \<Rightarrow>
          (let body = take body_limit raw;
               fwd = Forward (proxy_Director s (r\<lparr>rq_Body := Some body\<rparr>))
           in case dec_request D body of
                None \<Rightarrow> fwd
              | Some req \<Rightarrow>
                  if jr_Method req = ''tools/call''
                  then (case checkToolCall D s req of Some resp \<Rightarrow> resp | None \<Rightarrow> fwd)
                  else fwd))"

text \<open>
  The request multiplexer: \<^verbatim>\<open>http.ServeMux\<close> first cleans the path and redirects when that
  changes it; a GET pattern also serves HEAD.
\<close>

definition clean_segments :: "string list \<Rightarrow> string list" where
  "clean_segments segs =
     rev (foldl (\<lambda>acc seg. if seg = [] \<or> seg = ''.'' then acc
                           else if seg = ''..'' then tl acc else seg # acc) [] segs)"

definition clean_path :: "string \<Rightarrow> string" where
  "clean_path p =
     (if p = [] then ''/''
      else (let q = (if hd p = CHR ''/'' then p else CHR ''/'' # p);
                np = CHR ''/'' # join ''/'' (clean_segments (split_on (CHR ''/'') q))
            in if has_suffix q ''/'' \<and> np \<noteq> ''/'' then np @ ''/'' else np))"

definition Handler :: "json_codec \<Rightarrow> proxy_server \<Rightarrow> http_request \<Rightarrow> outcome" where
  "Handler D s r =
     (if rq_Method r \<noteq> ''CONNECT'' \<and> clean_path (rq_Path r) \<noteq> rq_Path r
      then Redirect (clean_path (rq_Path r))
      else if rq_Method r = ''POST'' \<and> rq_Path r = ''/mcp'' then handlePost D s r
      else if rq_Method r \<in> {''GET'', ''HEAD''} \<and> rq_Path r = ''/mcp'' then handlePassthrough s r
      else if rq_Method r \<in> {''GET'', ''HEAD''} \<and> rq_Path r = ''/health''
        then Respond 200 (PlainText (''{\"status\":\"ok\"}'' @ [CHR 0x0A]))
      else handlePassthrough s r)"

section \<open>Start-up\<close>

type_synonym environ = "string \<Rightarrow> string"

definition envOrDefault :: "environ \<Rightarrow> string \<Rightarrow> string \<Rightarrow> string" where
  "envOrDefault getenv key def = (let v = getenv key in if v \<noteq> [] then v else def)"

text \<open>\<open>New\<close>: the URL parser is an argument and yields scheme and host.\<close>

definition New :: "(string \<Rightarrow> string + (string \<times> string)) \<Rightarrow> string \<Rightarrow> string \<Rightarrow> ServerPolicy option \<Rightarrow>
    string + proxy_server" where
  "New urlParse upstreamURL serverName policy =
     (case urlParse upstreamURL of
        Inl e \<Rightarrow> Inl (''parse upstream URL: '' @ e)
      | Inr (scheme, host) \<Rightarrow>
          Inr \<lparr>px_upstream_Scheme = scheme, px_upstream_Host = host, px_serverName = serverName,
               px_policy = policy\<rparr>)"

definition runProxy :: "environ \<Rightarrow> (string \<Rightarrow> string + Config) \<Rightarrow>
    (string \<Rightarrow> string + (string \<times> string)) \<Rightarrow> string + proxy_server" where
  "runProxy getenv load urlParse =
     (let upstream = getenv ''GATEWAY_UPSTREAM'' in
      if upstream = [] then Inl ''GATEWAY_UPSTREAM is required in proxy mode''
      else
        (let serverName = getenv ''GATEWAY_SERVER_NAME'';
             configPath = getenv ''GATEWAY_CONFIG'';
             policy = (if configPath \<noteq> []
                       then (case load configPath of
                               Inl e \<Rightarrow> None
                             | Inr cfg \<Rightarrow> if serverName \<noteq> [] then cfg serverName else None)
                       else None)
         in New urlParse upstream serverName policy))"

fun after_dashes :: "string list \<Rightarrow> string list option" where
  "after_dashes [] = None"
| "after_dashes (a # as) = (if a = ''--'' then Some as else after_dashes as)"

text \<open>\<open>args\<close> is \<^verbatim>\<open>os.Args[1:]\<close>.\<close>

definition getSpawnCommand :: "environ \<Rightarrow> string list \<Rightarrow> string list" where
  "getSpawnCommand getenv args =
     (if getenv ''GATEWAY_COMMAND'' \<noteq> [] then strings_Fields (getenv ''GATEWAY_COMMAND'')
      else (case after_dashes args of Some rest \<Rightarrow> rest | None \<Rightarrow> args))"

section \<open>Properties\<close>

lemma checkToolCall_None:
  "checkToolCall D s req = None \<longleftrightarrow>
     px_policy s = None \<or>
     (\<exists>ps. dec_params D (jr_Params req) = Some ps \<and> Check (px_policy s) (tc_Name ps) (tc_Arguments ps))"
  by (auto simp: checkToolCall_def split: option.splits)

lemma checkToolCall_responds: "checkToolCall D s req = Some out \<Longrightarrow> \<exists>st b. out = Respond st b"
  by (auto simp: checkToolCall_def split: option.splits if_splits)

lemma clean_mcp [simp]: "clean_path ''/mcp'' = ''/mcp''"
  by (simp add: clean_path_def clean_segments_def has_suffix_def Let_def)

lemma Handler_mcp: "\<lbrakk>rq_Method r = ''POST''; rq_Path r = ''/mcp''\<rbrakk> \<Longrightarrow> Handler D s r = handlePost D s r"
  by (simp add: Handler_def)

lemma handlePost_forward:
  "handlePost D s r = Forward r' \<longleftrightarrow>
     (\<exists>raw. rq_Body r = Some raw \<and>
        r' = proxy_Director s (r\<lparr>rq_Body := Some (take body_limit raw)\<rparr>) \<and>
        (\<forall>req. dec_request D (take body_limit raw) = Some req \<longrightarrow> jr_Method req = ''tools/call'' \<longrightarrow>
           checkToolCall D s req = None))"
  by (auto simp: handlePost_def Let_def dest: checkToolCall_responds split: option.splits)

lemma runProxy_policy:
  assumes "runProxy getenv load urlParse = Inr s"
  shows "px_policy s =
    (if getenv ''GATEWAY_CONFIG'' = [] \<or> getenv ''GATEWAY_SERVER_NAME'' = [] then None
     else (case load (getenv ''GATEWAY_CONFIG'') of Inl e \<Rightarrow> None
           | Inr cfg \<Rightarrow> cfg (getenv ''GATEWAY_SERVER_NAME'')))"
  using assms by (auto simp: runProxy_def New_def Let_def split: if_splits sum.splits)

text \<open>
  C11: a POST to /mcp leaves the gateway exactly when it is no readable tools/call, or there is
  no policy, or its parameters decode and the policy permits them; and what leaves is the
  request with its body cut at 1 MiB and only scheme and host changed. In particular a
  tools/call whose parameters do not decode is blocked (fail-closed).
\<close>

theorem proxy_forwards_only_permitted:
  assumes "rq_Method r = ''POST''" "rq_Path r = ''/mcp''"
  shows "Handler D s r = Forward r' \<longleftrightarrow>
    (\<exists>raw. rq_Body r = Some raw \<and>
       r' = r\<lparr>rq_Body := Some (take body_limit raw), rq_Scheme := px_upstream_Scheme s,
             rq_Host := px_upstream_Host s\<rparr> \<and>
       (\<forall>req. dec_request D (take body_limit raw) = Some req \<longrightarrow> jr_Method req = ''tools/call'' \<longrightarrow>
          px_policy s = None \<or>
          (\<exists>ps. dec_params D (jr_Params req) = Some ps \<and>
                Check (px_policy s) (tc_Name ps) (tc_Arguments ps))))"
  by (simp add: Handler_mcp[OF assms] handlePost_forward checkToolCall_None proxy_Director_def)

definition demo_codec :: json_codec where
  "demo_codec = \<lparr>dec_request = (\<lambda>b. if b = ''call'' then
       Some \<lparr>jr_JSONRPC = ''2.0'', jr_ID = Some ''1'', jr_Method = ''tools/call'', jr_Params = ''p''\<rparr> else None),
     dec_params = (\<lambda>p. if p = ''p'' then Some \<lparr>tc_Name = ''rm'', tc_Arguments = []\<rparr> else None)\<rparr>"

theorem proxy_forwards_only_permitted_witness:
  "\<forall>r'. Handler demo_codec
      \<lparr>px_upstream_Scheme = ''http'', px_upstream_Host = ''up'', px_serverName = ''s'',
       px_policy = Some \<lparr>pol_Mode = ''deny'', pol_Rules = [''rm'']\<rparr>\<rparr>
      \<lparr>rq_Method = ''POST'', rq_Path = ''/mcp'', rq_Scheme = [], rq_Host = [], rq_Body = Some ''call''\<rparr>
    \<noteq> Forward r'"
proof -
  have "\<not> Check (Some \<lparr>pol_Mode = ''deny'', pol_Rules = [''rm'']\<rparr>) ''rm'' []" by code_simp
  then show ?thesis
    by (simp add: proxy_forwards_only_permitted demo_codec_def body_limit_def)
qed

text \<open>
  C12: the policy that start-up installs. When the configuration file loads and has an entry for
  the server, exactly this policy guards /mcp: a decodable tools/call is forwarded if and only
  if that policy permits it, and otherwise answered with the JSON-RPC error of the branch.
  (Without such an entry, or when the file does not load, the gateway runs without a policy.)
\<close>

theorem runProxy_enforces_config:
  assumes "runProxy getenv load urlParse = Inr s"
    and "getenv ''GATEWAY_CONFIG'' \<noteq> []" "getenv ''GATEWAY_SERVER_NAME'' \<noteq> []"
    and "load (getenv ''GATEWAY_CONFIG'') = Inr cfg"
    and "cfg (getenv ''GATEWAY_SERVER_NAME'') = Some pol"
    and "rq_Method r = ''POST''" "rq_Path r = ''/mcp''" "rq_Body r = Some raw"
    and "dec_request D (take body_limit raw) = Some req" "jr_Method req = ''tools/call''"
  shows "Handler D s r =
    (case dec_params D (jr_Params req) of
       None \<Rightarrow> Respond 200 (RPCError (jr_ID req) (- 32600) msg_malformed)
     | Some ps \<Rightarrow>
         if Check (Some pol) (tc_Name ps) (tc_Arguments ps)
         then Forward (proxy_Director s (r\<lparr>rq_Body := Some (take body_limit raw)\<rparr>))
         else Respond 403 (RPCError (jr_ID req) (- 32600) (msg_blocked (tc_Name ps) (pol_Mode pol))))"
proof -
  have "px_policy s = Some pol" using runProxy_policy[OF assms(1)] assms(2-5) by simp
  then show ?thesis
    using assms(6-10)
    by (simp add: Handler_mcp handlePost_def checkToolCall_def Let_def split: option.splits)
qed

definition demo_env :: environ where
  "demo_env k = (if k = ''GATEWAY_UPSTREAM'' then ''http://up'' else if k = ''GATEWAY_CONFIG'' then ''/c''
                 else if k = ''GATEWAY_SERVER_NAME'' then ''git'' else [])"

theorem runProxy_enforces_config_witness:
  "\<exists>s. runProxy demo_env (\<lambda>_. Inr [''git'' \<mapsto> \<lparr>pol_Mode = ''allow'', pol_Rules = []\<rparr>]) (\<lambda>_. Inr (''http'', ''up''))
         = Inr s \<and>
     Handler demo_codec s
       \<lparr>rq_Method = ''POST'', rq_Path = ''/mcp'', rq_Scheme = [], rq_Host = [], rq_Body = Some ''call''\<rparr>
     = Respond 403 (RPCError (Some ''1'') (- 32600) (msg_blocked ''rm'' ''allow''))"
proof -
  let ?load = "\<lambda>_. Inr [''git'' \<mapsto> \<lparr>pol_Mode = ''allow'', pol_Rules = []\<rparr>] :: string + Config"
  let ?url = "\<lambda>_. Inr (''http'', ''up'') :: string + (string \<times> string)"
  let ?r = "\<lparr>rq_Method = ''POST'', rq_Path = ''/mcp'', rq_Scheme = [], rq_Host = [], rq_Body = Some ''call''\<rparr>"
  obtain s where s: "runProxy demo_env ?load ?url = Inr s"
    by (simp add: runProxy_def New_def demo_env_def)
  have req: "dec_request demo_codec (take body_limit ''call'') = Some
      \<lparr>jr_JSONRPC = ''2.0'', jr_ID = Some ''1'', jr_Method = ''tools/call'', jr_Params = ''p''\<rparr>"
    by (simp add: demo_codec_def body_limit_def)
  have "Handler demo_codec s ?r = Respond 403 (RPCError (Some ''1'') (- 32600) (msg_blocked ''rm'' ''allow''))"
    using runProxy_enforces_config[OF s _ _ _ _ _ _ _ req, of _ _ ?r]
    by (simp add: demo_env_def demo_codec_def Check_def)
  with s show ?thesis by blast
qed

text \<open>
  Only the path /mcp is guarded: any other clean path is handed to the upstream as it is,
  whatever the policy.
\<close>

lemma Handler_other_path_unchecked:
  "\<lbrakk>clean_path (rq_Path r) = rq_Path r; rq_Path r \<noteq> ''/mcp''; rq_Path r \<noteq> ''/health''\<rbrakk> \<Longrightarrow>
   Handler D s r = Forward (proxy_Director s r)"
  by (simp add: Handler_def handlePassthrough_def)

text \<open>
  A spawn command given as words round-trips through GATEWAY_COMMAND: joining words that
  are non-empty and free of white space by blanks and splitting them again gives the words.
\<close>

theorem getSpawnCommand_roundtrip:
  assumes "ws \<noteq> []" "\<forall>w \<in> set ws. w \<noteq> [] \<and> (\<forall>c \<in> set w. \<not> is_space c)"
    and "getenv ''GATEWAY_COMMAND'' = join '' '' ws"
  shows "getSpawnCommand getenv args = ws"
proof -
  have "strings_Fields (join '' '' ws) = ws" by (rule Fields_join[OF assms(2)])
  moreover from this assms(1) have "join '' '' ws \<noteq> []" by auto
  ultimately show ?thesis by (simp add: getSpawnCommand_def assms(3))
qed

theorem getSpawnCommand_roundtrip_witness:
  "getSpawnCommand (\<lambda>k. if k = ''GATEWAY_COMMAND'' then ''npx -y srv'' else []) [''x''] = [''npx'', ''-y'', ''srv'']"
  by (rule getSpawnCommand_roundtrip) (simp_all add: is_space_def)

end
