(* ===== verification/Gateway_Spawn.thy ===== *)
theory Gateway_Spawn
  imports Gateway_Proxy
begin

text \<open>
  The spawn mode of the MCP gateway: \<^verbatim>\<open>src/images/mcp-gateway/internal/spawn/spawn.go\<close> and
  \<open>runSpawn\<close> of \<^verbatim>\<open>main.go\<close>. A server bridges HTTP requests to one subprocess: each request
  registers a response channel under its JSON-RPC id, writes the message to the subprocess
  and waits; one goroutine reads the output of the subprocess and routes responses by id and
  notifications to the SSE connections. The model has one step per critical section or channel
  operation, so every interleaving of the goroutines is a sequence of steps. A write to the
  subprocess is one step: that it may block on a full pipe while it holds the lock is not
  modelled.
\<close>

section \<open>Data\<close>

record jsonRPCError =
  je_Code :: int
  je_Message :: string

text \<open>Raw JSON parts are kept as text; an absent id is \<^const>\<open>None\<close>.\<close>

record jsonRPCMessage =
  jm_JSONRPC :: string
  jm_ID :: "string option"
  jm_Method :: string
  jm_Params :: string
  jm_Result :: string
  jm_Error :: "jsonRPCError option"

datatype send_result = Response jsonRPCMessage | NoResponse | SendError string

text \<open>
  Where a call of \<open>Send\<close> is: before it registers its channel, before it writes, in the final
  select, before the deferred removal of its entry, or returned.
\<close>

datatype send_pc = Starting | Writing | Waiting | Leaving send_result | Returned send_result

record send_call =
  sc_msg :: jsonRPCMessage
  sc_pc :: send_pc

text \<open>The reader is between lines or holds a response that it is about to put into a channel.\<close>

datatype reader_state = Scanning | Delivering nat jsonRPCMessage | ReaderDone

text \<open>
  The channel that a call of \<open>Send\<close> makes is named by the call, the channel of an SSE connection
  by the connection.
\<close>

record spawn_server =
  sv_calls :: "nat \<Rightarrow> send_call option"
  sv_pending :: "string \<Rightarrow> nat option"
  sv_chan :: "nat \<Rightarrow> jsonRPCMessage list"
  sv_sseConns :: "string \<Rightarrow> nat option"
  sv_sse_chan :: "nat \<Rightarrow> jsonRPCMessage list"
  sv_sse_next :: nat
  sv_stdin :: "jsonRPCMessage list"
  sv_reader :: reader_state

definition resp_cap :: nat where "resp_cap = 1"
definition sse_cap :: nat where "sse_cap = 64"

definition New_spawn :: spawn_server where
  "New_spawn = \<lparr>sv_calls = Map.empty, sv_pending = Map.empty, sv_chan = (\<lambda>_. []), sv_sseConns = Map.empty,
     sv_sse_chan = (\<lambda>_. []), sv_sse_next = 0, sv_stdin = [], sv_reader = Scanning\<rparr>"

section \<open>Operations\<close>

definition set_pc :: "nat \<Rightarrow> send_pc \<Rightarrow> spawn_server \<Rightarrow> spawn_server" where
  "set_pc c pc s = (case sv_calls s c of None \<Rightarrow> s
     | Some call \<Rightarrow> s\<lparr>sv_calls := (sv_calls s)(c \<mapsto> call\<lparr>sc_pc := pc\<rparr>)\<rparr>)"

text \<open>A call of \<open>Send\<close> begins: a notification is written at once, a request registers its channel.\<close>

definition send_begin :: "nat \<Rightarrow> jsonRPCMessage \<Rightarrow> spawn_server \<Rightarrow> spawn_server" where
  "send_begin c msg s = s\<lparr>sv_calls := (sv_calls s)(c \<mapsto> \<lparr>sc_msg = msg, sc_pc = (if jm_ID msg = None then Writing else Starting)\<rparr>)\<rparr>"

definition send_register :: "nat \<Rightarrow> jsonRPCMessage \<Rightarrow> spawn_server \<Rightarrow> spawn_server" where
  "send_register c msg s =
     (case jm_ID msg of
        None \<Rightarrow> s
      | Some idStr \<Rightarrow> set_pc c Writing (s\<lparr>sv_pending := (sv_pending s)(idStr \<mapsto> c), sv_chan := (sv_chan s)(c := [])\<rparr>))"

text \<open>\<open>write\<close>: marshal and write one line; \<open>err\<close> is the error of either, if there is one.\<close>

definition write_msg :: "nat \<Rightarrow> jsonRPCMessage \<Rightarrow> string option \<Rightarrow> spawn_server \<Rightarrow> spawn_server" where
  "write_msg c msg err s =
     (case err of
        Some e \<Rightarrow> set_pc c (if jm_ID msg = None then Returned (SendError e) else Leaving (SendError e)) s
      | None \<Rightarrow> set_pc c (if jm_ID msg = None then Returned NoResponse else Waiting) (s\<lparr>sv_stdin := sv_stdin s @ [msg]\<rparr>))"

text \<open>The two branches of the select, and the deferred removal of the entry.\<close>

definition send_receive :: "nat \<Rightarrow> spawn_server \<Rightarrow> spawn_server" where
  "send_receive c s =
     (case sv_chan s c of
        [] \<Rightarrow> s
      | resp # rest \<Rightarrow> set_pc c (Leaving (Response resp)) (s\<lparr>sv_chan := (sv_chan s)(c := rest)\<rparr>))"

definition send_cancel :: "nat \<Rightarrow> spawn_server \<Rightarrow> spawn_server" where
  "send_cancel c s = set_pc c (Leaving (SendError ''context canceled'')) s"

definition send_leave :: "nat \<Rightarrow> jsonRPCMessage \<Rightarrow> send_result \<Rightarrow> spawn_server \<Rightarrow> spawn_server" where
  "send_leave c msg res s =
     (case jm_ID msg of
        None \<Rightarrow> set_pc c (Returned res) s
      | Some idStr \<Rightarrow> set_pc c (Returned res) (s\<lparr>sv_pending := (sv_pending s)(idStr := None)\<rparr>))"

text \<open>One line of the subprocess; \<open>parse\<close> is the JSON decoder, \<^const>\<open>None\<close> its error.\<close>

definition broadcast :: "jsonRPCMessage \<Rightarrow> spawn_server \<Rightarrow> spawn_server" where
  "broadcast msg s = s\<lparr>sv_sse_chan := (\<lambda>ch.
     if ch \<in> ran (sv_sseConns s) \<and> length (sv_sse_chan s ch) < sse_cap then sv_sse_chan s ch @ [msg] else sv_sse_chan s ch)\<rparr>"

definition readLine :: "(string \<Rightarrow> jsonRPCMessage option) \<Rightarrow> string \<Rightarrow> spawn_server \<Rightarrow> spawn_server" where
  "readLine parse text s =
     (let line = trim_space text in
      if line = [] then s
      else case parse line of
             None \<Rightarrow> s
           | Some msg \<Rightarrow>
               (case jm_ID msg of
                  Some idStr \<Rightarrow> (case sv_pending s idStr of
                                   None \<Rightarrow> s
                                 | Some ch \<Rightarrow> s\<lparr>sv_reader := Delivering ch msg\<rparr>)
                | None \<Rightarrow> broadcast msg s))"

text \<open>The send to the response channel, which waits while the buffer is full.\<close>

definition can_deliver :: "spawn_server \<Rightarrow> nat \<Rightarrow> bool" where
  "can_deliver s ch \<longleftrightarrow> length (sv_chan s ch) < resp_cap"

definition deliver :: "nat \<Rightarrow> jsonRPCMessage \<Rightarrow> spawn_server \<Rightarrow> spawn_server" where
  "deliver ch msg s = s\<lparr>sv_chan := (sv_chan s)(ch := sv_chan s ch @ [msg]), sv_reader := Scanning\<rparr>"

text \<open>\<open>RegisterSSE\<close> makes a new channel, which it returns, and replaces the one of the same session.\<close>

definition RegisterSSE :: "string \<Rightarrow> spawn_server \<Rightarrow> nat \<times> spawn_server" where
  "RegisterSSE session s =
     (let ch = sv_sse_next s
      in (ch, s\<lparr>sv_sseConns := (sv_sseConns s)(session \<mapsto> ch), sv_sse_chan := (sv_sse_chan s)(ch := []), sv_sse_next := ch + 1\<rparr>))"

definition UnregisterSSE :: "string \<Rightarrow> spawn_server \<Rightarrow> spawn_server" where
  "UnregisterSSE session s = s\<lparr>sv_sseConns := (sv_sseConns s)(session := None)\<rparr>"

definition sse_receive :: "nat \<Rightarrow> spawn_server \<Rightarrow> spawn_server" where
  "sse_receive ch s = s\<lparr>sv_sse_chan := (sv_sse_chan s)(ch := tl (sv_sse_chan s ch))\<rparr>"

section \<open>HTTP\<close>

text \<open>\<open>handlePost\<close>: what is answered for the result of \<open>Send\<close>; \<^const>\<open>None\<close> is a body that does not decode.\<close>

datatype spawn_reply = Plain int string | JSONReply jsonRPCMessage

definition handlePost_spawn :: "send_result option \<Rightarrow> spawn_reply" where
  "handlePost_spawn r =
     (case r of
        None \<Rightarrow> Plain 400 ''{\"error\":\"invalid JSON\"}''
      | Some (SendError _) \<Rightarrow> Plain 500 ''{\"error\":\"internal error\"}''
      | Some NoResponse \<Rightarrow> Plain 202 []
      | Some (Response resp) \<Rightarrow> JSONReply resp)"

text \<open>The routes of the gateway, where a pattern for \<open>GET\<close> also takes \<open>HEAD\<close>; and one event of a stream.\<close>

datatype spawn_route = PostMCP | StreamMCP | Health

definition Handler_spawn :: "string \<Rightarrow> string \<Rightarrow> spawn_route option" where
  "Handler_spawn verb path =
     (if verb = ''POST'' \<and> path = ''/mcp'' then Some PostMCP
      else if (verb = ''GET'' \<or> verb = ''HEAD'') \<and> path = ''/mcp'' then Some StreamMCP
      else if (verb = ''GET'' \<or> verb = ''HEAD'') \<and> path = ''/health'' then Some Health
      else None)"

definition sse_event :: "string \<Rightarrow> string" where
  "sse_event data = ''data: '' @ data @ [CHR 0x0A, CHR 0x0A]"

definition truncate :: "string \<Rightarrow> nat \<Rightarrow> string" where
  "truncate s n = (if length s \<le> n then s else take n s @ ''...'')"

section \<open>Start-up\<close>

text \<open>
  \<open>runSpawn\<close>: the command and the environment of the subprocess. \<open>New\<close> appends the environment
  it is given to the one of the gateway; \<open>start\<close> is the error of \<open>Start\<close>, if there is one.
\<close>

definition spawn_child_env :: "string list \<Rightarrow> string list \<Rightarrow> string list" where
  "spawn_child_env environ env = environ @ env"

definition runSpawn :: "string list \<Rightarrow> (string list \<Rightarrow> string list \<Rightarrow> string option) \<Rightarrow> string list \<Rightarrow> string + string list \<times> string list" where
  "runSpawn environ start command =
     (if command = []
      then Inl ''no command specified: set GATEWAY_COMMAND or pass command as container args''
      else (let child = spawn_child_env environ (filter (\<lambda>e. \<not> has_prefix e ''GATEWAY_'') environ)
            in case start command child of
                 Some err \<Rightarrow> Inl (''start subprocess: '' @ err)
               | None \<Rightarrow> Inr (command, child)))"

text \<open>
  \<open>main\<close> of the gateway up to the point where it serves: it copies its binary, serves in one
  of the two modes on an address, or exits with an error. \<open>args\<close> is \<^verbatim>\<open>os.Args[1:]\<close>.
\<close>

datatype gateway_start = CopyTo string | ServeSpawn "string list" "string list" string | ServeProxy proxy_server string | ExitError string

definition gateway_serve :: "environ \<Rightarrow> string list \<Rightarrow> string list \<Rightarrow> (string list \<Rightarrow> string list \<Rightarrow> string option) \<Rightarrow>
    (string \<Rightarrow> string + Config) \<Rightarrow> (string \<Rightarrow> string + (string \<times> string)) \<Rightarrow> gateway_start" where
  "gateway_serve getenv environ args start load urlParse =
     (let mode = getenv ''GATEWAY_MODE''; addr = '':'' @ envOrDefault getenv ''GATEWAY_PORT'' ''8080'' in
      if mode = ''spawn''
      then (case runSpawn environ start (getSpawnCommand getenv args) of
              Inl err \<Rightarrow> ExitError err | Inr (command, child) \<Rightarrow> ServeSpawn command child addr)
      else if mode = ''proxy''
      then (case runProxy getenv load urlParse of Inl err \<Rightarrow> ExitError err | Inr server \<Rightarrow> ServeProxy server addr)
      else ExitError (''GATEWAY_MODE must be 'spawn' or 'proxy'' @ [CHR 0x27]))"

definition gateway_main :: "environ \<Rightarrow> string list \<Rightarrow> string list \<Rightarrow> (string list \<Rightarrow> string list \<Rightarrow> string option) \<Rightarrow>
    (string \<Rightarrow> string + Config) \<Rightarrow> (string \<Rightarrow> string + (string \<times> string)) \<Rightarrow> gateway_start" where
  "gateway_main getenv environ args start load urlParse =
     (if length args = 1 \<and> has_prefix (hd args) ''--copy-to=''
      then CopyTo (drop (length ''--copy-to='') (hd args))
      else gateway_serve getenv environ args start load urlParse)"

lemma child_inherits_gateway_variables:
  assumes "runSpawn environ start command = Inr (cmd, child)" "e \<in> set environ"
  shows "e \<in> set child"
  using assms by (auto simp: runSpawn_def spawn_child_env_def Let_def split: if_splits option.splits)

section \<open>Steps\<close>

text \<open>
  The interleaved execution. With \<open>U\<close> clients keep to the JSON-RPC rule that the ids of
  requests in flight differ; without it ids are arbitrary.
\<close>

definition in_flight :: "spawn_server \<Rightarrow> nat \<Rightarrow> string \<Rightarrow> bool" where
  "in_flight s c i \<longleftrightarrow> (\<exists>call. sv_calls s c = Some call \<and> jm_ID (sc_msg call) = Some i \<and>
     (sc_pc call = Writing \<or> sc_pc call = Waiting \<or> (\<exists>r. sc_pc call = Leaving r)))"

inductive spawn_step :: "(string \<Rightarrow> jsonRPCMessage option) \<Rightarrow> bool \<Rightarrow> spawn_server \<Rightarrow> spawn_server \<Rightarrow> bool"
  for parse :: "string \<Rightarrow> jsonRPCMessage option" and U :: bool where
  step_begin: "sv_calls s c = None \<Longrightarrow> spawn_step parse U s (send_begin c msg s)"
| step_register: "\<lbrakk>sv_calls s c = Some call; sc_pc call = Starting; jm_ID (sc_msg call) = Some i;
    U \<longrightarrow> (\<forall>c'. \<not> in_flight s c' i)\<rbrakk> \<Longrightarrow> spawn_step parse U s (send_register c (sc_msg call) s)"
| step_write: "\<lbrakk>sv_calls s c = Some call; sc_pc call = Writing\<rbrakk> \<Longrightarrow> spawn_step parse U s (write_msg c (sc_msg call) err s)"
| step_receive: "\<lbrakk>sv_calls s c = Some call; sc_pc call = Waiting; sv_chan s c \<noteq> []\<rbrakk> \<Longrightarrow> spawn_step parse U s (send_receive c s)"
| step_cancel: "\<lbrakk>sv_calls s c = Some call; sc_pc call = Waiting\<rbrakk> \<Longrightarrow> spawn_step parse U s (send_cancel c s)"
| step_leave: "\<lbrakk>sv_calls s c = Some call; sc_pc call = Leaving res\<rbrakk> \<Longrightarrow> spawn_step parse U s (send_leave c (sc_msg call) res s)"
| step_read: "sv_reader s = Scanning \<Longrightarrow> spawn_step parse U s (readLine parse line s)"
| step_deliver: "\<lbrakk>sv_reader s = Delivering ch msg; can_deliver s ch\<rbrakk> \<Longrightarrow> spawn_step parse U s (deliver ch msg s)"
| step_finish: "sv_reader s = Scanning \<Longrightarrow> spawn_step parse U s (s\<lparr>sv_reader := ReaderDone\<rparr>)"
| step_sse_open: "spawn_step parse U s (snd (RegisterSSE session s))"
| step_sse_read: "sv_sse_chan s ch \<noteq> [] \<Longrightarrow> spawn_step parse U s (sse_receive ch s)"
| step_sse_close: "spawn_step parse U s (UnregisterSSE session s)"

inductive spawn_reach :: "(string \<Rightarrow> jsonRPCMessage option) \<Rightarrow> bool \<Rightarrow> spawn_server \<Rightarrow> bool"
  for parse :: "string \<Rightarrow> jsonRPCMessage option" and U :: bool where
  reach_new: "spawn_reach parse U New_spawn"
| reach_step: "\<lbrakk>spawn_reach parse U s; spawn_step parse U s s'\<rbrakk> \<Longrightarrow> spawn_reach parse U s'"

section \<open>Invariants\<close>

lemma set_pc_sel [simp]:
  "sv_pending (set_pc c pc s) = sv_pending s" "sv_chan (set_pc c pc s) = sv_chan s" "sv_reader (set_pc c pc s) = sv_reader s"
  "sv_sse_chan (set_pc c pc s) = sv_sse_chan s" "sv_sseConns (set_pc c pc s) = sv_sseConns s" "sv_stdin (set_pc c pc s) = sv_stdin s"
  "sv_sse_next (set_pc c pc s) = sv_sse_next s"
  by (simp_all add: set_pc_def split: option.split)

lemma set_pc_calls:
  "sv_calls (set_pc c pc s) c' =
     (if c' = c then map_option (\<lambda>call. call\<lparr>sc_pc := pc\<rparr>) (sv_calls s c) else sv_calls s c')"
  by (simp add: set_pc_def split: option.split)

lemmas spawn_ops = send_begin_def send_register_def write_msg_def send_receive_def send_cancel_def send_leave_def
  readLine_def deliver_def broadcast_def RegisterSSE_def UnregisterSSE_def sse_receive_def Let_def

text \<open>The id of the request of a call, and the response a call returns.\<close>

definition call_id :: "spawn_server \<Rightarrow> nat \<Rightarrow> string option option" where
  "call_id s c = map_option (\<lambda>call. jm_ID (sc_msg call)) (sv_calls s c)"

fun response_of :: "send_pc \<Rightarrow> jsonRPCMessage option" where
  "response_of (Leaving (Response m)) = Some m"
| "response_of (Returned (Response m)) = Some m"
| "response_of _ = None"

lemma call_id_set_pc [simp]: "call_id (set_pc c pc s) = call_id s"
  by (auto simp: call_id_def set_pc_calls fun_eq_iff map_option.compositionality comp_def)

lemma call_id_upd [simp]:
  "call_id (s\<lparr>sv_pending := p\<rparr>) = call_id s" "call_id (s\<lparr>sv_chan := ch\<rparr>) = call_id s" "call_id (s\<lparr>sv_reader := r\<rparr>) = call_id s"
  "call_id (s\<lparr>sv_sse_chan := x\<rparr>) = call_id s" "call_id (s\<lparr>sv_sseConns := y\<rparr>) = call_id s" "call_id (s\<lparr>sv_stdin := z\<rparr>) = call_id s"
  "call_id (s\<lparr>sv_sse_next := n\<rparr>) = call_id s"
  by (simp_all add: call_id_def fun_eq_iff)

lemma call_id_new [simp]: "call_id (s\<lparr>sv_calls := (sv_calls s)(c \<mapsto> call)\<rparr>) = (call_id s)(c \<mapsto> jm_ID (sc_msg call))"
  by (auto simp: call_id_def fun_eq_iff)

text \<open>Whatever a call finds in its channel answers the request of that call.\<close>

definition routing_inv :: "spawn_server \<Rightarrow> bool" where
  "routing_inv s \<longleftrightarrow>
     (\<forall>i c. sv_pending s i = Some c \<longrightarrow> call_id s c = Some (Some i)) \<and>
     (\<forall>c. \<forall>m \<in> set (sv_chan s c). call_id s c = Some (jm_ID m)) \<and>
     (\<forall>c m. sv_reader s = Delivering c m \<longrightarrow> call_id s c = Some (jm_ID m)) \<and>
     (\<forall>c call m. sv_calls s c = Some call \<longrightarrow> response_of (sc_pc call) = Some m \<longrightarrow> jm_ID m = jm_ID (sc_msg call))"

lemma call_id_Some: "sv_calls s c = Some call \<Longrightarrow> call_id s c = Some (jm_ID (sc_msg call))"
  by (simp add: call_id_def)

lemma call_id_None: "sv_calls s c = None \<Longrightarrow> call_id s c = None"
  by (simp add: call_id_def)

definition bounds_inv :: "spawn_server \<Rightarrow> bool" where
  "bounds_inv s \<longleftrightarrow> (\<forall>c. length (sv_chan s c) \<le> resp_cap) \<and> (\<forall>ch. length (sv_sse_chan s ch) \<le> sse_cap)"

lemma bounds_inv_step: "spawn_step parse U s s' \<Longrightarrow> bounds_inv s \<Longrightarrow> bounds_inv s'"
proof (induction rule: spawn_step.induct)
  case (step_receive s c call)
  then show ?case by (auto simp: bounds_inv_def send_receive_def split: list.split) (metis Suc_leD length_Cons)
qed (auto simp: bounds_inv_def spawn_ops can_deliver_def Suc_le_eq le_diff_conv split: option.split intro: le_SucI)

lemma routing_set_pc:
  assumes "routing_inv s" "\<And>m. response_of pc = Some m \<Longrightarrow> call_id s c = Some (jm_ID m)"
  shows "routing_inv (set_pc c pc s)"
  using assms unfolding routing_inv_def by (auto simp: set_pc_calls call_id_def split: if_splits)

lemma routing_upd:
  assumes "routing_inv s"
  shows "routing_inv (s\<lparr>sv_stdin := z\<rparr>)" "routing_inv (s\<lparr>sv_sse_chan := x\<rparr>)" "routing_inv (s\<lparr>sv_pending := (sv_pending s)(i := None)\<rparr>)"
    "(\<And>m. m \<in> set ms \<Longrightarrow> call_id s c = Some (jm_ID m)) \<Longrightarrow> routing_inv (s\<lparr>sv_chan := (sv_chan s)(c := ms)\<rparr>)"
  using assms unfolding routing_inv_def by (auto split: if_splits)

lemma routing_response:
  assumes "routing_inv s" "sv_calls s c = Some call" "response_of (sc_pc call) = Some m"
  shows "call_id s c = Some (jm_ID m)"
  using assms unfolding routing_inv_def call_id_def by (metis option.simps(9))

lemma routing_inv_step: "spawn_step parse U s s' \<Longrightarrow> routing_inv s \<Longrightarrow> routing_inv s'"
proof (induction rule: spawn_step.induct)
  case (step_begin s c msg)
  then have "call_id s c = None" by (simp add: call_id_None)
  with step_begin.prems show ?case
    unfolding routing_inv_def by (auto simp: send_begin_def) 
next
  case (step_register s c call i)
  then have "call_id s c = Some (Some i)" by (simp add: call_id_Some)
  then have "routing_inv (s\<lparr>sv_pending := (sv_pending s)(i \<mapsto> c), sv_chan := (sv_chan s)(c := [])\<rparr>)"
    using step_register.prems unfolding routing_inv_def by auto
  then show ?case using step_register by (auto simp: send_register_def intro!: routing_set_pc)
next
  case (step_write s c call err)
  then show ?case by (cases err) (auto simp: write_msg_def intro!: routing_set_pc routing_upd)
next
  case (step_receive s c call)
  then obtain m rest where m: "sv_chan s c = m # rest" by (cases "sv_chan s c") auto
  then have "call_id s c = Some (jm_ID x)" if "x \<in> set (m # rest)" for x
    using step_receive.prems that unfolding routing_inv_def by (metis m)
  with m step_receive show ?case by (auto simp: send_receive_def intro!: routing_set_pc routing_upd)
next
  case (step_cancel s c call)
  then show ?case by (auto simp: send_cancel_def intro!: routing_set_pc)
next
  case (step_leave s c call res)
  then have "call_id s c = Some (jm_ID m)" if "response_of (Returned res) = Some m" for m
    using that routing_response[of s c call m] by (cases res) simp_all
  with step_leave show ?case
    by (cases "jm_ID (sc_msg call)") (auto simp: send_leave_def intro!: routing_set_pc routing_upd)
next
  case (step_read s line)
  then have "routing_inv (s\<lparr>sv_reader := Delivering ch msg\<rparr>)" if "jm_ID msg = Some i" "sv_pending s i = Some ch" for ch msg i
    using that unfolding routing_inv_def by auto
  with step_read.prems show ?case
    by (auto simp: readLine_def broadcast_def Let_def routing_upd split: option.split)
next
  case (step_deliver s ch msg)
  then show ?case unfolding routing_inv_def by (auto simp: deliver_def split: if_splits)
qed (auto simp: routing_inv_def spawn_ops)

lemma spawn_inv: "spawn_reach parse U s \<Longrightarrow> routing_inv s \<and> bounds_inv s"
proof (induction rule: spawn_reach.induct)
  case reach_new
  then show ?case by (simp add: routing_inv_def bounds_inv_def New_spawn_def)
qed (auto dest: routing_inv_step bounds_inv_step)

definition registered_inv :: "spawn_server \<Rightarrow> bool" where
  "registered_inv s \<longleftrightarrow> (\<forall>c i. in_flight s c i \<longrightarrow> sv_pending s i = Some c)"

lemma in_flight_set_pc:
  "in_flight (set_pc c pc s) c' i \<longleftrightarrow>
     (if c' = c then call_id s c = Some (Some i) \<and> (pc = Writing \<or> pc = Waiting \<or> (\<exists>r. pc = Leaving r)) else in_flight s c' i)"
  by (auto simp: in_flight_def set_pc_calls call_id_def)

lemma in_flight_upd [simp]:
  "in_flight (s\<lparr>sv_pending := p\<rparr>) = in_flight s" "in_flight (s\<lparr>sv_chan := ch\<rparr>) = in_flight s" "in_flight (s\<lparr>sv_reader := r\<rparr>) = in_flight s"
  "in_flight (s\<lparr>sv_sse_chan := x\<rparr>) = in_flight s" "in_flight (s\<lparr>sv_sseConns := y\<rparr>) = in_flight s"
  "in_flight (s\<lparr>sv_stdin := z\<rparr>) = in_flight s" "in_flight (s\<lparr>sv_sse_next := n\<rparr>) = in_flight s"
  by (simp_all add: in_flight_def fun_eq_iff)

lemma in_flightI: "\<lbrakk>sv_calls s c = Some call; jm_ID (sc_msg call) = Some i; sc_pc call = Writing \<or> sc_pc call = Waiting \<or> (\<exists>r. sc_pc call = Leaving r)\<rbrakk> \<Longrightarrow> in_flight s c i"
  by (auto simp: in_flight_def)

lemma registered_inv_step: "spawn_step parse True s s' \<Longrightarrow> registered_inv s \<Longrightarrow> registered_inv s'"
proof (induction rule: spawn_step.induct)
  case (step_begin s c msg)
  then show ?case by (auto simp: registered_inv_def in_flight_def send_begin_def split: if_splits)
next
  case (step_register s c call i)
  then show ?case by (auto simp: registered_inv_def send_register_def in_flight_set_pc call_id_Some)
next
  case (step_write s c call err)
  then show ?case
    by (auto simp: registered_inv_def write_msg_def in_flight_set_pc call_id_Some intro: in_flightI split: option.split if_splits)
next
  case (step_receive s c call)
  then show ?case
    by (auto simp: registered_inv_def send_receive_def in_flight_set_pc call_id_Some intro: in_flightI split: list.split)
next
  case (step_cancel s c call)
  then show ?case
    by (auto simp: registered_inv_def send_cancel_def in_flight_set_pc call_id_Some intro: in_flightI)
next
  case (step_leave s c call res)
  then show ?case
    unfolding registered_inv_def send_leave_def
    by (auto simp: in_flight_set_pc split: option.split) (metis in_flightI option.inject)
next
  case (step_read s line)
  then show ?case by (auto simp: registered_inv_def readLine_def broadcast_def Let_def split: option.split)
qed (auto simp: registered_inv_def spawn_ops)

lemma spawn_registered: "spawn_reach parse True s \<Longrightarrow> registered_inv s"
proof (induction rule: spawn_reach.induct)
  case reach_new
  then show ?case by (simp add: registered_inv_def in_flight_def New_spawn_def)
qed (auto dest: registered_inv_step)

section \<open>A concrete run\<close>

text \<open>One call with the id 1; \<open>ex_parse\<close> decodes the line \<open>r\<close> as its response.\<close>

definition ex_request :: jsonRPCMessage where
  "ex_request = \<lparr>jm_JSONRPC = ''2.0'', jm_ID = Some ''1'', jm_Method = ''tools/list'', jm_Params = [], jm_Result = [], jm_Error = None\<rparr>"

definition ex_response :: jsonRPCMessage where
  "ex_response = ex_request\<lparr>jm_Method := [], jm_Result := ''{}''\<rparr>"

definition ex_parse :: "string \<Rightarrow> jsonRPCMessage option" where
  "ex_parse l = (if l = ''r'' then Some ex_response else None)"

definition ex_waiting :: spawn_server where
  "ex_waiting = write_msg 0 ex_request None (send_register 0 ex_request (send_begin 0 ex_request New_spawn))"

lemmas ex_defs = ex_waiting_def ex_request_def ex_response_def ex_parse_def New_spawn_def spawn_ops set_pc_def trim_space_def

lemma ex_registered: "spawn_reach parse U (send_register 0 ex_request (send_begin 0 ex_request New_spawn))"
proof -
  have b: "spawn_reach parse U (send_begin 0 ex_request New_spawn)"
    by (rule reach_step[OF reach_new]) (rule step_begin, simp add: New_spawn_def)
  have r: "sv_calls (send_begin 0 ex_request New_spawn) 0 = Some \<lparr>sc_msg = ex_request, sc_pc = Starting\<rparr>"
    by (simp add: ex_defs)
  show ?thesis
    using step_register[OF r, of "''1''" U parse] by (intro reach_step[OF b]) (simp add: ex_defs in_flight_def)
qed

lemma ex_waiting_reach: "spawn_reach parse U ex_waiting"
proof -
  have r: "sv_calls (send_register 0 ex_request (send_begin 0 ex_request New_spawn)) 0 = Some \<lparr>sc_msg = ex_request, sc_pc = Writing\<rparr>"
    by (simp add: ex_defs)
  show ?thesis unfolding ex_waiting_def
    using step_write[OF r, of parse U None] by (intro reach_step[OF ex_registered]) simp
qed

section \<open>Properties\<close>

lemma four_steps: "\<lbrakk>R a b; R b c; R c d; R d e\<rbrakk> \<Longrightarrow> R\<^sup>*\<^sup>* a e"
  by (meson converse_rtranclp_into_rtranclp rtranclp.rtrancl_refl)

text \<open>
  C13: a call of \<open>Send\<close> only ever returns a response that carries the id of its own request, in
  every interleaving and even when clients reuse ids.
\<close>

theorem Send_returns_own_id:
  assumes "spawn_reach parse U s" "sv_calls s c = Some call" "sc_pc call = Returned (Response m)"
  shows "jm_ID m = jm_ID (sc_msg call)"
  using routing_response[of s c call m] spawn_inv[OF assms(1)] assms(2,3) by (simp add: call_id_Some)

text \<open>
  C14: when the ids of requests in flight differ, the response to a waiting call reaches it: the
  reader hands the line to the channel of that call, and the call returns it.
\<close>

theorem Send_receives_response:
  assumes reach: "spawn_reach parse True s"
    and call: "sv_calls s c = Some call" "sc_pc call = Waiting" "jm_ID (sc_msg call) = Some i"
    and reader: "sv_reader s = Scanning" "sv_chan s c = []"
    and line: "trim_space line \<noteq> []" "parse (trim_space line) = Some m" "jm_ID m = Some i"
  shows "\<exists>s'. (spawn_step parse True)\<^sup>*\<^sup>* s s' \<and> sv_calls s' c = Some (call\<lparr>sc_pc := Returned (Response m)\<rparr>) \<and> sv_reader s' = Scanning"
proof -
  let ?s1 = "readLine parse line s"
  let ?s2 = "deliver c m ?s1"
  let ?s3 = "send_receive c ?s2"
  let ?s4 = "send_leave c (sc_msg call) (Response m) ?s3"
  have pending: "sv_pending s i = Some c"
    using spawn_registered[OF reach] in_flightI[OF call(1,3)] call(2) by (simp add: registered_inv_def)
  then have s1: "?s1 = s\<lparr>sv_reader := Delivering c m\<rparr>" using line by (simp add: readLine_def)
  have s2: "?s2 = s\<lparr>sv_reader := Scanning, sv_chan := (sv_chan s)(c := [m])\<rparr>" using s1 reader by (simp add: deliver_def)
  have calls3: "sv_calls ?s3 c = Some (call\<lparr>sc_pc := Leaving (Response m)\<rparr>)"
    using s2 call by (simp add: send_receive_def set_pc_calls)
  have step1: "spawn_step parse True s ?s1" using step_read[OF reader(1)] .
  have step2: "spawn_step parse True ?s1 ?s2"
    by (rule step_deliver) (use s1 reader in \<open>simp_all add: can_deliver_def resp_cap_def\<close>)
  have step3: "spawn_step parse True ?s2 ?s3"
    by (rule step_receive[of _ _ call]) (use s2 call in simp_all)
  have step4: "spawn_step parse True ?s3 ?s4"
    using step_leave[OF calls3, of "Response m"] by simp
  have "sv_calls ?s4 c = Some (call\<lparr>sc_pc := Returned (Response m)\<rparr>)" "sv_reader ?s4 = Scanning"
    using calls3 call s2 by (simp_all add: send_leave_def set_pc_calls send_receive_def)
  then show ?thesis using four_steps[of "spawn_step parse True", OF step1 step2 step3 step4] by blast
qed

text \<open>
  The buffers keep their capacity in every reachable state: at most one response per call and
  at most 64 notifications per SSE connection.
\<close>

theorem spawn_buffers_bounded:
  assumes "spawn_reach parse U s"
  shows "length (sv_chan s c) \<le> 1 \<and> length (sv_sse_chan s ch) \<le> 64"
  using spawn_inv[OF assms] by (simp add: bounds_inv_def resp_cap_def sse_cap_def)

section \<open>Witnesses\<close>

lemma ex_waiting_calls: "sv_calls ex_waiting 0 = Some \<lparr>sc_msg = ex_request, sc_pc = Waiting\<rparr>"
  by (simp add: ex_defs)

definition ex_returned :: spawn_server where
  "ex_returned = send_leave 0 ex_request (Response ex_response) (send_receive 0 (deliver 0 ex_response (readLine ex_parse ''r'' ex_waiting)))"

lemma ex_returned_reach: "spawn_reach ex_parse U ex_returned"
proof -
  let ?s1 = "readLine ex_parse ''r'' ex_waiting"
  let ?s2 = "deliver 0 ex_response ?s1"
  let ?s3 = "send_receive 0 ?s2"
  have s1: "spawn_reach ex_parse U ?s1"
    by (rule reach_step[OF ex_waiting_reach step_read]) (simp add: ex_defs)
  have s2: "spawn_reach ex_parse U ?s2"
    by (rule reach_step[OF s1 step_deliver]) (simp_all add: ex_defs can_deliver_def resp_cap_def is_space_def)
  have s3: "spawn_reach ex_parse U ?s3"
    by (rule reach_step[OF s2 step_receive[where call = "\<lparr>sc_msg = ex_request, sc_pc = Waiting\<rparr>"]])
      (simp_all add: ex_defs is_space_def)
  have l: "sv_calls ?s3 0 = Some \<lparr>sc_msg = ex_request, sc_pc = Leaving (Response ex_response)\<rparr>"
    by (simp add: ex_defs is_space_def)
  show ?thesis unfolding ex_returned_def
    using step_leave[OF l, of "Response ex_response" ex_parse U] by (intro reach_step[OF s3]) simp
qed

theorem Send_returns_own_id_witness:
  "jm_ID ex_response = jm_ID ex_request"
proof -
  have "sv_calls ex_returned 0 = Some \<lparr>sc_msg = ex_request, sc_pc = Returned (Response ex_response)\<rparr>"
    by (simp add: ex_returned_def ex_defs is_space_def)
  then show ?thesis using Send_returns_own_id[OF ex_returned_reach[of False], of 0] by simp
qed

theorem Send_receives_response_witness:
  "\<exists>s'. (spawn_step ex_parse True)\<^sup>*\<^sup>* ex_waiting s' \<and>
     sv_calls s' 0 = Some \<lparr>sc_msg = ex_request, sc_pc = Returned (Response ex_response)\<rparr> \<and> sv_reader s' = Scanning"
  using Send_receives_response[OF ex_waiting_reach ex_waiting_calls, of "''1''" "''r''" ex_parse ex_response]
  by (simp add: ex_defs is_space_def)

theorem spawn_buffers_bounded_witness:
  "length (sv_chan ex_waiting 0) \<le> 1 \<and> length (sv_sse_chan ex_waiting 0) \<le> 64"
  by (rule spawn_buffers_bounded[OF ex_waiting_reach[of ex_parse True]])

section \<open>A stuck reader\<close>

text \<open>
  The send of a response waits for room in the channel. When the subprocess answers a request
  twice and the call that owns the channel is cancelled, nobody receives any more: the reader
  holds the second answer for ever, so that no later request is answered.
\<close>

definition reader_stuck :: "spawn_server \<Rightarrow> nat \<Rightarrow> jsonRPCMessage \<Rightarrow> bool" where
  "reader_stuck s c m \<longleftrightarrow> sv_reader s = Delivering c m \<and> \<not> can_deliver s c \<and>
     (\<exists>call r. sv_calls s c = Some call \<and> (sc_pc call = Leaving r \<or> sc_pc call = Returned r))"

lemma reader_stuck_step: "spawn_step parse U s s' \<Longrightarrow> reader_stuck s d m \<Longrightarrow> reader_stuck s' d m"
proof (induction rule: spawn_step.induct)
  case (step_write s c call err)
  then show ?case by (cases err) (auto simp: reader_stuck_def write_msg_def set_pc_calls can_deliver_def)
next
  case (step_receive s c call)
  then show ?case by (cases "sv_chan s c") (auto simp: reader_stuck_def send_receive_def set_pc_calls can_deliver_def)
next
  case (step_leave s c call res)
  then show ?case
    by (cases "jm_ID (sc_msg call)") (auto simp: reader_stuck_def send_leave_def set_pc_calls can_deliver_def)
qed (auto simp: reader_stuck_def spawn_ops can_deliver_def set_pc_calls)

lemma reader_stuck_for_ever:
  assumes "(spawn_step parse U)\<^sup>*\<^sup>* s s'" "reader_stuck s c m"
  shows "reader_stuck s' c m"
  using assms by (induction rule: rtranclp_induct) (auto dest: reader_stuck_step)

lemma reader_stuck_reachable: "\<exists>s. spawn_reach ex_parse True s \<and> reader_stuck s 0 ex_response"
proof -
  let ?s1 = "readLine ex_parse ''r'' ex_waiting"
  let ?s2 = "deliver 0 ex_response ?s1"
  let ?s3 = "readLine ex_parse ''r'' ?s2"
  let ?s4 = "send_cancel 0 ?s3"
  have s1: "spawn_reach ex_parse True ?s1"
    by (rule reach_step[OF ex_waiting_reach step_read]) (simp add: ex_defs)
  have s2: "spawn_reach ex_parse True ?s2"
    by (rule reach_step[OF s1 step_deliver]) (simp_all add: ex_defs can_deliver_def resp_cap_def is_space_def)
  have s3: "spawn_reach ex_parse True ?s3"
    by (rule reach_step[OF s2 step_read]) (simp add: ex_defs is_space_def)
  have "spawn_reach ex_parse True ?s4"
    by (rule reach_step[OF s3 step_cancel[where call = "\<lparr>sc_msg = ex_request, sc_pc = Waiting\<rparr>"]])
      (simp_all add: ex_defs is_space_def)
  moreover have "reader_stuck ?s4 0 ex_response"
    by (simp add: reader_stuck_def ex_defs is_space_def can_deliver_def resp_cap_def)
  ultimately show ?thesis by blast
qed

text \<open>
  Clients number their requests independently. When two of them use the same id, the second
  registration replaces the first: the channel of the first call is unreachable for the reader.
\<close>

lemma same_id_overwrites:
  "\<exists>s. spawn_reach parse False s \<and> in_flight s 0 ''1'' \<and> in_flight s 1 ''1'' \<and> sv_pending s ''1'' = Some 1"
proof -
  let ?b = "send_begin 1 ex_request ex_waiting"
  let ?s = "send_register 1 ex_request ?b"
  have b: "spawn_reach parse False ?b"
    by (rule reach_step[OF ex_waiting_reach step_begin]) (simp add: ex_defs)
  have c: "sv_calls ?b 1 = Some \<lparr>sc_msg = ex_request, sc_pc = Starting\<rparr>" by (simp add: ex_defs)
  have "spawn_reach parse False ?s"
    using step_register[OF c, of "''1''" False parse] by (intro reach_step[OF b]) (simp add: ex_request_def)
  moreover have "in_flight ?s 0 ''1'' \<and> in_flight ?s 1 ''1'' \<and> sv_pending ?s ''1'' = Some 1"
    by (simp add: in_flight_def ex_defs)
  ultimately show ?thesis by blast
qed

end
