(* ===== verification/Spawn_Progress.thy ===== *)
theory Spawn_Progress
  imports Gateway_Spawn
begin

text \<open>Termination of the calls of \<open>Send\<close> in the spawn mode of the gateway: a measure on the place of a call
that no step of the system raises, and a step of the call itself from every place but the return.\<close>

text \<open>How far a call of \<open>Send\<close> is from its return: the number of its own steps that are left at most.\<close>

fun pc_rank :: "send_pc \<Rightarrow> nat" where
  "pc_rank Starting = 4"
| "pc_rank Writing = 3"
| "pc_rank Waiting = 2"
| "pc_rank (Leaving r) = 1"
| "pc_rank (Returned r) = 0"

definition call_pc :: "spawn_server \<Rightarrow> nat \<Rightarrow> send_pc option" where
  "call_pc s c = map_option sc_pc (sv_calls s c)"

lemma step_rank:
  assumes "spawn_step parse U s s'" "sv_calls s c = Some call"
  shows "\<exists>call'. sv_calls s' c = Some call' \<and> sc_msg call' = sc_msg call
    \<and> (sc_pc call' = sc_pc call \<or> pc_rank (sc_pc call') < pc_rank (sc_pc call))"
  using assms
  by cases (auto simp: spawn_ops set_pc_calls split: option.splits list.splits if_splits)

lemma starting_has_id:
  "spawn_reach parse U s \<Longrightarrow> sv_calls s c = Some call \<Longrightarrow> sc_pc call = Starting \<Longrightarrow> jm_ID (sc_msg call) \<noteq> None"
proof (induction arbitrary: call rule: spawn_reach.induct)
  case (reach_step s s')
  show ?case
  proof (cases "sv_calls s c")
    case None
    with reach_step(2,4,5) show ?thesis
      by cases (auto simp: spawn_ops set_pc_calls split: option.splits list.splits if_splits)
  next
    case (Some call0)
    obtain call' where c': "sv_calls s' c = Some call'" "sc_msg call' = sc_msg call0"
      "sc_pc call' = sc_pc call0 \<or> pc_rank (sc_pc call') < pc_rank (sc_pc call0)"
      using step_rank[OF reach_step(2) Some] by blast
    then have "sc_pc call0 = Starting"
      using reach_step(4,5) by (cases "sc_pc call0") auto
    then show ?thesis using reach_step.IH[OF Some] c' reach_step(4) by simp
  qed
qed (simp add: New_spawn_def)

lemma own_step:
  assumes "spawn_reach parse False s" "sv_calls s c = Some call" "pc_rank (sc_pc call) \<noteq> 0"
  shows "\<exists>s' call'. spawn_step parse False s s' \<and> sv_calls s' c = Some call' \<and> pc_rank (sc_pc call') < pc_rank (sc_pc call)"
proof (cases "sc_pc call")
  case Starting
  then obtain i where i: "jm_ID (sc_msg call) = Some i" using starting_has_id[OF assms(1,2)] by auto
  have "spawn_step parse False s (send_register c (sc_msg call) s)"
    by (rule step_register[OF assms(2) Starting i]) simp
  then show ?thesis using Starting assms(2) i by (auto simp: send_register_def set_pc_calls)
next
  case Writing
  have "spawn_step parse False s (write_msg c (sc_msg call) None s)"
    by (rule step_write[OF assms(2) Writing])
  then show ?thesis using Writing assms(2) by (force simp: write_msg_def set_pc_calls)
next
  case Waiting
  have "spawn_step parse False s (send_cancel c s)"
    by (rule step_cancel[OF assms(2) Waiting])
  then show ?thesis using Waiting assms(2) by (force simp: send_cancel_def set_pc_calls)
next
  case (Leaving res)
  have "spawn_step parse False s (send_leave c (sc_msg call) res s)"
    by (rule step_leave[OF assms(2) Leaving])
  then show ?thesis using Leaving assms(2) by (force simp: send_leave_def set_pc_calls split: option.split)
qed (use assms(3) in simp)

lemma own_steps_return:
  "spawn_reach parse False s \<Longrightarrow> sv_calls s c = Some call \<Longrightarrow>
    \<exists>k s' res. k \<le> pc_rank (sc_pc call) \<and> (spawn_step parse False ^^ k) s s' \<and> call_pc s' c = Some (Returned res)"
proof (induction "pc_rank (sc_pc call)" arbitrary: s call rule: less_induct)
  case less
  show ?case
  proof (cases "pc_rank (sc_pc call)")
    case 0
    then obtain res where "sc_pc call = Returned res" by (cases "sc_pc call") auto
    then show ?thesis using less.prems(2) by (intro exI[of _ 0]) (auto simp: call_pc_def)
  next
    case (Suc n)
    then obtain s1 call1 where s1: "spawn_step parse False s s1" "sv_calls s1 c = Some call1"
      "pc_rank (sc_pc call1) < pc_rank (sc_pc call)"
      using own_step[OF less.prems] by auto
    obtain k s' res where k: "k \<le> pc_rank (sc_pc call1)" "(spawn_step parse False ^^ k) s1 s'"
      "call_pc s' c = Some (Returned res)"
      using less.hyps[OF s1(3) spawn_reach.reach_step[OF less.prems(1) s1(1)] s1(2)] by blast
    have "(spawn_step parse False ^^ Suc k) s s'" using s1(1) k(2) by (rule relpowp_Suc_I2)
    then show ?thesis using k(1,3) s1(3) by (intro exI[of _ "Suc k"]) auto
  qed
qed

lemma rank_run:
  assumes run: "\<forall>i<n. spawn_step parse U (\<sigma> i) (\<sigma> (Suc i))" and call: "sv_calls (\<sigma> 0) c = Some call"
  shows "\<exists>call'. sv_calls (\<sigma> n) c = Some call' \<and>
    card {i. i < n \<and> call_pc (\<sigma> (Suc i)) c \<noteq> call_pc (\<sigma> i) c} + pc_rank (sc_pc call') \<le> pc_rank (sc_pc call)"
  using run
proof (induction n)
  case (Suc n)
  let ?C = "\<lambda>n. {i. i < n \<and> call_pc (\<sigma> (Suc i)) c \<noteq> call_pc (\<sigma> i) c}"
  obtain call' where c': "sv_calls (\<sigma> n) c = Some call'" "card (?C n) + pc_rank (sc_pc call') \<le> pc_rank (sc_pc call)"
    using Suc by auto
  obtain call2 where c2: "sv_calls (\<sigma> (Suc n)) c = Some call2"
    "sc_pc call2 = sc_pc call' \<or> pc_rank (sc_pc call2) < pc_rank (sc_pc call')"
    using step_rank[OF _ c'(1)] Suc.prems by blast
  show ?case
  proof (cases "sc_pc call2 = sc_pc call'")
    case True
    then have "?C (Suc n) = ?C n" using c'(1) c2(1) by (auto simp: call_pc_def less_Suc_eq)
    then show ?thesis using True c'(2) c2(1) by auto
  next
    case False
    then have "?C (Suc n) = insert n (?C n)" using c'(1) c2(1) by (auto simp: call_pc_def less_Suc_eq)
    moreover have "finite (?C n)" "n \<notin> ?C n" by auto
    ultimately have "card (?C (Suc n)) = Suc (card (?C n))" by simp
    then show ?thesis using False c'(2) c2 by auto
  qed
qed (use call in auto)



end
