(* ===== verification/Gateway_Main.thy ===== *)
theory Gateway_Main
  imports Gateway_Spawn
begin

text \<open>The rest of \<^verbatim>\<open>images/mcp-gateway/main.go\<close> and of \<^verbatim>\<open>spawn.go\<close>: the log level, the copy of the binary,
the start of the subprocess, the stream of an SSE connection, and how the process ends. The operating
system is a parameter: which calls fail, and the files as a map from paths to contents and modes.\<close>

subsection \<open>Log level\<close>

datatype log_level = LevelDebug | LevelInfo | LevelWarn | LevelError

text \<open>\<^verbatim>\<open>strings.ToLower\<close> on ASCII text.\<close>

definition to_lower :: "string \<Rightarrow> string" where
  "to_lower s = map (\<lambda>c. if 65 \<le> (of_char c :: nat) \<and> (of_char c :: nat) \<le> 90 then char_of ((of_char c :: nat) + 32) else c) s"

definition logLevel :: "environ \<Rightarrow> log_level" where
  "logLevel getenv =
     (let l = to_lower (getenv ''LOG_LEVEL'') in
      if l = ''debug'' then LevelDebug else if l = ''warn'' then LevelWarn
      else if l = ''error'' then LevelError else LevelInfo)"

subsection \<open>Copying the binary\<close>

type_synonym files = "string \<rightharpoonup> string \<times> nat"

record file_system =
  os_Executable :: "string + string"
  os_Open_err :: "string \<Rightarrow> string option"
  os_OpenFile_err :: "string \<Rightarrow> string option"
  io_Copy_err :: "string \<Rightarrow> string \<Rightarrow> string option"
  os_umask :: "nat \<Rightarrow> nat"

text \<open>\<open>os.OpenFile\<close> with \<open>O_CREATE|O_WRONLY|O_TRUNC\<close>: a file that exists is emptied and keeps its mode.\<close>

definition open_trunc :: "file_system \<Rightarrow> nat \<Rightarrow> string \<Rightarrow> files \<Rightarrow> files" where
  "open_trunc S mode p F = F(p \<mapsto> ([], case F p of Some (_, m) \<Rightarrow> m | None \<Rightarrow> os_umask S mode))"

definition mode_0755 :: nat where "mode_0755 = 7 * 64 + 5 * 8 + 5"

definition copyBinary :: "file_system \<Rightarrow> string \<Rightarrow> files \<Rightarrow> files \<times> string option" where
  "copyBinary S dest F =
     (case os_Executable S of
        Inl e \<Rightarrow> (F, Some (''resolve executable: '' @ e))
      | Inr exe \<Rightarrow>
          (case os_Open_err S exe of
             Some e \<Rightarrow> (F, Some (''open source: '' @ e))
           | None \<Rightarrow>
               (case os_OpenFile_err S dest of
                  Some e \<Rightarrow> (F, Some (''create dest: '' @ e))
                | None \<Rightarrow>
                    (let F1 = open_trunc S mode_0755 dest F in
                     case io_Copy_err S dest exe of
                       Some e \<Rightarrow> (F1, Some (''copy: '' @ e))
                     | None \<Rightarrow> (F1(dest := map_option (\<lambda>(_, m). (case F1 exe of Some (b, _) \<Rightarrow> b | None \<Rightarrow> [], m)) (F1 dest)), None)))))"

subsection \<open>Starting the subprocess\<close>

record exec_cmd =
  ec_StdinPipe_err :: "string option"
  ec_StdoutPipe_err :: "string option"
  ec_Start_err :: "string list \<Rightarrow> string list \<Rightarrow> string option"

text \<open>\<open>Start\<close>: the error, if there is one, and whether the reader was started.\<close>

definition Start_spawn :: "exec_cmd \<Rightarrow> string list \<Rightarrow> string list \<Rightarrow> string option \<times> bool" where
  "Start_spawn C command env =
     (case ec_StdinPipe_err C of
        Some e \<Rightarrow> (Some (''stdin pipe: '' @ e), False)
      | None \<Rightarrow>
          (case ec_StdoutPipe_err C of
             Some e \<Rightarrow> (Some (''stdout pipe: '' @ e), False)
           | None \<Rightarrow>
               (case ec_Start_err C command env of
                  Some e \<Rightarrow> (Some (''start subprocess: '' @ e), False)
                | None \<Rightarrow> (None, True))))"

subsection \<open>An SSE connection\<close>

text \<open>What the select of the loop takes next: a message of the channel, or the end of the request.\<close>

datatype sse_input = SseMessage jsonRPCMessage | SseDone

fun sse_loop :: "(jsonRPCMessage \<Rightarrow> string option) \<Rightarrow> sse_input list \<Rightarrow> string list" where
  "sse_loop marshal [] = []"
| "sse_loop marshal (SseDone # xs) = []"
| "sse_loop marshal (SseMessage m # xs) =
     (case marshal m of None \<Rightarrow> sse_loop marshal xs | Some data \<Rightarrow> sse_event data # sse_loop marshal xs)"

datatype sse_reply = SseError int string | SseStream "(string \<times> string) list" "string list"

text \<open>\<open>handleSSE\<close>: it needs a writer that can flush; the session is the remote address, registered before the
first byte is sent and removed when the handler returns. The channel is the one registered for it.\<close>

definition handleSSE :: "bool \<Rightarrow> string \<Rightarrow> (jsonRPCMessage \<Rightarrow> string option) \<Rightarrow> sse_input list \<Rightarrow> spawn_server \<Rightarrow> sse_reply \<times> spawn_server" where
  "handleSSE flusher remoteAddr marshal inputs s =
     (if \<not> flusher then (SseError 500 ''streaming not supported'', s)
      else (case RegisterSSE remoteAddr s of (ch, s1) \<Rightarrow>
        (SseStream [(''Content-Type'', ''text/event-stream''), (''Cache-Control'', ''no-cache''), (''Connection'', ''keep-alive'')]
           (sse_loop marshal inputs), UnregisterSSE remoteAddr s1)))"

subsection \<open>The end of the process\<close>

datatype server_end = ServerClosed | ServerError string | SubprocessError string | SubprocessExit

definition gateway_exit :: "file_system \<Rightarrow> gateway_start \<Rightarrow> server_end \<Rightarrow> files \<Rightarrow> nat \<times> files" where
  "gateway_exit S start e F =
     (case start of
        CopyTo dest \<Rightarrow> (case copyBinary S dest F of (F', Some err) \<Rightarrow> (1, F') | (F', None) \<Rightarrow> (0, F'))
      | ExitError msg \<Rightarrow> (1, F)
      | ServeProxy p addr \<Rightarrow> (case e of ServerError msg \<Rightarrow> 1 | _ \<Rightarrow> 0, F)
      | ServeSpawn c env addr \<Rightarrow> (case e of ServerError msg \<Rightarrow> 1 | SubprocessError msg \<Rightarrow> 1 | _ \<Rightarrow> 0, F))"

subsection \<open>Facts\<close>

text \<open>A copy to another path holds the bytes of the executable, is executable when the file is new, and
changes no other file. A copy onto the executable itself would empty it: the file is truncated before it
is read.\<close>

lemma copyBinary_correct:
  assumes "os_Executable S = Inr exe" "F exe = Some (b, m)" "copyBinary S dest F = (F', None)"
  shows "(dest \<noteq> exe \<longrightarrow> F' dest = Some (b, case F dest of Some (_, m') \<Rightarrow> m' | None \<Rightarrow> os_umask S mode_0755))
    \<and> (dest = exe \<longrightarrow> F' dest = Some ([], m)) \<and> (\<forall>p. p \<noteq> dest \<longrightarrow> F' p = F p)"
  using assms by (auto simp: copyBinary_def open_trunc_def Let_def split: option.splits if_splits)

text \<open>A failed start starts no reader, and every error of it reaches the error of \<open>runSpawn\<close>.\<close>

lemma runSpawn_reports_start:
  assumes "command \<noteq> []"
  shows "runSpawn environ (\<lambda>c e. fst (Start_spawn C c e)) command =
    (let child = spawn_child_env environ (filter (\<lambda>e. \<not> has_prefix e ''GATEWAY_'') environ) in
     case fst (Start_spawn C command child) of Some e \<Rightarrow> Inl (''start subprocess: '' @ e) | None \<Rightarrow> Inr (command, child))
    \<and> (snd (Start_spawn C command env) \<longleftrightarrow> fst (Start_spawn C command env) = None)"
  using assms by (simp add: runSpawn_def Start_spawn_def Let_def split: option.split)

text \<open>The stream has the events of the messages before the end of the request that can be marshalled, in
order; afterwards the connection is not registered, and those of other addresses are as before.\<close>

lemma sse_loop_events:
  "sse_loop marshal (map SseMessage ms @ SseDone # rest) = map sse_event (List.map_filter marshal ms)"
  by (induction ms) (simp_all add: List.map_filter_def split: option.split)

lemma handleSSE_unregisters:
  assumes "handleSSE True addr marshal inputs s = (r, s')"
  shows "sv_sseConns s' addr = None \<and> (\<forall>a. a \<noteq> addr \<longrightarrow> sv_sseConns s' a = sv_sseConns s a)"
  using assms by (auto simp: handleSSE_def RegisterSSE_def UnregisterSSE_def Let_def)

end
