(* ===== verification/Token_Injector.thy ===== *)
theory Token_Injector
  imports Kube_Objects "HOL-Library.Word"
begin

text \<open>
  \<^verbatim>\<open>src/images/token-injector/main.go\<close>: the side-car that adds an OAuth2 token to the requests of
  an agent to its LLM endpoint. It loads its configuration from the environment, caches the
  token of the client-credentials grant until shortly before it expires, and sets the
  Authorization header of every request it proxies. Durations are 64-bit in Go, so their
  products wrap around.
\<close>

section \<open>Configuration\<close>

record ti_url =
  url_Scheme :: string
  url_Host :: string
  url_Raw :: string

record ti_config =
  tic_TargetURL :: ti_url
  tic_TokenURL :: string
  tic_ClientID :: string
  tic_ClientSecret :: string
  tic_Scope :: string
  tic_Audience :: string
  tic_ListenPort :: int
  tic_Timeout :: duration
  tic_RefreshLeeway :: duration

text \<open>\<^verbatim>\<open>strconv.Atoi\<close>: an optional sign, at least one digit, and a value of 64 bits.\<close>

fun digits_value :: "int \<Rightarrow> string \<Rightarrow> int option" where
  "digits_value acc [] = Some acc"
| "digits_value acc (c # cs) =
     (if 48 \<le> (of_char c :: int) \<and> (of_char c :: int) \<le> 57 then digits_value (10 * acc + (of_char c - 48)) cs else None)"

definition in_int64 :: "int \<Rightarrow> bool" where
  "in_int64 v \<longleftrightarrow> - (2 ^ 63) \<le> v \<and> v < 2 ^ 63"

definition Atoi :: "string \<Rightarrow> int option" where
  "Atoi s =
     (let (neg, ds) = (case s of [] \<Rightarrow> (False, [])
                       | c # cs \<Rightarrow> if c = CHR ''-'' then (True, cs) else if c = CHR ''+'' then (False, cs) else (False, s))
      in if ds = [] then None
         else case digits_value 0 ds of
                None \<Rightarrow> None
              | Some n \<Rightarrow> (let v = (if neg then - n else n) in if in_int64 v then Some v else None))"

definition envIntDefault :: "(string \<Rightarrow> string) \<Rightarrow> string \<Rightarrow> int \<Rightarrow> int" where
  "envIntDefault getenv key def =
     (let v = getenv key in
      if v = [] then def
      else case Atoi v of None \<Rightarrow> def | Some n \<Rightarrow> if n \<le> 0 then def else n)"

text \<open>\<^verbatim>\<open>time.Duration(n) * time.Second\<close> in 64-bit arithmetic.\<close>

definition seconds :: "int \<Rightarrow> duration" where
  "seconds n = sint (word_of_int n * 1000000000 :: 64 word)"

definition loadConfig :: "(string \<Rightarrow> string) \<Rightarrow> (string \<Rightarrow> string + ti_url) \<Rightarrow> string + ti_config" where
  "loadConfig getenv parse =
     (let target = getenv ''TOKEN_INJECTOR_TARGET_URL''; tokenURL = getenv ''TOKEN_INJECTOR_TOKEN_URL'';
          clientID = getenv ''TOKEN_INJECTOR_CLIENT_ID''; clientSecret = getenv ''TOKEN_INJECTOR_CLIENT_SECRET''
      in if target = [] then Inl ''TOKEN_INJECTOR_TARGET_URL is required''
         else if tokenURL = [] then Inl ''TOKEN_INJECTOR_TOKEN_URL is required''
         else if clientID = [] then Inl ''TOKEN_INJECTOR_CLIENT_ID is required''
         else if clientSecret = [] then Inl ''TOKEN_INJECTOR_CLIENT_SECRET is required''
         else case parse target of
                Inl err \<Rightarrow> Inl (''invalid TOKEN_INJECTOR_TARGET_URL: '' @ err)
              | Inr tu \<Rightarrow>
                  if url_Scheme tu = [] \<or> url_Host tu = []
                  then Inl (''TOKEN_INJECTOR_TARGET_URL must be absolute, got '' @ go_quote target)
                  else Inr \<lparr>tic_TargetURL = tu, tic_TokenURL = tokenURL, tic_ClientID = clientID,
                         tic_ClientSecret = clientSecret, tic_Scope = getenv ''TOKEN_INJECTOR_SCOPE'',
                         tic_Audience = getenv ''TOKEN_INJECTOR_AUDIENCE'',
                         tic_ListenPort = envIntDefault getenv ''TOKEN_INJECTOR_LISTEN_PORT'' 9101,
                         tic_Timeout = seconds (envIntDefault getenv ''TOKEN_INJECTOR_TIMEOUT_SECONDS'' 120),
                         tic_RefreshLeeway = seconds (envIntDefault getenv ''TOKEN_INJECTOR_REFRESH_LEEWAY_SECONDS'' 30)\<rparr>)"

section \<open>The token cache\<close>

record tokenResponse =
  tr_AccessToken :: string
  tr_TokenType :: string
  tr_ExpiresIn :: int

record tokenCache =
  tk_token :: string
  tk_expiresAt :: time

definition newTokenCache :: tokenCache where "newTokenCache = \<lparr>tk_token = [], tk_expiresAt = 0\<rparr>"

record token_request =
  tq_URL :: string
  tq_Form :: "(string \<times> string) list"
  tq_Headers :: "(string \<times> string) list"

record http_response =
  hr_StatusCode :: int
  hr_Body :: string

text \<open>
  The clock, the HTTP client and the JSON decoder. \<open>ts_request_error\<close> is the error of
  \<^verbatim>\<open>http.NewRequestWithContext\<close> for a URL, if any.
\<close>

record 'w token_services =
  ts_now :: "'w \<Rightarrow> time"
  ts_request_error :: "string \<Rightarrow> string option"
  ts_do :: "'w \<Rightarrow> token_request \<Rightarrow> 'w \<times> (string + http_response)"
  ts_decode :: "string \<Rightarrow> string + tokenResponse"

definition token_form :: "ti_config \<Rightarrow> (string \<times> string) list" where
  "token_form cfg =
     [(''grant_type'', ''client_credentials''), (''client_id'', tic_ClientID cfg), (''client_secret'', tic_ClientSecret cfg)]
     @ (if tic_Scope cfg \<noteq> [] then [(''scope'', tic_Scope cfg)] else [])
     @ (if tic_Audience cfg \<noteq> [] then [(''audience'', tic_Audience cfg)] else [])"

definition token_req :: "ti_config \<Rightarrow> token_request" where
  "token_req cfg = \<lparr>tq_URL = tic_TokenURL cfg, tq_Form = token_form cfg,
     tq_Headers = [(''Content-Type'', ''application/x-www-form-urlencoded''), (''Accept'', ''application/json'')]\<rparr>"

definition truncate_body :: "string \<Rightarrow> nat \<Rightarrow> string" where
  "truncate_body b m = (if length b \<le> m then b else take m b @ ''...(truncated)'')"

text \<open>\<^verbatim>\<open>time.Until\<close> saturates at the ends of the 64-bit range.\<close>

definition time_until :: "time \<Rightarrow> time \<Rightarrow> duration" where
  "time_until now t = max (- (2 ^ 63)) (min (2 ^ 63 - 1) (t - now))"

definition token_valid :: "ti_config \<Rightarrow> time \<Rightarrow> tokenCache \<Rightarrow> bool" where
  "token_valid cfg now c \<longleftrightarrow> tk_token c \<noteq> [] \<and> time_until now (tk_expiresAt c) > tic_RefreshLeeway cfg"

definition lifetime :: "int \<Rightarrow> duration" where
  "lifetime expiresIn = seconds (if expiresIn \<le> 0 then 300 else expiresIn)"

definition body_max :: nat where "body_max = 1048576"

text \<open>The response of the token endpoint, from the status code to the new cache.\<close>

definition accept_token :: "'w token_services \<Rightarrow> time \<Rightarrow> http_response \<Rightarrow> string + tokenCache" where
  "accept_token S now resp =
     (let body = take body_max (hr_Body resp) in
      if hr_StatusCode resp < 200 \<or> hr_StatusCode resp \<ge> 300
      then Inl (''token endpoint returned '' @ int_str (hr_StatusCode resp) @ '': '' @ truncate_body body 512)
      else case ts_decode S body of
             Inl err \<Rightarrow> Inl (''decode token response: '' @ err)
           | Inr tr \<Rightarrow>
               if tr_AccessToken tr = [] then Inl ''token endpoint returned empty access_token''
               else Inr \<lparr>tk_token = tr_AccessToken tr, tk_expiresAt = now + lifetime (tr_ExpiresIn tr)\<rparr>)"

definition Get_token :: "'w token_services \<Rightarrow> ti_config \<Rightarrow> 'w \<Rightarrow> tokenCache \<Rightarrow> 'w \<times> tokenCache \<times> (string + string)" where
  "Get_token S cfg w c =
     (if token_valid cfg (ts_now S w) c then (w, c, Inr (tk_token c))
      else case ts_request_error S (tic_TokenURL cfg) of
             Some err \<Rightarrow> (w, c, Inl (''build token request: '' @ err))
           | None \<Rightarrow>
               (case ts_do S w (token_req cfg) of
                  (w, Inl err) \<Rightarrow> (w, c, Inl (''token endpoint request: '' @ err))
                | (w, Inr resp) \<Rightarrow>
                    (case accept_token S (ts_now S w) resp of
                       Inl err \<Rightarrow> (w, c, Inl err)
                     | Inr c' \<Rightarrow> (w, c', Inr (tk_token c')))))"

section \<open>The reverse proxy\<close>

text \<open>A request with its header map; \<open>px_TokenErr\<close> is the error that the director stashes.\<close>

record ti_request =
  px_Host :: string
  px_URL :: string
  px_Header :: "string \<Rightarrow> string option"
  px_TokenErr :: "string option"

definition Director :: "'w token_services \<Rightarrow> ti_config \<Rightarrow> (ti_request \<Rightarrow> ti_request) \<Rightarrow> 'w \<Rightarrow> tokenCache \<Rightarrow> ti_request \<Rightarrow>
    'w \<times> tokenCache \<times> ti_request" where
  "Director S cfg defaultDirector w c req =
     (let req = (defaultDirector req)\<lparr>px_Host := url_Host (tic_TargetURL cfg)\<rparr> in
      case Get_token S cfg w c of
        (w, c, Inl err) \<Rightarrow> (w, c, req\<lparr>px_TokenErr := Some err\<rparr>)
      | (w, c, Inr token) \<Rightarrow> (w, c, req\<lparr>px_Header := (px_Header req)(''Authorization'' \<mapsto> ''Bearer '' @ token)\<rparr>))"

definition ErrorHandler :: "ti_request \<Rightarrow> string \<Rightarrow> http_response" where
  "ErrorHandler r err =
     (case px_TokenErr r of
        Some tokenErr \<Rightarrow> \<lparr>hr_StatusCode = 502, hr_Body = ''token-injector: token fetch failed: '' @ tokenErr\<rparr>
      | None \<Rightarrow> \<lparr>hr_StatusCode = 502, hr_Body = ''token-injector: upstream error: '' @ err\<rparr>)"

text \<open>
  One proxied request: the reverse proxy sends what the director left and calls the error
  handler when the round trip fails. The log is the list of requests that went upstream.
\<close>

definition ServeHTTP :: "'w token_services \<Rightarrow> ti_config \<Rightarrow> (ti_request \<Rightarrow> ti_request) \<Rightarrow> ('w \<Rightarrow> ti_request \<Rightarrow> 'w \<times> (string + http_response)) \<Rightarrow>
    'w \<Rightarrow> tokenCache \<Rightarrow> ti_request \<Rightarrow> 'w \<times> tokenCache \<times> ti_request list \<times> http_response" where
  "ServeHTTP S cfg defaultDirector transport w c req =
     (case Director S cfg defaultDirector w c req of
        (w, c, out) \<Rightarrow>
          (case transport w out of
             (w, Inl err) \<Rightarrow> (w, c, [out], ErrorHandler out err)
           | (w, Inr resp) \<Rightarrow> (w, c, [out], resp)))"

text \<open>The routes: the health check, and everything else to the proxy.\<close>

definition handle_ti :: "'w token_services \<Rightarrow> ti_config \<Rightarrow> (ti_request \<Rightarrow> ti_request) \<Rightarrow> ('w \<Rightarrow> ti_request \<Rightarrow> 'w \<times> (string + http_response)) \<Rightarrow>
    'w \<Rightarrow> tokenCache \<Rightarrow> string \<Rightarrow> ti_request \<Rightarrow> 'w \<times> tokenCache \<times> ti_request list \<times> http_response" where
  "handle_ti S cfg defaultDirector transport w c path req =
     (if path = ''/healthz'' then (w, c, [], \<lparr>hr_StatusCode = 200, hr_Body = ''ok''\<rparr>)
      else ServeHTTP S cfg defaultDirector transport w c req)"

text \<open>
  \<open>main\<close>: a configuration error is fatal, otherwise it serves on all addresses of the port; it returns
  without an error only when the server is closed. \<^verbatim>\<open>log.Fatalf\<close> exits with code 1.
\<close>

datatype injector_start = InjectorFatal string | InjectorServe string ti_config tokenCache

definition injector_main :: "(string \<Rightarrow> string) \<Rightarrow> (string \<Rightarrow> string + ti_url) \<Rightarrow> injector_start" where
  "injector_main getenv parse =
     (case loadConfig getenv parse of
        Inl err \<Rightarrow> InjectorFatal (''token-injector: config error: '' @ err)
      | Inr cfg \<Rightarrow> InjectorServe ('':'' @ int_str (tic_ListenPort cfg)) cfg newTokenCache)"

definition injector_exit :: "injector_start \<Rightarrow> string option \<Rightarrow> nat" where
  "injector_exit start listenErr =
     (case start of InjectorFatal _ \<Rightarrow> 1 | InjectorServe _ _ _ \<Rightarrow> (case listenErr of None \<Rightarrow> 0 | Some _ \<Rightarrow> 1))"

section \<open>Lemmas\<close>

text \<open>The injector serves only with a complete configuration, and on a positive port.\<close>

lemma envIntDefault_pos: "0 < def \<Longrightarrow> 0 < envIntDefault getenv key def"
  by (simp add: envIntDefault_def Let_def split: option.split)

lemma injector_serves:
  assumes "injector_main getenv parse = InjectorServe addr cfg c"
  shows "0 < tic_ListenPort cfg \<and> tic_TokenURL cfg \<noteq> [] \<and> tic_ClientID cfg \<noteq> [] \<and> tic_ClientSecret cfg \<noteq> []
    \<and> url_Scheme (tic_TargetURL cfg) \<noteq> [] \<and> url_Host (tic_TargetURL cfg) \<noteq> []"
  using assms envIntDefault_pos[of 9101 getenv "''TOKEN_INJECTOR_LISTEN_PORT''"]
  by (auto simp: injector_main_def loadConfig_def Let_def split: sum.splits if_splits)

lemma seconds_range: "in_int64 (seconds n)"
  using sint_range_size[of "word_of_int n * 1000000000 :: 64 word"] by (auto simp: seconds_def in_int64_def word_size)

lemma seconds_exact:
  assumes "in_int64 (n * 1000000000)"
  shows "seconds n = n * 1000000000"
proof -
  have "signed_take_bit 63 (n * 1000000000) = n * 1000000000"
    using assms by (simp add: in_int64_def signed_take_bit_int_eq_self_iff)
  moreover have "(word_of_int n * 1000000000 :: 64 word) = word_of_int (n * 1000000000)" by simp
  ultimately show ?thesis using sint_sbintrunc'[where 'a = 64, of "n * 1000000000"] by (simp add: seconds_def)
qed

lemma accept_token_Inr:
  assumes "accept_token S now resp = Inr c"
  obtains tr where "200 \<le> hr_StatusCode resp" "hr_StatusCode resp < 300" "ts_decode S (take body_max (hr_Body resp)) = Inr tr"
    "tr_AccessToken tr \<noteq> []" "c = \<lparr>tk_token = tr_AccessToken tr, tk_expiresAt = now + lifetime (tr_ExpiresIn tr)\<rparr>"
  using assms by (auto simp: accept_token_def Let_def split: if_splits sum.splits)

lemma Get_token_cases:
  assumes "Get_token S cfg w c = (w', c', r)"
  obtains (cached) "token_valid cfg (ts_now S w) c" "w' = w" "c' = c" "r = Inr (tk_token c)"
  | (failed) e where "\<not> token_valid cfg (ts_now S w) c" "c' = c" "r = Inl e"
  | (fetched) resp where "\<not> token_valid cfg (ts_now S w) c" "ts_do S w (token_req cfg) = (w', Inr resp)"
      "accept_token S (ts_now S w') resp = Inr c'" "r = Inr (tk_token c')"
  using assms by (auto simp: Get_token_def split: if_splits option.splits prod.splits sum.splits)

section \<open>Properties\<close>

text \<open>
  C30: a token that \<open>Get\<close> returns is never empty. It is the cached one with more than the refresh
  leeway left, served without a request, or it was just issued by the token endpoint in a 2xx
  response and is cached with its lifetime; an error of any kind leaves the cache as it was.
\<close>

theorem Get_token_serves:
  assumes "Get_token S cfg w c = (w', c', r)"
  shows "case r of Inl e \<Rightarrow> c' = c
     | Inr t \<Rightarrow> t \<noteq> [] \<and> t = tk_token c' \<and>
         (if tk_token c \<noteq> [] \<and> time_until (ts_now S w) (tk_expiresAt c) > tic_RefreshLeeway cfg then c' = c \<and> w' = w
          else \<exists>resp tr. ts_do S w (token_req cfg) = (w', Inr resp) \<and> 200 \<le> hr_StatusCode resp \<and> hr_StatusCode resp < 300 \<and>
                 ts_decode S (take (2 ^ 20) (hr_Body resp)) = Inr tr \<and> t = tr_AccessToken tr \<and>
                 tk_expiresAt c' = ts_now S w' + lifetime (tr_ExpiresIn tr))"
  using assms
proof (cases rule: Get_token_cases)
  case (fetched resp)
  then show ?thesis by (elim accept_token_Inr) (auto simp: token_valid_def body_max_def)
qed (auto simp: token_valid_def)

text \<open>
  C31: the lifetime of a token is computed in 64-bit nanoseconds. It is exact, with 300 seconds for
  a missing or negative value, as long as the endpoint announces at most 9223372036 seconds;
  beyond that it wraps around but stays a 64-bit value.
\<close>

theorem lifetime_bounds:
  "in_int64 (lifetime n) \<and> (n \<le> 9223372036 \<longrightarrow> lifetime n = (if n \<le> 0 then 300 else n) * 1000000000)"
proof
  show "in_int64 (lifetime n)" by (simp add: lifetime_def seconds_range)
  show "n \<le> 9223372036 \<longrightarrow> lifetime n = (if n \<le> 0 then 300 else n) * 1000000000"
    using seconds_exact[of "if n \<le> 0 then 300 else n"] by (auto simp: lifetime_def in_int64_def)
qed

text \<open>
  C39: what a proxied request carries upstream. With a token its Authorization header is the bearer
  token, whatever the client sent. When no token can be had the request is forwarded all the
  same, with the headers of the client, and the token error is reported only if the round trip
  fails too.
\<close>

theorem ServeHTTP_forwards:
  assumes "Get_token S cfg w c = (w1, c1, tok)"
    and "ServeHTTP S cfg defaultDirector transport w c req = (w', c', outs, resp)"
  shows "c' = c1 \<and> (\<exists>out. outs = [out] \<and> px_Host out = url_Host (tic_TargetURL cfg) \<and>
     (case tok of
        Inr t \<Rightarrow> px_Header out ''Authorization'' = Some (''Bearer '' @ t)
      | Inl e \<Rightarrow> px_Header out = px_Header (defaultDirector req) \<and>
          (case snd (transport w1 out) of
             Inr upstream \<Rightarrow> resp = upstream
           | Inl _ \<Rightarrow> resp = \<lparr>hr_StatusCode = 502, hr_Body = ''token-injector: token fetch failed: '' @ e\<rparr>)))"
  using assms
  by (auto simp: ServeHTTP_def Director_def Let_def ErrorHandler_def split: sum.splits prod.splits)

section \<open>Witnesses\<close>

text \<open>A world that is the time; the endpoint answers after a second with the token \<open>t\<close> for an hour, or not at all.\<close>

definition ex_cfg :: ti_config where
  "ex_cfg = \<lparr>tic_TargetURL = \<lparr>url_Scheme = ''https'', url_Host = ''llm'', url_Raw = ''https://llm''\<rparr>, tic_TokenURL = ''https://idp/token'',
     tic_ClientID = ''id'', tic_ClientSecret = ''s'', tic_Scope = [], tic_Audience = [], tic_ListenPort = 9101,
     tic_Timeout = 120000000000, tic_RefreshLeeway = 30000000000\<rparr>"

definition ex_services :: "bool \<Rightarrow> time token_services" where
  "ex_services up = \<lparr>ts_now = (\<lambda>w. w), ts_request_error = (\<lambda>_. None),
     ts_do = (\<lambda>w q. (w + 1000000000, if up then Inr \<lparr>hr_StatusCode = 200, hr_Body = ''t''\<rparr> else Inl ''refused'')),
     ts_decode = (\<lambda>b. Inr \<lparr>tr_AccessToken = b, tr_TokenType = ''Bearer'', tr_ExpiresIn = 3600\<rparr>)\<rparr>"

definition ex_req :: ti_request where
  "ex_req = \<lparr>px_Host = ''localhost'', px_URL = ''/v1'', px_Header = [''Authorization'' \<mapsto> ''Bearer agent''], px_TokenErr = None\<rparr>"

lemma ex_get_up:
  "Get_token (ex_services True) ex_cfg 5 newTokenCache =
     (1000000005, \<lparr>tk_token = ''t'', tk_expiresAt = 1000000005 + lifetime 3600\<rparr>, Inr ''t'')"
  by (simp add: Get_token_def ex_services_def ex_cfg_def newTokenCache_def token_valid_def accept_token_def body_max_def)

lemma ex_get_down:
  "Get_token (ex_services False) ex_cfg 5 newTokenCache = (1000000005, newTokenCache, Inl ''token endpoint request: refused'')"
  by (simp add: Get_token_def ex_services_def ex_cfg_def newTokenCache_def token_valid_def)

theorem Get_token_serves_witness:
  "\<exists>tr. ts_decode (ex_services True) ''t'' = Inr tr \<and> tr_AccessToken tr = ''t''"
  using Get_token_serves[OF ex_get_up] by (auto simp: newTokenCache_def ex_services_def)

theorem lifetime_bounds_witness: "lifetime 9223372036 = 9223372036000000000 \<and> lifetime 0 = 300000000000"
  using lifetime_bounds[of 9223372036] lifetime_bounds[of 0] by simp

theorem ServeHTTP_forwards_witness:
  "\<exists>out. px_Header out ''Authorization'' = Some ''Bearer agent'' \<and> px_Host out = ''llm'' \<and>
     ServeHTTP (ex_services False) ex_cfg id (\<lambda>w r. (w, Inr \<lparr>hr_StatusCode = 200, hr_Body = []\<rparr>)) 5 newTokenCache ex_req =
       (1000000005, newTokenCache, [out], \<lparr>hr_StatusCode = 200, hr_Body = []\<rparr>)"
proof -
  obtain w' c' outs resp where s: "ServeHTTP (ex_services False) ex_cfg id (\<lambda>w r. (w, Inr \<lparr>hr_StatusCode = 200, hr_Body = []\<rparr>)) 5 newTokenCache ex_req
      = (w', c', outs, resp)" by (metis prod_cases4)
  show ?thesis
    using ServeHTTP_forwards[OF ex_get_down s] s
    by (auto simp: ex_req_def ex_cfg_def ServeHTTP_def Director_def ex_get_down[unfolded ex_cfg_def])
qed

text \<open>Beyond the bound the cached expiry lies in the past, so that every request fetches a new token.\<close>

lemma lifetime_overflow: "lifetime 9223372037 = - 9223372036709551616"
  by (simp add: lifetime_def seconds_def)

end
