(* ===== verification/Webhooks.thy ===== *)
theory Webhooks
  imports Git_Workspace
begin

text \<open>
  \<^verbatim>\<open>src/api/v1alpha1/*_webhook.go\<close>: the validating admission webhooks. A validation
  returns warnings and the list of field errors; the request is admitted when the list is
  empty. The rejected value that \<^verbatim>\<open>field.Invalid\<close> also carries is left out.
\<close>

section \<open>Field errors\<close>

datatype field_error = Required string string | Invalid string string | Forbidden string string

definition path_index :: "string \<Rightarrow> nat \<Rightarrow> string" where
  "path_index p i = p @ ''['' @ nat_str i @ '']''"

text \<open>The errors that a check finds in an indexed list.\<close>

definition each_indexed :: "'a list \<Rightarrow> (nat \<Rightarrow> 'a \<Rightarrow> field_error list) \<Rightarrow> field_error list" where
  "each_indexed xs f = concat (map (\<lambda>(i, x). f i x) (enumerate 0 xs))"

lemma each_indexed_empty: "each_indexed xs f = [] \<longleftrightarrow> (\<forall>i < length xs. f i (xs ! i) = [])"
  by (simp add: each_indexed_def concat_map_empty_iff all_set_conv_all_nth nth_enumerate_eq)

text \<open>When a conditional error list is empty.\<close>

lemma guard_empty: "((if a then xs else []) = []) \<longleftrightarrow> (a \<longrightarrow> xs = [])" "((x # xs) = []) \<longleftrightarrow> False"
  by simp_all

lemma choice_empty: "((if a then xs else if b then ys else zs) = []) \<longleftrightarrow>
    (a \<longrightarrow> xs = []) \<and> (\<not> a \<longrightarrow> (if b then ys else zs) = [])"
  by simp

lemmas no_errors = append_is_Nil_conv guard_empty choice_empty

section \<open>Agent\<close>

definition builtinTools :: "string list" where
  "builtinTools = [''bash'', ''read'', ''edit'', ''write'', ''grep'', ''ls'', ''glob'', ''fetch'']"

definition validateMode :: "Agent \<Rightarrow> field_error list" where
  "validateMode r =
     (let spec = ag_Spec r in
      (if as_Mode spec \<noteq> AgentModeDaemon \<and> as_Mode spec \<noteq> AgentModeTask
       then [Invalid ''spec.mode'' (''must be 'daemon' or 'task'' @ [CHR 0x27])] else [])
      @ (if as_Mode spec = AgentModeTask
         then (if as_Storage spec \<noteq> None
               then [Forbidden ''spec.storage'' ''storage is not allowed for task-mode agents''] else [])
         else [])
      @ (case as_Storage spec of None \<Rightarrow> []
         | Some s \<Rightarrow> if st_Size s = []
             then [Required ''spec.storage.size'' ''storage size is required when storage is configured (e.g. \"1Gi\")'']
             else []))"

definition validateRuntime :: "Agent \<Rightarrow> field_error list" where
  "validateRuntime r =
     (let spec = ag_Spec r in
      each_indexed (as_BuiltinTools spec) (\<lambda>i tool.
        if tool \<notin> set builtinTools
        then [Invalid (path_index ''spec.builtinTools'' i) ''valid tools: bash, read, edit, write, grep, ls, glob, fetch'']
        else [])
      @ (case as_Temperature spec of None \<Rightarrow> []
         | Some t \<Rightarrow> if t < 0 \<or> t > 2 then [Invalid ''spec.temperature'' ''must be between 0.0 and 2.0''] else [])
      @ (case as_MaxSteps spec of None \<Rightarrow> []
         | Some n \<Rightarrow> if n \<le> 0 then [Invalid ''spec.maxSteps'' ''must be > 0''] else []))"

definition validateProviders :: "Agent \<Rightarrow> field_error list" where
  "validateProviders r =
     (let spec = ag_Spec r; providerNames = pb_Name ` set (as_ProviderRefs spec) in
      (if as_ProviderRefs spec = []
       then [Required ''spec.providerRefs'' ''at least one Provider CR reference is required''] else [])
      @ each_indexed (as_FallbackModels spec) (\<lambda>i model.
          case split2 (CHR ''/'') model of
            (p, Some _) \<Rightarrow> if p \<notin> providerNames
              then [Invalid (path_index ''spec.fallbackModels'' i)
                      (''provider '' @ go_quote p @ '' is not configured in providerRefs'')] else []
          | (p, None) \<Rightarrow> []))"

definition validateTools :: "Agent \<Rightarrow> field_error list" where
  "validateTools r =
     (let toolCount = length (as_Tools (ag_Spec r)) + BuiltinToolCount r in
      if toolCount = 0
      then [Required ''spec.tools'' ''agents need at least one tool (builtinTools or tools)''] else [])"

definition validateSchedule :: "Agent \<Rightarrow> field_error list" where
  "validateSchedule r =
     (if as_Schedule (ag_Spec r) \<noteq> [] \<and> as_SchedulePrompt (ag_Spec r) = []
      then [Required ''spec.schedulePrompt'' ''schedulePrompt is required when schedule is set''] else [])"

text \<open>\<^verbatim>\<open>filepath.IsAbs\<close> on Unix.\<close>

definition IsAbs :: "string \<Rightarrow> bool" where "IsAbs p \<longleftrightarrow> has_prefix p ''/''"

definition validateToolHooks :: "Agent \<Rightarrow> field_error list \<times> string list" where
  "validateToolHooks r =
     (case as_ToolHooks (ag_Spec r) of
        None \<Rightarrow> ([], [])
      | Some h \<Rightarrow>
          (let knownTools = set (as_BuiltinTools (ag_Spec r)) \<union> tb_Name ` set (as_Tools (ag_Spec r))
                            \<union> {''run_agent'', ''get_agent_run''}
           in (each_indexed (th_AllowedPaths h) (\<lambda>i p.
                 if \<not> IsAbs p then [Invalid (path_index ''spec.toolHooks.allowedPaths'' i) ''must be an absolute path'']
                 else []),
               map (\<lambda>tn. ''toolHooks.auditTools: '' @ go_quote tn @ '' is not a known tool name'')
                 (filter (\<lambda>tn. tn \<notin> knownTools) (th_AuditTools h)))))"

text \<open>The loop of \<open>validateIntegrations\<close> with the set of names seen so far.\<close>

fun integration_errors :: "string set \<Rightarrow> nat \<Rightarrow> IntegrationBinding list \<Rightarrow> field_error list" where
  "integration_errors seen i [] = []"
| "integration_errors seen i (rb # rbs) =
     (if ib_Name rb = []
      then Required (path_index ''spec.integrations'' i @ ''.name'') ''integration binding name is required''
           # integration_errors seen (Suc i) rbs
      else (if ib_Name rb \<in> seen
            then [Invalid (path_index ''spec.integrations'' i @ ''.name'') ''duplicate integration binding name''] else [])
           @ integration_errors (insert (ib_Name rb) seen) (Suc i) rbs)"

definition validateIntegrations :: "Agent \<Rightarrow> field_error list" where
  "validateIntegrations r = integration_errors {} 0 (as_Integrations (ag_Spec r))"

definition validate_agent :: "Agent \<Rightarrow> string list \<times> field_error list" where
  "validate_agent r =
     (let (hookErrs, warnings) = validateToolHooks r in
      (warnings, validateMode r @ validateRuntime r @ validateProviders r @ validateTools r @ hookErrs
                 @ validateIntegrations r @ validateSchedule r))"

section \<open>Provider\<close>

definition validateType :: "Provider \<Rightarrow> field_error list" where
  "validateType r =
     (if ps_Type (prov_Spec r) \<notin> {ProviderTypeAnthropic, ProviderTypeOpenAI, ProviderTypeGoogle, ProviderTypeAzure,
           ProviderTypeBedrock, ProviderTypeOpenRouter, ProviderTypeOpenAICompat}
      then [Invalid ''spec.type'' ''must be one of: anthropic, openai, google, azure, bedrock, openrouter, openaicompat'']
      else [])"

definition no_base_url :: "ProviderSpec \<Rightarrow> bool" where
  "no_base_url spec \<longleftrightarrow> (case ps_Endpoint spec of None \<Rightarrow> True | Some ep \<Rightarrow> pe_BaseURL ep = [])"

definition validateEndpoint :: "Provider \<Rightarrow> field_error list" where
  "validateEndpoint r =
     (if ps_Type (prov_Spec r) = ProviderTypeOpenAICompat
      then (if no_base_url (prov_Spec r)
            then [Required ''spec.endpoint.baseURL'' ''openaicompat providers require a base URL''] else [])
      else [])"

definition validateConfig_webhook :: "Provider \<Rightarrow> field_error list" where
  "validateConfig_webhook r =
     (let ty = ps_Type (prov_Spec r) in
      case ps_Config (prov_Spec r) of
        None \<Rightarrow> []
      | Some cfg \<Rightarrow>
          (if pc_Vertex cfg \<noteq> None
           then (if ty \<noteq> ProviderTypeAnthropic \<and> ty \<noteq> ProviderTypeGoogle
                 then [Forbidden ''spec.config.vertex'' ''vertex config is only valid for anthropic and google providers''] else [])
           else [])
          @ (if pc_Bedrock cfg
             then (if ty \<noteq> ProviderTypeAnthropic \<and> ty \<noteq> ProviderTypeBedrock
                   then [Forbidden ''spec.config.bedrock'' ''bedrock config is only valid for anthropic and bedrock providers''] else [])
             else [])
          @ (if pc_Vertex cfg \<noteq> None \<and> pc_Bedrock cfg
             then [Forbidden ''spec.config.bedrock'' ''vertex and bedrock are mutually exclusive''] else [])
          @ (if pc_AzureAPIVersion cfg \<noteq> []
             then (if ty \<noteq> ProviderTypeAzure
                   then [Forbidden ''spec.config.azureAPIVersion'' ''azureAPIVersion is only valid for azure providers''] else [])
             else [])
          @ (if pc_Organization cfg \<noteq> [] \<or> pc_Project cfg \<noteq> []
             then (if ty \<noteq> ProviderTypeOpenAI
                   then (if pc_Organization cfg \<noteq> []
                         then [Forbidden ''spec.config.organization'' ''organization is only valid for openai providers''] else [])
                        @ (if pc_Project cfg \<noteq> []
                           then [Forbidden ''spec.config.project'' ''project is only valid for openai providers''] else [])
                   else [])
             else [])
          @ (if pc_UseResponsesAPI cfg
             then (if ty \<notin> {ProviderTypeOpenAI, ProviderTypeAzure, ProviderTypeOpenAICompat}
                   then [Forbidden ''spec.config.useResponsesAPI''
                           ''useResponsesAPI is only valid for openai, azure, and openaicompat providers''] else [])
             else []))"

definition msg_defaults :: "string \<Rightarrow> string \<Rightarrow> string" where
  "msg_defaults which ty = which @ '' call defaults are not valid for '' @ ty @ '' providers''"

definition validateDefaults :: "Provider \<Rightarrow> field_error list" where
  "validateDefaults r =
     (let ty = ps_Type (prov_Spec r) in
      case ps_Defaults (prov_Spec r) of
        None \<Rightarrow> []
      | Some defs \<Rightarrow>
          (if pcd_Anthropic defs \<noteq> None
           then (if ty \<noteq> ProviderTypeAnthropic \<and> ty \<noteq> ProviderTypeBedrock
                 then [Forbidden ''spec.defaults.anthropic'' (msg_defaults ''anthropic'' ty)] else [])
           else [])
          @ (if pcd_OpenAI defs \<noteq> None
             then (if ty \<notin> {ProviderTypeOpenAI, ProviderTypeAzure, ProviderTypeOpenAICompat, ProviderTypeOpenRouter}
                   then [Forbidden ''spec.defaults.openai'' (msg_defaults ''openai'' ty)] else [])
             else [])
          @ (case pcd_Google defs of None \<Rightarrow> []
             | Some g \<Rightarrow>
                 (if ty \<noteq> ProviderTypeGoogle
                  then [Forbidden ''spec.defaults.google'' (msg_defaults ''google'' ty)] else [])
                 @ (if gcd_ThinkingLevel g \<noteq> [] \<and> gcd_ThinkingBudgetTokens g \<noteq> None
                    then [Forbidden ''spec.defaults.google.thinkingBudgetTokens''
                            ''thinkingLevel and thinkingBudgetTokens are mutually exclusive''] else [])))"

definition validate_provider :: "Provider \<Rightarrow> field_error list" where
  "validate_provider r = validateType r @ validateEndpoint r @ validateConfig_webhook r @ validateDefaults r"

section \<open>Integration\<close>

text \<open>
  The two maps of \<open>validateKindConfig\<close>, as lists in the order in which the source declares
  them (Go leaves the order of the errors for surplus blocks open).
\<close>

definition kindToField :: "(string \<times> string) list" where
  "kindToField = [(IntegrationKindGitHubRepo, ''github''), (IntegrationKindGitHubOrg, ''githubOrg''),
     (IntegrationKindGitLabProject, ''gitlab''), (IntegrationKindGitLabGroup, ''gitlabGroup''),
     (IntegrationKindGitRepo, ''git''), (IntegrationKindS3Bucket, ''s3''),
     (IntegrationKindDocumentation, ''documentation'')]"

definition configPresent :: "IntegrationSpec \<Rightarrow> (string \<times> bool) list" where
  "configPresent s = [(IntegrationKindGitHubRepo, is_GitHub s \<noteq> None), (IntegrationKindGitHubOrg, is_GitHubOrg s \<noteq> None),
     (IntegrationKindGitLabProject, is_GitLab s \<noteq> None), (IntegrationKindGitLabGroup, is_GitLabGroup s \<noteq> None),
     (IntegrationKindGitRepo, is_Git s \<noteq> None), (IntegrationKindS3Bucket, is_S3 s \<noteq> None),
     (IntegrationKindDocumentation, is_Documentation s \<noteq> None)]"

definition validateKindConfig :: "Integration \<Rightarrow> field_error list" where
  "validateKindConfig r =
     (let spec = int_Spec r; kind = is_Kind spec in
      (case map_of kindToField kind of
         None \<Rightarrow> []
       | Some fieldName \<Rightarrow>
           if map_of (configPresent spec) kind \<noteq> Some True
           then [Required (''spec.'' @ fieldName) (fieldName @ '' config is required for kind='' @ kind)] else [])
      @ concat (map (\<lambda>(k, present).
          if present \<and> k \<noteq> kind
          then (let otherField = (case map_of kindToField k of None \<Rightarrow> [] | Some f \<Rightarrow> f) in
                [Forbidden (''spec.'' @ otherField) (otherField @ '' config is not allowed for kind='' @ kind)])
          else []) (configPresent spec)))"

definition validateTriggers :: "Integration \<Rightarrow> field_error list" where
  "validateTriggers r =
     each_indexed (is_Triggers (int_Spec r)) (\<lambda>i t.
       (if tr_On t = [] then [Required (path_index ''spec.triggers'' i @ ''.on'') ''event type is required''] else [])
       @ (if tr_AgentRef t = [] then [Required (path_index ''spec.triggers'' i @ ''.agentRef'') ''agent reference is required''] else [])
       @ (if tr_Prompt t = [] then [Required (path_index ''spec.triggers'' i @ ''.prompt'') ''prompt template is required''] else []))"

definition validate_integration :: "Integration \<Rightarrow> field_error list" where
  "validate_integration r = validateKindConfig r @ validateTriggers r"

section \<open>Channel\<close>

definition missing_block :: "string \<Rightarrow> string \<Rightarrow> field_error" where
  "missing_block field ty = Required (''spec.'' @ field) (field @ '' config is required for type='' @ ty)"

definition missing_ref :: "string \<Rightarrow> string \<Rightarrow> field_error" where
  "missing_ref field ty = Required (''spec.'' @ field @ ''.integrationRef'') (''integrationRef is required for type='' @ ty)"

definition validate_channel :: "Channel \<Rightarrow> field_error list" where
  "validate_channel r =
     (let spec = ch_Spec r; ty = cs_Type spec in
      (if ty = ChannelTypeTelegram then (if cs_Telegram spec = None then [missing_block ''telegram'' ''telegram''] else [])
       else if ty = ChannelTypeSlack then (if cs_Slack spec = None then [missing_block ''slack'' ''slack''] else [])
       else if ty = ChannelTypeDiscord then (if cs_Discord spec = None then [missing_block ''discord'' ''discord''] else [])
       else if ty = ChannelTypeGitLab then (if cs_GitLab spec = None then [missing_block ''gitlab'' ''gitlab''] else [])
       else if ty = ChannelTypeGitHub then (if cs_GitHub spec = None then [missing_block ''github'' ''github''] else [])
       else if ty = ChannelTypeGitLabLabel then
         (case cs_GitLabLabel spec of None \<Rightarrow> [missing_block ''gitlabLabel'' ''gitlab-label'']
          | Some c \<Rightarrow> if gll_IntegrationRef c = [] then [missing_ref ''gitlabLabel'' ''gitlab-label''] else [])
       else if ty = ChannelTypeGitLabComment then
         (case cs_GitLabComment spec of None \<Rightarrow> [missing_block ''gitlabComment'' ''gitlab-comment'']
          | Some c \<Rightarrow> if gcc_IntegrationRef c = [] then [missing_ref ''gitlabComment'' ''gitlab-comment''] else [])
       else [])
      @ (if IsEventType ty \<and> ty \<noteq> ChannelTypeGitLabLabel \<and> ty \<noteq> ChannelTypeGitLabComment \<and> cs_Prompt spec = []
         then [Required ''spec.prompt'' (''prompt template is required for event-type channel ('' @ ty @ '')'')] else []))"

section \<open>Properties\<close>

text \<open>What an admitted Agent satisfies, declaratively.\<close>

definition agent_ok :: "Agent \<Rightarrow> bool" where
  "agent_ok a \<longleftrightarrow>
     (let s = ag_Spec a in
      (as_Mode s = AgentModeDaemon \<or> as_Mode s = AgentModeTask) \<and>
      (\<forall>st. as_Storage s = Some st \<longrightarrow> as_Mode s = AgentModeDaemon \<and> st_Size st \<noteq> []) \<and>
      set (as_BuiltinTools s) \<subseteq> set builtinTools \<and>
      (\<forall>t. as_Temperature s = Some t \<longrightarrow> 0 \<le> t \<and> t \<le> 2) \<and> (\<forall>n. as_MaxSteps s = Some n \<longrightarrow> 0 < n) \<and>
      as_ProviderRefs s \<noteq> [] \<and>
      (\<forall>m \<in> set (as_FallbackModels s). \<forall>p r. m = p @ ''/'' @ r \<and> CHR ''/'' \<notin> set p \<longrightarrow> p \<in> pb_Name ` set (as_ProviderRefs s)) \<and>
      (as_Tools s \<noteq> [] \<or> as_BuiltinTools s \<noteq> []) \<and>
      (\<forall>h. as_ToolHooks s = Some h \<longrightarrow> (\<forall>p \<in> set (th_AllowedPaths h). \<exists>r. p = ''/'' @ r)) \<and>
      [] \<notin> ib_Name ` set (as_Integrations s) \<and> distinct (map ib_Name (as_Integrations s)) \<and>
      (as_Schedule s \<noteq> [] \<longrightarrow> as_SchedulePrompt s \<noteq> []))"

lemma validateMode_ok: "validateMode a = [] \<longleftrightarrow>
    (as_Mode (ag_Spec a) = AgentModeDaemon \<or> as_Mode (ag_Spec a) = AgentModeTask) \<and>
    (\<forall>st. as_Storage (ag_Spec a) = Some st \<longrightarrow> as_Mode (ag_Spec a) = AgentModeDaemon \<and> st_Size st \<noteq> [])"
  by (auto simp: validateMode_def Let_def split: option.splits)

lemma validateRuntime_ok: "validateRuntime a = [] \<longleftrightarrow>
    set (as_BuiltinTools (ag_Spec a)) \<subseteq> set builtinTools \<and>
    (\<forall>t. as_Temperature (ag_Spec a) = Some t \<longrightarrow> 0 \<le> t \<and> t \<le> 2) \<and> (\<forall>n. as_MaxSteps (ag_Spec a) = Some n \<longrightarrow> 0 < n)"
  by (auto simp: validateRuntime_def Let_def each_indexed_empty subset_code(1) all_set_conv_all_nth split: option.splits)

lemma validateProviders_ok: "validateProviders a = [] \<longleftrightarrow> as_ProviderRefs (ag_Spec a) \<noteq> [] \<and>
    (\<forall>m \<in> set (as_FallbackModels (ag_Spec a)). \<forall>p r. m = p @ ''/'' @ r \<and> CHR ''/'' \<notin> set p \<longrightarrow>
       p \<in> pb_Name ` set (as_ProviderRefs (ag_Spec a)))"
proof -
  have "(case split2 (CHR ''/'') m of (p, Some _) \<Rightarrow> if p \<notin> N then [e p] else [] | (p, None) \<Rightarrow> []) = [] \<longleftrightarrow>
      (\<forall>p r. m = p @ ''/'' @ r \<and> CHR ''/'' \<notin> set p \<longrightarrow> p \<in> N)" for m N and e :: "string \<Rightarrow> field_error"
  proof (cases "CHR ''/'' \<in> set m")
    case False
    then show ?thesis by (auto simp: split2_None)
  next
    case True
    then obtain p r where "m = p @ CHR ''/'' # r" "CHR ''/'' \<notin> set p" by (meson split_list_first)
    then show ?thesis by (auto simp: split2_Some split_unique)
  qed
  then show ?thesis
    by (simp add: validateProviders_def Let_def each_indexed_empty all_set_conv_all_nth)
qed

lemma integration_errors_ok:
  "integration_errors seen i rbs = [] \<longleftrightarrow>
     [] \<notin> ib_Name ` set rbs \<and> distinct (map ib_Name rbs) \<and> seen \<inter> ib_Name ` set rbs = {}"
  by (induction rbs arbitrary: seen i) auto

lemma hooks_ok: "fst (validateToolHooks a) = [] \<longleftrightarrow>
    (\<forall>h. as_ToolHooks (ag_Spec a) = Some h \<longrightarrow> (\<forall>p \<in> set (th_AllowedPaths h). \<exists>r. p = ''/'' @ r))"
  by (auto simp: validateToolHooks_def Let_def each_indexed_empty all_set_conv_all_nth IsAbs_def has_prefix_iff
      split: option.splits)

text \<open>
  The Agent webhook admits exactly the agents that satisfy the declarative conditions: a
  known mode, sized storage for daemons only, known built-in tools, ranges, at least one
  provider and one tool, fallback models of configured providers, absolute hook paths, distinct
  non-empty integration names and a prompt for every schedule.
\<close>

theorem validate_agent_correct: "snd (validate_agent a) = [] \<longleftrightarrow> agent_ok a"
proof -
  have "snd (validate_agent a) = validateMode a @ validateRuntime a @ validateProviders a @ validateTools a
      @ fst (validateToolHooks a) @ validateIntegrations a @ validateSchedule a"
    by (simp add: validate_agent_def split: prod.splits)
  moreover have "validateTools a = [] \<longleftrightarrow> as_Tools (ag_Spec a) \<noteq> [] \<or> as_BuiltinTools (ag_Spec a) \<noteq> []"
    by (auto simp: validateTools_def BuiltinToolCount_def)
  moreover have "validateSchedule a = [] \<longleftrightarrow> (as_Schedule (ag_Spec a) \<noteq> [] \<longrightarrow> as_SchedulePrompt (ag_Spec a) \<noteq> [])"
    by (simp add: validateSchedule_def)
  ultimately show ?thesis
    by (simp add: agent_ok_def Let_def validateMode_ok validateRuntime_ok validateProviders_ok hooks_ok
        validateIntegrations_def integration_errors_ok conj_ac)
qed

text \<open>The block of an Integration that belongs to a kind.\<close>

definition kinds :: "string list" where "kinds = map fst kindToField"

definition block_set :: "IntegrationSpec \<Rightarrow> string \<Rightarrow> bool" where
  "block_set s kind \<longleftrightarrow> map_of (configPresent s) kind = Some True"

lemma kinds_distinct: "distinct kinds"
  using integration_kind_distinct by (simp add: kinds_def kindToField_def)

lemma configPresent_kinds: "map fst (configPresent s) = kinds"
  by (simp add: configPresent_def kinds_def kindToField_def)

lemma validateKindConfig_ok:
  "validateKindConfig r = [] \<longleftrightarrow>
     (is_Kind (int_Spec r) \<in> set kinds \<longrightarrow> block_set (int_Spec r) (is_Kind (int_Spec r))) \<and>
     (\<forall>k \<in> set kinds. block_set (int_Spec r) k \<longrightarrow> k = is_Kind (int_Spec r))"
proof -
  let ?s = "int_Spec r" and ?k = "is_Kind (int_Spec r)"
  have dist: "distinct (map fst (configPresent ?s))" using kinds_distinct by (simp add: configPresent_kinds)
  have known: "map_of kindToField ?k \<noteq> None \<longleftrightarrow> ?k \<in> set kinds"
    by (simp add: kinds_def map_of_eq_None_iff)
  have surplus: "(\<forall>(k, present) \<in> set (configPresent ?s). \<not> (present \<and> k \<noteq> ?k)) \<longleftrightarrow>
      (\<forall>k \<in> set kinds. block_set ?s k \<longrightarrow> k = ?k)"
  proof -
    have pres: "(k, True) \<in> set (configPresent ?s) \<longleftrightarrow> k \<in> set kinds \<and> block_set ?s k" for k
    proof -
      have "(k, True) \<in> set (configPresent ?s) \<Longrightarrow> k \<in> set kinds"
        by (metis configPresent_kinds fst_conv image_eqI list.set_map)
      then show ?thesis using map_of_eq_Some_iff[OF dist, of k True] by (auto simp: block_set_def)
    qed
    have "(\<forall>(k, present) \<in> set (configPresent ?s). \<not> (present \<and> k \<noteq> ?k)) \<longleftrightarrow>
        (\<forall>k. (k, True) \<in> set (configPresent ?s) \<longrightarrow> k = ?k)" by fastforce
    then show ?thesis unfolding pres by blast
  qed
  have "validateKindConfig r = [] \<longleftrightarrow> (?k \<in> set kinds \<longrightarrow> block_set ?s ?k) \<and>
      (\<forall>(k, present) \<in> set (configPresent ?s). \<not> (present \<and> k \<noteq> ?k))"
  proof -
    have second: "((case x of (k, present) \<Rightarrow> if present \<and> k \<noteq> ?k then [e k] else []) = []) \<longleftrightarrow>
        (case x of (k, present) \<Rightarrow> \<not> (present \<and> k \<noteq> ?k))" for x :: "string \<times> bool" and e :: "string \<Rightarrow> field_error"
      by (cases x) simp
    show ?thesis
      unfolding validateKindConfig_def Let_def append_is_Nil_conv concat_map_empty_iff second
      using known by (auto simp: block_set_def split: option.splits)
  qed
  then show ?thesis unfolding surplus .
qed


lemma validateTriggers_ok:
  "validateTriggers r = [] \<longleftrightarrow>
     (\<forall>t \<in> set (is_Triggers (int_Spec r)). tr_On t \<noteq> [] \<and> tr_AgentRef t \<noteq> [] \<and> tr_Prompt t \<noteq> [])"
  by (auto simp: validateTriggers_def each_indexed_empty all_set_conv_all_nth)

lemma block_set_kind:
  "block_set s IntegrationKindGitHubRepo \<longleftrightarrow> is_GitHub s \<noteq> None"
  "block_set s IntegrationKindGitHubOrg \<longleftrightarrow> is_GitHubOrg s \<noteq> None"
  "block_set s IntegrationKindGitLabProject \<longleftrightarrow> is_GitLab s \<noteq> None"
  "block_set s IntegrationKindGitLabGroup \<longleftrightarrow> is_GitLabGroup s \<noteq> None"
  "block_set s IntegrationKindGitRepo \<longleftrightarrow> is_Git s \<noteq> None"
  "block_set s IntegrationKindS3Bucket \<longleftrightarrow> is_S3 s \<noteq> None"
  "block_set s IntegrationKindDocumentation \<longleftrightarrow> is_Documentation s \<noteq> None"
  by (simp_all add: block_set_def configPresent_def const_defs)

lemma kinds_set: "set kinds = {IntegrationKindGitHubRepo, IntegrationKindGitHubOrg, IntegrationKindGitLabProject,
    IntegrationKindGitLabGroup, IntegrationKindGitRepo, IntegrationKindS3Bucket, IntegrationKindDocumentation}"
  by (simp add: kinds_def kindToField_def)


definition demo_repo :: Integration where
  "demo_repo = \<lparr>int_Meta = new_meta ''repo'' ''ns'' Map.empty,
     int_Spec = zero_IntegrationSpec\<lparr>is_Kind := IntegrationKindGitRepo, is_Git := Some \<lparr>git_URL = ''https://x/y.git'', git_Branch = [], git_SSHKeySecret = None\<rparr>\<rparr>,
     int_Status = zero_IntegrationStatus\<rparr>"


text \<open>What an admitted Provider satisfies: each option only with the types that support it.\<close>

definition config_ok :: "string \<Rightarrow> ProviderConfig \<Rightarrow> bool" where
  "config_ok ty c \<longleftrightarrow>
     (pc_Vertex c \<noteq> None \<longrightarrow> ty \<in> {ProviderTypeAnthropic, ProviderTypeGoogle}) \<and>
     (pc_Bedrock c \<longrightarrow> ty \<in> {ProviderTypeAnthropic, ProviderTypeBedrock}) \<and>
     (pc_AzureAPIVersion c \<noteq> [] \<longrightarrow> ty = ProviderTypeAzure) \<and>
     (pc_Organization c \<noteq> [] \<or> pc_Project c \<noteq> [] \<longrightarrow> ty = ProviderTypeOpenAI) \<and>
     (pc_UseResponsesAPI c \<longrightarrow> ty \<in> {ProviderTypeOpenAI, ProviderTypeAzure, ProviderTypeOpenAICompat})"

definition defaults_ok :: "string \<Rightarrow> ProviderCallDefaults \<Rightarrow> bool" where
  "defaults_ok ty d \<longleftrightarrow>
     (pcd_Anthropic d \<noteq> None \<longrightarrow> ty \<in> {ProviderTypeAnthropic, ProviderTypeBedrock}) \<and>
     (pcd_OpenAI d \<noteq> None \<longrightarrow> ty \<in> {ProviderTypeOpenAI, ProviderTypeAzure, ProviderTypeOpenAICompat, ProviderTypeOpenRouter}) \<and>
     (\<forall>g. pcd_Google d = Some g \<longrightarrow> ty = ProviderTypeGoogle \<and>
        (gcd_ThinkingLevel g = [] \<or> gcd_ThinkingBudgetTokens g = None))"

definition provider_ok :: "ProviderSpec \<Rightarrow> bool" where
  "provider_ok s \<longleftrightarrow>
     ps_Type s \<in> {ProviderTypeAnthropic, ProviderTypeOpenAI, ProviderTypeGoogle, ProviderTypeAzure,
           ProviderTypeBedrock, ProviderTypeOpenRouter, ProviderTypeOpenAICompat} \<and>
     (ps_Type s = ProviderTypeOpenAICompat \<longrightarrow> (\<exists>ep. ps_Endpoint s = Some ep \<and> pe_BaseURL ep \<noteq> [])) \<and>
     (\<forall>c. ps_Config s = Some c \<longrightarrow> config_ok (ps_Type s) c \<and> \<not> (pc_Vertex c \<noteq> None \<and> pc_Bedrock c)) \<and>
     (\<forall>d. ps_Defaults s = Some d \<longrightarrow> defaults_ok (ps_Type s) d)"

lemma no_base_url_iff: "no_base_url s \<longleftrightarrow> \<not> (\<exists>ep. ps_Endpoint s = Some ep \<and> pe_BaseURL ep \<noteq> [])"
  by (auto simp: no_base_url_def split: option.splits)

lemma validateConfig_webhook_ok:
  "validateConfig_webhook r = [] \<longleftrightarrow>
     (\<forall>c. ps_Config (prov_Spec r) = Some c \<longrightarrow>
        config_ok (ps_Type (prov_Spec r)) c \<and> \<not> (pc_Vertex c \<noteq> None \<and> pc_Bedrock c))"
proof (cases "ps_Config (prov_Spec r)")
  case (Some c)
  then show ?thesis
    unfolding validateConfig_webhook_def Let_def Some option.case no_errors config_ok_def by blast
qed (simp add: validateConfig_webhook_def)

lemma validateDefaults_ok:
  "validateDefaults r = [] \<longleftrightarrow>
     (\<forall>d. ps_Defaults (prov_Spec r) = Some d \<longrightarrow> defaults_ok (ps_Type (prov_Spec r)) d)"
proof (cases "ps_Defaults (prov_Spec r)")
  case (Some d)
  then show ?thesis
    by (cases "pcd_Google d"; unfold validateDefaults_def Let_def Some option.case no_errors defaults_ok_def; simp; blast)
qed (simp add: validateDefaults_def)

lemma validateType_ok: "validateType r = [] \<longleftrightarrow>
    ps_Type (prov_Spec r) \<in> {ProviderTypeAnthropic, ProviderTypeOpenAI, ProviderTypeGoogle,
      ProviderTypeAzure, ProviderTypeBedrock, ProviderTypeOpenRouter, ProviderTypeOpenAICompat}"
  by (simp add: validateType_def)

lemma validateEndpoint_ok: "validateEndpoint r = [] \<longleftrightarrow> (ps_Type (prov_Spec r) = ProviderTypeOpenAICompat \<longrightarrow>
    (\<exists>ep. ps_Endpoint (prov_Spec r) = Some ep \<and> pe_BaseURL ep \<noteq> []))"
  by (simp add: validateEndpoint_def no_base_url_iff)

lemmas provider_checks = validate_provider_def append_is_Nil_conv validateType_ok validateEndpoint_ok
  validateConfig_webhook_ok validateDefaults_ok

text \<open>
  The Provider webhook admits exactly the providers of a known type whose type-specific
  options, call defaults and endpoint fit that type.
\<close>

theorem validate_provider_correct: "validate_provider r = [] \<longleftrightarrow> provider_ok (prov_Spec r)"
  unfolding provider_checks provider_ok_def by blast

text \<open>What an admitted Channel satisfies.\<close>

definition channel_ok :: "Channel \<Rightarrow> bool" where
  "channel_ok c \<longleftrightarrow>
     (let s = ch_Spec c; ty = cs_Type s in
      (ty = ChannelTypeTelegram \<longrightarrow> cs_Telegram s \<noteq> None) \<and> (ty = ChannelTypeSlack \<longrightarrow> cs_Slack s \<noteq> None) \<and>
      (ty = ChannelTypeDiscord \<longrightarrow> cs_Discord s \<noteq> None) \<and> (ty = ChannelTypeGitLab \<longrightarrow> cs_GitLab s \<noteq> None) \<and>
      (ty = ChannelTypeGitHub \<longrightarrow> cs_GitHub s \<noteq> None) \<and>
      (ty = ChannelTypeGitLabLabel \<longrightarrow> (\<exists>l. cs_GitLabLabel s = Some l \<and> gll_IntegrationRef l \<noteq> [])) \<and>
      (ty = ChannelTypeGitLabComment \<longrightarrow> (\<exists>l. cs_GitLabComment s = Some l \<and> gcc_IntegrationRef l \<noteq> [])) \<and>
      (ty \<in> {ChannelTypeGitLab, ChannelTypeGitHub, ChannelTypeWebhook} \<longrightarrow> cs_Prompt s \<noteq> []))"

text \<open>
  The Channel webhook admits a Channel exactly when the platform block of its type is set,
  a polling channel names its Integration, and an event channel that is not a polling one has
  a prompt template.
\<close>

theorem validate_channel_correct: "validate_channel c = [] \<longleftrightarrow> channel_ok c"
proof -
  let ?s = "ch_Spec c"
  have label: "((case cs_GitLabLabel ?s of None \<Rightarrow> [e] | Some l \<Rightarrow> if gll_IntegrationRef l = [] then [f] else []) = []) \<longleftrightarrow>
      (\<exists>l. cs_GitLabLabel ?s = Some l \<and> gll_IntegrationRef l \<noteq> [])" for e f :: field_error
    by (simp split: option.split)
  have comment: "((case cs_GitLabComment ?s of None \<Rightarrow> [e] | Some l \<Rightarrow> if gcc_IntegrationRef l = [] then [f] else []) = []) \<longleftrightarrow>
      (\<exists>l. cs_GitLabComment ?s = Some l \<and> gcc_IntegrationRef l \<noteq> [])" for e f :: field_error
    by (simp split: option.split)
  consider "cs_Type ?s = ChannelTypeTelegram" | "cs_Type ?s = ChannelTypeSlack" | "cs_Type ?s = ChannelTypeDiscord"
    | "cs_Type ?s = ChannelTypeGitLab" | "cs_Type ?s = ChannelTypeGitHub" | "cs_Type ?s = ChannelTypeWebhook"
    | "cs_Type ?s = ChannelTypeGitLabLabel" | "cs_Type ?s = ChannelTypeGitLabComment"
    | "cs_Type ?s \<notin> {ChannelTypeTelegram, ChannelTypeSlack, ChannelTypeDiscord, ChannelTypeGitLab, ChannelTypeGitHub,
         ChannelTypeWebhook, ChannelTypeGitLabLabel, ChannelTypeGitLabComment}"
    by blast
  then show ?thesis
    unfolding channel_ok_def validate_channel_def Let_def IsEventType_def no_errors label comment
    by cases (simp_all add: const_defs)
qed

end
