(* ===== verification/Provider_Controller.thy ===== *)
theory Provider_Controller
  imports Kube_Client Webhooks
begin

text \<open>
  \<^verbatim>\<open>src/internal/controller/provider_controller.go\<close>: the Provider reconciler, which guards a
  Provider by a finalizer while Agents refer to it, checks its configuration and its Secret
  and publishes the result as the phase and the conditions of its status.
\<close>

section \<open>Services\<close>

text \<open>The typed clients of the controllers of declarative resources.\<close>

record 'w guard_kube =
  g_now :: "'w \<Rightarrow> time"
  g_providers :: "('w, Provider) client"
  g_integrations :: "('w, Integration) client"
  g_agents :: "('w, Agent) client"
  g_secrets :: "('w, Secret) client"

section \<open>Validation\<close>

definition provider_cond :: "golib \<Rightarrow> time \<Rightarrow> Condition \<Rightarrow> Provider \<Rightarrow> Provider" where
  "provider_cond G t c p = p\<lparr>prov_Status := (prov_Status p)\<lparr>pst_Conditions :=
     gl_set_condition G t (pst_Conditions (prov_Status p)) c\<rparr>\<rparr>"

definition config_issues :: "ProviderSpec \<Rightarrow> string list" where
  "config_issues spec =
     (let ty = ps_Type spec; cfg = ps_Config spec;
          hasAPIKey = ps_ApiKeySecret spec \<noteq> None;
          hasOAuth = (case ps_Endpoint spec of None \<Rightarrow> False | Some ep \<Rightarrow> pe_OAuth2ClientCredentials ep \<noteq> None)
      in (case cfg of None \<Rightarrow> [] | Some c \<Rightarrow>
            if pc_Vertex c \<noteq> None
            then (if ty \<noteq> ProviderTypeAnthropic \<and> ty \<noteq> ProviderTypeGoogle
                  then [''vertex config is only valid for anthropic and google providers''] else [])
            else [])
         @ (case cfg of None \<Rightarrow> [] | Some c \<Rightarrow>
            if pc_Bedrock c
            then (if ty \<noteq> ProviderTypeAnthropic \<and> ty \<noteq> ProviderTypeBedrock
                  then [''bedrock config is only valid for anthropic and bedrock providers''] else [])
            else [])
         @ (case cfg of None \<Rightarrow> [] | Some c \<Rightarrow>
            if pc_AzureAPIVersion c \<noteq> []
            then (if ty \<noteq> ProviderTypeAzure then [''azureAPIVersion is only valid for azure providers''] else [])
            else [])
         @ (case cfg of None \<Rightarrow> [] | Some c \<Rightarrow>
            if pc_Organization c \<noteq> [] \<or> pc_Project c \<noteq> []
            then (if ty \<noteq> ProviderTypeOpenAI
                  then [''organization/project config is only valid for openai providers''] else [])
            else [])
         @ (case cfg of None \<Rightarrow> [] | Some c \<Rightarrow>
            if pc_UseResponsesAPI c
            then (if ty \<noteq> ProviderTypeOpenAI \<and> ty \<noteq> ProviderTypeAzure \<and> ty \<noteq> ProviderTypeOpenAICompat
                  then [''useResponsesAPI is only valid for openai, azure, and openaicompat providers''] else [])
            else [])
         @ (if ty = ProviderTypeOpenAICompat
            then (if no_base_url spec then [''openaicompat providers require endpoint.baseURL''] else [])
            else [])
         @ (if \<not> hasAPIKey \<and> \<not> hasOAuth
            then [''provider must set either spec.apiKeySecret or spec.endpoint.oauth2ClientCredentials'']
            else if hasAPIKey \<and> hasOAuth
            then [''provider must set only one of spec.apiKeySecret or spec.endpoint.oauth2ClientCredentials, not both'']
            else []))"

definition validateConfig :: "golib \<Rightarrow> time \<Rightarrow> Provider \<Rightarrow> Provider \<times> bool" where
  "validateConfig G t provider =
     (case config_issues (prov_Spec provider) of
        issue # _ \<Rightarrow>
          (provider_cond G t (new_cond ProviderConditionConfigValid ConditionFalse ''InvalidConfig'' issue) provider, False)
      | [] \<Rightarrow>
          (provider_cond G t (new_cond ProviderConditionConfigValid ConditionTrue ''Valid''
             (''Config is valid for type '' @ ps_Type (prov_Spec provider))) provider, True))"

definition secret_cond :: "golib \<Rightarrow> time \<Rightarrow> string \<Rightarrow> string \<Rightarrow> string \<Rightarrow> Provider \<Rightarrow> Provider" where
  "secret_cond G t st reason msg provider = provider_cond G t (new_cond ProviderConditionSecretReady st reason msg) provider"

definition validateSecret :: "'w guard_kube \<Rightarrow> golib \<Rightarrow> 'w \<Rightarrow> Provider \<Rightarrow> Provider \<times> bool" where
  "validateSecret K G w provider =
     (let t = g_now K w; ns = om_Namespace (prov_Meta provider) in
      case ps_ApiKeySecret (prov_Spec provider) of
        None \<Rightarrow> (secret_cond G t ConditionTrue ''NotApplicable''
                  ''No apiKeySecret configured; authentication handled via OAuth2 client credentials'' provider, True)
      | Some ref \<Rightarrow>
          (case c_get (g_secrets K) w (ns, skr_Name ref) of
             Inl err \<Rightarrow>
               (if IsNotFound err
                then (secret_cond G t ConditionFalse ''SecretNotFound''
                        (''Secret '' @ go_quote (skr_Name ref) @ '' not found in namespace '' @ go_quote ns) provider, False)
                else (secret_cond G t ConditionFalse ''SecretError''
                        (''Failed to get secret '' @ go_quote (skr_Name ref) @ '': '' @ err_text err) provider, False))
           | Inr secret \<Rightarrow>
               (if sec_Data secret (skr_Key ref) = None
                then (secret_cond G t ConditionFalse ''KeyNotFound''
                        (''Secret '' @ go_quote (skr_Name ref) @ '' does not contain key '' @ go_quote (skr_Key ref)) provider, False)
                else (secret_cond G t ConditionTrue ''SecretExists''
                        (''Secret '' @ go_quote (skr_Name ref) @ '' contains key '' @ go_quote (skr_Key ref)) provider, True))))"

text \<open>An Agent counts once, however often it refers to the Provider.\<close>

definition refers_provider :: "Agent \<Rightarrow> string \<Rightarrow> bool" where
  "refers_provider agent name \<longleftrightarrow> (\<exists>ref \<in> set (as_ProviderRefs (ag_Spec agent)). pb_Name ref = name)"

definition countBoundAgents_provider :: "'w guard_kube \<Rightarrow> 'w \<Rightarrow> Provider \<Rightarrow> apierr + int" where
  "countBoundAgents_provider K w provider =
     (case c_list (g_agents K) w (om_Namespace (prov_Meta provider)) of
        Inl e \<Rightarrow> Inl e
      | Inr agents \<Rightarrow>
          Inr (int (length (filter (\<lambda>agent. refers_provider agent (om_Name (prov_Meta provider))) agents))))"

section \<open>Reconciliation\<close>

definition in_use_cond :: "int \<Rightarrow> Condition" where
  "in_use_cond n = new_cond ProviderConditionInUse ConditionTrue ''ReferencedByAgents''
     (''deletion blocked: '' @ int_str n @ '' agent(s) still reference this provider'')"

definition reconcileDelete_provider ::
  "'w guard_kube \<Rightarrow> golib \<Rightarrow> finlib \<Rightarrow> 'w \<Rightarrow> Provider \<Rightarrow> 'w \<times> (apierr + ctrl_result)" where
  "reconcileDelete_provider K G F w provider =
     (if \<not> fl_contains F ProviderFinalizer (prov_Meta provider) then (w, Inr done_result)
      else case countBoundAgents_provider K w provider of
        Inl e \<Rightarrow> (w, Inl e)
      | Inr boundAgents \<Rightarrow>
          if boundAgents > 0 then
            (let statusPatch = provider;
                 provider = provider\<lparr>prov_Status := (prov_Status provider)\<lparr>pst_BoundAgents := boundAgents\<rparr>\<rparr>;
                 provider = provider_cond G (g_now K w) (in_use_cond boundAgents) provider
             in case patchObjStatus (g_providers K) w provider statusPatch of
                  (w, Some e) \<Rightarrow> (w, Inl e)
                | (w, None) \<Rightarrow> (w, Inr requeue_result))
          else
            (case c_update (g_providers K) w
                    (provider\<lparr>prov_Meta := fl_remove F ProviderFinalizer (prov_Meta provider)\<rparr>) of
               (w, Some e) \<Rightarrow> (w, Inl e)
             | (w, None) \<Rightarrow> (w, Inr done_result)))"

text \<open>The phase and the message from the two checks.\<close>

definition provider_phase :: "bool \<Rightarrow> bool \<Rightarrow> Provider \<Rightarrow> Provider" where
  "provider_phase configValid secretReady provider =
     (if configValid \<and> secretReady
      then provider\<lparr>prov_Status := (prov_Status provider)\<lparr>pst_Phase := ProviderPhaseReady,
             pst_Message := ''Provider '' @ go_quote (om_Name (prov_Meta provider)) @ '' (''
                            @ ps_Type (prov_Spec provider) @ '') is ready''\<rparr>\<rparr>
      else provider\<lparr>prov_Status := (prov_Status provider)\<lparr>pst_Phase := ProviderPhaseFailed,
             pst_Message := (if \<not> secretReady then ''Secret not ready'' else ''Config validation failed'')\<rparr>\<rparr>)"

definition checked_provider :: "'w guard_kube \<Rightarrow> golib \<Rightarrow> 'w \<Rightarrow> Provider \<Rightarrow> Provider" where
  "checked_provider K G w provider =
     (let (provider, configValid) = validateConfig G (g_now K w) provider;
          (provider, secretReady) = validateSecret K G w provider;
          boundAgents = (case countBoundAgents_provider K w provider of Inl _ \<Rightarrow> 0 | Inr n \<Rightarrow> n);
          provider = provider\<lparr>prov_Status := (prov_Status provider)\<lparr>pst_BoundAgents := boundAgents\<rparr>\<rparr>
      in provider_phase configValid secretReady provider)"

definition Reconcile_provider ::
  "'w guard_kube \<Rightarrow> golib \<Rightarrow> finlib \<Rightarrow> 'w \<Rightarrow> nsname \<Rightarrow> 'w \<times> (apierr + ctrl_result)" where
  "Reconcile_provider K G F w req =
     (case c_get (g_providers K) w req of
        Inl e \<Rightarrow> if IsNotFound e then (w, Inr done_result) else (w, Inl e)
      | Inr provider \<Rightarrow>
          if om_DeletionTimestamp (prov_Meta provider) \<noteq> None then reconcileDelete_provider K G F w provider
          else
            (case fl_add F ProviderFinalizer (prov_Meta provider) of
               (meta, True) \<Rightarrow>
                 (case c_update (g_providers K) w (provider\<lparr>prov_Meta := meta\<rparr>) of
                    (w, Some e) \<Rightarrow> (w, Inl e)
                  | (w, None) \<Rightarrow> (w, Inr done_result))
             | (meta, False) \<Rightarrow>
                 (case patchObjStatus (g_providers K) w (checked_provider K G w provider) provider of
                    (w, Some e) \<Rightarrow> (w, Inl e)
                  | (w, None) \<Rightarrow> (w, Inr done_result))))"

section \<open>Watches\<close>

definition secretToProviderRequests :: "'w guard_kube \<Rightarrow> 'w \<Rightarrow> Secret \<Rightarrow> nsname list" where
  "secretToProviderRequests K w secret =
     (case c_list (g_providers K) w (om_Namespace (sec_Meta secret)) of
        Inl _ \<Rightarrow> []
      | Inr providers \<Rightarrow>
          concat (map (\<lambda>prov. case ps_ApiKeySecret (prov_Spec prov) of
              None \<Rightarrow> []
            | Some ref \<Rightarrow> if skr_Name ref = om_Name (sec_Meta secret) then [meta_key (prov_Meta prov)] else [])
            providers))"

fun provider_requests :: "string \<Rightarrow> string set \<Rightarrow> ProviderBinding list \<Rightarrow> nsname list" where
  "provider_requests ns seen [] = []"
| "provider_requests ns seen (ref # refs) =
     (if pb_Name ref \<notin> seen then (ns, pb_Name ref) # provider_requests ns (insert (pb_Name ref) seen) refs
      else provider_requests ns seen refs)"

definition agentToProviderRequests :: "Agent \<Rightarrow> nsname list" where
  "agentToProviderRequests agent =
     provider_requests (om_Namespace (ag_Meta agent)) {} (as_ProviderRefs (ag_Spec agent))"

section \<open>Properties\<close>

lemma provider_requests_set:
  "set (provider_requests ns seen refs) = Pair ns ` (pb_Name ` set refs - seen)"
  by (induction refs arbitrary: seen) auto

lemma provider_requests_distinct: "distinct (provider_requests ns seen refs)"
  by (induction refs arbitrary: seen) (auto simp: provider_requests_set)

text \<open>What the checks come to, declaratively.\<close>

definition one_auth :: "ProviderSpec \<Rightarrow> bool" where
  "one_auth spec \<longleftrightarrow>
     (ps_ApiKeySecret spec \<noteq> None) \<noteq> (\<exists>ep. ps_Endpoint spec = Some ep \<and> pe_OAuth2ClientCredentials ep \<noteq> None)"

definition spec_valid :: "ProviderSpec \<Rightarrow> bool" where
  "spec_valid spec \<longleftrightarrow> (\<forall>c. ps_Config spec = Some c \<longrightarrow> config_ok (ps_Type spec) c) \<and>
     (ps_Type spec = ProviderTypeOpenAICompat \<longrightarrow> (\<exists>ep. ps_Endpoint spec = Some ep \<and> pe_BaseURL ep \<noteq> [])) \<and>
     one_auth spec"

definition secret_ok :: "'w guard_kube \<Rightarrow> 'w \<Rightarrow> Provider \<Rightarrow> bool" where
  "secret_ok K w p \<longleftrightarrow>
     (\<forall>ref. ps_ApiKeySecret (prov_Spec p) = Some ref \<longrightarrow>
        (\<exists>s. c_get (g_secrets K) w (om_Namespace (prov_Meta p), skr_Name ref) = Inr s \<and> sec_Data s (skr_Key ref) \<noteq> None))"

lemma config_issues_empty: "config_issues spec = [] \<longleftrightarrow> spec_valid spec"
proof -
  have auth: "((if \<not> a \<and> \<not> b then [e] else if a \<and> b then [f] else []) = []) \<longleftrightarrow> a \<noteq> b" for a b and e f :: string
    by simp
  have oauth: "(case ps_Endpoint spec of None \<Rightarrow> False | Some ep \<Rightarrow> pe_OAuth2ClientCredentials ep \<noteq> None) \<longleftrightarrow>
      (\<exists>ep. ps_Endpoint spec = Some ep \<and> pe_OAuth2ClientCredentials ep \<noteq> None)"
    by (simp split: option.split)
  have opt: "((case m of None \<Rightarrow> [] | Some c \<Rightarrow> f c) = []) \<longleftrightarrow> (\<forall>c. m = Some c \<longrightarrow> f c = [])"
    for m :: "ProviderConfig option" and f :: "ProviderConfig \<Rightarrow> string list" by (cases m) auto
  show ?thesis
    unfolding config_issues_def Let_def append_is_Nil_conv auth oauth opt guard_empty no_base_url_iff
      spec_valid_def one_auth_def config_ok_def by blast
qed

lemma validateConfig_snd: "snd (validateConfig G t p) \<longleftrightarrow> spec_valid (prov_Spec p)"
  by (simp add: validateConfig_def config_issues_empty[symmetric] split: list.split)

lemma validateSecret_snd: "snd (validateSecret K G w p) \<longleftrightarrow> secret_ok K w p"
  by (auto simp: validateSecret_def secret_ok_def Let_def split: option.split sum.split)

text \<open>The checks only touch the status.\<close>

lemma validate_status_only:
  "fst (validateConfig G t p) = p\<lparr>prov_Status := prov_Status (fst (validateConfig G t p))\<rparr>"
  "fst (validateSecret K G w p) = p\<lparr>prov_Status := prov_Status (fst (validateSecret K G w p))\<rparr>"
  by (auto simp: validateConfig_def validateSecret_def provider_cond_def secret_cond_def Let_def
      split: list.split option.split sum.split)

lemma checked_provider_parts:
  obtains t u where "validateConfig G (g_now K w) p = (p\<lparr>prov_Status := t\<rparr>, spec_valid (prov_Spec p))"
    "validateSecret K G w (p\<lparr>prov_Status := t\<rparr>) = (p\<lparr>prov_Status := u\<rparr>, secret_ok K w p)"
proof -
  let ?t = "prov_Status (fst (validateConfig G (g_now K w) p))"
  let ?q = "p\<lparr>prov_Status := ?t\<rparr>"
  have "validateConfig G (g_now K w) p = (?q, spec_valid (prov_Spec p))"
    unfolding prod_eq_iff fst_conv snd_conv using validate_status_only(1) validateConfig_snd by blast
  moreover have "validateSecret K G w ?q = (?q\<lparr>prov_Status := prov_Status (fst (validateSecret K G w ?q))\<rparr>, secret_ok K w p)"
  proof (rule prod_eqI)
    show "fst (validateSecret K G w ?q) =
        fst (?q\<lparr>prov_Status := prov_Status (fst (validateSecret K G w ?q))\<rparr>, secret_ok K w p)"
      unfolding fst_conv by (rule validate_status_only(2))
    show "snd (validateSecret K G w ?q) =
        snd (?q\<lparr>prov_Status := prov_Status (fst (validateSecret K G w ?q))\<rparr>, secret_ok K w p)"
      unfolding snd_conv validateSecret_snd by (simp add: secret_ok_def)
  qed
  ultimately show thesis by (intro that) simp_all
qed

lemma checked_provider_status:
  "checked_provider K G w p = p\<lparr>prov_Status := prov_Status (checked_provider K G w p)\<rparr>"
proof -
  obtain t u where "validateConfig G (g_now K w) p = (p\<lparr>prov_Status := t\<rparr>, spec_valid (prov_Spec p))"
    "validateSecret K G w (p\<lparr>prov_Status := t\<rparr>) = (p\<lparr>prov_Status := u\<rparr>, secret_ok K w p)"
    by (rule checked_provider_parts)
  then show ?thesis by (simp add: checked_provider_def provider_phase_def Let_def)
qed

lemma checked_provider_fields:
  "pst_Phase (prov_Status (checked_provider K G w p)) =
     (if spec_valid (prov_Spec p) \<and> secret_ok K w p then ProviderPhaseReady else ProviderPhaseFailed)"
  "pst_BoundAgents (prov_Status (checked_provider K G w p)) =
     (case countBoundAgents_provider K w p of Inl _ \<Rightarrow> 0 | Inr n \<Rightarrow> n)"
proof -
  obtain t u where parts: "validateConfig G (g_now K w) p = (p\<lparr>prov_Status := t\<rparr>, spec_valid (prov_Spec p))"
    "validateSecret K G w (p\<lparr>prov_Status := t\<rparr>) = (p\<lparr>prov_Status := u\<rparr>, secret_ok K w p)"
    by (rule checked_provider_parts)
  have count: "countBoundAgents_provider K w (p\<lparr>prov_Status := u\<rparr>) = countBoundAgents_provider K w p"
    by (simp add: countBoundAgents_provider_def split: sum.split)
  show "pst_Phase (prov_Status (checked_provider K G w p)) =
     (if spec_valid (prov_Spec p) \<and> secret_ok K w p then ProviderPhaseReady else ProviderPhaseFailed)"
    by (simp add: checked_provider_def parts provider_phase_def Let_def)
  show "pst_BoundAgents (prov_Status (checked_provider K G w p)) =
     (case countBoundAgents_provider K w p of Inl _ \<Rightarrow> 0 | Inr n \<Rightarrow> n)"
    by (simp add: checked_provider_def parts provider_phase_def count Let_def)
qed

text \<open>The reconciler against an API server that keeps the laws of its clients.\<close>

locale provider_reconciler =
  P: writer "g_providers K" provs prov_Meta prov_Status "\<lambda>p s. p\<lparr>prov_Status := s\<rparr>" merge +
  A: reader "g_agents K" agents ag_Meta + finalizer_laws F
  for K :: "'w guard_kube" and G :: golib and F and provs and agents and merge
begin

lemma delete_guarded:
  assumes p: "provs w k = Some p" and del: "om_DeletionTimestamp (prov_Meta p) \<noteq> None"
    and r: "reconcileDelete_provider K G F w p = (w', res)"
  shows "guard_step prov_Meta ProviderFinalizer refers_provider (agents w) k (provs w) (provs w')"
proof (cases "fl_contains F ProviderFinalizer (prov_Meta p)")
  case False
  then show ?thesis using r by (auto simp: reconcileDelete_provider_def intro: guard_keep)
next
  case True
  have k: "k = (om_Namespace (prov_Meta p), om_Name (prov_Meta p))"
    using P.objs_key[OF p] by (simp add: meta_key_def)
  show ?thesis
  proof (cases "c_list (g_agents K) w (om_Namespace (prov_Meta p))")
    case (Inl e)
    then show ?thesis
      using r True by (auto simp: reconcileDelete_provider_def countBoundAgents_provider_def intro: guard_keep)
  next
    case (Inr as)
    let ?bound = "filter (\<lambda>a. refers_provider a (om_Name (prov_Meta p))) as"
    show ?thesis
    proof (cases "?bound = []")
      case True
      obtain fs where fs: "fl_remove F ProviderFinalizer (prov_Meta p) = (prov_Meta p)\<lparr>om_Finalizers := fs\<rparr>"
        using remove by blast
      have "\<not> refers_provider a (snd k)" if "agents w (fst k, n) = Some a" for n a
        using A.list_none[OF Inr True] that k by simp
      then show ?thesis
        using r Inr True \<open>fl_contains F _ _\<close> p del k fs
        by (auto simp: reconcileDelete_provider_def countBoundAgents_provider_def meta_key_def
            intro: P.update_releases split: prod.splits option.splits)
    next
      case False
      then show ?thesis
        using r Inr \<open>fl_contains F _ _\<close> p
        by (auto simp: reconcileDelete_provider_def countBoundAgents_provider_def Let_def provider_cond_def
            intro!: P.patch_guarded split: prod.splits option.splits)
    qed
  qed
qed

lemma Reconcile_guarded:
  assumes r: "Reconcile_provider K G F w req = (w', res)"
  shows "guard_step prov_Meta ProviderFinalizer refers_provider (agents w) req (provs w) (provs w')"
proof (cases "c_get (g_providers K) w req")
  case (Inl e)
  then show ?thesis using r by (auto simp: Reconcile_provider_def intro: guard_keep split: if_splits)
next
  case (Inr p)
  then have p: "provs w req = Some p" by (rule P.get_ok)
  have key: "meta_key (prov_Meta p) = req" by (rule P.objs_key[OF p])
  show ?thesis
  proof (cases "om_DeletionTimestamp (prov_Meta p)")
    case (Some t)
    then show ?thesis using r Inr delete_guarded[OF p] by (simp add: Reconcile_provider_def)
  next
    case None
    show ?thesis
    proof (cases "ProviderFinalizer \<in> set (om_Finalizers (prov_Meta p))")
      case True
      then have "fl_add F ProviderFinalizer (prov_Meta p) = (prov_Meta p, False)" by (rule add_present)
      then obtain r2 where "patchObjStatus (g_providers K) w (checked_provider K G w p) p = (w', r2)"
        using r Inr None by (auto simp: Reconcile_provider_def split: prod.splits option.splits)
      from P.patch_guarded[OF this p checked_provider_status] show ?thesis .
    next
      case False
      then obtain fs where fs: "fl_add F ProviderFinalizer (prov_Meta p) = ((prov_Meta p)\<lparr>om_Finalizers := fs\<rparr>, True)"
        "set fs = insert ProviderFinalizer (set (om_Finalizers (prov_Meta p)))" using add_new by blast
      then obtain r2 where "c_update (g_providers K) w (p\<lparr>prov_Meta := (prov_Meta p)\<lparr>om_Finalizers := fs\<rparr>\<rparr>) = (w', r2)"
        using r Inr None by (auto simp: Reconcile_provider_def split: prod.splits option.splits)
      from P.update_protects[OF this p] show ?thesis
        using key None fs(2) by (simp add: meta_key_def)
    qed
  qed
qed

text \<open>A reconcile of a live, protected Provider stores the outcome of the checks.\<close>

lemma Reconcile_stores_checked:
  assumes r: "Reconcile_provider K G F w req = (w', Inr x)" and g: "c_get (g_providers K) w req = Inr p"
    and live: "om_DeletionTimestamp (prov_Meta p) = None" "ProviderFinalizer \<in> set (om_Finalizers (prov_Meta p))"
  shows "provs w' = (provs w)(req \<mapsto> checked_provider K G w p)"
proof -
  have p: "provs w req = Some p" by (rule P.get_ok[OF g])
  have "patchObjStatus (g_providers K) w (checked_provider K G w p) p = (w', None)"
    using r g live add_present[OF live(2)] by (auto simp: Reconcile_provider_def split: prod.splits option.splits)
  from P.patch_stored[OF this p checked_provider_status] show ?thesis by simp
qed

end

sublocale provider_reconciler \<subseteq>
  guard: guarded_kind prov_Meta ProviderFinalizer refers_provider agents provs "Reconcile_provider K G F"
  by unfold_locales (rule Reconcile_guarded)

text \<open>
  C7: a Provider that carries the operator's finalizer survives every history of reconciles
  and steps of other actors in which some Agent of its namespace refers to it whenever the
  controller runs, even when it has been marked for deletion. The API server only has to keep
  the documented semantics of reads, writes and finalizers.
\<close>

theorem referenced_provider_survives:
  assumes "writer (g_providers K) provs prov_Meta prov_Status (\<lambda>p s. p\<lparr>prov_Status := s\<rparr>) merge"
    and "reader (g_agents K) agents ag_Meta" and "finalizer_laws F"
    and "referenced_history prov_Meta ProviderFinalizer refers_provider agents provs (Reconcile_provider K G F) k w0 w"
    and "provs w0 k = Some p" "ProviderFinalizer \<in> set (om_Finalizers (prov_Meta p))"
  shows "\<exists>p'. provs w k = Some p' \<and> ProviderFinalizer \<in> set (om_Finalizers (prov_Meta p'))"
proof -
  have "provider_reconciler K F provs agents merge"
    using assms(1-3) by (rule provider_reconciler.intro)
  then have "guarded_kind prov_Meta ProviderFinalizer refers_provider agents provs (Reconcile_provider K G F)"
    by (intro guarded_kind.intro) (rule provider_reconciler.Reconcile_guarded)
  from guarded_kind.survives[OF this assms(4)] show ?thesis
    using assms(5,6) by (auto simp: protected_def)
qed

text \<open>
  C34: a successful reconcile of a live Provider that carries the finalizer stores exactly the
  outcome of the checks: the Provider is Ready if and only if its options fit its type, it has
  exactly one kind of credentials and the named Secret has the named key; otherwise it is
  Failed. The number of bound Agents is the number of Agents of the namespace that refer to
  it. Specification and metadata stay as they are.
\<close>

theorem provider_status_correct:
  assumes "writer (g_providers K) provs prov_Meta prov_Status (\<lambda>p s. p\<lparr>prov_Status := s\<rparr>) merge"
    and "reader (g_agents K) agents ag_Meta" and "finalizer_laws F"
    and "Reconcile_provider K G F w k = (w', Inr res)" and "c_get (g_providers K) w k = Inr p"
    and "om_DeletionTimestamp (prov_Meta p) = None" "ProviderFinalizer \<in> set (om_Finalizers (prov_Meta p))"
    and "c_list (g_agents K) w (om_Namespace (prov_Meta p)) = Inr as"
  shows "\<exists>st. provs w' = (provs w)(k \<mapsto> p\<lparr>prov_Status := st\<rparr>) \<and>
    pst_Phase st = (if spec_valid (prov_Spec p) \<and> secret_ok K w p then ProviderPhaseReady else ProviderPhaseFailed) \<and>
    pst_BoundAgents st = int (card {n. \<exists>a. agents w (fst k, n) = Some a \<and> refers_provider a (snd k)})"
proof -
  have loc: "provider_reconciler K F provs agents merge"
    using assms(1-3) by (rule provider_reconciler.intro)
  let ?p = "checked_provider K G w p"
  have k: "k = (om_Namespace (prov_Meta p), om_Name (prov_Meta p))"
    using reader.get_ok[OF writer.axioms(1)[OF assms(1)] assms(5)]
      reader.objs_key[OF writer.axioms(1)[OF assms(1)]] by (metis meta_key_def)
  have "provs w' = (provs w)(k \<mapsto> p\<lparr>prov_Status := prov_Status ?p\<rparr>)"
    using provider_reconciler.Reconcile_stores_checked[OF loc assms(4-7)] checked_provider_status by metis
  moreover have "pst_BoundAgents (prov_Status ?p) =
      int (card {n. \<exists>a. agents w (fst k, n) = Some a \<and> refers_provider a (snd k)})"
    using reader.list_count[OF assms(2,8)] assms(8)
    by (simp add: checked_provider_fields countBoundAgents_provider_def k)
  ultimately show ?thesis by (intro exI[of _ "prov_Status ?p"]) (simp add: checked_provider_fields)
qed

end
