(* ===== verification/Integration_Controller.thy ===== *)
theory Integration_Controller
  imports Provider_Controller
begin

text \<open>
  \<^verbatim>\<open>src/internal/controller/integration_controller.go\<close>: the Integration reconciler. It guards an
  Integration by a finalizer while Agents bind it and publishes whether the block of its kind
  is present.
\<close>

section \<open>Reconciliation\<close>

definition integration_cond :: "golib \<Rightarrow> time \<Rightarrow> Condition \<Rightarrow> Integration \<Rightarrow> Integration" where
  "integration_cond G t c r = r\<lparr>int_Status := (int_Status r)\<lparr>ist_Conditions :=
     gl_set_condition G t (ist_Conditions (int_Status r)) c\<rparr>\<rparr>"

definition binds_integration :: "Agent \<Rightarrow> string \<Rightarrow> bool" where
  "binds_integration agent name \<longleftrightarrow> (\<exists>b \<in> set (as_Integrations (ag_Spec agent)). ib_Name b = name)"

definition countBoundAgents_integration :: "'w guard_kube \<Rightarrow> 'w \<Rightarrow> Integration \<Rightarrow> apierr + int" where
  "countBoundAgents_integration K w res =
     (case c_list (g_agents K) w (om_Namespace (int_Meta res)) of
        Inl e \<Rightarrow> Inl e
      | Inr agents \<Rightarrow>
          Inr (int (length (filter (\<lambda>agent. binds_integration agent (om_Name (int_Meta res))) agents))))"

definition bound_cond :: "int \<Rightarrow> Condition" where
  "bound_cond n = new_cond IntegrationConditionInUse ConditionTrue ''BoundByAgents''
     (''deletion blocked: '' @ int_str n @ '' agent(s) still bind this integration'')"

definition reconcileDelete_integration ::
  "'w guard_kube \<Rightarrow> golib \<Rightarrow> finlib \<Rightarrow> 'w \<Rightarrow> Integration \<Rightarrow> 'w \<times> (apierr + ctrl_result)" where
  "reconcileDelete_integration K G F w res =
     (if \<not> fl_contains F IntegrationFinalizer (int_Meta res) then (w, Inr done_result)
      else case countBoundAgents_integration K w res of
        Inl e \<Rightarrow> (w, Inl e)
      | Inr boundAgents \<Rightarrow>
          if boundAgents > 0 then
            (case patchObjStatus (g_integrations K) w
                    (integration_cond G (g_now K w) (bound_cond boundAgents) res) res of
               (w, Some e) \<Rightarrow> (w, Inl e)
             | (w, None) \<Rightarrow> (w, Inr requeue_result))
          else
            (case c_update (g_integrations K) w
                    (res\<lparr>int_Meta := fl_remove F IntegrationFinalizer (int_Meta res)\<rparr>) of
               (w, Some e) \<Rightarrow> (w, Inl e)
             | (w, None) \<Rightarrow> (w, Inr done_result)))"

definition config_required :: "string \<Rightarrow> string \<Rightarrow> string" where
  "config_required field kind = field @ '' config is required for kind='' @ kind"

definition validateResource :: "Integration \<Rightarrow> string option" where
  "validateResource res =
     (let spec = int_Spec res; kind = is_Kind spec in
      if kind = IntegrationKindGitHubRepo then (if is_GitHub spec = None then Some (config_required ''github'' kind) else None)
      else if kind = IntegrationKindGitHubOrg then (if is_GitHubOrg spec = None then Some (config_required ''githubOrg'' kind) else None)
      else if kind = IntegrationKindGitLabProject then (if is_GitLab spec = None then Some (config_required ''gitlab'' kind) else None)
      else if kind = IntegrationKindGitLabGroup then (if is_GitLabGroup spec = None then Some (config_required ''gitlabGroup'' kind) else None)
      else if kind = IntegrationKindGitRepo then (if is_Git spec = None then Some (config_required ''git'' kind) else None)
      else if kind = IntegrationKindS3Bucket then (if is_S3 spec = None then Some (config_required ''s3'' kind) else None)
      else if kind = IntegrationKindDocumentation then (if is_Documentation spec = None then Some (config_required ''documentation'' kind) else None)
      else Some (''unknown resource kind: '' @ kind))"

definition setFailedStatus :: "golib \<Rightarrow> time \<Rightarrow> Integration \<Rightarrow> string \<Rightarrow> Integration" where
  "setFailedStatus G t res message =
     integration_cond G t (new_cond IntegrationConditionReady ConditionFalse ''Failed'' message)
       (res\<lparr>int_Status := (int_Status res)\<lparr>ist_Phase := IntegrationPhaseFailed\<rparr>\<rparr>)"

definition setReadyStatus :: "golib \<Rightarrow> time \<Rightarrow> Integration \<Rightarrow> Integration" where
  "setReadyStatus G t res =
     integration_cond G t (new_cond IntegrationConditionReady ConditionTrue ''Valid''
        (''Integration '' @ go_quote (is_DisplayName (int_Spec res)) @ '' ('' @ is_Kind (int_Spec res) @ '') is ready''))
       (res\<lparr>int_Status := (int_Status res)\<lparr>ist_Phase := IntegrationPhaseReady\<rparr>\<rparr>)"

definition Reconcile_integration ::
  "'w guard_kube \<Rightarrow> golib \<Rightarrow> finlib \<Rightarrow> 'w \<Rightarrow> nsname \<Rightarrow> 'w \<times> (apierr + ctrl_result)" where
  "Reconcile_integration K G F w req =
     (case c_get (g_integrations K) w req of
        Inl e \<Rightarrow> if IsNotFound e then (w, Inr done_result) else (w, Inl e)
      | Inr res \<Rightarrow>
          if om_DeletionTimestamp (int_Meta res) \<noteq> None then reconcileDelete_integration K G F w res
          else
            (case fl_add F IntegrationFinalizer (int_Meta res) of
               (meta, True) \<Rightarrow>
                 (case c_update (g_integrations K) w (res\<lparr>int_Meta := meta\<rparr>) of
                    (w, Some e) \<Rightarrow> (w, Inl e)
                  | (w, None) \<Rightarrow> (w, Inr done_result))
             | (meta, False) \<Rightarrow>
                 (case patchObjStatus (g_integrations K) w
                         (case validateResource res of
                            Some err \<Rightarrow> setFailedStatus G (g_now K w) res err
                          | None \<Rightarrow> setReadyStatus G (g_now K w) res) res of
                    (w, Some e) \<Rightarrow> (w, Inl e)
                  | (w, None) \<Rightarrow> (w, Inr done_result))))"

section \<open>Properties\<close>

text \<open>The status that a live Integration gets.\<close>

definition checked_integration :: "golib \<Rightarrow> time \<Rightarrow> Integration \<Rightarrow> Integration" where
  "checked_integration G t res =
     (case validateResource res of Some err \<Rightarrow> setFailedStatus G t res err | None \<Rightarrow> setReadyStatus G t res)"

lemma checked_integration_status:
  "checked_integration G t r = r\<lparr>int_Status := int_Status (checked_integration G t r)\<rparr>"
  by (simp add: checked_integration_def setFailedStatus_def setReadyStatus_def integration_cond_def split: option.split)

lemma validateResource_None:
  "validateResource r = None \<longleftrightarrow> is_Kind (int_Spec r) \<in> set kinds \<and> block_set (int_Spec r) (is_Kind (int_Spec r))"
  unfolding validateResource_def Let_def kinds_set
  by (simp add: block_set_kind)

locale integration_reconciler =
  I: writer "g_integrations K" ints int_Meta int_Status "\<lambda>r s. r\<lparr>int_Status := s\<rparr>" merge +
  A: reader "g_agents K" agents ag_Meta + finalizer_laws F
  for K :: "'w guard_kube" and G :: golib and F and ints and agents and merge
begin

lemma delete_guarded:
  assumes p: "ints w k = Some p" and del: "om_DeletionTimestamp (int_Meta p) \<noteq> None"
    and r: "reconcileDelete_integration K G F w p = (w', res)"
  shows "guard_step int_Meta IntegrationFinalizer binds_integration (agents w) k (ints w) (ints w')"
proof (cases "fl_contains F IntegrationFinalizer (int_Meta p)")
  case False
  then show ?thesis using r by (auto simp: reconcileDelete_integration_def intro: guard_keep)
next
  case True
  have k: "k = (om_Namespace (int_Meta p), om_Name (int_Meta p))"
    using I.objs_key[OF p] by (simp add: meta_key_def)
  show ?thesis
  proof (cases "c_list (g_agents K) w (om_Namespace (int_Meta p))")
    case (Inl e)
    then show ?thesis
      using r True by (auto simp: reconcileDelete_integration_def countBoundAgents_integration_def intro: guard_keep)
  next
    case (Inr as)
    let ?bound = "filter (\<lambda>a. binds_integration a (om_Name (int_Meta p))) as"
    show ?thesis
    proof (cases "?bound = []")
      case True
      obtain fs where fs: "fl_remove F IntegrationFinalizer (int_Meta p) = (int_Meta p)\<lparr>om_Finalizers := fs\<rparr>"
        using remove by blast
      have "\<not> binds_integration a (snd k)" if "agents w (fst k, n) = Some a" for n a
        using A.list_none[OF Inr True] that k by simp
      then show ?thesis
        using r Inr True \<open>fl_contains F _ _\<close> p del k fs
        by (auto simp: reconcileDelete_integration_def countBoundAgents_integration_def meta_key_def
            intro: I.update_releases split: prod.splits option.splits)
    next
      case False
      then show ?thesis
        using r Inr \<open>fl_contains F _ _\<close> p
        by (auto simp: reconcileDelete_integration_def countBoundAgents_integration_def Let_def integration_cond_def
            intro!: I.patch_guarded split: prod.splits option.splits)
    qed
  qed
qed

lemma Reconcile_guarded:
  assumes r: "Reconcile_integration K G F w req = (w', res)"
  shows "guard_step int_Meta IntegrationFinalizer binds_integration (agents w) req (ints w) (ints w')"
proof (cases "c_get (g_integrations K) w req")
  case (Inl e)
  then show ?thesis using r by (auto simp: Reconcile_integration_def intro: guard_keep split: if_splits)
next
  case (Inr p)
  then have p: "ints w req = Some p" by (rule I.get_ok)
  have key: "meta_key (int_Meta p) = req" by (rule I.objs_key[OF p])
  show ?thesis
  proof (cases "om_DeletionTimestamp (int_Meta p)")
    case (Some t)
    then show ?thesis using r Inr delete_guarded[OF p] by (simp add: Reconcile_integration_def)
  next
    case None
    show ?thesis
    proof (cases "IntegrationFinalizer \<in> set (om_Finalizers (int_Meta p))")
      case True
      then have "fl_add F IntegrationFinalizer (int_Meta p) = (int_Meta p, False)" by (rule add_present)
      then obtain r2 where "patchObjStatus (g_integrations K) w (checked_integration G (g_now K w) p) p = (w', r2)"
        using r Inr None by (auto simp: Reconcile_integration_def checked_integration_def split: prod.splits option.splits)
      from I.patch_guarded[OF this p checked_integration_status] show ?thesis .
    next
      case False
      then obtain fs where fs: "fl_add F IntegrationFinalizer (int_Meta p) = ((int_Meta p)\<lparr>om_Finalizers := fs\<rparr>, True)"
        "set fs = insert IntegrationFinalizer (set (om_Finalizers (int_Meta p)))" using add_new by blast
      then obtain r2 where "c_update (g_integrations K) w (p\<lparr>int_Meta := (int_Meta p)\<lparr>om_Finalizers := fs\<rparr>\<rparr>) = (w', r2)"
        using r Inr None by (auto simp: Reconcile_integration_def split: prod.splits option.splits)
      from I.update_protects[OF this p] show ?thesis
        using key None fs(2) by (simp add: meta_key_def)
    qed
  qed
qed

lemma Reconcile_stores_checked:
  assumes r: "Reconcile_integration K G F w req = (w', Inr x)" and g: "c_get (g_integrations K) w req = Inr p"
    and live: "om_DeletionTimestamp (int_Meta p) = None" "IntegrationFinalizer \<in> set (om_Finalizers (int_Meta p))"
  shows "ints w' = (ints w)(req \<mapsto> checked_integration G (g_now K w) p)"
proof -
  have p: "ints w req = Some p" by (rule I.get_ok[OF g])
  have "patchObjStatus (g_integrations K) w (checked_integration G (g_now K w) p) p = (w', None)"
    using r g live add_present[OF live(2)]
    by (auto simp: Reconcile_integration_def checked_integration_def split: prod.splits option.splits)
  from I.patch_stored[OF this p checked_integration_status] show ?thesis by simp
qed

end

sublocale integration_reconciler \<subseteq>
  guard: guarded_kind int_Meta IntegrationFinalizer binds_integration agents ints "Reconcile_integration K G F"
  by unfold_locales (rule Reconcile_guarded)

text \<open>
  C8: an Integration that carries the operator's finalizer survives every history of
  reconciles and steps of other actors in which some Agent of its namespace binds it whenever
  the controller runs, even when it has been marked for deletion.
\<close>

theorem referenced_integration_survives:
  assumes "writer (g_integrations K) ints int_Meta int_Status (\<lambda>r s. r\<lparr>int_Status := s\<rparr>) merge"
    and "reader (g_agents K) agents ag_Meta" and "finalizer_laws F"
    and "referenced_history int_Meta IntegrationFinalizer binds_integration agents ints (Reconcile_integration K G F) k w0 w"
    and "ints w0 k = Some r" "IntegrationFinalizer \<in> set (om_Finalizers (int_Meta r))"
  shows "\<exists>r'. ints w k = Some r' \<and> IntegrationFinalizer \<in> set (om_Finalizers (int_Meta r'))"
proof -
  have "integration_reconciler K F ints agents merge"
    using assms(1-3) by (rule integration_reconciler.intro)
  then have "guarded_kind int_Meta IntegrationFinalizer binds_integration agents ints (Reconcile_integration K G F)"
    by (intro guarded_kind.intro) (rule integration_reconciler.Reconcile_guarded)
  from guarded_kind.survives[OF this assms(4)] show ?thesis
    using assms(5,6) by (auto simp: protected_def)
qed

text \<open>
  A successful reconcile of a live Integration that carries the finalizer makes it Ready
  exactly when its kind is known and the block of that kind is set, and Failed otherwise; the
  Ready condition says the same. Specification and metadata stay as they are.
\<close>

theorem integration_status_correct:
  assumes "writer (g_integrations K) ints int_Meta int_Status (\<lambda>r s. r\<lparr>int_Status := s\<rparr>) merge"
    and "reader (g_agents K) agents ag_Meta" and "finalizer_laws F" and "golib_laws G"
    and "Reconcile_integration K G F w k = (w', Inr res)" and "c_get (g_integrations K) w k = Inr r"
    and "om_DeletionTimestamp (int_Meta r) = None" "IntegrationFinalizer \<in> set (om_Finalizers (int_Meta r))"
  shows "\<exists>st c. ints w' = (ints w)(k \<mapsto> r\<lparr>int_Status := st\<rparr>) \<and> find_cond IntegrationConditionReady (ist_Conditions st) = Some c \<and>
    (if is_Kind (int_Spec r) \<in> set kinds \<and> block_set (int_Spec r) (is_Kind (int_Spec r))
     then ist_Phase st = IntegrationPhaseReady \<and> c_Status c = ConditionTrue
     else ist_Phase st = IntegrationPhaseFailed \<and> c_Status c = ConditionFalse)"
proof -
  let ?r = "checked_integration G (g_now K w) r"
  have "integration_reconciler K F ints agents merge"
    using assms(1-3) by (rule integration_reconciler.intro)
  then have "ints w' = (ints w)(k \<mapsto> r\<lparr>int_Status := int_Status ?r\<rparr>)"
    using integration_reconciler.Reconcile_stores_checked[OF _ assms(5-8)] checked_integration_status by metis
  moreover have ready: "\<exists>d. find_cond IntegrationConditionReady (gl_set_condition G t cs
      (new_cond IntegrationConditionReady st reason msg)) = Some d \<and> c_Status d = st" for t cs st reason msg
    using golib_laws.set_condition_same[OF assms(4), of "new_cond IntegrationConditionReady st reason msg" t cs]
    by (auto simp: same_condition_def new_cond_def)
  moreover have "(\<exists>c. find_cond IntegrationConditionReady (ist_Conditions (int_Status ?r)) = Some c \<and>
      (if validateResource r = None then ist_Phase (int_Status ?r) = IntegrationPhaseReady \<and> c_Status c = ConditionTrue
       else ist_Phase (int_Status ?r) = IntegrationPhaseFailed \<and> c_Status c = ConditionFalse))"
    using ready
    by (cases "validateResource r")
      (simp_all add: checked_integration_def setReadyStatus_def setFailedStatus_def integration_cond_def)
  ultimately show ?thesis unfolding validateResource_None by blast
qed

text \<open>
  C36: admission and reconciliation agree. A Provider that the webhook admits passes the
  controller's configuration check exactly when it has one kind of credentials, which only the
  controller checks; an Integration that the webhook admits passes the controller's check
  exactly when its kind is a known one.
\<close>

theorem admission_agrees_with_controllers:
  "(validate_provider p = [] \<longrightarrow> (snd (validateConfig G t p) \<longleftrightarrow> one_auth (prov_Spec p))) \<and>
   (validate_integration r = [] \<longrightarrow> (validateResource r = None \<longleftrightarrow> is_Kind (int_Spec r) \<in> set kinds))"
proof -
  have "validate_provider p = [] \<Longrightarrow> provider_ok (prov_Spec p)"
    unfolding provider_checks provider_ok_def by blast
  moreover have "validate_integration r = [] \<Longrightarrow> is_Kind (int_Spec r) \<in> set kinds \<longrightarrow> block_set (int_Spec r) (is_Kind (int_Spec r))"
    unfolding validate_integration_def append_is_Nil_conv validateKindConfig_ok by blast
  ultimately show ?thesis
    unfolding validateConfig_snd validateResource_None spec_valid_def provider_ok_def by blast
qed

text \<open>
  The watches enqueue the right objects: a Secret maps to exactly the Providers of its
  namespace that name it, an Agent to each Provider it refers to, once.
\<close>

theorem watches_cover:
  assumes "reader (g_providers K) provs prov_Meta"
    and "c_list (g_providers K) w (om_Namespace (sec_Meta secret)) = Inr ps"
  shows "set (secretToProviderRequests K w secret) =
      {k. fst k = om_Namespace (sec_Meta secret) \<and> (\<exists>p ref. provs w k = Some p \<and>
            ps_ApiKeySecret (prov_Spec p) = Some ref \<and> skr_Name ref = om_Name (sec_Meta secret))} \<and>
    distinct (agentToProviderRequests agent) \<and>
    set (agentToProviderRequests agent) = {k. fst k = om_Namespace (ag_Meta agent) \<and> refers_provider agent (snd k)}"
proof (intro conjI)
  have ps: "set ps = {p. \<exists>n. provs w (om_Namespace (sec_Meta secret), n) = Some p}"
    using reader.list_ok[OF assms] by simp
  have "k \<in> set (secretToProviderRequests K w secret) \<longleftrightarrow>
      (\<exists>p \<in> set ps. \<exists>ref. meta_key (prov_Meta p) = k \<and> ps_ApiKeySecret (prov_Spec p) = Some ref \<and>
         skr_Name ref = om_Name (sec_Meta secret))" for k
    using assms(2) by (simp add: secretToProviderRequests_def) metis
  then show "set (secretToProviderRequests K w secret) =
      {k. fst k = om_Namespace (sec_Meta secret) \<and> (\<exists>p ref. provs w k = Some p \<and>
            ps_ApiKeySecret (prov_Spec p) = Some ref \<and> skr_Name ref = om_Name (sec_Meta secret))}"
    using reader.objs_key[OF assms(1)] unfolding ps by (fastforce simp: set_eq_iff)
  show "distinct (agentToProviderRequests agent)"
    by (simp add: agentToProviderRequests_def provider_requests_distinct)
  show "set (agentToProviderRequests agent) = {k. fst k = om_Namespace (ag_Meta agent) \<and> refers_provider agent (snd k)}"
    by (force simp: agentToProviderRequests_def provider_requests_set refers_provider_def)
qed

end
