(* ===== verification/Guard_Store.thy ===== *)
theory Guard_Store
  imports Integration_Controller Kube_Store
begin

text \<open>
  An in-memory API server for the controllers of Providers and Integrations. It interprets the
  locales of their clients and of deletion protection, and gives the concrete histories on
  which the properties of the two controllers are instantiated.
\<close>

section \<open>The server\<close>

record guard_world =
  gw_now :: time
  gw_providers :: "Provider list"
  gw_integrations :: "Integration list"
  gw_agents :: "Agent list"
  gw_secrets :: "Secret list"

definition merge_provider_status :: "ProviderStatus \<Rightarrow> ProviderStatus \<Rightarrow> ProviderStatus \<Rightarrow> ProviderStatus" where
  "merge_provider_status base obj stored =
     \<lparr>pst_Phase = merge_field pst_Phase base obj stored, pst_Message = merge_field pst_Message base obj stored,
      pst_Conditions = merge_field pst_Conditions base obj stored,
      pst_BoundAgents = merge_field pst_BoundAgents base obj stored\<rparr>"

definition merge_integration_status :: "IntegrationStatus \<Rightarrow> IntegrationStatus \<Rightarrow> IntegrationStatus \<Rightarrow> IntegrationStatus" where
  "merge_integration_status base obj stored =
     \<lparr>ist_Phase = merge_field ist_Phase base obj stored,
      ist_Conditions = merge_field ist_Conditions base obj stored\<rparr>"

definition mem_providers :: "(guard_world, Provider) client" where
  "mem_providers = mem_client prov_Meta prov_Status (\<lambda>p s. p\<lparr>prov_Status := s\<rparr>) merge_provider_status
     gw_providers (\<lambda>xs w. w\<lparr>gw_providers := xs\<rparr>)"

definition mem_integrations :: "(guard_world, Integration) client" where
  "mem_integrations = mem_client int_Meta int_Status (\<lambda>r s. r\<lparr>int_Status := s\<rparr>) merge_integration_status
     gw_integrations (\<lambda>xs w. w\<lparr>gw_integrations := xs\<rparr>)"

definition mem_agents :: "(guard_world, Agent) client" where
  "mem_agents = mem_client ag_Meta ag_Status (\<lambda>a s. a\<lparr>ag_Status := s\<rparr>) (\<lambda>_ s _. s)
     gw_agents (\<lambda>xs w. w\<lparr>gw_agents := xs\<rparr>)"

definition mem_secrets :: "(guard_world, Secret) client" where
  "mem_secrets = mem_client sec_Meta (\<lambda>_. ()) (\<lambda>s _. s) (\<lambda>_ s _. s) gw_secrets (\<lambda>xs w. w\<lparr>gw_secrets := xs\<rparr>)"

definition guard_mem :: "guard_world guard_kube" where
  "guard_mem = \<lparr>g_now = gw_now, g_providers = mem_providers, g_integrations = mem_integrations,
     g_agents = mem_agents, g_secrets = mem_secrets\<rparr>"

definition world_providers :: "guard_world \<Rightarrow> nsname \<rightharpoonup> Provider" where
  "world_providers w = keyed (\<lambda>x. meta_key (prov_Meta x)) (gw_providers w)"

definition world_integrations :: "guard_world \<Rightarrow> nsname \<rightharpoonup> Integration" where
  "world_integrations w = keyed (\<lambda>x. meta_key (int_Meta x)) (gw_integrations w)"

definition world_agents :: "guard_world \<Rightarrow> nsname \<rightharpoonup> Agent" where
  "world_agents w = keyed (\<lambda>x. meta_key (ag_Meta x)) (gw_agents w)"

lemma guard_mem_sel [simp]:
  "g_now guard_mem = gw_now" "g_providers guard_mem = mem_providers"
  "g_integrations guard_mem = mem_integrations" "g_agents guard_mem = mem_agents" "g_secrets guard_mem = mem_secrets"
  by (simp_all add: guard_mem_def)

section \<open>Interpretations\<close>

interpretation provs: writer "g_providers guard_mem" world_providers prov_Meta prov_Status
  "\<lambda>p s. p\<lparr>prov_Status := s\<rparr>" merge_provider_status
  unfolding guard_mem_sel mem_providers_def world_providers_def
  by (rule mem_writer) (simp_all add: merge_provider_status_def merge_field_def)

interpretation ints: writer "g_integrations guard_mem" world_integrations int_Meta int_Status
  "\<lambda>r s. r\<lparr>int_Status := s\<rparr>" merge_integration_status
  unfolding guard_mem_sel mem_integrations_def world_integrations_def
  by (rule mem_writer) (simp_all add: merge_integration_status_def merge_field_def)

interpretation ags: reader "g_agents guard_mem" world_agents ag_Meta
  unfolding guard_mem_sel mem_agents_def world_agents_def by (rule mem_reader)

interpretation prov_ctrl: provider_reconciler guard_mem std_golib std_finlib world_providers world_agents merge_provider_status
  by unfold_locales

interpretation int_ctrl: integration_reconciler guard_mem std_golib std_finlib world_integrations world_agents merge_integration_status
  by unfold_locales

section \<open>Concrete histories\<close>

definition guarded_meta :: "string \<Rightarrow> string \<Rightarrow> time option \<Rightarrow> ObjectMeta" where
  "guarded_meta name fin del = (new_meta name ''ns'' Map.empty)\<lparr>om_Finalizers := [fin], om_DeletionTimestamp := del\<rparr>"

definition openai_provider :: "time option \<Rightarrow> Provider" where
  "openai_provider del = \<lparr>prov_Meta = guarded_meta ''openai'' ProviderFinalizer del,
     prov_Spec = zero_ProviderSpec\<lparr>ps_Type := ProviderTypeOpenAI,
       ps_ApiKeySecret := Some \<lparr>skr_Name = ''keys'', skr_Key = ''token''\<rparr>\<rparr>,
     prov_Status = zero_ProviderStatus\<rparr>"

definition repo_integration :: "time option \<Rightarrow> Integration" where
  "repo_integration del = demo_repo\<lparr>int_Meta := guarded_meta ''repo'' IntegrationFinalizer del\<rparr>"

definition bound_agent :: Agent where
  "bound_agent = \<lparr>ag_Meta = new_meta ''dev'' ''ns'' Map.empty,
     ag_Spec = zero_AgentSpec\<lparr>as_ProviderRefs := [\<lparr>pb_Name = ''openai'', pb_Overrides = None\<rparr>],
       as_Integrations := [\<lparr>ib_Name = ''repo'', ib_ReadOnly = False, ib_AutoContext = False\<rparr>]\<rparr>,
     ag_Status = zero_AgentStatus\<rparr>"

definition demo_world :: "time option \<Rightarrow> guard_world" where
  "demo_world del = \<lparr>gw_now = 5, gw_providers = [openai_provider del], gw_integrations = [repo_integration del],
     gw_agents = [bound_agent], gw_secrets = [\<lparr>sec_Meta = new_meta ''keys'' ''ns'' Map.empty, sec_Data = [''token'' \<mapsto> ''x'']\<rparr>]\<rparr>"

lemma demo_world_objects:
  "world_providers (demo_world del) (''ns'', ''openai'') = Some (openai_provider del)"
  "world_integrations (demo_world del) (''ns'', ''repo'') = Some (repo_integration del)"
  "world_agents (demo_world del) (''ns'', ''dev'') = Some bound_agent"
  by (simp_all add: world_providers_def world_integrations_def world_agents_def demo_world_def openai_provider_def
      repo_integration_def bound_agent_def guarded_meta_def new_meta_def meta_key_def demo_repo_def)

lemma demo_world_agents: "world_agents (demo_world del) = [(''ns'', ''dev'') \<mapsto> bound_agent]"
proof -
  have "meta_key (ag_Meta bound_agent) = (''ns'', ''dev'')" by (simp add: bound_agent_def new_meta_def meta_key_def)
  then show ?thesis by (auto simp: world_agents_def demo_world_def)
qed

lemma demo_refers: "refers_provider bound_agent ''openai''" "binds_integration bound_agent ''repo''"
  by (simp_all add: refers_provider_def binds_integration_def bound_agent_def)

lemma demo_finalizers:
  "ProviderFinalizer \<in> set (om_Finalizers (prov_Meta (openai_provider del)))"
  "IntegrationFinalizer \<in> set (om_Finalizers (int_Meta (repo_integration del)))"
  "om_DeletionTimestamp (prov_Meta (openai_provider del)) = del"
  "om_DeletionTimestamp (int_Meta (repo_integration del)) = del"
  by (simp_all add: openai_provider_def repo_integration_def guarded_meta_def)

text \<open>A Provider and an Integration marked for deletion at time 1, both in use.\<close>

theorem referenced_provider_survives_witness:
  "\<exists>w res p. Reconcile_provider guard_mem std_golib std_finlib (demo_world (Some 1)) (''ns'', ''openai'') = (w, res) \<and>
     world_providers w (''ns'', ''openai'') = Some p \<and> ProviderFinalizer \<in> set (om_Finalizers (prov_Meta p))"
proof -
  let ?k = "(''ns'', ''openai'')"
  obtain w res where r: "Reconcile_provider guard_mem std_golib std_finlib (demo_world (Some 1)) ?k = (w, res)" by force
  have "referenced_history prov_Meta ProviderFinalizer refers_provider world_agents world_providers
      (Reconcile_provider guard_mem std_golib std_finlib) ?k (demo_world (Some 1)) w"
    using r by (intro history_one[where n = "''dev''" and a = bound_agent]) (simp_all add: demo_world_objects demo_refers)
  then have "\<exists>p. world_providers w ?k = Some p \<and> ProviderFinalizer \<in> set (om_Finalizers (prov_Meta p))"
    by (rule referenced_provider_survives[where K = guard_mem and provs = world_providers and agents = world_agents,
          OF provs.writer_axioms ags.reader_axioms fin.finalizer_laws_axioms])
      (rule demo_world_objects demo_finalizers)+
  with r show ?thesis by blast
qed

theorem referenced_integration_survives_witness:
  "\<exists>w res x. Reconcile_integration guard_mem std_golib std_finlib (demo_world (Some 1)) (''ns'', ''repo'') = (w, res) \<and>
     world_integrations w (''ns'', ''repo'') = Some x \<and> IntegrationFinalizer \<in> set (om_Finalizers (int_Meta x))"
proof -
  let ?k = "(''ns'', ''repo'')"
  obtain w res where r: "Reconcile_integration guard_mem std_golib std_finlib (demo_world (Some 1)) ?k = (w, res)" by force
  have "referenced_history int_Meta IntegrationFinalizer binds_integration world_agents world_integrations
      (Reconcile_integration guard_mem std_golib std_finlib) ?k (demo_world (Some 1)) w"
    using r by (intro history_one[where n = "''dev''" and a = bound_agent]) (simp_all add: demo_world_objects demo_refers)
  then have "\<exists>x. world_integrations w ?k = Some x \<and> IntegrationFinalizer \<in> set (om_Finalizers (int_Meta x))"
    by (rule referenced_integration_survives[where K = guard_mem and ints = world_integrations and agents = world_agents,
          OF ints.writer_axioms ags.reader_axioms fin.finalizer_laws_axioms])
      (rule demo_world_objects demo_finalizers)+
  with r show ?thesis by blast
qed

text \<open>The same objects live: both are found and become Ready.\<close>

lemma demo_reads:
  "c_get (g_providers guard_mem) (demo_world del) (''ns'', ''openai'') = Inr (openai_provider del)"
  "c_get (g_integrations guard_mem) (demo_world del) (''ns'', ''repo'') = Inr (repo_integration del)"
  "c_list (g_agents guard_mem) (demo_world del) ''ns'' = Inr [bound_agent]"
  "c_list (g_providers guard_mem) (demo_world del) ''ns'' = Inr [openai_provider del]"
  "c_get (g_secrets guard_mem) (demo_world del) (''ns'', ''keys'') =
     Inr \<lparr>sec_Meta = new_meta ''keys'' ''ns'' Map.empty, sec_Data = [''token'' \<mapsto> ''x'']\<rparr>"
  using demo_world_objects[of del]
  by (simp_all add: mem_providers_def mem_integrations_def mem_agents_def mem_secrets_def mem_client_def Let_def
      world_providers_def world_integrations_def visible_def meta_key_def demo_world_def bound_agent_def
      openai_provider_def guarded_meta_def new_meta_def)

lemma demo_provider_done:
  "\<exists>w. Reconcile_provider guard_mem std_golib std_finlib (demo_world None) (''ns'', ''openai'') = (w, Inr done_result)"
proof -
  let ?p = "checked_provider guard_mem std_golib (demo_world None) (openai_provider None)"
  have m: "meta_key (prov_Meta ?p) = (''ns'', ''openai'')"
    by (subst checked_provider_status) (simp add: provs.objs_key[OF demo_world_objects(1)])
  have "snd (patchObjStatus mem_providers (demo_world None) ?p (openai_provider None)) = None"
    unfolding mem_providers_def using demo_world_objects(1)[of None]
    by (intro mem_patch_ok) (unfold m, simp add: world_providers_def)
  then show ?thesis
    using demo_reads(1)[of None] demo_finalizers[of None]
    by (auto simp: Reconcile_provider_def std_finlib_def split: prod.splits)
qed

lemma demo_integration_done:
  "\<exists>w. Reconcile_integration guard_mem std_golib std_finlib (demo_world None) (''ns'', ''repo'') = (w, Inr done_result)"
proof -
  let ?r = "checked_integration std_golib (g_now guard_mem (demo_world None)) (repo_integration None)"
  have v: "validateResource (repo_integration None) = None"
    by (simp add: validateResource_None kinds_set repo_integration_def demo_repo_def block_set_kind)
  have m: "meta_key (int_Meta ?r) = (''ns'', ''repo'')"
    by (subst checked_integration_status) (simp add: ints.objs_key[OF demo_world_objects(2)])
  have "snd (patchObjStatus mem_integrations (demo_world None) ?r (repo_integration None)) = None"
    unfolding mem_integrations_def using demo_world_objects(2)[of None]
    by (intro mem_patch_ok) (unfold m, simp add: world_integrations_def)
  then show ?thesis
    using demo_reads(2)[of None] demo_finalizers[of None] v
    by (auto simp: Reconcile_integration_def checked_integration_def std_finlib_def split: prod.splits)
qed

theorem provider_status_correct_witness:
  "\<exists>w st. Reconcile_provider guard_mem std_golib std_finlib (demo_world None) (''ns'', ''openai'') = (w, Inr done_result) \<and>
     world_providers w (''ns'', ''openai'') = Some ((openai_provider None)\<lparr>prov_Status := st\<rparr>) \<and>
     pst_Phase st = ProviderPhaseReady \<and> pst_BoundAgents st = 1"
proof -
  let ?p = "openai_provider None" and ?k = "(''ns'', ''openai'')"
  obtain w where r: "Reconcile_provider guard_mem std_golib std_finlib (demo_world None) ?k = (w, Inr done_result)"
    using demo_provider_done by blast
  have "c_list (g_agents guard_mem) (demo_world None) (om_Namespace (prov_Meta ?p)) = Inr [bound_agent]"
    using demo_reads(3) by (simp add: openai_provider_def guarded_meta_def new_meta_def)
  then obtain st where st: "world_providers w = (world_providers (demo_world None))(?k \<mapsto> ?p\<lparr>prov_Status := st\<rparr>)"
      "pst_Phase st = (if spec_valid (prov_Spec ?p) \<and> secret_ok guard_mem (demo_world None) ?p
                      then ProviderPhaseReady else ProviderPhaseFailed)"
      "pst_BoundAgents st = int (card {n. \<exists>a. world_agents (demo_world None) (fst ?k, n) = Some a \<and> refers_provider a (snd ?k)})"
    using provider_status_correct[where K = guard_mem and G = std_golib and F = std_finlib,
          OF provs.writer_axioms ags.reader_axioms fin.finalizer_laws_axioms r demo_reads(1), of "[bound_agent]"]
    by (auto simp: demo_finalizers)
  moreover have "spec_valid (prov_Spec ?p)"
    by (simp add: spec_valid_def one_auth_def openai_provider_def zero_ProviderSpec_def const_defs)
  moreover have "secret_ok guard_mem (demo_world None) ?p"
    using demo_reads(5)[of None] by (simp add: secret_ok_def openai_provider_def guarded_meta_def new_meta_def)
  moreover have "{n. \<exists>a. world_agents (demo_world None) (fst ?k, n) = Some a \<and> refers_provider a (snd ?k)} = {''dev''}"
    using demo_refers(1) by (auto simp: demo_world_agents split: if_splits)
  ultimately have "pst_Phase st = ProviderPhaseReady" "pst_BoundAgents st = 1" by (simp_all add: st)
  then show ?thesis using r st(1) by (intro exI[of _ w] exI[of _ st]) simp
qed

theorem integration_status_correct_witness:
  "\<exists>w st c. Reconcile_integration guard_mem std_golib std_finlib (demo_world None) (''ns'', ''repo'') = (w, Inr done_result) \<and>
     world_integrations w (''ns'', ''repo'') = Some ((repo_integration None)\<lparr>int_Status := st\<rparr>) \<and>
     find_cond IntegrationConditionReady (ist_Conditions st) = Some c \<and>
     ist_Phase st = IntegrationPhaseReady \<and> c_Status c = ConditionTrue"
proof -
  let ?r = "repo_integration None" and ?k = "(''ns'', ''repo'')"
  obtain w where r: "Reconcile_integration guard_mem std_golib std_finlib (demo_world None) ?k = (w, Inr done_result)"
    using demo_integration_done by blast
  obtain st c where st: "world_integrations w = (world_integrations (demo_world None))(?k \<mapsto> ?r\<lparr>int_Status := st\<rparr>)"
      "find_cond IntegrationConditionReady (ist_Conditions st) = Some c"
      "(if is_Kind (int_Spec ?r) \<in> set kinds \<and> block_set (int_Spec ?r) (is_Kind (int_Spec ?r))
       then ist_Phase st = IntegrationPhaseReady \<and> c_Status c = ConditionTrue
       else ist_Phase st = IntegrationPhaseFailed \<and> c_Status c = ConditionFalse)"
    using integration_status_correct[where K = guard_mem and G = std_golib and F = std_finlib,
          OF ints.writer_axioms ags.reader_axioms fin.finalizer_laws_axioms std.golib_laws_axioms r demo_reads(2)]
    by (auto simp: demo_finalizers)
  have "is_Kind (int_Spec ?r) = IntegrationKindGitRepo" "is_Git (int_Spec ?r) \<noteq> None"
    by (simp_all add: repo_integration_def demo_repo_def)
  then have "ist_Phase st = IntegrationPhaseReady" "c_Status c = ConditionTrue" using st(3) by (simp_all add: kinds_set block_set_kind)
  then show ?thesis using r st(1,2) by (intro exI[of _ w] exI[of _ st] exI[of _ c]) simp
qed

theorem admission_agrees_with_controllers_witness:
  "validate_provider (openai_provider None) = [] \<and> snd (validateConfig std_golib 0 (openai_provider None)) \<and>
   validate_integration demo_repo = [] \<and> validateResource demo_repo = None"
proof -
  have "validate_provider (openai_provider None) = []" by code_simp
  moreover have "validate_integration demo_repo = []" by code_simp
  moreover have "one_auth (prov_Spec (openai_provider None))"
    by (simp add: one_auth_def openai_provider_def zero_ProviderSpec_def)
  moreover have "is_Kind (int_Spec demo_repo) \<in> set kinds" by (simp add: demo_repo_def kinds_set)
  ultimately show ?thesis
    using admission_agrees_with_controllers[of "openai_provider None" std_golib 0 demo_repo] by blast
qed

theorem watches_cover_witness:
  "(''ns'', ''openai'') \<in> set (secretToProviderRequests guard_mem (demo_world None)
       \<lparr>sec_Meta = new_meta ''keys'' ''ns'' Map.empty, sec_Data = [''token'' \<mapsto> ''x'']\<rparr>) \<and>
   set (agentToProviderRequests bound_agent) = {(''ns'', ''openai'')}"
proof -
  let ?s = "\<lparr>sec_Meta = new_meta ''keys'' ''ns'' Map.empty, sec_Data = [''token'' \<mapsto> ''x'']\<rparr>"
  have "c_list (g_providers guard_mem) (demo_world None) (om_Namespace (sec_Meta ?s)) = Inr [openai_provider None]"
    using demo_reads(4) by (simp add: new_meta_def)
  note c = watches_cover[OF provs.reader_axioms this, of bound_agent]
  have "\<exists>p ref. world_providers (demo_world None) (''ns'', ''openai'') = Some p \<and>
      ps_ApiKeySecret (prov_Spec p) = Some ref \<and> skr_Name ref = ''keys''"
    using demo_world_objects(1) by (simp add: openai_provider_def)
  moreover have "{k. fst k = om_Namespace (ag_Meta bound_agent) \<and> refers_provider bound_agent (snd k)} = {(''ns'', ''openai'')}"
    by (auto simp: bound_agent_def refers_provider_def new_meta_def)
  ultimately show ?thesis using c by (simp add: new_meta_def)
qed

end
