(* ===== verification/Owned_Objects.thy ===== *)
theory Owned_Objects
  imports Kube_Client
begin

text \<open>
  The objects besides workloads and ConfigMaps that the operator owns, and their builders:
  \<^verbatim>\<open>src/internal/resources/pvc.go\<close>, \<^verbatim>\<open>rbac.go\<close>, \<^verbatim>\<open>service.go\<close> and \<^verbatim>\<open>networkpolicy.go\<close>. As for
  the other Kubernetes objects the records carry the fields the operator sets or reads.
\<close>

section \<open>Objects\<close>

record ServicePort =
  svp_Name :: string
  svp_Port :: int
  svp_TargetPort :: int
  svp_Protocol :: string

record Service =
  svc_Meta :: ObjectMeta
  svc_Selector :: gomap
  svc_Ports :: "ServicePort list"
  svc_Type :: string

record PVCSpec =
  pvc_AccessModes :: "string list"
  pvc_Requests :: gomap
  pvc_StorageClassName :: "string option"

record PersistentVolumeClaim =
  pvc_Meta :: ObjectMeta
  pvc_Spec :: PVCSpec

record NetPolSpec =
  np_PodSelector :: gomap
  np_PolicyTypes :: "string list"
  np_IngressPorts :: "int list list"

record NetworkPolicy =
  np_Meta :: ObjectMeta
  np_Spec :: NetPolSpec

record ServiceAccount =
  sa_Meta :: ObjectMeta

record PolicyRule =
  rule_APIGroups :: "string list"
  rule_Resources :: "string list"
  rule_Verbs :: "string list"

record Role =
  role_Meta :: ObjectMeta
  role_Rules :: "PolicyRule list"

record RoleRef =
  rref_APIGroup :: string
  rref_Kind :: string
  rref_Name :: string

record Subject =
  sub_Kind :: string
  sub_Name :: string
  sub_Namespace :: string

record RoleBinding =
  rb_Meta :: ObjectMeta
  rb_RoleRef :: RoleRef
  rb_Subjects :: "Subject list"

record IngressPath =
  ip_Path :: string
  ip_PathType :: string
  ip_ServiceName :: string
  ip_ServicePort :: int

record IngressRule =
  ir_Host :: string
  ir_Paths :: "IngressPath list"

record IngressTLSEntry =
  it_Hosts :: "string list"
  it_SecretName :: string

record IngressSpec =
  ing_Rules :: "IngressRule list"
  ing_ClassName :: "string option"
  ing_TLS :: "IngressTLSEntry list"

record Ingress =
  ing_Meta :: ObjectMeta
  ing_Spec :: IngressSpec

section \<open>Storage\<close>

text \<open>
  \<^verbatim>\<open>resource.MustParse\<close> panics on a literal that is not a quantity: the result is then
  \<^const>\<open>None\<close>. \<open>quantity\<close> is the parser of the quantity package; the literal is kept.
\<close>

definition BuildAgentPVC :: "(string \<Rightarrow> bool) \<Rightarrow> Agent \<Rightarrow> StorageSpec \<Rightarrow> PersistentVolumeClaim option" where
  "BuildAgentPVC quantity agent storage =
     (let name = om_Name (ag_Meta agent);
          size = (if st_Size storage = [] then ''1Gi'' else st_Size storage)
      in if \<not> quantity size then None
         else Some \<lparr>pvc_Meta = new_meta (ObjectName name ''storage'') (om_Namespace (ag_Meta agent)) (CommonLabels name ''storage''),
                pvc_Spec = \<lparr>pvc_AccessModes = [''ReadWriteOnce''], pvc_Requests = [''storage'' \<mapsto> size],
                  pvc_StorageClassName =
                    (if st_StorageClass storage \<noteq> [] then Some (st_StorageClass storage) else None)\<rparr>\<rparr>)"

section \<open>RBAC\<close>

definition APIGroup :: string where "APIGroup = ''agents.agentops.io''"
definition RBACGroupName :: string where "RBACGroupName = ''rbac.authorization.k8s.io''"
definition ServiceAccountKind :: string where "ServiceAccountKind = ''ServiceAccount''"

definition BuildAgentServiceAccount :: "Agent \<Rightarrow> ServiceAccount" where
  "BuildAgentServiceAccount agent =
     \<lparr>sa_Meta = new_meta (AgentServiceAccountName agent) (om_Namespace (ag_Meta agent))
        (CommonLabels (om_Name (ag_Meta agent)) ''rbac'')\<rparr>"

definition BuildAgentRole :: "Agent \<Rightarrow> Role" where
  "BuildAgentRole agent =
     \<lparr>role_Meta = new_meta (ObjectName (om_Name (ag_Meta agent)) ''agent'') (om_Namespace (ag_Meta agent))
        (CommonLabels (om_Name (ag_Meta agent)) ''rbac''),
      role_Rules =
        [\<lparr>rule_APIGroups = [APIGroup], rule_Resources = [''agentruns''], rule_Verbs = [''create'', ''get'', ''list'', ''watch'']\<rparr>,
         \<lparr>rule_APIGroups = [APIGroup], rule_Resources = [''agentruns/status''], rule_Verbs = [''get'', ''patch'', ''update'']\<rparr>,
         \<lparr>rule_APIGroups = [APIGroup], rule_Resources = [''agents''], rule_Verbs = [''get'', ''list'', ''watch'']\<rparr>,
         \<lparr>rule_APIGroups = [APIGroup], rule_Resources = [''integrations''], rule_Verbs = [''get'', ''list'']\<rparr>]\<rparr>"

definition BuildAgentRoleBinding :: "Agent \<Rightarrow> RoleBinding" where
  "BuildAgentRoleBinding agent =
     \<lparr>rb_Meta = new_meta (ObjectName (om_Name (ag_Meta agent)) ''agent'') (om_Namespace (ag_Meta agent))
        (CommonLabels (om_Name (ag_Meta agent)) ''rbac''),
      rb_RoleRef = \<lparr>rref_APIGroup = RBACGroupName, rref_Kind = ''Role'', rref_Name = ObjectName (om_Name (ag_Meta agent)) ''agent''\<rparr>,
      rb_Subjects = [\<lparr>sub_Kind = ServiceAccountKind, sub_Name = AgentServiceAccountName agent,
        sub_Namespace = om_Namespace (ag_Meta agent)\<rparr>]\<rparr>"

definition ChannelServiceAccountName :: "Channel \<Rightarrow> string" where
  "ChannelServiceAccountName ch = ObjectName (om_Name (ch_Meta ch)) ''channel''"

definition channel_child :: "Channel \<Rightarrow> string \<Rightarrow> ObjectMeta" where
  "channel_child ch name = new_meta name (om_Namespace (ch_Meta ch)) (CommonLabels (om_Name (ch_Meta ch)) ''channel'')"

definition BuildChannelServiceAccount :: "Channel \<Rightarrow> ServiceAccount" where
  "BuildChannelServiceAccount ch = \<lparr>sa_Meta = channel_child ch (ChannelServiceAccountName ch)\<rparr>"

definition BuildChannelRole :: "Channel \<Rightarrow> Role" where
  "BuildChannelRole ch =
     \<lparr>role_Meta = channel_child ch (ObjectName (om_Name (ch_Meta ch)) ''channel''),
      role_Rules = [\<lparr>rule_APIGroups = [APIGroup], rule_Resources = [''agentruns''], rule_Verbs = [''create'', ''get'', ''list'']\<rparr>]\<rparr>"

definition BuildChannelRoleBinding :: "Channel \<Rightarrow> RoleBinding" where
  "BuildChannelRoleBinding ch =
     \<lparr>rb_Meta = channel_child ch (ObjectName (om_Name (ch_Meta ch)) ''channel''),
      rb_RoleRef = \<lparr>rref_APIGroup = RBACGroupName, rref_Kind = ''Role'', rref_Name = ObjectName (om_Name (ch_Meta ch)) ''channel''\<rparr>,
      rb_Subjects = [\<lparr>sub_Kind = ServiceAccountKind, sub_Name = ChannelServiceAccountName ch,
        sub_Namespace = om_Namespace (ch_Meta ch)\<rparr>]\<rparr>"

section \<open>Network\<close>

definition http_port :: "int \<Rightarrow> ServicePort" where
  "http_port p = \<lparr>svp_Name = ''http'', svp_Port = p, svp_TargetPort = p, svp_Protocol = ''TCP''\<rparr>"

definition BuildAgentService :: "Agent \<Rightarrow> Service" where
  "BuildAgentService agent =
     \<lparr>svc_Meta = new_meta (om_Name (ag_Meta agent)) (om_Namespace (ag_Meta agent)) (CommonLabels (om_Name (ag_Meta agent)) ''service''),
      svc_Selector = [LabelAgent \<mapsto> om_Name (ag_Meta agent), LabelComponent \<mapsto> ''runtime''],
      svc_Ports = [http_port AgentRuntimePort], svc_Type = []\<rparr>"

definition BuildChannelService :: "Channel \<Rightarrow> Service" where
  "BuildChannelService ch =
     \<lparr>svc_Meta = new_meta (om_Name (ch_Meta ch)) (om_Namespace (ch_Meta ch))
        [LabelComponent \<mapsto> ''channel'', LabelManagedBy \<mapsto> ManagedByValue],
      svc_Selector = [LabelComponent \<mapsto> ''channel'', ''app'' \<mapsto> om_Name (ch_Meta ch)],
      svc_Ports = [http_port 8080], svc_Type = []\<rparr>"

definition BuildAgentNetworkPolicy :: "Agent \<Rightarrow> NetworkPolicy" where
  "BuildAgentNetworkPolicy agent =
     \<lparr>np_Meta = new_meta (ObjectName (om_Name (ag_Meta agent)) ''netpol'') (om_Namespace (ag_Meta agent))
        (CommonLabels (om_Name (ag_Meta agent)) ''networkpolicy''),
      np_Spec = \<lparr>np_PodSelector = [LabelAgent \<mapsto> om_Name (ag_Meta agent), LabelComponent \<mapsto> ''runtime''],
        np_PolicyTypes = [''Ingress''], np_IngressPorts = [[AgentRuntimePort]]\<rparr>\<rparr>"

section \<open>Aliasing\<close>

text \<open>
  A builder copies the resource requirements of a specification into a container and completes
  them there. The copy shares the maps with the specification, so a map that is not nil changes
  in the specification as well.
\<close>

definition shared_resources :: "ResourceRequirements \<Rightarrow> ResourceRequirements" where
  "shared_resources r =
     \<lparr>rr_Requests = (if rr_Requests r = Map.empty then Map.empty else rr_Requests (ensureEphemeralStorage r)),
      rr_Limits = (if rr_Limits r = Map.empty then Map.empty else rr_Limits (ensureEphemeralStorage r))\<rparr>"

section \<open>Selectors and rules\<close>

text \<open>
  What the API server lets a role do: some rule has the group, the resource and the verb.
\<close>

definition role_allows :: "Role \<Rightarrow> string \<Rightarrow> string \<Rightarrow> bool" where
  "role_allows r resource verb \<longleftrightarrow>
     (\<exists>rule \<in> set (role_Rules r). APIGroup \<in> set (rule_APIGroups rule) \<and> resource \<in> set (rule_Resources rule) \<and>
        verb \<in> set (rule_Verbs rule))"

definition selects :: "gomap \<Rightarrow> gomap \<Rightarrow> bool" where
  "selects selector labels \<longleftrightarrow> selector \<subseteq>\<^sub>m labels"

end
