(* ===== verification/Owned_Reconcile.thy ===== *)
theory Owned_Reconcile
  imports Owned_Objects
begin

text \<open>
  \<^verbatim>\<open>src/internal/controller/common.go\<close>: creating and updating the objects that a custom resource
  owns. \<^verbatim>\<open>controllerutil.CreateOrUpdate\<close> and the server-side apply of Deployments are
  operations of the API server behind a record per kind; the functions that change the object
  that was found, which are the operator's own code, are defined here.
\<close>

section \<open>Services\<close>

text \<open>
  \<open>oc_create_or_update w blank mutate\<close> gets the object with the key of \<open>blank\<close>, applies
  \<open>mutate\<close> to it or to \<open>blank\<close> when there is none, and creates or updates it.
\<close>

record ('w, 'o) owned_client =
  oc_create_or_update :: "'w \<Rightarrow> 'o \<Rightarrow> ('o \<Rightarrow> apierr + 'o) \<Rightarrow> 'w \<times> apierr option"

record 'w owned_kube =
  o_services :: "('w, Service) owned_client"
  o_configmaps :: "('w, ConfigMap) owned_client"
  o_pvcs :: "('w, PersistentVolumeClaim) owned_client"
  o_netpols :: "('w, NetworkPolicy) owned_client"
  o_ingresses :: "('w, Ingress) owned_client"
  o_serviceaccounts :: "('w, ServiceAccount) owned_client"
  o_roles :: "('w, Role) owned_client"
  o_rolebindings :: "('w, RoleBinding) owned_client"
  o_apply_deployment :: "'w \<Rightarrow> Deployment \<Rightarrow> 'w \<times> apierr option"

section \<open>Labels\<close>

definition mergeLabels :: "gomap \<Rightarrow> gomap \<Rightarrow> gomap" where
  "mergeLabels existing desired =
     (if desired = Map.empty then existing else if existing = Map.empty then desired else existing ++ desired)"

lemma mergeLabels_eq [simp, code]: "mergeLabels existing desired = existing ++ desired"
  by (simp add: mergeLabels_def)

text \<open>The metadata part that all mutations share: owner, labels and annotations.\<close>

definition adopt :: "golib \<Rightarrow> ObjectMeta \<Rightarrow> ObjectMeta \<Rightarrow> ObjectMeta \<Rightarrow> apierr + ObjectMeta" where
  "adopt G owner existing d =
     (case gl_set_owner G owner existing of
        Inl e \<Rightarrow> Inl e
      | Inr m \<Rightarrow> Inr (m\<lparr>om_Labels := mergeLabels (om_Labels m) (om_Labels d),
                       om_Annotations := mergeLabels (om_Annotations m) (om_Annotations d)\<rparr>))"

text \<open>A fresh object with the name and the namespace of the key.\<close>

definition blank_meta :: "ObjectMeta \<Rightarrow> ObjectMeta" where
  "blank_meta d = new_meta (om_Name d) (om_Namespace d) Map.empty"

definition key_string :: "ObjectMeta \<Rightarrow> string" where
  "key_string m = om_Namespace m @ ''/'' @ om_Name m"

definition wrapped :: "string \<Rightarrow> ObjectMeta \<Rightarrow> 'w \<times> apierr option \<Rightarrow> 'w \<times> apierr option" where
  "wrapped what m r = (case r of (w, None) \<Rightarrow> (w, None) | (w, Some e) \<Rightarrow> (w, Some (wrap_err (what @ key_string m) e)))"

section \<open>One kind each\<close>

definition mutateService :: "golib \<Rightarrow> ObjectMeta \<Rightarrow> Service \<Rightarrow> Service \<Rightarrow> apierr + Service" where
  "mutateService G owner d existing =
     (case adopt G owner (svc_Meta existing) (svc_Meta d) of
        Inl e \<Rightarrow> Inl e
      | Inr m \<Rightarrow> Inr (existing\<lparr>svc_Meta := m, svc_Selector := svc_Selector d, svc_Ports := svc_Ports d,
                   svc_Type := (if svc_Type d \<noteq> [] then svc_Type d else svc_Type existing)\<rparr>))"

definition blankService :: "Service \<Rightarrow> Service" where
  "blankService d = \<lparr>svc_Meta = blank_meta (svc_Meta d), svc_Selector = Map.empty, svc_Ports = [], svc_Type = []\<rparr>"

definition reconcileService :: "'w owned_kube \<Rightarrow> golib \<Rightarrow> 'w \<Rightarrow> ObjectMeta \<Rightarrow> Service \<Rightarrow> 'w \<times> apierr option" where
  "reconcileService K G w owner d =
     wrapped ''reconcile Service '' (svc_Meta d)
       (oc_create_or_update (o_services K) w
          (blankService d) (mutateService G owner d))"

definition mutateConfigMap :: "golib \<Rightarrow> ObjectMeta \<Rightarrow> ConfigMap \<Rightarrow> ConfigMap \<Rightarrow> apierr + ConfigMap" where
  "mutateConfigMap G owner d existing =
     (case adopt G owner (cm_Meta existing) (cm_Meta d) of
        Inl e \<Rightarrow> Inl e
      | Inr m \<Rightarrow> Inr (existing\<lparr>cm_Meta := m, cm_Data := cm_Data d, cm_BinaryData := cm_BinaryData d\<rparr>))"

definition blankConfigMap :: "ConfigMap \<Rightarrow> ConfigMap" where
  "blankConfigMap d = \<lparr>cm_Meta = blank_meta (cm_Meta d), cm_Data = Map.empty, cm_BinaryData = Map.empty\<rparr>"

definition reconcileConfigMap :: "'w owned_kube \<Rightarrow> golib \<Rightarrow> 'w \<Rightarrow> ObjectMeta \<Rightarrow> ConfigMap \<Rightarrow> 'w \<times> apierr option" where
  "reconcileConfigMap K G w owner d =
     wrapped ''reconcile ConfigMap '' (cm_Meta d)
       (oc_create_or_update (o_configmaps K) w
          (blankConfigMap d) (mutateConfigMap G owner d))"

text \<open>The specification of a claim is set on creation only.\<close>

definition mutatePVC :: "golib \<Rightarrow> ObjectMeta \<Rightarrow> PersistentVolumeClaim \<Rightarrow> PersistentVolumeClaim \<Rightarrow> apierr + PersistentVolumeClaim" where
  "mutatePVC G owner d existing =
     (case adopt G owner (pvc_Meta existing) (pvc_Meta d) of
        Inl e \<Rightarrow> Inl e
      | Inr m \<Rightarrow> Inr (existing\<lparr>pvc_Meta := m,
                   pvc_Spec := (if om_CreationTimestamp m = 0 then pvc_Spec d else pvc_Spec existing)\<rparr>))"

definition empty_pvc_spec :: PVCSpec where
  "empty_pvc_spec = \<lparr>pvc_AccessModes = [], pvc_Requests = Map.empty, pvc_StorageClassName = None\<rparr>"

definition blankPVC :: "PersistentVolumeClaim \<Rightarrow> PersistentVolumeClaim" where
  "blankPVC d = \<lparr>pvc_Meta = blank_meta (pvc_Meta d), pvc_Spec = empty_pvc_spec\<rparr>"

definition reconcilePVC :: "'w owned_kube \<Rightarrow> golib \<Rightarrow> 'w \<Rightarrow> ObjectMeta \<Rightarrow> PersistentVolumeClaim \<Rightarrow> 'w \<times> apierr option" where
  "reconcilePVC K G w owner d =
     wrapped ''reconcile PVC '' (pvc_Meta d)
       (oc_create_or_update (o_pvcs K) w (blankPVC d) (mutatePVC G owner d))"

definition mutateNetworkPolicy :: "golib \<Rightarrow> ObjectMeta \<Rightarrow> NetworkPolicy \<Rightarrow> NetworkPolicy \<Rightarrow> apierr + NetworkPolicy" where
  "mutateNetworkPolicy G owner d existing =
     (case adopt G owner (np_Meta existing) (np_Meta d) of
        Inl e \<Rightarrow> Inl e
      | Inr m \<Rightarrow> Inr (existing\<lparr>np_Meta := m, np_Spec := np_Spec d\<rparr>))"

definition blankNetworkPolicy :: "NetworkPolicy \<Rightarrow> NetworkPolicy" where
  "blankNetworkPolicy d = \<lparr>np_Meta = blank_meta (np_Meta d), np_Spec = \<lparr>np_PodSelector = Map.empty, np_PolicyTypes = [], np_IngressPorts = []\<rparr>\<rparr>"

definition reconcileNetworkPolicy :: "'w owned_kube \<Rightarrow> golib \<Rightarrow> 'w \<Rightarrow> ObjectMeta \<Rightarrow> NetworkPolicy \<Rightarrow> 'w \<times> apierr option" where
  "reconcileNetworkPolicy K G w owner d =
     wrapped ''reconcile NetworkPolicy '' (np_Meta d)
       (oc_create_or_update (o_netpols K) w
          (blankNetworkPolicy d)
          (mutateNetworkPolicy G owner d))"

definition mutateIngress :: "golib \<Rightarrow> ObjectMeta \<Rightarrow> Ingress \<Rightarrow> Ingress \<Rightarrow> apierr + Ingress" where
  "mutateIngress G owner d existing =
     (case adopt G owner (ing_Meta existing) (ing_Meta d) of
        Inl e \<Rightarrow> Inl e
      | Inr m \<Rightarrow> Inr (existing\<lparr>ing_Meta := m, ing_Spec := ing_Spec d\<rparr>))"

definition blankIngress :: "Ingress \<Rightarrow> Ingress" where
  "blankIngress d = \<lparr>ing_Meta = blank_meta (ing_Meta d), ing_Spec = \<lparr>ing_Rules = [], ing_ClassName = None, ing_TLS = []\<rparr>\<rparr>"

definition reconcileIngress :: "'w owned_kube \<Rightarrow> golib \<Rightarrow> 'w \<Rightarrow> ObjectMeta \<Rightarrow> Ingress \<Rightarrow> 'w \<times> apierr option" where
  "reconcileIngress K G w owner d =
     wrapped ''reconcile Ingress '' (ing_Meta d)
       (oc_create_or_update (o_ingresses K) w
          (blankIngress d)
          (mutateIngress G owner d))"

definition mutateServiceAccount :: "golib \<Rightarrow> ObjectMeta \<Rightarrow> ServiceAccount \<Rightarrow> ServiceAccount \<Rightarrow> apierr + ServiceAccount" where
  "mutateServiceAccount G owner d existing =
     (case adopt G owner (sa_Meta existing) (sa_Meta d) of
        Inl e \<Rightarrow> Inl e
      | Inr m \<Rightarrow> Inr (existing\<lparr>sa_Meta := m\<rparr>))"

definition blankServiceAccount :: "ServiceAccount \<Rightarrow> ServiceAccount" where
  "blankServiceAccount d = \<lparr>sa_Meta = blank_meta (sa_Meta d)\<rparr>"

definition reconcileServiceAccount :: "'w owned_kube \<Rightarrow> golib \<Rightarrow> 'w \<Rightarrow> ObjectMeta \<Rightarrow> ServiceAccount \<Rightarrow> 'w \<times> apierr option" where
  "reconcileServiceAccount K G w owner d =
     wrapped ''reconcile ServiceAccount '' (sa_Meta d)
       (oc_create_or_update (o_serviceaccounts K) w (blankServiceAccount d) (mutateServiceAccount G owner d))"

definition mutateRole :: "golib \<Rightarrow> ObjectMeta \<Rightarrow> Role \<Rightarrow> Role \<Rightarrow> apierr + Role" where
  "mutateRole G owner d existing =
     (case adopt G owner (role_Meta existing) (role_Meta d) of
        Inl e \<Rightarrow> Inl e
      | Inr m \<Rightarrow> Inr (existing\<lparr>role_Meta := m, role_Rules := role_Rules d\<rparr>))"

definition blankRole :: "Role \<Rightarrow> Role" where
  "blankRole d = \<lparr>role_Meta = blank_meta (role_Meta d), role_Rules = []\<rparr>"

definition reconcileRole :: "'w owned_kube \<Rightarrow> golib \<Rightarrow> 'w \<Rightarrow> ObjectMeta \<Rightarrow> Role \<Rightarrow> 'w \<times> apierr option" where
  "reconcileRole K G w owner d =
     wrapped ''reconcile Role '' (role_Meta d)
       (oc_create_or_update (o_roles K) w (blankRole d) (mutateRole G owner d))"

text \<open>The role reference of a binding is immutable and set on creation only.\<close>

definition mutateRoleBinding :: "golib \<Rightarrow> ObjectMeta \<Rightarrow> RoleBinding \<Rightarrow> RoleBinding \<Rightarrow> apierr + RoleBinding" where
  "mutateRoleBinding G owner d existing =
     (case adopt G owner (rb_Meta existing) (rb_Meta d) of
        Inl e \<Rightarrow> Inl e
      | Inr m \<Rightarrow> Inr (existing\<lparr>rb_Meta := m,
                   rb_RoleRef := (if om_CreationTimestamp m = 0 then rb_RoleRef d else rb_RoleRef existing),
                   rb_Subjects := rb_Subjects d\<rparr>))"

definition blankRoleBinding :: "RoleBinding \<Rightarrow> RoleBinding" where
  "blankRoleBinding d = \<lparr>rb_Meta = blank_meta (rb_Meta d), rb_RoleRef = \<lparr>rref_APIGroup = [], rref_Kind = [], rref_Name = []\<rparr>, rb_Subjects = []\<rparr>"

definition reconcileRoleBinding :: "'w owned_kube \<Rightarrow> golib \<Rightarrow> 'w \<Rightarrow> ObjectMeta \<Rightarrow> RoleBinding \<Rightarrow> 'w \<times> apierr option" where
  "reconcileRoleBinding K G w owner d =
     wrapped ''reconcile RoleBinding '' (rb_Meta d)
       (oc_create_or_update (o_rolebindings K) w
          (blankRoleBinding d)
          (mutateRoleBinding G owner d))"

text \<open>Server-side apply of a Deployment, forced over the fields of other managers.\<close>

definition reconcileDeploymentSSA :: "'w owned_kube \<Rightarrow> golib \<Rightarrow> 'w \<Rightarrow> ObjectMeta \<Rightarrow> Deployment \<Rightarrow> 'w \<times> apierr option" where
  "reconcileDeploymentSSA K G w owner d =
     (case gl_set_owner G owner (dep_Meta d) of
        Inl e \<Rightarrow> (w, Some (wrap_err (''set owner ref on Deployment '' @ key_string (dep_Meta d)) e))
      | Inr m \<Rightarrow> wrapped ''apply Deployment '' (dep_Meta d) (o_apply_deployment K w (d\<lparr>dep_Meta := m\<rparr>)))"

section \<open>Dispatch on the kind\<close>

datatype owned_object =
    ODeployment Deployment | OService Service | OConfigMap ConfigMap | OPVC PersistentVolumeClaim
  | ONetworkPolicy NetworkPolicy | OIngress Ingress | OServiceAccount ServiceAccount | ORole Role
  | ORoleBinding RoleBinding | OUnsupported string

fun reconcileOwnedResource :: "'w owned_kube \<Rightarrow> golib \<Rightarrow> 'w \<Rightarrow> ObjectMeta \<Rightarrow> owned_object \<Rightarrow> 'w \<times> apierr option" where
  "reconcileOwnedResource K G w owner (ODeployment d) = reconcileDeploymentSSA K G w owner d"
| "reconcileOwnedResource K G w owner (OService d) = reconcileService K G w owner d"
| "reconcileOwnedResource K G w owner (OConfigMap d) = reconcileConfigMap K G w owner d"
| "reconcileOwnedResource K G w owner (OPVC d) = reconcilePVC K G w owner d"
| "reconcileOwnedResource K G w owner (ONetworkPolicy d) = reconcileNetworkPolicy K G w owner d"
| "reconcileOwnedResource K G w owner (OIngress d) = reconcileIngress K G w owner d"
| "reconcileOwnedResource K G w owner (OServiceAccount d) = reconcileServiceAccount K G w owner d"
| "reconcileOwnedResource K G w owner (ORole d) = reconcileRole K G w owner d"
| "reconcileOwnedResource K G w owner (ORoleBinding d) = reconcileRoleBinding K G w owner d"
| "reconcileOwnedResource K G w owner (OUnsupported ty) = (w, Some (ApiError (''unsupported resource type '' @ ty)))"

text \<open>A sequence of objects, reconciled in order up to the first error.\<close>

fun reconcileAll :: "'w owned_kube \<Rightarrow> golib \<Rightarrow> 'w \<Rightarrow> ObjectMeta \<Rightarrow> owned_object list \<Rightarrow> 'w \<times> apierr option" where
  "reconcileAll K G w owner [] = (w, None)"
| "reconcileAll K G w owner (x # xs) =
     (case reconcileOwnedResource K G w owner x of
        (w, Some e) \<Rightarrow> (w, Some e)
      | (w, None) \<Rightarrow> reconcileAll K G w owner xs)"

section \<open>Conditions\<close>

definition violations_cond :: "string list \<Rightarrow> Condition" where
  "violations_cond violations =
     (if violations = []
      then new_cond ConditionSecurityPolicyViolations ConditionFalse ''NoViolations''
             ''Security overrides comply with the restricted Pod Security Standard.''
      else new_cond ConditionSecurityPolicyViolations ConditionTrue ''OverridesClamped''
             (nat_str (length violations) @ '' override field(s) clamped to the restricted-PSS floor: ''
              @ join ''; '' violations))"

definition setSecurityPolicyViolationsCondition :: "golib \<Rightarrow> time \<Rightarrow> Condition list \<Rightarrow> string list \<Rightarrow> Condition list" where
  "setSecurityPolicyViolationsCondition G t conds violations = gl_set_condition G t conds (violations_cond violations)"

end
