(* ===== verification/Channel_Resources.thy ===== *)
theory Channel_Resources
  imports Owned_Objects
begin

text \<open>
  \<^verbatim>\<open>src/internal/resources/channel.go\<close>: the Deployment and the Ingress of a Channel bridge, with
  the environment that tells the bridge its platform, its agent and its prompt. Credentials
  are passed as references to Secrets.
\<close>

section \<open>Prompts\<close>

definition defaultGitLabLabelPrompt :: string where
  "defaultGitLabLabelPrompt = join [newline]
     [''You are an autonomous coding agent working a GitLab work board for project {{.gitlab.project}}.'',
      [],
      ''A {{.gitlab.target}} item needs your attention:'',
      ''- #{{.gitlab.iid}}: {{.gitlab.title}}'',
      ''- URL: {{.gitlab.web_url}}'',
      ''- Trigger: {{.gitlab.label}}'',
      [],
      ''The board has already moved this item to `agent::in-progress`. Your repository is cloned and checked out on your feature branch.'',
      ''{{if eq .gitlab.target \"merge_requests\"}}'',
      ''The work-board CARD is merge request !{{.gitlab.iid}}. You will review/iterate on it.'',
      [],
      ''DEFINITION OF DONE '' @ em_dash @ '' you have NOT finished until the card (merge request !{{.gitlab.iid}}) has been moved to `agent::needs-review`. Leaving a comment or saving to memory does NOT complete the task. Your VERY LAST tool call MUST be gitlab_update_mr on iid {{.gitlab.iid}} that adds `agent::needs-review` and removes `agent::in-progress`. Do not end your turn before doing this.'',
      [],
      ''Steps:'',
      ''1. Read the merge request with gitlab_get_mr and gitlab_get_mr_diff to understand it.'',
      ''2. Make the requested changes, commit, and push the branch.'',
      ''3. REQUIRED FINAL ACTION: gitlab_update_mr with iid {{.gitlab.iid}}, add_labels \"agent::needs-review\", remove_labels \"agent::in-progress\".'',
      ''{{else}}'',
      ''The work-board CARD is issue #{{.gitlab.iid}} '' @ em_dash @ '' NOT any merge request. The merge request you open is the deliverable; do NOT relabel the merge request. The label that drives this board lives on the ISSUE.'',
      [],
      ''DEFINITION OF DONE '' @ em_dash @ '' you have NOT finished until issue #{{.gitlab.iid}} has been moved to `agent::needs-review`. Opening the merge request, commenting, relabeling the merge request, or saving to memory does NOT complete the task. Your VERY LAST tool call MUST be gitlab_update_issue on iid {{.gitlab.iid}} that adds `agent::needs-review` and removes `agent::in-progress`. Do not end your turn before doing this.'',
      ''{{if eq .gitlab.label \"agent::changes-requested\"}}'',
      ''THIS IS A REWORK. A merge request already exists for this issue and a human has requested changes. Do NOT open a new merge request (gitlab_create_mr will fail '' @ em_dash @ '' one already exists for your branch).'',
      [],
      ''Steps:'',
      ''1. Find the open merge request for this issue: gitlab_list_mrs and match the one whose source branch is your feature branch.'',
      ''2. Read the reviewer feedback: gitlab_list_mr_notes on that merge request IID, plus gitlab_get_mr_diff to see current state. Address every requested change.'',
      ''3. Implement the requested changes, commit, and push to the SAME existing feature branch (the merge request updates automatically). Do NOT create a new branch or a new merge request.'',
      ''4. REQUIRED FINAL ACTION: gitlab_update_issue with iid {{.gitlab.iid}}, add_labels \"agent::needs-review\", remove_labels \"agent::in-progress\".'',
      ''{{else}}'',
      ''Steps:'',
      ''1. Read the full issue with gitlab_get_issue to understand exactly what is requested.'',
      ''2. Explore the repository and implement the change.'',
      ''3. Commit your work and push the feature branch.'',
      ''4. Open a merge request targeting the default branch with gitlab_create_mr. Reference issue #{{.gitlab.iid}} in the description. Do NOT add work-board labels to this merge request.'',
      ''5. REQUIRED FINAL ACTION: gitlab_update_issue with iid {{.gitlab.iid}}, add_labels \"agent::needs-review\", remove_labels \"agent::in-progress\".'',
      ''{{end}}'',
      ''{{end}}'',
      ''Do NOT merge the merge request '' @ em_dash @ '' a human reviews and merges. If you genuinely cannot complete the task, your required final action is the same {{if eq .gitlab.target \"merge_requests\"}}gitlab_update_mr{{else}}gitlab_update_issue{{end}} call but adding `agent::changes-requested` instead of `agent::needs-review` (and removing `agent::in-progress`), after explaining why with a note. Either way, your last tool call always moves card #{{.gitlab.iid}} off agent::in-progress.'']"

definition defaultGitLabCommentPrompt :: string where
  "defaultGitLabCommentPrompt = join [newline]
     [''You are an interactive planning agent collaborating with a human on GitLab issue #{{.gitlab.iid}} in project {{.gitlab.project}}.'',
      [],
      ''THE CONTRACT: the issue DESCRIPTION is the living PLAN. The issue COMMENT thread is your conversation with the human. You refine the PLAN and answer in the thread until the human approves, then you hand the PLAN off for implementation.'',
      [],
      ''Issue under discussion:'',
      ''- #{{.gitlab.iid}}: {{.gitlab.title}}'',
      ''- URL: {{.gitlab.web_url}}'',
      ''- Planning label: {{.gitlab.label}}'',
      [],
      ''CURRENT PLAN (the issue description):'',
      ''\"\"\"'',
      ''{{.gitlab.description}}'',
      ''\"\"\"'',
      [],
      ''NEW UNANSWERED COMMENT(S) from the human you must respond to now:'',
      ''\"\"\"'',
      ''{{.new_comments}}'',
      ''\"\"\"'',
      [],
      ''Do this, in order:'',
      ''1. Read the full thread for context with gitlab_list_issue_notes on iid {{.gitlab.iid}} (the new comments above may reference earlier messages).'',
      ''2. Decide what the new comment(s) require: a change to the PLAN, a clarifying question back to the human, or both.'',
      ''3. If the PLAN needs to change, rewrite the FULL updated plan and save it with gitlab_update_issue_content on iid {{.gitlab.iid}}. Keep the description a complete, self-contained PLAN (goal, scope, approach, acceptance criteria) '' @ em_dash @ '' not a changelog.'',
      ''4. ALWAYS reply in the thread with gitlab_add_issue_note on iid {{.gitlab.iid}}: briefly summarise what you changed in the PLAN and/or ask any clarifying questions you still need answered. This reply is REQUIRED every turn '' @ em_dash @ '' it is how the human knows you responded and is what stops this comment from re-triggering you.'',
      ''5. HANDOFF: only if the human's new comment clearly APPROVES the plan (e.g. \"approved\", \"lgtm\", \"ship it\", \"go ahead\", \"looks good, build it\") AND you have no open questions, move the card to implementation: gitlab_update_issue on iid {{.gitlab.iid}} adding `agent::todo` and removing `{{.gitlab.label}}`, then post a final gitlab_add_issue_note confirming the plan is locked and handed off. If approval is ambiguous, do NOT hand off '' @ em_dash @ '' ask the human to confirm instead.'',
      [],
      ''Never open a merge request, never write code, and never merge anything '' @ em_dash @ '' your only job is to shape the PLAN and converse. The implementation agent takes over once the card reaches `agent::todo`.'']"

section \<open>Environment\<close>

definition secret_env :: "string \<Rightarrow> SecretKeyRef \<Rightarrow> EnvVar" where
  "secret_env n ref = env_secret n (skr_Name ref) (skr_Key ref)"

text \<open>The GitLab identity and token of the bound Integration, common to the two polling bridges.\<close>

definition gitlab_identity_env :: "Integration \<Rightarrow> EnvVar list" where
  "gitlab_identity_env integration =
     (case is_GitLab (int_Spec integration) of
        Some gl \<Rightarrow> [env_val ''GITLAB_BASE_URL'' (gl_BaseURL gl), env_val ''GITLAB_PROJECT'' (gl_Project gl)]
      | None \<Rightarrow>
          (case is_GitLabGroup (int_Spec integration) of
             Some gr \<Rightarrow> [env_val ''GITLAB_BASE_URL'' (glg_BaseURL gr), env_val ''GITLAB_GROUP'' (glg_Group gr)]
           | None \<Rightarrow> []))
     @ (case is_Credentials (int_Spec integration) of None \<Rightarrow> [] | Some cred \<Rightarrow> [secret_env ''GITLAB_TOKEN'' cred])"

text \<open>\<^verbatim>\<open>Duration.String\<close> is a function of the time package and an argument.\<close>

definition poll_interval :: "(duration \<Rightarrow> string) \<Rightarrow> duration option \<Rightarrow> string" where
  "poll_interval durationString d =
     (case d of None \<Rightarrow> ''30s'' | Some p \<Rightarrow> if p > 0 then durationString p else ''30s'')"

definition buildGitLabLabelEnv :: "(duration \<Rightarrow> string) \<Rightarrow> Channel \<Rightarrow> Integration option \<Rightarrow> EnvVar list" where
  "buildGitLabLabelEnv durationString ch integration =
     (case (cs_GitLabLabel (ch_Spec ch), integration) of
        (Some cfg, Some i) \<Rightarrow>
          gitlab_identity_env i
          @ [env_val ''GITLAB_TARGET'' (if gll_Target cfg = [] then ''issues'' else gll_Target cfg),
             env_val ''GITLAB_LABELS'' (join '','' (gll_Labels cfg)),
             env_val ''GITLAB_STATE'' (if gll_State cfg = [] then ''opened'' else gll_State cfg),
             env_val ''GITLAB_POLL_INTERVAL'' (poll_interval durationString (gll_PollInterval cfg))]
          @ [env_val ''GITLAB_INTEGRATION_REF'' (gll_IntegrationRef cfg),
             env_val ''GITLAB_BASE_BRANCH''
               (case is_GitLab (int_Spec i) of
                  None \<Rightarrow> ''main'' | Some gl \<Rightarrow> if gl_DefaultBranch gl \<noteq> [] then gl_DefaultBranch gl else ''main'')]
          @ (if cs_Prompt (ch_Spec ch) = [] then [env_val ''PROMPT_TEMPLATE'' defaultGitLabLabelPrompt] else [])
      | _ \<Rightarrow> [])"

definition buildGitLabCommentEnv :: "(duration \<Rightarrow> string) \<Rightarrow> Channel \<Rightarrow> Integration option \<Rightarrow> EnvVar list" where
  "buildGitLabCommentEnv durationString ch integration =
     (case (cs_GitLabComment (ch_Spec ch), integration) of
        (Some cfg, Some i) \<Rightarrow>
          gitlab_identity_env i
          @ [env_val ''GITLAB_STATE'' (if gcc_State cfg = [] then ''opened'' else gcc_State cfg),
             env_val ''GITLAB_PLANNING_LABEL'' (if gcc_PlanningLabel cfg = [] then ''agent::planning'' else gcc_PlanningLabel cfg),
             env_val ''GITLAB_POLL_INTERVAL'' (poll_interval durationString (gcc_PollInterval cfg))]
          @ (if cs_Prompt (ch_Spec ch) = [] then [env_val ''PROMPT_TEMPLATE'' defaultGitLabCommentPrompt] else [])
      | _ \<Rightarrow> [])"

definition opt_secret_env :: "string \<Rightarrow> ('a \<Rightarrow> SecretKeyRef) \<Rightarrow> 'a option \<Rightarrow> EnvVar list" where
  "opt_secret_env n ref c = (case c of None \<Rightarrow> [] | Some x \<Rightarrow> [secret_env n (ref x)])"

definition buildChannelPlatformEnv :: "(duration \<Rightarrow> string) \<Rightarrow> Channel \<Rightarrow> Integration option \<Rightarrow> EnvVar list" where
  "buildChannelPlatformEnv durationString ch integration =
     (let spec = ch_Spec ch; ty = cs_Type spec in
      if ty = ChannelTypeTelegram then opt_secret_env ''TELEGRAM_BOT_TOKEN'' tg_BotTokenSecret (cs_Telegram spec)
      else if ty = ChannelTypeSlack then opt_secret_env ''SLACK_BOT_TOKEN'' sl_BotTokenSecret (cs_Slack spec)
      else if ty = ChannelTypeDiscord then opt_secret_env ''DISCORD_BOT_TOKEN'' dc_BotTokenSecret (cs_Discord spec)
      else if ty = ChannelTypeGitLab then opt_secret_env ''WEBHOOK_SECRET'' glc_Secret (cs_GitLab spec)
      else if ty = ChannelTypeGitHub then opt_secret_env ''WEBHOOK_SECRET'' ghc_Secret (cs_GitHub spec)
      else if ty = ChannelTypeWebhook then
        opt_secret_env ''WEBHOOK_SECRET'' id (Option.bind (cs_WebhookConfig spec) wcc_Secret)
      else if ty = ChannelTypeGitLabLabel then buildGitLabLabelEnv durationString ch integration
      else if ty = ChannelTypeGitLabComment then buildGitLabCommentEnv durationString ch integration
      else [])"

definition channel_env :: "(duration \<Rightarrow> string) \<Rightarrow> Channel \<Rightarrow> Agent \<Rightarrow> Integration option \<Rightarrow> InfraConfig \<Rightarrow> EnvVar list" where
  "channel_env durationString ch agent integration infra =
     [env_val ''CHANNEL_TYPE'' (cs_Type (ch_Spec ch))]
     @ (if as_Mode (ag_Spec agent) = AgentModeDaemon then [env_val ''AGENT_URL'' (AgentServiceURL agent)] else [])
     @ [env_val ''AGENT_REF'' (cs_AgentRef (ch_Spec ch)), env_val ''CHANNEL_NAME'' (om_Name (ch_Meta ch)),
        env_val ''AGENT_MODE'' (as_Mode (ag_Spec agent))]
     @ (if cs_Prompt (ch_Spec ch) \<noteq> [] then [env_val ''PROMPT_TEMPLATE'' (cs_Prompt (ch_Spec ch))] else [])
     @ [\<lparr>ev_Name = ''POD_NAMESPACE'', ev_Value = [], ev_ValueFrom = Some (ObjectFieldSelector ''metadata.namespace'')\<rparr>,
        env_val ''NATS_URL'' (NATS infra)]
     @ buildChannelPlatformEnv durationString ch integration"

section \<open>Deployment\<close>

definition channel_labels :: "Channel \<Rightarrow> gomap" where
  "channel_labels ch = [LabelComponent \<mapsto> ''channel'', LabelManagedBy \<mapsto> ManagedByValue, ''app'' \<mapsto> om_Name (ch_Meta ch)]"

definition channel_container :: "(duration \<Rightarrow> string) \<Rightarrow> Channel \<Rightarrow> Agent \<Rightarrow> Integration option \<Rightarrow> InfraConfig \<Rightarrow> Container" where
  "channel_container durationString ch agent integration infra =
     (let c = (new_container ''channel'' (cs_Image (ch_Spec ch)))
            \<lparr>ct_ImagePullPolicy := cs_ImagePullPolicy (ch_Spec ch),
             ct_Env := channel_env durationString ch agent integration infra,
             ct_Ports := [\<lparr>cp_Name = ''http'', cp_ContainerPort = 8080, cp_Protocol = ''TCP''\<rparr>],
             ct_LivenessProbe := Some \<lparr>pr_Path = ''/healthz'', pr_Port = 8080, pr_Scheme = ''HTTP'', pr_InitialDelaySeconds = 0,
               pr_PeriodSeconds = 30, pr_TimeoutSeconds = 1, pr_SuccessThreshold = 1, pr_FailureThreshold = 3\<rparr>\<rparr>;
          c = (case cs_Resources (ch_Spec ch) of None \<Rightarrow> c | Some r \<Rightarrow> c\<lparr>ct_Resources := r\<rparr>)
      in c\<lparr>ct_Resources := ensureEphemeralStorage (ct_Resources c)\<rparr>)"

text \<open>
  The overrides for the pod. For a task agent the service-account token is mounted unless the
  user says otherwise; overrides that the user gave are changed in place, so the channel object
  itself changes.
\<close>

definition channel_security :: "Channel \<Rightarrow> Agent \<Rightarrow> SecurityOverrides option" where
  "channel_security ch agent =
     (if as_Mode (ag_Spec agent) = AgentModeTask
      then (let security = (case cs_Security (ch_Spec ch) of
                  None \<Rightarrow> \<lparr>so_Pod = None, so_Container = None, so_AutomountServiceAccountToken = None\<rparr> | Some s \<Rightarrow> s)
            in Some (if so_AutomountServiceAccountToken security = None
                     then security\<lparr>so_AutomountServiceAccountToken := Some True\<rparr> else security))
      else cs_Security (ch_Spec ch))"

definition shared_channel :: "Channel \<Rightarrow> Agent \<Rightarrow> Channel" where
  "shared_channel ch agent =
     ch\<lparr>ch_Spec := (ch_Spec ch)
        \<lparr>cs_Resources := map_option shared_resources (cs_Resources (ch_Spec ch)),
         cs_Security := (if cs_Security (ch_Spec ch) = None then None else channel_security ch agent)\<rparr>\<rparr>"

definition channel_pod :: "(duration \<Rightarrow> string) \<Rightarrow> Channel \<Rightarrow> Agent \<Rightarrow> Integration option \<Rightarrow> InfraConfig \<Rightarrow> PodSpec" where
  "channel_pod durationString ch agent integration infra =
     fst (ApplySecurity
       \<lparr>pd_InitContainers = [], pd_Containers = [channel_container durationString ch agent integration infra], pd_Volumes = [],
        pd_ServiceAccountName = ChannelServiceAccountName ch, pd_RestartPolicy = [], pd_SecurityContext = None,
        pd_AutomountServiceAccountToken = None\<rparr> ''channel'' (channel_security ch agent))"

definition BuildChannelDeployment ::
  "(duration \<Rightarrow> string) \<Rightarrow> Channel \<Rightarrow> Agent \<Rightarrow> Integration option \<Rightarrow> InfraConfig \<Rightarrow> Deployment \<times> Channel" where
  "BuildChannelDeployment durationString ch agent integration infra =
     (\<lparr>dep_Meta = new_meta (om_Name (ch_Meta ch)) (om_Namespace (ch_Meta ch)) (channel_labels ch),
       dep_Replicas = (case cs_Replicas (ch_Spec ch) of None \<Rightarrow> 1 | Some n \<Rightarrow> n),
       dep_Selector = [''app'' \<mapsto> om_Name (ch_Meta ch)],
       dep_Template = \<lparr>pt_Labels = channel_labels ch, pt_Annotations = Map.empty,
         pt_Spec = channel_pod durationString ch agent integration infra\<rparr>,
       dep_Strategy = [], dep_ReadyReplicas = 0\<rparr>,
      shared_channel ch agent)"

section \<open>Ingress\<close>

definition BuildChannelIngress :: "Channel \<Rightarrow> Ingress option" where
  "BuildChannelIngress ch =
     (case cs_Webhook (ch_Spec ch) of
        None \<Rightarrow> None
      | Some webhook \<Rightarrow>
          (let name = om_Name (ch_Meta ch);
               path = (if wi_Path webhook = [] then ''/'' else wi_Path webhook);
               meta = new_meta name (om_Namespace (ch_Meta ch)) [LabelComponent \<mapsto> ''channel'', LabelManagedBy \<mapsto> ManagedByValue]
           in Some \<lparr>ing_Meta = meta\<lparr>om_Annotations :=
                     (case wi_TLS webhook of
                        None \<Rightarrow> Map.empty
                      | Some tls \<Rightarrow>
                          if tls_Issuer tls \<noteq> [] then [''cert-manager.io/issuer'' \<mapsto> tls_Issuer tls]
                          else if tls_ClusterIssuer tls \<noteq> [] then [''cert-manager.io/cluster-issuer'' \<mapsto> tls_ClusterIssuer tls]
                          else Map.empty)\<rparr>,
                ing_Spec = \<lparr>ing_Rules = [\<lparr>ir_Host = wi_Host webhook,
                    ir_Paths = [\<lparr>ip_Path = path, ip_PathType = ''Prefix'', ip_ServiceName = name, ip_ServicePort = 8080\<rparr>]\<rparr>],
                  ing_ClassName = (if wi_IngressClassName webhook \<noteq> [] then Some (wi_IngressClassName webhook) else None),
                  ing_TLS = (case wi_TLS webhook of
                     None \<Rightarrow> []
                   | Some tls \<Rightarrow> [\<lparr>it_Hosts = [wi_Host webhook], it_SecretName = name @ ''-tls''\<rparr>])\<rparr>\<rparr>))"

end
