(* ===== verification/Channel_Controller.thy ===== *)
theory Channel_Controller
  imports Owned_Reconcile Channel_Resources
begin

text \<open>
  \<^verbatim>\<open>src/internal/controller/channel_controller.go\<close>: the Channel reconciler. It resolves the agent
  and, for the channels that poll GitLab, the Integration, creates the RBAC objects, the
  Deployment, the Service and the Ingress of the bridge, and derives the status from the
  Deployment. The channel object that the Go code mutates is passed along.
\<close>

section \<open>Services\<close>

record 'w channel_kube =
  kc_now :: "'w \<Rightarrow> time"
  kc_channels :: "('w, Channel) client"
  kc_agents :: "'w \<Rightarrow> nsname \<Rightarrow> apierr + Agent"
  kc_integrations :: "'w \<Rightarrow> nsname \<Rightarrow> apierr + Integration"
  kc_deployment :: "'w \<Rightarrow> nsname \<Rightarrow> apierr + Deployment"
  kc_owned :: "'w owned_kube"

definition ChannelConditionReady :: string where [const_defs]: "ChannelConditionReady = ''Ready''"

section \<open>Status\<close>

definition channel_status :: "golib \<Rightarrow> time \<Rightarrow> string \<Rightarrow> Condition \<Rightarrow> Channel \<Rightarrow> Channel" where
  "channel_status G t phase c ch =
     ch\<lparr>ch_Status := (ch_Status ch)\<lparr>chst_Phase := phase, chst_Conditions := gl_set_condition G t (chst_Conditions (ch_Status ch)) c\<rparr>\<rparr>"

definition setChannelFailedStatus :: "golib \<Rightarrow> time \<Rightarrow> Channel \<Rightarrow> string \<Rightarrow> Channel" where
  "setChannelFailedStatus G t ch message =
     channel_status G t ChannelPhaseFailed (new_cond ChannelConditionReady ConditionFalse ''Failed'' message) ch"

definition channel_violations :: "golib \<Rightarrow> time \<Rightarrow> Channel \<Rightarrow> Channel" where
  "channel_violations G t ch =
     ch\<lparr>ch_Status := (ch_Status ch)\<lparr>chst_Conditions :=
       setSecurityPolicyViolationsCondition G t (chst_Conditions (ch_Status ch)) (ComputeSecurityViolations (cs_Security (ch_Spec ch)))\<rparr>\<rparr>"

definition channel_urls :: "Channel \<Rightarrow> Channel" where
  "channel_urls ch =
     ch\<lparr>ch_Status := (ch_Status ch)
        \<lparr>chst_ServiceURL := ''http://'' @ om_Name (ch_Meta ch) @ ''.'' @ om_Namespace (ch_Meta ch) @ ''.svc:8080'',
         chst_WebhookURL := (case cs_Webhook (ch_Spec ch) of
            None \<Rightarrow> chst_WebhookURL (ch_Status ch)
          | Some webhook \<Rightarrow> (if wi_TLS webhook \<noteq> None then ''https'' else ''http'') @ ''://'' @ wi_Host webhook @
              (if wi_Path webhook = [] then ''/'' else wi_Path webhook))\<rparr>\<rparr>"

text \<open>The phase from the replicas of the Deployment; it stays when the Deployment cannot be read.\<close>

definition channel_readiness :: "'w channel_kube \<Rightarrow> golib \<Rightarrow> 'w \<Rightarrow> Channel \<Rightarrow> Channel" where
  "channel_readiness K G w ch =
     (case kc_deployment K w (om_Namespace (ch_Meta ch), om_Name (ch_Meta ch)) of
        Inl _ \<Rightarrow> ch
      | Inr d \<Rightarrow>
          if dep_ReadyReplicas d > 0
          then channel_status G (kc_now K w) ChannelPhaseReady (new_cond ChannelConditionReady ConditionTrue ''Ready'' []) ch
          else channel_status G (kc_now K w) ChannelPhasePending
                 (new_cond ChannelConditionReady ConditionFalse ''Pending'' ''Waiting for deployment to be ready'') ch)"

section \<open>Reconciliation\<close>

text \<open>A failure that is reported in the status only: the result asks for no requeue.\<close>

definition fail_channel :: "'w channel_kube \<Rightarrow> golib \<Rightarrow> 'w \<Rightarrow> Channel \<Rightarrow> Channel \<Rightarrow> string \<Rightarrow> 'w \<times> (apierr + ctrl_result)" where
  "fail_channel K G w channel statusPatch message =
     (case patchObjStatus (kc_channels K) w (setChannelFailedStatus G (kc_now K w) channel message) statusPatch of
        (w, Some patchErr) \<Rightarrow> (w, Inl patchErr)
      | (w, None) \<Rightarrow> (w, Inr done_result))"

text \<open>
  The reference of a polling channel. The block of label channels comes first whatever the type
  is. \<^const>\<open>None\<close> is a channel that does not poll.
\<close>

definition channel_ref :: "Channel \<Rightarrow> string option" where
  "channel_ref ch =
     (if cs_Type (ch_Spec ch) = ChannelTypeGitLabLabel \<or> cs_Type (ch_Spec ch) = ChannelTypeGitLabComment
      then Some (case cs_GitLabLabel (ch_Spec ch) of
                   Some cfg \<Rightarrow> gll_IntegrationRef cfg
                 | None \<Rightarrow> (case cs_GitLabComment (ch_Spec ch) of Some cfg \<Rightarrow> gcc_IntegrationRef cfg | None \<Rightarrow> []))
      else None)"

definition channel_objects :: "golib \<Rightarrow> InfraConfig \<Rightarrow> Channel \<Rightarrow> Agent \<Rightarrow> Integration option \<Rightarrow> owned_object list" where
  "channel_objects G infra ch agent integration =
     [OServiceAccount (BuildChannelServiceAccount ch), ORole (BuildChannelRole ch), ORoleBinding (BuildChannelRoleBinding ch),
      ODeployment (fst (BuildChannelDeployment (gl_durationString G) ch agent integration infra)), OService (BuildChannelService ch)]
     @ (case BuildChannelIngress ch of None \<Rightarrow> [] | Some ingress \<Rightarrow> [OIngress ingress])"

definition reconcileChannelObjects ::
  "'w channel_kube \<Rightarrow> golib \<Rightarrow> InfraConfig \<Rightarrow> 'w \<Rightarrow> Channel \<Rightarrow> Channel \<Rightarrow> Agent \<Rightarrow> Integration option \<Rightarrow> 'w \<times> (apierr + ctrl_result)" where
  "reconcileChannelObjects K G infra w channel statusPatch agent integration =
     (case reconcileAll (kc_owned K) G w (ch_Meta channel) (channel_objects G infra channel agent integration) of
        (w, Some e) \<Rightarrow> (w, Inl e)
      | (w, None) \<Rightarrow>
          (let channel = channel_readiness K G w
                 (channel_urls (snd (BuildChannelDeployment (gl_durationString G) channel agent integration infra)))
           in case patchObjStatus (kc_channels K) w channel statusPatch of
                (w, Some e) \<Rightarrow> (w, Inl e)
              | (w, None) \<Rightarrow>
                  (w, Inr (if chst_Phase (ch_Status channel) \<noteq> ChannelPhaseReady then requeue_result else done_result))))"

definition Reconcile_channel ::
  "'w channel_kube \<Rightarrow> golib \<Rightarrow> InfraConfig \<Rightarrow> 'w \<Rightarrow> nsname \<Rightarrow> 'w \<times> (apierr + ctrl_result)" where
  "Reconcile_channel K G infra w req =
     (case c_get (kc_channels K) w req of
        Inl e \<Rightarrow> if IsNotFound e then (w, Inr done_result) else (w, Inl e)
      | Inr base \<Rightarrow>
          (case kc_agents K w (om_Namespace (ch_Meta base), cs_AgentRef (ch_Spec base)) of
             Inl e \<Rightarrow> fail_channel K G w base base (''Agent '' @ go_quote (cs_AgentRef (ch_Spec base)) @ '' not found: '' @ err_text e)
           | Inr agent \<Rightarrow>
               (let channel = channel_violations G (kc_now K w) base in
                case channel_ref channel of
                  None \<Rightarrow> reconcileChannelObjects K G infra w channel base agent None
                | Some ref \<Rightarrow>
                    if ref = [] then fail_channel K G w channel base
                      (''integrationRef is required for '' @ cs_Type (ch_Spec channel) @ '' channels'')
                    else case kc_integrations K w (om_Namespace (ch_Meta channel), ref) of
                           Inl e \<Rightarrow> fail_channel K G w channel base (''Integration '' @ go_quote ref @ '' not found: '' @ err_text e)
                         | Inr integration \<Rightarrow> reconcileChannelObjects K G infra w channel base agent (Some integration))))"

end
