(* ===== verification/Agent_Controller.thy ===== *)
theory Agent_Controller
  imports Owned_Reconcile
begin

text \<open>
  \<^verbatim>\<open>src/internal/controller/agent_controller.go\<close>: the Agent reconciler. It creates the RBAC objects
  of an agent, waits until the Integrations and Providers the agent refers to are Ready, and
  then renders the ConfigMap of a task agent or the claim, ConfigMap, Deployment, Service and
  network policy of a daemon. The agent object that the Go code mutates is passed along.
\<close>

section \<open>Services\<close>

record 'w agent_kube =
  ka_now :: "'w \<Rightarrow> time"
  ka_agents :: "('w, Agent) client"
  ka_integrations :: "'w \<Rightarrow> nsname \<Rightarrow> apierr + Integration"
  ka_providers :: "'w \<Rightarrow> nsname \<Rightarrow> apierr + Provider"
  ka_deployment :: "'w \<Rightarrow> nsname \<Rightarrow> apierr + Deployment"
  ka_quantity :: "string \<Rightarrow> bool"
  ka_owned :: "'w owned_kube"

section \<open>References\<close>

definition agent_cond :: "golib \<Rightarrow> time \<Rightarrow> Condition \<Rightarrow> Agent \<Rightarrow> Agent" where
  "agent_cond G t c agent = agent\<lparr>ag_Status := (ag_Status agent)\<lparr>ast_Conditions :=
     gl_set_condition G t (ast_Conditions (ag_Status agent)) c\<rparr>\<rparr>"

definition setAgentFailedStatus :: "golib \<Rightarrow> time \<Rightarrow> Agent \<Rightarrow> string \<Rightarrow> string \<Rightarrow> Agent" where
  "setAgentFailedStatus G t agent phase message =
     agent_cond G t (new_cond AgentConditionReady ConditionFalse phase message)
       (agent\<lparr>ag_Status := (ag_Status agent)\<lparr>ast_Phase := phase\<rparr>\<rparr>)"

text \<open>The loops over the bindings, which stop at the first object that is not found.\<close>

fun resolve_refs :: "(string \<Rightarrow> apierr + 'o) \<Rightarrow> string \<Rightarrow> string list \<Rightarrow> apierr + 'o list" where
  "resolve_refs get what [] = Inr []"
| "resolve_refs get what (n # ns) =
     (case get n of
        Inl e \<Rightarrow> Inl (wrap_err (what @ '' '' @ go_quote n @ '' not found'') e)
      | Inr x \<Rightarrow> (case resolve_refs get what ns of Inl e \<Rightarrow> Inl e | Inr xs \<Rightarrow> Inr (x # xs)))"

definition resolveIntegrations :: "'w agent_kube \<Rightarrow> 'w \<Rightarrow> Agent \<Rightarrow> apierr + Integration list" where
  "resolveIntegrations K w agent =
     resolve_refs (\<lambda>n. ka_integrations K w (om_Namespace (ag_Meta agent), n)) ''integration''
       (map ib_Name (as_Integrations (ag_Spec agent)))"

definition resolveProviders :: "'w agent_kube \<Rightarrow> 'w \<Rightarrow> Agent \<Rightarrow> apierr + Provider list" where
  "resolveProviders K w agent =
     resolve_refs (\<lambda>n. ka_providers K w (om_Namespace (ag_Meta agent), n)) ''provider''
       (map pb_Name (as_ProviderRefs (ag_Spec agent)))"

fun validateIntegrationsReady :: "Integration list \<Rightarrow> string option" where
  "validateIntegrationsReady [] = None"
| "validateIntegrationsReady (res # rest) =
     (if ist_Phase (int_Status res) \<noteq> IntegrationPhaseReady
      then Some (''integration '' @ go_quote (om_Name (int_Meta res)) @ '' is not Ready (phase: '' @ ist_Phase (int_Status res) @ '')'')
      else validateIntegrationsReady rest)"

fun validateProvidersReady :: "Provider list \<Rightarrow> string option" where
  "validateProvidersReady [] = None"
| "validateProvidersReady (prov # rest) =
     (if pst_Phase (prov_Status prov) \<noteq> ProviderPhaseReady
      then Some (''provider '' @ go_quote (om_Name (prov_Meta prov)) @ '' is not Ready (phase: '' @ pst_Phase (prov_Status prov) @ '')'')
      else validateProvidersReady rest)"

section \<open>Children\<close>

definition reconcileAgentRBAC :: "'w agent_kube \<Rightarrow> golib \<Rightarrow> 'w \<Rightarrow> Agent \<Rightarrow> 'w \<times> apierr option" where
  "reconcileAgentRBAC K G w agent =
     reconcileAll (ka_owned K) G w (ag_Meta agent)
       [OServiceAccount (BuildAgentServiceAccount agent), ORole (BuildAgentRole agent), ORoleBinding (BuildAgentRoleBinding agent)]"

text \<open>The status of a daemon from the replicas of its Deployment.\<close>

definition daemon_status :: "golib \<Rightarrow> time \<Rightarrow> Agent \<Rightarrow> Agent" where
  "daemon_status G t agent =
     (let agent = agent\<lparr>ag_Status := (ag_Status agent)\<lparr>ast_ServiceURL := AgentServiceURL agent, ast_ActiveModel := as_Model (ag_Spec agent)\<rparr>\<rparr> in
      if ast_ReadyReplicas (ag_Status agent) > 0
      then agent_cond G t (new_cond AgentConditionReady ConditionTrue ''Running'' [])
             (agent\<lparr>ag_Status := (ag_Status agent)\<lparr>ast_Phase := AgentPhaseRunning\<rparr>\<rparr>)
      else agent_cond G t (new_cond AgentConditionReady ConditionFalse ''Pending'' ''Waiting for deployment to be ready'')
             (agent\<lparr>ag_Status := (ag_Status agent)\<lparr>ast_Phase := AgentPhasePending\<rparr>\<rparr>))"

definition observe_replicas :: "'w agent_kube \<Rightarrow> 'w \<Rightarrow> Agent \<Rightarrow> Agent" where
  "observe_replicas K w agent =
     (case ka_deployment K w (om_Namespace (ag_Meta agent), om_Name (ag_Meta agent)) of
        Inl _ \<Rightarrow> agent
      | Inr d \<Rightarrow> agent\<lparr>ag_Status := (ag_Status agent)\<lparr>ast_ReadyReplicas := dep_ReadyReplicas d\<rparr>\<rparr>)"

text \<open>
  The claim of an agent with storage. A malformed size makes \<open>BuildAgentPVC\<close> panic; the
  reconcile then ends with an error, as it does with any other failure before the status patch.
\<close>

definition reconcileStorage :: "'w agent_kube \<Rightarrow> golib \<Rightarrow> 'w \<Rightarrow> Agent \<Rightarrow> 'w \<times> (apierr + Agent)" where
  "reconcileStorage K G w agent =
     (case as_Storage (ag_Spec agent) of
        None \<Rightarrow> (w, Inr agent)
      | Some storage \<Rightarrow>
          (case BuildAgentPVC (ka_quantity K) agent storage of
             None \<Rightarrow> (w, Inl (ApiError ''panic: cannot parse the storage size''))
           | Some pvc \<Rightarrow>
               (case reconcileOwnedResource (ka_owned K) G w (ag_Meta agent) (OPVC pvc) of
                  (w, Some e) \<Rightarrow> (w, Inl e)
                | (w, None) \<Rightarrow> (w, Inr (agent\<lparr>ag_Status := (ag_Status agent)\<lparr>ast_StoragePVC := om_Name (pvc_Meta pvc)\<rparr>\<rparr>)))))"

definition daemon_objects :: "Agent \<Rightarrow> Integration list \<Rightarrow> Provider list \<Rightarrow> InfraConfig \<Rightarrow> ConfigMap \<Rightarrow> owned_object list" where
  "daemon_objects agent integrations providers infra configMap =
     [OConfigMap configMap, ODeployment (BuildAgentDeployment agent providers integrations infra), OService (BuildAgentService agent)]
     @ (case as_NetworkPolicy (ag_Spec agent) of
          None \<Rightarrow> []
        | Some np \<Rightarrow> if np_Enabled np then [ONetworkPolicy (BuildAgentNetworkPolicy agent)] else [])"

text \<open>The agent after \<open>BuildAgentDeployment\<close>, which completes the resource maps of the specification in place.\<close>

definition shared_agent :: "Agent \<Rightarrow> Agent" where
  "shared_agent agent = agent\<lparr>ag_Spec := (ag_Spec agent)\<lparr>as_Resources := map_option shared_resources (as_Resources (ag_Spec agent))\<rparr>\<rparr>"

definition reconcileDaemon ::
  "'w agent_kube \<Rightarrow> golib \<Rightarrow> InfraConfig \<Rightarrow> 'w \<Rightarrow> Agent \<Rightarrow> Integration list \<Rightarrow> Provider list \<Rightarrow> 'w \<times> Agent \<times> (apierr + ctrl_result)" where
  "reconcileDaemon K G infra w agent integrations providers =
     (case reconcileStorage K G w agent of
        (w, Inl e) \<Rightarrow> (w, agent, Inl e)
      | (w, Inr agent) \<Rightarrow>
          (case BuildAgentConfigMap (gl_codec G) agent integrations providers of
             Inl e \<Rightarrow> (w, agent, Inl (ApiError e))
           | Inr configMap \<Rightarrow>
               (case reconcileAll (ka_owned K) G w (ag_Meta agent) (daemon_objects agent integrations providers infra configMap) of
                  (w, Some e) \<Rightarrow> (w, agent, Inl e)
                | (w, None) \<Rightarrow>
                    (let agent = daemon_status G (ka_now K w) (observe_replicas K w (shared_agent agent)) in
                     if ast_Phase (ag_Status agent) \<noteq> AgentPhaseRunning then (w, agent, Inr requeue_result)
                     else (w, agent, Inr done_result)))))"

definition task_status :: "golib \<Rightarrow> time \<Rightarrow> Agent \<Rightarrow> Agent" where
  "task_status G t agent =
     agent_cond G t (new_cond AgentConditionReady ConditionTrue ''Ready''
         (nat_str (BuiltinToolCount agent + length (as_Tools (ag_Spec agent))) @ '' tool packages configured''))
       (agent\<lparr>ag_Status := (ag_Status agent)\<lparr>ast_Phase := AgentPhaseReady, ast_ActiveModel := as_Model (ag_Spec agent)\<rparr>\<rparr>)"

definition reconcileTask ::
  "'w agent_kube \<Rightarrow> golib \<Rightarrow> 'w \<Rightarrow> Agent \<Rightarrow> Integration list \<Rightarrow> Provider list \<Rightarrow> 'w \<times> Agent \<times> (apierr + ctrl_result)" where
  "reconcileTask K G w agent integrations providers =
     (case BuildAgentConfigMap (gl_codec G) agent integrations providers of
        Inl e \<Rightarrow> (w, agent, Inl (ApiError e))
      | Inr configMap \<Rightarrow>
          (case reconcileOwnedResource (ka_owned K) G w (ag_Meta agent) (OConfigMap configMap) of
             (w, Some e) \<Rightarrow> (w, agent, Inl e)
           | (w, None) \<Rightarrow> (w, task_status G (ka_now K w) agent, Inr done_result)))"

section \<open>Reconciliation\<close>

text \<open>Patching the status and then returning \<open>outcome\<close>, unless the patch fails.\<close>

definition patch_then :: "'w agent_kube \<Rightarrow> 'w \<Rightarrow> Agent \<Rightarrow> Agent \<Rightarrow> apierr + ctrl_result \<Rightarrow> 'w \<times> (apierr + ctrl_result)" where
  "patch_then K w agent statusPatch outcome =
     (case patchObjStatus (ka_agents K) w agent statusPatch of
        (w, Some e) \<Rightarrow> (w, Inl e)
      | (w, None) \<Rightarrow> (w, outcome))"

definition resources_cond :: "string \<Rightarrow> string \<Rightarrow> string \<Rightarrow> Condition" where
  "resources_cond st reason msg = new_cond AgentConditionResourcesReady st reason msg"

definition providers_cond :: "string \<Rightarrow> string \<Rightarrow> string \<Rightarrow> Condition" where
  "providers_cond st reason msg = new_cond AgentConditionProvidersReady st reason msg"

text \<open>From the resolved Integrations to the final patch.\<close>

definition reconcileProviders ::
  "'w agent_kube \<Rightarrow> golib \<Rightarrow> InfraConfig \<Rightarrow> 'w \<Rightarrow> Agent \<Rightarrow> Integration list \<Rightarrow> Agent \<Rightarrow> 'w \<times> (apierr + ctrl_result)" where
  "reconcileProviders K G infra w agent integrations statusPatch =
     (case resolveProviders K w agent of
        Inl e \<Rightarrow> patch_then K w (agent_cond G (ka_now K w) (providers_cond ConditionFalse ''ProviderNotFound'' (err_text e)) agent)
                   statusPatch (Inr requeue_result)
      | Inr resolvedProviders \<Rightarrow>
          (case validateProvidersReady resolvedProviders of
             Some msg \<Rightarrow> patch_then K w (agent_cond G (ka_now K w) (providers_cond ConditionFalse ''ProviderNotReady'' msg) agent)
                   statusPatch (Inr requeue_result)
           | None \<Rightarrow>
               (let agent = agent_cond G (ka_now K w) (providers_cond ConditionTrue ''Configured''
                      (nat_str (length resolvedProviders) @ '' providers registered'')) agent;
                    agent = agent\<lparr>ag_Status := (ag_Status agent)\<lparr>ast_Conditions :=
                      setSecurityPolicyViolationsCondition G (ka_now K w) (ast_Conditions (ag_Status agent))
                        (ComputeSecurityViolations (as_Security (ag_Spec agent)))\<rparr>\<rparr>
                in if as_Mode (ag_Spec agent) = AgentModeDaemon
                   then (case reconcileDaemon K G infra w agent integrations resolvedProviders of
                           (w, agent, Inl e) \<Rightarrow> (w, Inl e)
                         | (w, agent, Inr result) \<Rightarrow> patch_then K w agent statusPatch (Inr result))
                   else if as_Mode (ag_Spec agent) = AgentModeTask
                   then (case reconcileTask K G w agent integrations resolvedProviders of
                           (w, agent, Inl e) \<Rightarrow> (w, Inl e)
                         | (w, agent, Inr result) \<Rightarrow> patch_then K w agent statusPatch (Inr result))
                   else (w, Inl (ApiError (''unknown agent mode: '' @ as_Mode (ag_Spec agent)))))))"

definition reconcileReferences ::
  "'w agent_kube \<Rightarrow> golib \<Rightarrow> InfraConfig \<Rightarrow> 'w \<Rightarrow> Agent \<Rightarrow> Agent \<Rightarrow> 'w \<times> (apierr + ctrl_result)" where
  "reconcileReferences K G infra w agent statusPatch =
     (case resolveIntegrations K w agent of
        Inl e \<Rightarrow>
          patch_then K w (setAgentFailedStatus G (ka_now K w)
              (agent_cond G (ka_now K w) (resources_cond ConditionFalse ''IntegrationNotFound'' (err_text e)) agent)
              AgentPhaseFailed (err_text e)) statusPatch (Inr requeue_result)
      | Inr integrations \<Rightarrow>
          (case validateIntegrationsReady integrations of
             Some msg \<Rightarrow> patch_then K w (agent_cond G (ka_now K w) (resources_cond ConditionFalse ''ResourceNotReady'' msg) agent)
                   statusPatch (Inr requeue_result)
           | None \<Rightarrow>
               reconcileProviders K G infra w
                 (if as_Integrations (ag_Spec agent) \<noteq> []
                  then agent_cond G (ka_now K w) (resources_cond ConditionTrue ''AllReady''
                         (nat_str (length integrations) @ '' resources bound'')) agent
                  else agent) integrations statusPatch))"

definition Reconcile_agent ::
  "'w agent_kube \<Rightarrow> golib \<Rightarrow> InfraConfig \<Rightarrow> 'w \<Rightarrow> nsname \<Rightarrow> 'w \<times> (apierr + ctrl_result)" where
  "Reconcile_agent K G infra w req =
     (case c_get (ka_agents K) w req of
        Inl e \<Rightarrow> if IsNotFound e then (w, Inr done_result) else (w, Inl e)
      | Inr agent \<Rightarrow>
          (case (if as_ServiceAccountName (ag_Spec agent) = [] then reconcileAgentRBAC K G w agent else (w, None)) of
             (w, Some e) \<Rightarrow> patch_then K w (setAgentFailedStatus G (ka_now K w) agent AgentPhaseFailed (err_text e)) agent (Inl e)
           | (w, None) \<Rightarrow> reconcileReferences K G infra w agent agent))"

end
