(* ===== verification/Owned_Laws.thy ===== *)
theory Owned_Laws
  imports Owned_Reconcile
begin

text \<open>
  What the reconciliation of owned objects achieves. The locales \<open>owner_laws\<close>, \<open>owned_kind\<close> and
  \<open>owned_server\<close> state what the operator relies on of \<^verbatim>\<open>SetControllerReference\<close>, \<^verbatim>\<open>CreateOrUpdate\<close>
  and server-side apply; \<open>owned_mutation\<close> is the contract that the mutation of every kind
  fulfils, from which storing, convergence and refusal of foreign objects follow once for all
  kinds.
\<close>

section \<open>Laws\<close>

text \<open>All objects of the owned kinds that are stored.\<close>

record owned_objects =
  oo_deployments :: "nsname \<rightharpoonup> Deployment"
  oo_services :: "nsname \<rightharpoonup> Service"
  oo_configmaps :: "nsname \<rightharpoonup> ConfigMap"
  oo_pvcs :: "nsname \<rightharpoonup> PersistentVolumeClaim"
  oo_netpols :: "nsname \<rightharpoonup> NetworkPolicy"
  oo_ingresses :: "nsname \<rightharpoonup> Ingress"
  oo_serviceaccounts :: "nsname \<rightharpoonup> ServiceAccount"
  oo_roles :: "nsname \<rightharpoonup> Role"
  oo_rolebindings :: "nsname \<rightharpoonup> RoleBinding"

text \<open>\<^verbatim>\<open>SetControllerReference\<close>: it sets the controller, and refuses an object of another one.\<close>

locale owner_laws =
  fixes G :: golib
  assumes set_owner_ok: "gl_set_owner G own m = Inr m' \<Longrightarrow>
      m' = m\<lparr>om_Controller := Some (om_UID own)\<rparr> \<and> om_Namespace m = om_Namespace own"
    and set_owner_free: "\<lbrakk>om_Controller m = None \<or> om_Controller m = Some (om_UID own); om_Namespace m = om_Namespace own\<rbrakk> \<Longrightarrow>
      \<exists>m'. gl_set_owner G own m = Inr m'"
    and set_owner_taken: "\<lbrakk>om_Controller m = Some c; c \<noteq> om_UID own\<rbrakk> \<Longrightarrow> \<exists>e. gl_set_owner G own m = Inl e"

text \<open>
  \<^verbatim>\<open>CreateOrUpdate\<close> on one kind. The stored object agrees with what the mutation returned in the
  \<open>view\<close>, the fields that the server does not fill in; every stored object has a creation
  time; an object that the mutation leaves alone is not written; an error stores nothing.
\<close>

locale owned_kind =
  fixes C :: "('w, 'o) owned_client" and V :: "'w \<Rightarrow> owned_objects"
    and get :: "owned_objects \<Rightarrow> nsname \<rightharpoonup> 'o" and put :: "(nsname \<rightharpoonup> 'o) \<Rightarrow> owned_objects \<Rightarrow> owned_objects"
    and meta :: "'o \<Rightarrow> ObjectMeta" and view :: "'o \<Rightarrow> 'v"
  assumes get_put: "get (put m s) = m" and put_get: "put (get s) s = s"
    and stored_key: "get (V w) k = Some x \<Longrightarrow> meta_key (meta x) = k \<and> om_CreationTimestamp (meta x) \<noteq> 0"
    and cou_ok: "oc_create_or_update C w b f = (w', None) \<Longrightarrow>
      \<exists>x y. f (case get (V w) (meta_key (meta b)) of None \<Rightarrow> b | Some old \<Rightarrow> old) = Inr x \<and> view y = view x \<and>
        V w' = put ((get (V w))(meta_key (meta b) \<mapsto> y)) (V w)"
    and cou_same: "\<lbrakk>oc_create_or_update C w b f = (w', r); get (V w) (meta_key (meta b)) = Some old; f old = Inr old\<rbrakk> \<Longrightarrow> V w' = V w"
    and cou_err: "oc_create_or_update C w b f = (w', Some e) \<Longrightarrow> V w' = V w"
    and cou_refused: "\<lbrakk>oc_create_or_update C w b f = (w', r); get (V w) (meta_key (meta b)) = Some old; f old = Inl e\<rbrakk> \<Longrightarrow> r \<noteq> None"
begin

text \<open>A mutation that reaches its own fixed point: reconciling again changes nothing.\<close>

lemma converged:
  assumes r: "oc_create_or_update C w b f = (w', None)"
    and fixpoint: "\<And>old x y. \<lbrakk>f old = Inr x; view y = view x; meta_key (meta y) = meta_key (meta b);
        om_CreationTimestamp (meta y) \<noteq> 0\<rbrakk> \<Longrightarrow> f y = Inr y"
    and r2: "oc_create_or_update C w' b f = (w2, r3)"
  shows "V w2 = V w'"
proof -
  obtain old x y where f: "f old = Inr x" "view y = view x" and v: "V w' = put ((get (V w))(meta_key (meta b) \<mapsto> y)) (V w)"
    using cou_ok[OF r] by blast
  have y: "get (V w') (meta_key (meta b)) = Some y" by (simp add: v get_put)
  then have "f y = Inr y" using fixpoint[OF f] stored_key[OF y] by simp
  then show ?thesis using cou_same[OF r2 y] by simp
qed

lemma refuses:
  assumes "oc_create_or_update C w b f = (w', r)" "get (V w) (meta_key (meta b)) = Some old" "f old = Inl e"
  shows "r \<noteq> None \<and> V w' = V w"
  using cou_refused[OF assms] cou_err assms(1) by (cases r) auto

end

text \<open>The part of the metadata that the operator owns.\<close>

definition owned_meta :: "ObjectMeta \<Rightarrow> string \<times> string \<times> gomap \<times> gomap \<times> string option" where
  "owned_meta m = (om_Name m, om_Namespace m, om_Labels m, om_Annotations m, om_Controller m)"

text \<open>
  Server-side apply: the fields that were applied are the ones of the stored object, which may
  have more labels. An object has one controller at most, and applying the same again changes
  nothing.
\<close>

definition applied :: "Deployment \<Rightarrow> Deployment \<Rightarrow> bool" where
  "applied d y \<longleftrightarrow> meta_key (dep_Meta y) = meta_key (dep_Meta d) \<and> om_Controller (dep_Meta y) = om_Controller (dep_Meta d) \<and>
     om_Labels (dep_Meta d) \<subseteq>\<^sub>m om_Labels (dep_Meta y) \<and> dep_Selector y = dep_Selector d \<and>
     pt_Labels (dep_Template d) \<subseteq>\<^sub>m pt_Labels (dep_Template y) \<and>
     pd_ServiceAccountName (pt_Spec (dep_Template y)) = pd_ServiceAccountName (pt_Spec (dep_Template d))"

locale owned_server =
  svc: owned_kind "o_services K" V oo_services "\<lambda>m. oo_services_update (\<lambda>_. m)" svc_Meta
    "\<lambda>s. (owned_meta (svc_Meta s), svc_Selector s, svc_Ports s)" +
  cm: owned_kind "o_configmaps K" V oo_configmaps "\<lambda>m. oo_configmaps_update (\<lambda>_. m)" cm_Meta
    "\<lambda>c. (owned_meta (cm_Meta c), cm_Data c, cm_BinaryData c)" +
  pvc: owned_kind "o_pvcs K" V oo_pvcs "\<lambda>m. oo_pvcs_update (\<lambda>_. m)" pvc_Meta
    "\<lambda>c. owned_meta (pvc_Meta c)" +
  np: owned_kind "o_netpols K" V oo_netpols "\<lambda>m. oo_netpols_update (\<lambda>_. m)" np_Meta
    "\<lambda>n. (owned_meta (np_Meta n), np_Spec n)" +
  ing: owned_kind "o_ingresses K" V oo_ingresses "\<lambda>m. oo_ingresses_update (\<lambda>_. m)" ing_Meta
    "\<lambda>i. (owned_meta (ing_Meta i), ing_Spec i)" +
  sa: owned_kind "o_serviceaccounts K" V oo_serviceaccounts "\<lambda>m. oo_serviceaccounts_update (\<lambda>_. m)" sa_Meta
    "\<lambda>s. owned_meta (sa_Meta s)" +
  role: owned_kind "o_roles K" V oo_roles "\<lambda>m. oo_roles_update (\<lambda>_. m)" role_Meta
    "\<lambda>r. (owned_meta (role_Meta r), role_Rules r)" +
  rb: owned_kind "o_rolebindings K" V oo_rolebindings "\<lambda>m. oo_rolebindings_update (\<lambda>_. m)" rb_Meta
    "\<lambda>r. (owned_meta (rb_Meta r), rb_RoleRef r, rb_Subjects r)"
  for K :: "'w owned_kube" and V :: "'w \<Rightarrow> owned_objects" +
  assumes apply_ok: "o_apply_deployment K w d = (w', None) \<Longrightarrow>
      \<exists>y. V w' = (V w)\<lparr>oo_deployments := (oo_deployments (V w))(meta_key (dep_Meta d) \<mapsto> y)\<rparr> \<and>
        applied d y \<and> (\<forall>old c. oo_deployments (V w) (meta_key (dep_Meta d)) = Some old \<longrightarrow> om_Controller (dep_Meta old) = Some c \<longrightarrow>
          om_Controller (dep_Meta d) = Some c)"
    and apply_again: "\<lbrakk>o_apply_deployment K w d = (w', None); o_apply_deployment K w' d = (w2, r)\<rbrakk> \<Longrightarrow> V w2 = V w'"
    and apply_err: "o_apply_deployment K w d = (w', Some e) \<Longrightarrow> V w' = V w"

section \<open>Mutations\<close>

text \<open>A stored object carries the desired metadata when it is controlled by the owner and has the labels.\<close>

definition carries :: "ObjectMeta \<Rightarrow> ObjectMeta \<Rightarrow> ObjectMeta \<Rightarrow> bool" where
  "carries owner d m \<longleftrightarrow> meta_key m = meta_key d \<and> om_Controller m = Some (om_UID owner) \<and>
     om_Labels d \<subseteq>\<^sub>m om_Labels m \<and> om_Annotations d \<subseteq>\<^sub>m om_Annotations m"

lemma owned_metaD:
  "owned_meta m = owned_meta m' \<Longrightarrow> om_Name m = om_Name m' \<and> om_Namespace m = om_Namespace m' \<and> om_Labels m = om_Labels m' \<and>
     om_Annotations m = om_Annotations m' \<and> om_Controller m = om_Controller m'"
  by (simp add: owned_meta_def)

lemma map_add_absorb: "m ++ n ++ n = m ++ n"
  by (rule ext) (simp add: map_add_def split: option.split)

context owner_laws
begin

lemma adopt_Inr:
  assumes "adopt G owner m d = Inr x"
  shows "x = m\<lparr>om_Controller := Some (om_UID owner), om_Labels := om_Labels m ++ om_Labels d,
      om_Annotations := om_Annotations m ++ om_Annotations d\<rparr> \<and> om_Namespace m = om_Namespace owner"
proof -
  obtain m' where m: "gl_set_owner G owner m = Inr m'" using assms by (auto simp: adopt_def split: sum.splits)
  show ?thesis using assms set_owner_ok[OF m] by (simp add: adopt_def m)
qed

lemma adopt_again:
  assumes a: "adopt G owner m d = Inr x" and y: "owned_meta y = owned_meta x"
  shows "adopt G owner y d = Inr y"
proof -
  note x = adopt_Inr[OF a] and y = owned_metaD[OF y]
  have f: "om_Controller y = Some (om_UID owner)" "om_Namespace y = om_Namespace owner"
    "om_Labels y ++ om_Labels d = om_Labels y" "om_Annotations y ++ om_Annotations d = om_Annotations y"
    using x y by (simp_all add: map_add_absorb)
  then obtain m' where m: "gl_set_owner G owner y = Inr m'" using set_owner_free[of y owner] by blast
  then have "m' = y" using set_owner_ok[OF m] f by simp
  then show ?thesis using f m by (simp add: adopt_def)
qed

lemma adopt_carries:
  assumes "adopt G owner m d = Inr x" "owned_meta y = owned_meta x" "meta_key m = meta_key d"
  shows "carries owner d y"
  using adopt_Inr[OF assms(1)] owned_metaD[OF assms(2)] assms(3)
  by (simp add: carries_def meta_key_def map_le_map_add)

lemma adopt_taken:
  assumes "om_Controller m = Some c" "c \<noteq> om_UID owner"
  shows "\<exists>e. adopt G owner m d = Inl e"
  using set_owner_taken[OF assms] by (auto simp: adopt_def)

end

text \<open>
  The contract of a mutation: it adopts the object it is given and refuses when adoption does;
  for the desired objects in \<open>ok\<close> it leaves an object alone that already has its result.
\<close>

locale owned_mutation = owned_kind C V get put meta view + owner_laws G
  for C :: "('w, 'o) owned_client" and V :: "'w \<Rightarrow> owned_objects"
    and get :: "owned_objects \<Rightarrow> nsname \<rightharpoonup> 'o" and put :: "(nsname \<rightharpoonup> 'o) \<Rightarrow> owned_objects \<Rightarrow> owned_objects"
    and meta :: "'o \<Rightarrow> ObjectMeta" and view :: "'o \<Rightarrow> 'v" and G :: golib +
  fixes mutate :: "ObjectMeta \<Rightarrow> 'o \<Rightarrow> 'o \<Rightarrow> apierr + 'o" and blank :: "'o \<Rightarrow> 'o" and ok :: "'o \<Rightarrow> bool"
  assumes mutate_meta: "mutate owner d old = Inr x \<Longrightarrow> adopt G owner (meta old) (meta d) = Inr (meta x)"
    and mutate_err: "adopt G owner (meta old) (meta d) = Inl e \<Longrightarrow> mutate owner d old = Inl e"
    and view_meta: "view x = view y \<Longrightarrow> owned_meta (meta x) = owned_meta (meta y)"
    and blank_key: "meta_key (meta (blank d)) = meta_key (meta d)"
    and mutate_again: "\<lbrakk>ok d; mutate owner d old = Inr x; view y = view x; om_CreationTimestamp (meta y) \<noteq> 0;
      adopt G owner (meta y) (meta d) = Inr (meta y)\<rbrakk> \<Longrightarrow> mutate owner d y = Inr y"
begin

lemma stores:
  assumes r: "oc_create_or_update C w (blank d) (mutate owner d) = (w', None)"
  shows "\<exists>old x y. mutate owner d old = Inr x \<and> view y = view x \<and> carries owner (meta d) (meta y) \<and>
    V w' = put ((get (V w))(meta_key (meta d) \<mapsto> y)) (V w)"
proof -
  let ?old = "case get (V w) (meta_key (meta (blank d))) of None \<Rightarrow> blank d | Some old \<Rightarrow> old"
  obtain x y where m: "mutate owner d ?old = Inr x" "view y = view x"
    and v: "V w' = put ((get (V w))(meta_key (meta d) \<mapsto> y)) (V w)"
    using cou_ok[OF r] unfolding blank_key by blast
  have "meta_key (meta ?old) = meta_key (meta d)"
    using stored_key[of w "meta_key (meta d)"] by (auto simp: blank_key split: option.split)
  then have "carries owner (meta d) (meta y)"
    using adopt_carries[OF mutate_meta[OF m(1)] view_meta[OF m(2)]] by simp
  then show ?thesis using m v by blast
qed

lemma idempotent:
  assumes "ok d" and r: "oc_create_or_update C w (blank d) (mutate owner d) = (w', None)"
    and r2: "oc_create_or_update C w' (blank d) (mutate owner d) = (w2, r3)"
  shows "V w2 = V w'"
proof (rule converged[OF r _ r2])
  fix old x y
  assume "mutate owner d old = Inr x" "view y = view x" "om_CreationTimestamp (meta y) \<noteq> 0"
  then show "mutate owner d y = Inr y"
    using mutate_again[OF assms(1)] adopt_again[OF mutate_meta view_meta] by blast
qed

lemma foreign:
  assumes "oc_create_or_update C w (blank d) (mutate owner d) = (w', r)"
    "get (V w) (meta_key (meta d)) = Some old" "om_Controller (meta old) = Some c" "c \<noteq> om_UID owner"
  shows "r \<noteq> None \<and> V w' = V w"
proof -
  obtain e where "mutate owner d old = Inl e"
    using adopt_taken[OF assms(3,4)] mutate_err by blast
  then show ?thesis using refuses[OF assms(1)] assms(2) by (simp add: blank_key)
qed

end

section \<open>All kinds\<close>

text \<open>What it means that a desired object is in place. A claim keeps the specification it was created with.\<close>

fun stored_ok :: "owned_objects \<Rightarrow> ObjectMeta \<Rightarrow> owned_object \<Rightarrow> bool" where
  "stored_ok s owner (ODeployment d) \<longleftrightarrow> (\<exists>y. oo_deployments s (meta_key (dep_Meta d)) = Some y \<and>
     applied (d\<lparr>dep_Meta := (dep_Meta d)\<lparr>om_Controller := Some (om_UID owner)\<rparr>\<rparr>) y)"
| "stored_ok s owner (OService d) \<longleftrightarrow> (\<exists>y. oo_services s (meta_key (svc_Meta d)) = Some y \<and>
     carries owner (svc_Meta d) (svc_Meta y) \<and> svc_Selector y = svc_Selector d \<and> svc_Ports y = svc_Ports d)"
| "stored_ok s owner (OConfigMap d) \<longleftrightarrow> (\<exists>y. oo_configmaps s (meta_key (cm_Meta d)) = Some y \<and>
     carries owner (cm_Meta d) (cm_Meta y) \<and> cm_Data y = cm_Data d \<and> cm_BinaryData y = cm_BinaryData d)"
| "stored_ok s owner (OPVC d) \<longleftrightarrow> (\<exists>y. oo_pvcs s (meta_key (pvc_Meta d)) = Some y \<and> carries owner (pvc_Meta d) (pvc_Meta y))"
| "stored_ok s owner (ONetworkPolicy d) \<longleftrightarrow> (\<exists>y. oo_netpols s (meta_key (np_Meta d)) = Some y \<and>
     carries owner (np_Meta d) (np_Meta y) \<and> np_Spec y = np_Spec d)"
| "stored_ok s owner (OIngress d) \<longleftrightarrow> (\<exists>y. oo_ingresses s (meta_key (ing_Meta d)) = Some y \<and>
     carries owner (ing_Meta d) (ing_Meta y) \<and> ing_Spec y = ing_Spec d)"
| "stored_ok s owner (OServiceAccount d) \<longleftrightarrow> (\<exists>y. oo_serviceaccounts s (meta_key (sa_Meta d)) = Some y \<and>
     carries owner (sa_Meta d) (sa_Meta y))"
| "stored_ok s owner (ORole d) \<longleftrightarrow> (\<exists>y. oo_roles s (meta_key (role_Meta d)) = Some y \<and>
     carries owner (role_Meta d) (role_Meta y) \<and> role_Rules y = role_Rules d)"
| "stored_ok s owner (ORoleBinding d) \<longleftrightarrow> (\<exists>y. oo_rolebindings s (meta_key (rb_Meta d)) = Some y \<and>
     carries owner (rb_Meta d) (rb_Meta y) \<and> rb_Subjects y = rb_Subjects d)"
| "stored_ok s owner (OUnsupported ty) \<longleftrightarrow> False"

text \<open>The kind and the key of an object, and the controller of the object that is stored there.\<close>

datatype kind = KDeployment | KService | KConfigMap | KPVC | KNetworkPolicy | KIngress | KServiceAccount | KRole
  | KRoleBinding | KUnsupported

fun obj_kind :: "owned_object \<Rightarrow> kind" where
  "obj_kind (ODeployment d) = KDeployment"
| "obj_kind (OService d) = KService"
| "obj_kind (OConfigMap d) = KConfigMap"
| "obj_kind (OPVC d) = KPVC"
| "obj_kind (ONetworkPolicy d) = KNetworkPolicy"
| "obj_kind (OIngress d) = KIngress"
| "obj_kind (OServiceAccount d) = KServiceAccount"
| "obj_kind (ORole d) = KRole"
| "obj_kind (ORoleBinding d) = KRoleBinding"
| "obj_kind (OUnsupported ty) = KUnsupported"

fun obj_meta :: "owned_object \<Rightarrow> ObjectMeta" where
  "obj_meta (ODeployment d) = dep_Meta d"
| "obj_meta (OService d) = svc_Meta d"
| "obj_meta (OConfigMap d) = cm_Meta d"
| "obj_meta (OPVC d) = pvc_Meta d"
| "obj_meta (ONetworkPolicy d) = np_Meta d"
| "obj_meta (OIngress d) = ing_Meta d"
| "obj_meta (OServiceAccount d) = sa_Meta d"
| "obj_meta (ORole d) = role_Meta d"
| "obj_meta (ORoleBinding d) = rb_Meta d"
| "obj_meta (OUnsupported ty) = new_meta [] [] Map.empty"

definition obj_ref :: "owned_object \<Rightarrow> kind \<times> nsname" where
  "obj_ref x = (obj_kind x, meta_key (obj_meta x))"

fun stored_meta :: "owned_objects \<Rightarrow> kind \<Rightarrow> nsname \<Rightarrow> ObjectMeta option" where
  "stored_meta s KDeployment k = map_option dep_Meta (oo_deployments s k)"
| "stored_meta s KService k = map_option svc_Meta (oo_services s k)"
| "stored_meta s KConfigMap k = map_option cm_Meta (oo_configmaps s k)"
| "stored_meta s KPVC k = map_option pvc_Meta (oo_pvcs s k)"
| "stored_meta s KNetworkPolicy k = map_option np_Meta (oo_netpols s k)"
| "stored_meta s KIngress k = map_option ing_Meta (oo_ingresses s k)"
| "stored_meta s KServiceAccount k = map_option sa_Meta (oo_serviceaccounts s k)"
| "stored_meta s KRole k = map_option role_Meta (oo_roles s k)"
| "stored_meta s KRoleBinding k = map_option rb_Meta (oo_rolebindings s k)"
| "stored_meta s KUnsupported k = None"

text \<open>An object whose kind and key differ from the one reconciled is not affected.\<close>

definition others_kept :: "owned_objects \<Rightarrow> owned_objects \<Rightarrow> owned_object \<Rightarrow> bool" where
  "others_kept s s' x \<longleftrightarrow> (\<forall>y own. obj_ref y \<noteq> obj_ref x \<longrightarrow> stored_ok s own y \<longrightarrow> stored_ok s' own y)"

lemma others_keptI:
  assumes "\<And>k. KDeployment \<noteq> obj_kind x \<or> k \<noteq> meta_key (obj_meta x) \<Longrightarrow> oo_deployments s' k = oo_deployments s k"
    and "\<And>k. KService \<noteq> obj_kind x \<or> k \<noteq> meta_key (obj_meta x) \<Longrightarrow> oo_services s' k = oo_services s k"
    and "\<And>k. KConfigMap \<noteq> obj_kind x \<or> k \<noteq> meta_key (obj_meta x) \<Longrightarrow> oo_configmaps s' k = oo_configmaps s k"
    and "\<And>k. KPVC \<noteq> obj_kind x \<or> k \<noteq> meta_key (obj_meta x) \<Longrightarrow> oo_pvcs s' k = oo_pvcs s k"
    and "\<And>k. KNetworkPolicy \<noteq> obj_kind x \<or> k \<noteq> meta_key (obj_meta x) \<Longrightarrow> oo_netpols s' k = oo_netpols s k"
    and "\<And>k. KIngress \<noteq> obj_kind x \<or> k \<noteq> meta_key (obj_meta x) \<Longrightarrow> oo_ingresses s' k = oo_ingresses s k"
    and "\<And>k. KServiceAccount \<noteq> obj_kind x \<or> k \<noteq> meta_key (obj_meta x) \<Longrightarrow> oo_serviceaccounts s' k = oo_serviceaccounts s k"
    and "\<And>k. KRole \<noteq> obj_kind x \<or> k \<noteq> meta_key (obj_meta x) \<Longrightarrow> oo_roles s' k = oo_roles s k"
    and "\<And>k. KRoleBinding \<noteq> obj_kind x \<or> k \<noteq> meta_key (obj_meta x) \<Longrightarrow> oo_rolebindings s' k = oo_rolebindings s k"
  shows "others_kept s s' x"
  unfolding others_kept_def
proof (intro allI impI)
  fix y own assume ne: "obj_ref y \<noteq> obj_ref x" and ok: "stored_ok s own y"
  then have "obj_kind y \<noteq> obj_kind x \<or> meta_key (obj_meta y) \<noteq> meta_key (obj_meta x)" by (auto simp: obj_ref_def)
  with ok show "stored_ok s' own y" by (cases y) (simp_all add: assms)
qed

locale owned_ops = owned_server K V + owner_laws G
  for K :: "'w owned_kube" and V :: "'w \<Rightarrow> owned_objects" and G :: golib

lemmas mutate_defs = mutateService_def mutateConfigMap_def mutatePVC_def mutateNetworkPolicy_def mutateIngress_def
  mutateServiceAccount_def mutateRole_def mutateRoleBinding_def
lemmas blank_defs = blankService_def blankConfigMap_def blankPVC_def blankNetworkPolicy_def blankIngress_def
  blankServiceAccount_def blankRole_def blankRoleBinding_def blank_meta_def new_meta_def meta_key_def

sublocale owned_ops \<subseteq> svc_op: owned_mutation "o_services K" V oo_services "\<lambda>m. oo_services_update (\<lambda>_. m)" svc_Meta
    "\<lambda>s. (owned_meta (svc_Meta s), svc_Selector s, svc_Ports s)" G "mutateService G" blankService "\<lambda>d. svc_Type d = []"
  by unfold_locales (auto simp: mutate_defs blank_defs split: sum.splits)

sublocale owned_ops \<subseteq> cm_op: owned_mutation "o_configmaps K" V oo_configmaps "\<lambda>m. oo_configmaps_update (\<lambda>_. m)" cm_Meta
    "\<lambda>c. (owned_meta (cm_Meta c), cm_Data c, cm_BinaryData c)" G "mutateConfigMap G" blankConfigMap "\<lambda>_. True"
  by unfold_locales (auto simp: mutate_defs blank_defs split: sum.splits)

sublocale owned_ops \<subseteq> pvc_op: owned_mutation "o_pvcs K" V oo_pvcs "\<lambda>m. oo_pvcs_update (\<lambda>_. m)" pvc_Meta
    "\<lambda>c. owned_meta (pvc_Meta c)" G "mutatePVC G" blankPVC "\<lambda>_. True"
  by unfold_locales (auto simp: mutate_defs blank_defs split: sum.splits)

sublocale owned_ops \<subseteq> np_op: owned_mutation "o_netpols K" V oo_netpols "\<lambda>m. oo_netpols_update (\<lambda>_. m)" np_Meta
    "\<lambda>n. (owned_meta (np_Meta n), np_Spec n)" G "mutateNetworkPolicy G" blankNetworkPolicy "\<lambda>_. True"
  by unfold_locales (auto simp: mutate_defs blank_defs split: sum.splits)

sublocale owned_ops \<subseteq> ing_op: owned_mutation "o_ingresses K" V oo_ingresses "\<lambda>m. oo_ingresses_update (\<lambda>_. m)" ing_Meta
    "\<lambda>i. (owned_meta (ing_Meta i), ing_Spec i)" G "mutateIngress G" blankIngress "\<lambda>_. True"
  by unfold_locales (auto simp: mutate_defs blank_defs split: sum.splits)

sublocale owned_ops \<subseteq> sa_op: owned_mutation "o_serviceaccounts K" V oo_serviceaccounts "\<lambda>m. oo_serviceaccounts_update (\<lambda>_. m)" sa_Meta
    "\<lambda>s. owned_meta (sa_Meta s)" G "mutateServiceAccount G" blankServiceAccount "\<lambda>_. True"
  by unfold_locales (auto simp: mutate_defs blank_defs split: sum.splits)

sublocale owned_ops \<subseteq> role_op: owned_mutation "o_roles K" V oo_roles "\<lambda>m. oo_roles_update (\<lambda>_. m)" role_Meta
    "\<lambda>r. (owned_meta (role_Meta r), role_Rules r)" G "mutateRole G" blankRole "\<lambda>_. True"
  by unfold_locales (auto simp: mutate_defs blank_defs split: sum.splits)

sublocale owned_ops \<subseteq> rb_op: owned_mutation "o_rolebindings K" V oo_rolebindings "\<lambda>m. oo_rolebindings_update (\<lambda>_. m)" rb_Meta
    "\<lambda>r. (owned_meta (rb_Meta r), rb_RoleRef r, rb_Subjects r)" G "mutateRoleBinding G" blankRoleBinding "\<lambda>_. True"
  by unfold_locales (auto simp: mutate_defs blank_defs split: sum.splits)

lemma wrapped_None [simp]: "wrapped what m r = (w', None) \<longleftrightarrow> r = (w', None)"
  by (auto simp: wrapped_def split: prod.splits option.splits)

lemma wrapped_Some: "wrapped what m r = (w', Some e) \<Longrightarrow> \<exists>e'. r = (w', Some e')"
  by (auto simp: wrapped_def split: prod.splits option.splits)

lemma wrapped_same: "wrapped what m r = (w', x) \<Longrightarrow> \<exists>x'. r = (w', x') \<and> (x' = None \<longleftrightarrow> x = None)"
  by (auto simp: wrapped_def split: prod.splits option.splits)

lemmas reconcile_defs = reconcileService_def reconcileConfigMap_def reconcilePVC_def reconcileNetworkPolicy_def
  reconcileIngress_def reconcileServiceAccount_def reconcileRole_def reconcileRoleBinding_def

text \<open>The desired objects for which reconciling again changes nothing: the operator sets no Service type.\<close>

fun settles :: "owned_object \<Rightarrow> bool" where
  "settles (OService d) \<longleftrightarrow> svc_Type d = []"
| "settles _ \<longleftrightarrow> True"

context owned_ops
begin

lemma reconcile_stores:
  assumes "reconcileOwnedResource K G w owner x = (w', None)"
  shows "stored_ok (V w') owner x \<and> others_kept (V w) (V w') x"
proof (cases x)
  case (ODeployment d)
  then obtain m where m: "gl_set_owner G owner (dep_Meta d) = Inr m"
      and a: "o_apply_deployment K w (d\<lparr>dep_Meta := m\<rparr>) = (w', None)"
    using assms by (auto simp: reconcileDeploymentSSA_def split: sum.splits)
  have m': "m = (dep_Meta d)\<lparr>om_Controller := Some (om_UID owner)\<rparr>" using set_owner_ok[OF m] by simp
  then have "meta_key m = meta_key (dep_Meta d)" by (simp add: meta_key_def)
  with apply_ok[OF a] ODeployment m' show ?thesis by (auto intro!: others_keptI)
qed (use assms in \<open>auto simp: reconcile_defs mutate_defs intro!: others_keptI split: sum.splits
    dest!: svc_op.stores cm_op.stores pvc_op.stores np_op.stores ing_op.stores sa_op.stores role_op.stores rb_op.stores\<close>)

lemma reconcile_err:
  assumes "reconcileOwnedResource K G w owner x = (w', Some e)"
  shows "V w' = V w"
  using assms
  by (cases x)
    (auto simp: reconcile_defs reconcileDeploymentSSA_def split: sum.splits dest!: wrapped_Some
      dest: apply_err svc.cou_err cm.cou_err pvc.cou_err np.cou_err ing.cou_err sa.cou_err role.cou_err rb.cou_err)

lemma reconcile_idem:
  assumes "reconcileOwnedResource K G w owner x = (w', None)" "settles x" "reconcileOwnedResource K G w' owner x = (w2, r)"
  shows "V w2 = V w'"
  using assms
  by (cases x)
    (auto simp: reconcile_defs reconcileDeploymentSSA_def split: sum.splits dest!: wrapped_same
      dest: apply_again svc_op.idempotent cm_op.idempotent[OF TrueI] pvc_op.idempotent[OF TrueI] np_op.idempotent[OF TrueI]
        ing_op.idempotent[OF TrueI] sa_op.idempotent[OF TrueI] role_op.idempotent[OF TrueI] rb_op.idempotent[OF TrueI])

lemma reconcile_foreign:
  assumes r: "reconcileOwnedResource K G w owner x = (w', r)"
    and m: "stored_meta (V w) (obj_kind x) (meta_key (obj_meta x)) = Some m" "om_Controller m = Some c" "c \<noteq> om_UID owner"
  shows "r \<noteq> None \<and> V w' = V w"
proof (cases r)
  case None
  have False
  proof (cases x)
    case (ODeployment d)
    then obtain m2 old where d: "gl_set_owner G owner (dep_Meta d) = Inr m2" "o_apply_deployment K w (d\<lparr>dep_Meta := m2\<rparr>) = (w', None)"
        "oo_deployments (V w) (meta_key (dep_Meta d)) = Some old" "dep_Meta old = m"
      using r m None by (auto simp: reconcileDeploymentSSA_def split: sum.splits)
    have "m2 = (dep_Meta d)\<lparr>om_Controller := Some (om_UID owner)\<rparr>" using set_owner_ok[OF d(1)] by simp
    then show False using apply_ok[OF d(2)] d(3,4) m by (auto simp: meta_key_def)
  qed (use r m None in \<open>auto simp: reconcile_defs dest: svc_op.foreign cm_op.foreign pvc_op.foreign np_op.foreign
      ing_op.foreign sa_op.foreign role_op.foreign rb_op.foreign\<close>)
  then show ?thesis ..
next
  case (Some e)
  then show ?thesis using r reconcile_err by simp
qed

text \<open>A list of objects with different kinds or keys.\<close>

lemma reconcileAll_Cons:
  assumes "reconcileAll K G w owner (y # ys) = (w', None)"
  obtains w1 where "reconcileOwnedResource K G w owner y = (w1, None)" "reconcileAll K G w1 owner ys = (w', None)"
  using assms by (auto split: prod.splits option.splits)

lemma reconcileAll_keeps:
  assumes "reconcileAll K G w owner ys = (w', None)" "obj_ref x \<notin> obj_ref ` set ys" "stored_ok (V w) own x"
  shows "stored_ok (V w') own x"
  using assms
proof (induction ys arbitrary: w)
  case (Cons z zs)
  obtain w2 where z: "reconcileOwnedResource K G w owner z = (w2, None)" and zs: "reconcileAll K G w2 owner zs = (w', None)"
    using Cons.prems(1) by (rule reconcileAll_Cons)
  have "stored_ok (V w2) own x"
    using reconcile_stores[OF z] Cons.prems(2,3) unfolding others_kept_def by auto
  then show ?case using Cons.IH[OF zs] Cons.prems(2) by simp
qed simp

lemma reconcileAll_stores:
  assumes "reconcileAll K G w owner xs = (w', None)" "distinct (map obj_ref xs)" "x \<in> set xs"
  shows "stored_ok (V w') owner x"
  using assms
proof (induction xs arbitrary: w)
  case (Cons y ys)
  obtain w1 where y: "reconcileOwnedResource K G w owner y = (w1, None)" and ys: "reconcileAll K G w1 owner ys = (w', None)"
    using Cons.prems(1) by (rule reconcileAll_Cons)
  show ?case
  proof (cases "x = y")
    case True
    then show ?thesis using reconcileAll_keeps[OF ys] reconcile_stores[OF y] Cons.prems(2) by simp
  qed (use Cons ys in auto)
qed simp

end

end
