(* ===== verification/Owned_Store.thy ===== *)
theory Owned_Store
  imports Owned_Laws Kube_Store
begin

text \<open>
  An in-memory API server for the owned objects. It interprets the locales of \<open>Owned_Laws\<close>, and
  the properties of the reconciliation of owned objects are stated over them.
\<close>

section \<open>One kind\<close>

text \<open>Only objects with their own key and a creation time can be seen.\<close>

definition seen :: "('o \<Rightarrow> ObjectMeta) \<Rightarrow> (nsname \<rightharpoonup> 'o) \<Rightarrow> nsname \<rightharpoonup> 'o" where
  "seen meta m k = (case m k of None \<Rightarrow> None
     | Some x \<Rightarrow> if meta_key (meta x) = k \<and> om_CreationTimestamp (meta x) \<noteq> 0 then Some x else None)"

lemma seen_upd: "\<lbrakk>meta_key (meta x) = k; om_CreationTimestamp (meta x) \<noteq> 0\<rbrakk> \<Longrightarrow> seen meta (m(k \<mapsto> x)) = (seen meta m)(k \<mapsto> x)"
  by (auto simp: seen_def fun_eq_iff)

lemma seen_Some: "seen meta m k = Some x \<Longrightarrow> meta_key (meta x) = k \<and> om_CreationTimestamp (meta x) \<noteq> 0"
  by (auto simp: seen_def split: option.splits if_splits)

text \<open>
  \<^verbatim>\<open>CreateOrUpdate\<close>: the mutation may not change the key, and an object that it leaves alone is
  not written. \<open>stamp\<close> sets the creation time.
\<close>

definition mem_cou :: "('o \<Rightarrow> ObjectMeta) \<Rightarrow> ('o \<Rightarrow> 'o) \<Rightarrow> ('w \<Rightarrow> nsname \<rightharpoonup> 'o) \<Rightarrow> ((nsname \<rightharpoonup> 'o) \<Rightarrow> 'w \<Rightarrow> 'w) \<Rightarrow> ('w, 'o) owned_client" where
  "mem_cou meta stamp sel upd = \<lparr>oc_create_or_update = (\<lambda>w b f.
     (let k = meta_key (meta b); cur = seen meta (sel w) k in
      case f (case cur of None \<Rightarrow> b | Some old \<Rightarrow> old) of
        Inl e \<Rightarrow> (w, Some e)
      | Inr x \<Rightarrow>
          if cur = Some x then (w, None)
          else if meta_key (meta x) \<noteq> k then (w, Some (ApiError ''MutateFn cannot mutate object name and/or object namespace''))
          else (upd ((sel w)(k \<mapsto> if om_CreationTimestamp (meta x) = 0 then stamp x else x)) w, None)))\<rparr>"

lemma mem_owned_kind:
  assumes get_put: "\<And>m s. get (put m s) = m" and put_get: "\<And>s. put (get s) s = s"
    and get_V: "\<And>w. get (V w) = seen meta (sel w)" and V_upd: "\<And>m w. V (upd m w) = put (seen meta m) (V w)"
    and stamp: "\<And>x. meta (stamp x) = (meta x)\<lparr>om_CreationTimestamp := 1\<rparr>" "\<And>x. view (stamp x) = view x"
  shows "owned_kind (mem_cou meta stamp sel upd) V get put meta view"
proof
  let ?C = "mem_cou meta stamp sel upd"
  show "get (put m s) = m" "put (get s) s = s" for m s by (rule get_put put_get)+
  show "get (V w) k = Some x \<Longrightarrow> meta_key (meta x) = k \<and> om_CreationTimestamp (meta x) \<noteq> 0" for w k x
    by (simp add: get_V seen_Some)
  show "\<exists>x y. f (case get (V w) (meta_key (meta b)) of None \<Rightarrow> b | Some old \<Rightarrow> old) = Inr x \<and> view y = view x \<and>
      V w' = put ((get (V w))(meta_key (meta b) \<mapsto> y)) (V w)"
    if r: "oc_create_or_update ?C w b f = (w', None)" for w b f w'
  proof -
    let ?k = "meta_key (meta b)"
    obtain x where x: "f (case get (V w) ?k of None \<Rightarrow> b | Some old \<Rightarrow> old) = Inr x"
      using r by (auto simp: mem_cou_def Let_def get_V split: sum.splits)
    show ?thesis
    proof (cases "get (V w) ?k = Some x")
      case True
      then have "w' = w" using r x by (simp add: mem_cou_def Let_def get_V)
      then show ?thesis using True x by (intro exI[of _ x]) (simp add: map_upd_triv put_get)
    next
      case False
      let ?y = "if om_CreationTimestamp (meta x) = 0 then stamp x else x"
      have k: "meta_key (meta x) = ?k" and w': "w' = upd ((sel w)(?k \<mapsto> ?y)) w"
        using r x False by (auto simp: mem_cou_def Let_def get_V split: if_splits)
      have "meta_key (meta ?y) = ?k" "om_CreationTimestamp (meta ?y) \<noteq> 0" "view ?y = view x"
        using k by (simp_all add: stamp meta_key_def)
      then show ?thesis using x w' by (intro exI[of _ x] exI[of _ ?y]) (simp add: V_upd get_V seen_upd)
    qed
  qed
  show "oc_create_or_update ?C w b f = (w', r) \<Longrightarrow> get (V w) (meta_key (meta b)) = Some old \<Longrightarrow> f old = Inr old \<Longrightarrow> V w' = V w"
    for w b f w' r old by (simp add: mem_cou_def Let_def get_V)
  show "oc_create_or_update ?C w b f = (w', Some e) \<Longrightarrow> V w' = V w" for w b f w' e
    by (auto simp: mem_cou_def Let_def split: sum.splits if_splits)
  show "oc_create_or_update ?C w b f = (w', r) \<Longrightarrow> get (V w) (meta_key (meta b)) = Some old \<Longrightarrow> f old = Inl e \<Longrightarrow> r \<noteq> None"
    for w b f w' r old e by (auto simp: mem_cou_def Let_def get_V)
qed

section \<open>The server\<close>

record mem_world =
  mw_now :: time
  mw_objects :: owned_objects
  mw_agents :: "Agent list"
  mw_channels :: "Channel list"
  mw_integrations :: "Integration list"
  mw_providers :: "Provider list"

definition mem_view :: "mem_world \<Rightarrow> owned_objects" where
  "mem_view w = (let s = mw_objects w in
     \<lparr>oo_deployments = seen dep_Meta (oo_deployments s), oo_services = seen svc_Meta (oo_services s),
      oo_configmaps = seen cm_Meta (oo_configmaps s), oo_pvcs = seen pvc_Meta (oo_pvcs s),
      oo_netpols = seen np_Meta (oo_netpols s), oo_ingresses = seen ing_Meta (oo_ingresses s),
      oo_serviceaccounts = seen sa_Meta (oo_serviceaccounts s), oo_roles = seen role_Meta (oo_roles s),
      oo_rolebindings = seen rb_Meta (oo_rolebindings s)\<rparr>)"

text \<open>Apply replaces the Deployment and keeps the labels that others have set.\<close>

definition mem_apply :: "mem_world \<Rightarrow> Deployment \<Rightarrow> mem_world \<times> apierr option" where
  "mem_apply w d =
     (let k = meta_key (dep_Meta d); s = mw_objects w; old = seen dep_Meta (oo_deployments s) k;
          m = dep_Meta d;
          y = (case old of
                 None \<Rightarrow> d\<lparr>dep_Meta := m\<lparr>om_CreationTimestamp := 1\<rparr>\<rparr>
               | Some o1 \<Rightarrow> d\<lparr>dep_Meta := m\<lparr>om_CreationTimestamp := om_CreationTimestamp (dep_Meta o1),
                   om_Labels := om_Labels (dep_Meta o1) ++ om_Labels m\<rparr>, dep_ReadyReplicas := dep_ReadyReplicas o1\<rparr>)
      in if (case old of None \<Rightarrow> False | Some o1 \<Rightarrow> om_Controller (dep_Meta o1) \<noteq> None \<and> om_Controller (dep_Meta o1) \<noteq> om_Controller m)
         then (w, Some (ApiError ''Only one reference can have Controller set to true''))
         else (w\<lparr>mw_objects := s\<lparr>oo_deployments := (oo_deployments s)(k \<mapsto> y)\<rparr>\<rparr>, None))"

abbreviation stamped :: "ObjectMeta \<Rightarrow> ObjectMeta" where
  "stamped m \<equiv> m\<lparr>om_CreationTimestamp := 1\<rparr>"

definition mem_owned :: "mem_world owned_kube" where
  "mem_owned =
     \<lparr>o_services = mem_cou svc_Meta (svc_Meta_update stamped) (oo_services \<circ> mw_objects) (\<lambda>m. mw_objects_update (oo_services_update (\<lambda>_. m))),
      o_configmaps = mem_cou cm_Meta (cm_Meta_update stamped) (oo_configmaps \<circ> mw_objects) (\<lambda>m. mw_objects_update (oo_configmaps_update (\<lambda>_. m))),
      o_pvcs = mem_cou pvc_Meta (pvc_Meta_update stamped) (oo_pvcs \<circ> mw_objects) (\<lambda>m. mw_objects_update (oo_pvcs_update (\<lambda>_. m))),
      o_netpols = mem_cou np_Meta (np_Meta_update stamped) (oo_netpols \<circ> mw_objects) (\<lambda>m. mw_objects_update (oo_netpols_update (\<lambda>_. m))),
      o_ingresses = mem_cou ing_Meta (ing_Meta_update stamped) (oo_ingresses \<circ> mw_objects) (\<lambda>m. mw_objects_update (oo_ingresses_update (\<lambda>_. m))),
      o_serviceaccounts = mem_cou sa_Meta (sa_Meta_update stamped) (oo_serviceaccounts \<circ> mw_objects) (\<lambda>m. mw_objects_update (oo_serviceaccounts_update (\<lambda>_. m))),
      o_roles = mem_cou role_Meta (role_Meta_update stamped) (oo_roles \<circ> mw_objects) (\<lambda>m. mw_objects_update (oo_roles_update (\<lambda>_. m))),
      o_rolebindings = mem_cou rb_Meta (rb_Meta_update stamped) (oo_rolebindings \<circ> mw_objects) (\<lambda>m. mw_objects_update (oo_rolebindings_update (\<lambda>_. m))),
      o_apply_deployment = mem_apply\<rparr>"

interpretation std_owner: owner_laws std_golib
  by unfold_locales (auto simp: std_golib_def std_set_owner_def split: if_splits)

lemma mem_apply_ok:
  assumes "mem_apply w d = (w', None)"
  shows "\<exists>y. mem_view w' = (mem_view w)\<lparr>oo_deployments := (oo_deployments (mem_view w))(meta_key (dep_Meta d) \<mapsto> y)\<rparr> \<and>
    applied d y \<and> (\<forall>old c. oo_deployments (mem_view w) (meta_key (dep_Meta d)) = Some old \<longrightarrow> om_Controller (dep_Meta old) = Some c \<longrightarrow>
      om_Controller (dep_Meta d) = Some c)"
proof (cases "seen dep_Meta (oo_deployments (mw_objects w)) (meta_key (dep_Meta d))")
  case None
  then show ?thesis using assms
    by (auto simp: mem_apply_def Let_def mem_view_def seen_upd meta_key_def applied_def intro!: exI)
next
  case (Some o1)
  then show ?thesis using assms seen_Some[OF Some]
    by (auto simp: mem_apply_def Let_def mem_view_def seen_upd meta_key_def applied_def map_le_map_add split: if_splits intro!: exI)
qed

lemma map_add_self: "m ++ m = m"
  by (rule ext) (simp add: map_add_def split: option.split)

lemma mem_apply_again:
  assumes "mem_apply w d = (w', None)" "mem_apply w' d = (w2, r)"
  shows "mem_view w2 = mem_view w'"
proof (cases "seen dep_Meta (oo_deployments (mw_objects w)) (meta_key (dep_Meta d))")
  case None
  then show ?thesis using assms
    by (auto simp: mem_apply_def Let_def mem_view_def seen_upd meta_key_def seen_def map_add_self)
next
  case (Some o1)
  then show ?thesis using assms seen_Some[OF Some]
    by (auto simp: mem_apply_def Let_def mem_view_def seen_upd meta_key_def seen_def map_add_absorb split: if_splits)
qed

lemma mem_owned_sel:
  "o_services mem_owned = mem_cou svc_Meta (svc_Meta_update stamped) (oo_services \<circ> mw_objects) (\<lambda>m. mw_objects_update (oo_services_update (\<lambda>_. m)))"
  "o_configmaps mem_owned = mem_cou cm_Meta (cm_Meta_update stamped) (oo_configmaps \<circ> mw_objects) (\<lambda>m. mw_objects_update (oo_configmaps_update (\<lambda>_. m)))"
  "o_pvcs mem_owned = mem_cou pvc_Meta (pvc_Meta_update stamped) (oo_pvcs \<circ> mw_objects) (\<lambda>m. mw_objects_update (oo_pvcs_update (\<lambda>_. m)))"
  "o_netpols mem_owned = mem_cou np_Meta (np_Meta_update stamped) (oo_netpols \<circ> mw_objects) (\<lambda>m. mw_objects_update (oo_netpols_update (\<lambda>_. m)))"
  "o_ingresses mem_owned = mem_cou ing_Meta (ing_Meta_update stamped) (oo_ingresses \<circ> mw_objects) (\<lambda>m. mw_objects_update (oo_ingresses_update (\<lambda>_. m)))"
  "o_serviceaccounts mem_owned = mem_cou sa_Meta (sa_Meta_update stamped) (oo_serviceaccounts \<circ> mw_objects) (\<lambda>m. mw_objects_update (oo_serviceaccounts_update (\<lambda>_. m)))"
  "o_roles mem_owned = mem_cou role_Meta (role_Meta_update stamped) (oo_roles \<circ> mw_objects) (\<lambda>m. mw_objects_update (oo_roles_update (\<lambda>_. m)))"
  "o_rolebindings mem_owned = mem_cou rb_Meta (rb_Meta_update stamped) (oo_rolebindings \<circ> mw_objects) (\<lambda>m. mw_objects_update (oo_rolebindings_update (\<lambda>_. m)))"
  "o_apply_deployment mem_owned = mem_apply"
  by (simp_all add: mem_owned_def)

interpretation mem: owned_server mem_owned mem_view
proof (intro owned_server.intro owned_server_axioms.intro)
  show "\<exists>y. mem_view w' = (mem_view w)\<lparr>oo_deployments := (oo_deployments (mem_view w))(meta_key (dep_Meta d) \<mapsto> y)\<rparr> \<and>
      applied d y \<and> (\<forall>old c. oo_deployments (mem_view w) (meta_key (dep_Meta d)) = Some old \<longrightarrow> om_Controller (dep_Meta old) = Some c \<longrightarrow>
        om_Controller (dep_Meta d) = Some c)"
    if "o_apply_deployment mem_owned w d = (w', None)" for w d w'
    using mem_apply_ok that unfolding mem_owned_sel by blast
  show "mem_view w2 = mem_view w'"
    if "o_apply_deployment mem_owned w d = (w', None)" "o_apply_deployment mem_owned w' d = (w2, r)" for w d w' w2 r
    using mem_apply_again that unfolding mem_owned_sel by blast
  show "mem_view w' = mem_view w" if "o_apply_deployment mem_owned w d = (w', Some e)" for w d w' e
    using that by (auto simp: mem_owned_sel mem_apply_def Let_def split: if_splits)
qed (unfold mem_owned_sel; rule mem_owned_kind; simp add: mem_view_def Let_def owned_meta_def)+

interpretation mem_ops: owned_ops mem_owned mem_view std_golib
  by unfold_locales

section \<open>New objects\<close>

text \<open>On this server an object that is not there yet is created without an error.\<close>

lemma mem_new_configmap:
  assumes "oo_configmaps (mw_objects w) (meta_key (cm_Meta d)) = None" "om_Namespace (cm_Meta d) = om_Namespace owner"
  shows "\<exists>m. reconcileConfigMap mem_owned std_golib w owner d = (mw_objects_update (oo_configmaps_update (\<lambda>_. m)) w, None)"
  using assms
  by (simp add: reconcileConfigMap_def mem_owned_sel mem_cou_def Let_def seen_def mutateConfigMap_def blankConfigMap_def blank_meta_def
      new_meta_def meta_key_def adopt_def std_golib_def std_set_owner_def, blast?)

lemma mem_new_service:
  assumes "oo_services (mw_objects w) (meta_key (svc_Meta d)) = None" "om_Namespace (svc_Meta d) = om_Namespace owner"
  shows "\<exists>m. reconcileService mem_owned std_golib w owner d = (mw_objects_update (oo_services_update (\<lambda>_. m)) w, None)"
  using assms
  by (simp add: reconcileService_def mem_owned_sel mem_cou_def Let_def seen_def mutateService_def blankService_def blank_meta_def
      new_meta_def meta_key_def adopt_def std_golib_def std_set_owner_def, blast?)

lemma mem_new_serviceaccount:
  assumes "oo_serviceaccounts (mw_objects w) (meta_key (sa_Meta d)) = None" "om_Namespace (sa_Meta d) = om_Namespace owner"
  shows "\<exists>m. reconcileServiceAccount mem_owned std_golib w owner d = (mw_objects_update (oo_serviceaccounts_update (\<lambda>_. m)) w, None)"
  using assms
  by (simp add: reconcileServiceAccount_def mem_owned_sel mem_cou_def Let_def seen_def mutateServiceAccount_def blankServiceAccount_def
      blank_meta_def new_meta_def meta_key_def adopt_def std_golib_def std_set_owner_def, blast?)

lemma mem_new_role:
  assumes "oo_roles (mw_objects w) (meta_key (role_Meta d)) = None" "om_Namespace (role_Meta d) = om_Namespace owner"
  shows "\<exists>m. reconcileRole mem_owned std_golib w owner d = (mw_objects_update (oo_roles_update (\<lambda>_. m)) w, None)"
  using assms
  by (simp add: reconcileRole_def mem_owned_sel mem_cou_def Let_def seen_def mutateRole_def blankRole_def blank_meta_def
      new_meta_def meta_key_def adopt_def std_golib_def std_set_owner_def, blast?)

lemma mem_new_rolebinding:
  assumes "oo_rolebindings (mw_objects w) (meta_key (rb_Meta d)) = None" "om_Namespace (rb_Meta d) = om_Namespace owner"
  shows "\<exists>m. reconcileRoleBinding mem_owned std_golib w owner d = (mw_objects_update (oo_rolebindings_update (\<lambda>_. m)) w, None)"
  using assms
  by (simp add: reconcileRoleBinding_def mem_owned_sel mem_cou_def Let_def seen_def mutateRoleBinding_def blankRoleBinding_def blank_meta_def
      new_meta_def meta_key_def adopt_def std_golib_def std_set_owner_def, blast?)

lemma mem_new_deployment:
  assumes "oo_deployments (mw_objects w) (meta_key (dep_Meta d)) = None" "om_Namespace (dep_Meta d) = om_Namespace owner"
    "om_Controller (dep_Meta d) = None"
  shows "\<exists>m. reconcileDeploymentSSA mem_owned std_golib w owner d = (w\<lparr>mw_objects := (mw_objects w)\<lparr>oo_deployments := m\<rparr>\<rparr>, None)"
  using assms
  by (simp add: reconcileDeploymentSSA_def mem_owned_sel mem_apply_def Let_def seen_def meta_key_def std_golib_def std_set_owner_def) blast

section \<open>Properties\<close>


text \<open>
  C19: an object that another controller owns is refused with an error and stays as it is, for
  every kind of object.
\<close>

theorem foreign_object_refused:
  assumes "owned_server K V" "owner_laws G" "reconcileOwnedResource K G w owner x = (w', r)"
    and "stored_meta (V w) (obj_kind x) (meta_key (obj_meta x)) = Some m" "om_Controller m = Some c" "c \<noteq> om_UID owner"
  shows "r \<noteq> None \<and> V w' = V w"
  by (rule owned_ops.reconcile_foreign[OF owned_ops.intro[OF assms(1,2)] assms(3-6)])

section \<open>Witnesses\<close>

definition no_objects :: owned_objects where
  "no_objects = \<lparr>oo_deployments = Map.empty, oo_services = Map.empty, oo_configmaps = Map.empty, oo_pvcs = Map.empty,
     oo_netpols = Map.empty, oo_ingresses = Map.empty, oo_serviceaccounts = Map.empty, oo_roles = Map.empty, oo_rolebindings = Map.empty\<rparr>"

definition empty_world :: mem_world where
  "empty_world = \<lparr>mw_now = 7, mw_objects = no_objects, mw_agents = [], mw_channels = [], mw_integrations = [], mw_providers = []\<rparr>"

definition ex_owner :: ObjectMeta where
  "ex_owner = (new_meta ''a'' ''ns'' Map.empty)\<lparr>om_UID := ''u1''\<rparr>"

definition ex_service :: Service where
  "ex_service = \<lparr>svc_Meta = new_meta ''a'' ''ns'' [''app'' \<mapsto> ''a''], svc_Selector = [''app'' \<mapsto> ''a''], svc_Ports = [http_port 8080], svc_Type = []\<rparr>"

definition foreign_world :: mem_world where
  "foreign_world = empty_world\<lparr>mw_objects := no_objects\<lparr>oo_services := [(''ns'', ''a'') \<mapsto>
     ex_service\<lparr>svc_Meta := (svc_Meta ex_service)\<lparr>om_CreationTimestamp := 3, om_Controller := Some ''u2''\<rparr>\<rparr>]\<rparr>\<rparr>"

lemmas ex_world_defs = no_objects_def empty_world_def ex_owner_def ex_service_def foreign_world_def new_meta_def


theorem foreign_object_refused_witness:
  "\<exists>w' r. reconcileOwnedResource mem_owned std_golib foreign_world ex_owner (OService ex_service) = (w', r) \<and>
     r \<noteq> None \<and> mem_view w' = mem_view foreign_world"
proof -
  obtain w' r where r: "reconcileOwnedResource mem_owned std_golib foreign_world ex_owner (OService ex_service) = (w', r)"
    by (metis surj_pair)
  have m: "stored_meta (mem_view foreign_world) (obj_kind (OService ex_service)) (meta_key (obj_meta (OService ex_service))) =
      Some ((svc_Meta ex_service)\<lparr>om_CreationTimestamp := 3, om_Controller := Some ''u2''\<rparr>)"
    by (simp add: mem_view_def seen_def meta_key_def ex_world_defs)
  from foreign_object_refused[OF mem.owned_server_axioms std_owner.owner_laws_axioms r m, of "''u2''"] r
  show ?thesis by (simp add: ex_owner_def)
qed

end
