(* ===== verification/Agent_Properties.thy ===== *)
theory Agent_Properties
  imports Agent_Controller Owned_Store
begin

text \<open>
  Properties of the Agent controller of \<open>Agent_Controller\<close>: references gate what is written, and a
  reconcile of a daemon that is done leaves all its objects in place and wired to each other.
\<close>

section \<open>Lemmas\<close>

text \<open>What the two loops establish: every reference of the agent exists and is Ready.\<close>

definition refs_ready :: "'w agent_kube \<Rightarrow> 'w \<Rightarrow> Agent \<Rightarrow> bool" where
  "refs_ready K w agent \<longleftrightarrow>
     (\<forall>b \<in> set (as_Integrations (ag_Spec agent)). \<exists>i. ka_integrations K w (om_Namespace (ag_Meta agent), ib_Name b) = Inr i \<and>
        ist_Phase (int_Status i) = IntegrationPhaseReady) \<and>
     (\<forall>b \<in> set (as_ProviderRefs (ag_Spec agent)). \<exists>p. ka_providers K w (om_Namespace (ag_Meta agent), pb_Name b) = Inr p \<and>
        pst_Phase (prov_Status p) = ProviderPhaseReady)"

lemma resolve_refs_Inr: "resolve_refs get what ns = Inr xs \<Longrightarrow> list_all2 (\<lambda>n x. get n = Inr x) ns xs"
  by (induction ns arbitrary: xs) (auto simp: list_all2_Cons1 split: sum.splits)

lemma validateIntegrationsReady_None:
  "validateIntegrationsReady xs = None \<longleftrightarrow> (\<forall>x \<in> set xs. ist_Phase (int_Status x) = IntegrationPhaseReady)"
  by (induction xs) auto

lemma validateProvidersReady_None:
  "validateProvidersReady xs = None \<longleftrightarrow> (\<forall>x \<in> set xs. pst_Phase (prov_Status x) = ProviderPhaseReady)"
  by (induction xs) auto

lemma resolved_ready:
  assumes "resolve_refs get what (map f bs) = Inr xs" "\<forall>x \<in> set xs. P x" "b \<in> set bs"
  shows "\<exists>x. get (f b) = Inr x \<and> P x"
  using resolve_refs_Inr[OF assms(1)] assms(2,3) by (auto simp: list_all2_conv_all_nth in_set_conv_nth) (metis nth_mem)

text \<open>Status patches of agents do not touch the owned objects.\<close>

definition agents_apart :: "'w agent_kube \<Rightarrow> ('w \<Rightarrow> owned_objects) \<Rightarrow> bool" where
  "agents_apart K V \<longleftrightarrow> (\<forall>w base x. V (fst (c_patch_status (ka_agents K) w base x)) = V w)"

lemma patch_apart: "\<lbrakk>agents_apart K V; patchObjStatus (ka_agents K) w x base = (w', r)\<rbrakk> \<Longrightarrow> V w' = V w"
  unfolding agents_apart_def patchObjStatus_def by (auto split: sum.splits if_splits) (metis fst_conv)

lemma patch_then_apart: "\<lbrakk>agents_apart K V; patch_then K w a base r = (w', r')\<rbrakk> \<Longrightarrow> V w' = V w"
  by (auto simp: patch_then_def split: prod.splits option.splits dest: patch_apart)

lemma patch_then_Inr: "patch_then K w a base r = (w', Inr x) \<Longrightarrow> r = Inr x"
  by (auto simp: patch_then_def split: prod.splits option.splits)

lemma agent_cond_sel [simp]:
  "ag_Meta (agent_cond G t c agent) = ag_Meta agent" "ag_Spec (agent_cond G t c agent) = ag_Spec agent"
  by (simp_all add: agent_cond_def)

text \<open>The agent that reaches the builders: only its conditions have changed.\<close>

definition prepared :: "golib \<Rightarrow> time \<Rightarrow> Provider list \<Rightarrow> Agent \<Rightarrow> Agent" where
  "prepared G t provs agent =
     (let agent = agent_cond G t (providers_cond ConditionTrue ''Configured'' (nat_str (length provs) @ '' providers registered'')) agent
      in agent\<lparr>ag_Status := (ag_Status agent)\<lparr>ast_Conditions :=
           setSecurityPolicyViolationsCondition G t (ast_Conditions (ag_Status agent))
             (ComputeSecurityViolations (as_Security (ag_Spec agent)))\<rparr>\<rparr>)"

lemma prepared_sel [simp]:
  "ag_Meta (prepared G t provs agent) = ag_Meta agent" "ag_Spec (prepared G t provs agent) = ag_Spec agent"
  by (simp_all add: prepared_def Let_def)

lemma reconcileProviders_cases:
  assumes "reconcileProviders K G infra w agent ints base = (w', r)"
  obtains (unready) a where "patch_then K w a base (Inr requeue_result) = (w', r)"
  | (mode) e where "w' = w" "r = Inl e"
  | (daemon) provs where "resolveProviders K w agent = Inr provs" "validateProvidersReady provs = None"
      "as_Mode (ag_Spec agent) = AgentModeDaemon"
      "(case reconcileDaemon K G infra w (prepared G (ka_now K w) provs agent) ints provs of
          (w1, a, Inl e) \<Rightarrow> (w1, Inl e) | (w1, a, Inr res) \<Rightarrow> patch_then K w1 a base (Inr res)) = (w', r)"
  | (task) provs where "resolveProviders K w agent = Inr provs" "validateProvidersReady provs = None"
      "as_Mode (ag_Spec agent) = AgentModeTask"
      "(case reconcileTask K G w (prepared G (ka_now K w) provs agent) ints provs of
          (w1, a, Inl e) \<Rightarrow> (w1, Inl e) | (w1, a, Inr res) \<Rightarrow> patch_then K w1 a base (Inr res)) = (w', r)"
proof (cases "resolveProviders K w agent")
  case (Inl e)
  then show ?thesis using assms unready by (simp add: reconcileProviders_def)
next
  case (Inr provs)
  show ?thesis
  proof (cases "validateProvidersReady provs")
    case None
    have spec: "as_Mode (ag_Spec (prepared G (ka_now K w) provs agent)) = as_Mode (ag_Spec agent)" by simp
    from assms Inr None mode daemon[OF Inr None] task[OF Inr None] show ?thesis
      unfolding reconcileProviders_def prepared_def Let_def
      by (auto split: if_splits)
  qed (use assms Inr unready in \<open>simp add: reconcileProviders_def\<close>)
qed

lemma reconcileReferences_cases:
  assumes "reconcileReferences K G infra w agent base = (w', r)"
  obtains (unready) a where "patch_then K w a base (Inr requeue_result) = (w', r)"
  | (ready) a ints where "resolveIntegrations K w agent = Inr ints" "validateIntegrationsReady ints = None"
      "ag_Meta a = ag_Meta agent" "ag_Spec a = ag_Spec agent" "reconcileProviders K G infra w a ints base = (w', r)"
proof (cases "resolveIntegrations K w agent")
  case (Inl e)
  then show ?thesis using assms unready by (simp add: reconcileReferences_def)
next
  case (Inr ints)
  show ?thesis
  proof (cases "validateIntegrationsReady ints")
    case None
    then show ?thesis
      using assms Inr by (intro ready[OF Inr None]) (auto simp: reconcileReferences_def)
  qed (use assms Inr unready in \<open>simp add: reconcileReferences_def\<close>)
qed

lemma references_ready:
  assumes "resolveIntegrations K w agent = Inr ints" "validateIntegrationsReady ints = None"
    and "resolveProviders K w agent = Inr provs" "validateProvidersReady provs = None"
  shows "refs_ready K w agent"
  using resolved_ready[OF assms(1)[unfolded resolveIntegrations_def] assms(2)[unfolded validateIntegrationsReady_None]]
    resolved_ready[OF assms(3)[unfolded resolveProviders_def] assms(4)[unfolded validateProvidersReady_None]]
  by (simp add: refs_ready_def)

lemma references_gated:
  assumes apart: "agents_apart K V" and r: "reconcileReferences K G infra w agent base = (w', r)" and "V w' \<noteq> V w"
  shows "refs_ready K w agent"
  using r
proof (cases rule: reconcileReferences_cases)
  case (ready a ints)
  have same: "resolveProviders K w a = resolveProviders K w agent" using ready(3,4) by (simp add: resolveProviders_def)
  from ready(5) show ?thesis
  proof (cases rule: reconcileProviders_cases)
    case (daemon provs)
    then show ?thesis using references_ready[OF ready(1,2)] same by simp
  next
    case (task provs)
    then show ?thesis using references_ready[OF ready(1,2)] same by simp
  qed (use assms patch_then_apart[OF apart] in auto)
qed (use assms patch_then_apart[OF apart] in auto)

section \<open>Daemons\<close>

definition rbac_objects :: "Agent \<Rightarrow> owned_object list" where
  "rbac_objects agent =
     (if as_ServiceAccountName (ag_Spec agent) = []
      then [OServiceAccount (BuildAgentServiceAccount agent), ORole (BuildAgentRole agent), ORoleBinding (BuildAgentRoleBinding agent)]
      else [])"

lemma rbac_step:
  "(if as_ServiceAccountName (ag_Spec agent) = [] then reconcileAgentRBAC K G w agent else (w, None)) =
     reconcileAll (ka_owned K) G w (ag_Meta agent) (rbac_objects agent)"
  by (simp add: reconcileAgentRBAC_def rbac_objects_def)

text \<open>The claim of an agent with storage.\<close>

definition storage_objects :: "(string \<Rightarrow> bool) \<Rightarrow> Agent \<Rightarrow> owned_object list" where
  "storage_objects quantity agent =
     (case as_Storage (ag_Spec agent) of None \<Rightarrow> []
      | Some st \<Rightarrow> (case BuildAgentPVC quantity agent st of None \<Rightarrow> [] | Some pvc \<Rightarrow> [OPVC pvc]))"

lemma storage_objects_cong:
  assumes "ag_Meta a = ag_Meta b" "ag_Spec a = ag_Spec b"
  shows "storage_objects q a = storage_objects q b"
proof -
  have "BuildAgentPVC q a = BuildAgentPVC q b" using assms(1) by (simp add: BuildAgentPVC_def Let_def fun_eq_iff)
  then show ?thesis by (simp only: storage_objects_def assms(2))
qed

lemma reconcileStorage_Inr:
  assumes "reconcileStorage K G w agent = (w', Inr a)"
  shows "reconcileAll (ka_owned K) G w (ag_Meta agent) (storage_objects (ka_quantity K) agent) = (w', None) \<and>
    ag_Meta a = ag_Meta agent \<and> ag_Spec a = ag_Spec agent"
  using assms by (auto simp: reconcileStorage_def storage_objects_def split: option.splits prod.splits)

lemma reconcileDaemon_Inr:
  assumes "reconcileDaemon K G infra w agent ints provs = (w', a, Inr res)"
  obtains w1 agent1 cm where "reconcileStorage K G w agent = (w1, Inr agent1)"
    "BuildAgentConfigMap (gl_codec G) agent1 ints provs = Inr cm"
    "reconcileAll (ka_owned K) G w1 (ag_Meta agent1) (daemon_objects agent1 ints provs infra cm) = (w', None)"
    "a = daemon_status G (ka_now K w') (observe_replicas K w' (shared_agent agent1))"
    "res = (if ast_Phase (ag_Status a) = AgentPhaseRunning then done_result else requeue_result)"
  using assms
  by (auto simp: reconcileDaemon_def Let_def split: prod.splits sum.splits option.splits if_splits)

lemma pending_not_running: "AgentPhasePending \<noteq> AgentPhaseRunning"
  by (simp add: const_defs)

lemma daemon_running:
  "ast_Phase (ag_Status (daemon_status G t a)) = AgentPhaseRunning \<longleftrightarrow> ast_ReadyReplicas (ag_Status a) > 0"
  by (simp add: daemon_status_def Let_def agent_cond_def pending_not_running)

lemma daemon_kinds:
  "obj_kind ` set (daemon_objects agent ints provs infra cm) \<subseteq> {KConfigMap, KDeployment, KService, KNetworkPolicy}"
  "distinct (map obj_ref (daemon_objects agent ints provs infra cm))"
  by (auto simp: daemon_objects_def obj_ref_def split: option.splits)

lemma rbac_kinds:
  "obj_kind ` set (rbac_objects agent) \<subseteq> {KServiceAccount, KRole, KRoleBinding}" "distinct (map obj_ref (rbac_objects agent))"
  by (auto simp: rbac_objects_def obj_ref_def)

lemma storage_kinds: "obj_kind ` set (storage_objects q agent) \<subseteq> {KPVC}" "distinct (map obj_ref (storage_objects q agent))"
  by (auto simp: storage_objects_def obj_ref_def split: option.splits)

lemma reconcileAll_append:
  "\<lbrakk>reconcileAll K G w owner xs = (w1, None); reconcileAll K G w1 owner ys = (w2, None)\<rbrakk> \<Longrightarrow>
     reconcileAll K G w owner (xs @ ys) = (w2, None)"
  by (induction xs arbitrary: w) (auto split: prod.splits option.splits)

lemma refs_disjoint:
  assumes "obj_kind ` set xs \<subseteq> A" "obj_kind ` set ys \<subseteq> B" "A \<inter> B = {}"
  shows "obj_ref ` set xs \<inter> obj_ref ` set ys = {}"
  using assms by (fastforce simp: obj_ref_def)

lemma agent_children_distinct:
  "distinct (map obj_ref (rbac_objects agent @ storage_objects q agent1 @ daemon_objects agent2 ints provs infra cm))"
  using refs_disjoint[OF rbac_kinds(1) storage_kinds(1)] refs_disjoint[OF rbac_kinds(1) daemon_kinds(1)]
    refs_disjoint[OF storage_kinds(1) daemon_kinds(1)] rbac_kinds(2) storage_kinds(2) daemon_kinds(2)
  by (simp add: Int_Un_distrib)

text \<open>The reconcile of an agent whose RBAC step succeeds and that ends without an error or a requeue.\<close>

lemma done_daemon:
  assumes r: "reconcileReferences K G infra w agent base = (w', Inr done_result)" and mode: "as_Mode (ag_Spec agent) = AgentModeDaemon"
    and apart: "agents_apart K V"
  obtains w1 a agent1 ints provs cm where "reconcileDaemon K G infra w agent1 ints provs = (w1, a, Inr done_result)"
    "ag_Meta agent1 = ag_Meta agent" "ag_Spec agent1 = ag_Spec agent" "V w' = V w1"
  using r
proof (cases rule: reconcileReferences_cases)
  case (unready a)
  then show ?thesis using patch_then_Inr by fastforce
next
  case (ready a ints)
  from ready(5) show ?thesis
  proof (cases rule: reconcileProviders_cases)
    case (unready x)
    then show ?thesis using patch_then_Inr by fastforce
  next
    case (daemon provs)
    let ?a = "prepared G (ka_now K w) provs a"
    obtain w1 a1 res where d: "reconcileDaemon K G infra w ?a ints provs = (w1, a1, Inr res)"
        and p: "patch_then K w1 a1 base (Inr res) = (w', Inr done_result)"
      using daemon(4) by (auto split: prod.splits sum.splits)
    have "res = done_result" "V w' = V w1" using patch_then_Inr[OF p] patch_then_apart[OF apart p] by simp_all
    then show ?thesis using that[of ?a ints provs w1 a1] d ready(3,4) by simp
  qed (use mode ready in \<open>simp_all add: const_defs\<close>)
qed

section \<open>Properties\<close>

text \<open>
  C16: nothing but the RBAC objects is written for an agent whose references are not in order. When
  a reconcile changes the owned objects beyond its RBAC step, which ends in \<open>w1\<close>, then that
  step succeeded and every Integration and every Provider the agent refers to exists and is
  Ready at that moment.
\<close>

theorem Reconcile_agent_gated:
  assumes apart: "agents_apart K V" and get: "c_get (ka_agents K) w req = Inr agent"
    and r: "Reconcile_agent K G infra w req = (w', r)"
    and rbac: "(if as_ServiceAccountName (ag_Spec agent) = [] then reconcileAgentRBAC K G w agent else (w, None)) = (w1, e)"
    and changed: "V w' \<noteq> V w1"
  shows "e = None \<and> refs_ready K w1 agent"
proof (cases e)
  case None
  then have "reconcileReferences K G infra w1 agent agent = (w', r)" using r get rbac by (simp add: Reconcile_agent_def)
  then show ?thesis using references_gated[OF apart _ changed] None by blast
next
  case (Some err)
  then have "V w' = V w1" using r get rbac patch_then_apart[OF apart] by (auto simp: Reconcile_agent_def)
  with changed show ?thesis by simp
qed


section \<open>Witnesses\<close>

definition found_key :: "('o \<Rightarrow> ObjectMeta) \<Rightarrow> 'o list \<Rightarrow> nsname \<Rightarrow> apierr + 'o" where
  "found_key meta xs k = (case keyed (\<lambda>x. meta_key (meta x)) xs k of None \<Rightarrow> Inl (NotFound ''not found'') | Some x \<Rightarrow> Inr x)"

text \<open>A server on which one replica of every Deployment is ready at once.\<close>

definition mem_agent_kube :: "mem_world agent_kube" where
  "mem_agent_kube =
     \<lparr>ka_now = mw_now,
      ka_agents = mem_client ag_Meta ag_Status (\<lambda>a s. a\<lparr>ag_Status := s\<rparr>) (\<lambda>_ s _. s) mw_agents (\<lambda>xs w. w\<lparr>mw_agents := xs\<rparr>),
      ka_integrations = (\<lambda>w. found_key int_Meta (mw_integrations w)),
      ka_providers = (\<lambda>w. found_key prov_Meta (mw_providers w)),
      ka_deployment = (\<lambda>w k. case oo_deployments (mem_view w) k of None \<Rightarrow> Inl (NotFound ''not found'')
        | Some d \<Rightarrow> Inr (d\<lparr>dep_ReadyReplicas := 1\<rparr>)),
      ka_quantity = (\<lambda>s. s \<noteq> []), ka_owned = mem_owned\<rparr>"

lemma mem_agents_apart: "agents_apart mem_agent_kube mem_view"
  by (simp add: agents_apart_def mem_agent_kube_def mem_client_def Let_def mem_view_def split: option.split)

text \<open>A daemon with its own service account, that refers to one Provider.\<close>

definition ex_provider :: Provider where
  "ex_provider = \<lparr>prov_Meta = new_meta ''p'' ''ns'' Map.empty, prov_Spec = zero_ProviderSpec,
     prov_Status = zero_ProviderStatus\<lparr>pst_Phase := ProviderPhaseReady\<rparr>\<rparr>"

definition ex_daemon :: Agent where
  "ex_daemon = \<lparr>ag_Meta = ex_owner, ag_Spec = zero_AgentSpec\<lparr>as_Mode := AgentModeDaemon, as_ServiceAccountName := ''sa'',
       as_ProviderRefs := [\<lparr>pb_Name = ''p'', pb_Overrides = None\<rparr>]\<rparr>,
     ag_Status = zero_AgentStatus\<rparr>"

definition ex_infra :: InfraConfig where "ex_infra = \<lparr>ic_OTelEndpoint = [], ic_NATSURL = []\<rparr>"

definition ex_daemon_world :: mem_world where
  "ex_daemon_world = empty_world\<lparr>mw_agents := [ex_daemon], mw_providers := [ex_provider]\<rparr>"

lemma ex_daemon_sel [simp]:
  "ag_Meta ex_daemon = ex_owner" "as_Mode (ag_Spec ex_daemon) = AgentModeDaemon" "as_Storage (ag_Spec ex_daemon) = None"
  "as_NetworkPolicy (ag_Spec ex_daemon) = None" "as_ServiceAccountName (ag_Spec ex_daemon) = ''sa''"
  "as_Integrations (ag_Spec ex_daemon) = []" "map pb_Name (as_ProviderRefs (ag_Spec ex_daemon)) = [''p'']"
  by (simp_all add: ex_daemon_def zero_AgentSpec_def)

lemma BuildAgentDeployment_sel:
  "dep_Meta (BuildAgentDeployment agent provs ints infra) = new_meta (om_Name (ag_Meta agent)) (om_Namespace (ag_Meta agent))
     (CommonLabels (om_Name (ag_Meta agent)) ''runtime'')" "dep_Replicas (BuildAgentDeployment agent provs ints infra) = 1"
  by (simp_all add: BuildAgentDeployment_def Let_def)

lemma ex_daemon_objects:
  assumes cm: "BuildAgentConfigMap (gl_codec std_golib) a [] [ex_provider] = Inr cm" and a: "ag_Meta a = ex_owner" "as_NetworkPolicy (ag_Spec a) = None"
  shows "\<exists>w'. reconcileAll mem_owned std_golib ex_daemon_world (ag_Meta a) (daemon_objects a [] [ex_provider] ex_infra cm) = (w', None) \<and>
    mw_agents w' = [ex_daemon]"
proof -
  let ?d = "BuildAgentDeployment a [ex_provider] [] ex_infra" and ?s = "BuildAgentService a"
  have "cm_Meta cm = new_meta (ObjectName ''a'' ''config'') ''ns'' (CommonLabels ''a'' ''config'')"
    using cm a by (auto simp: BuildAgentConfigMap_def std_golib_def new_configmap_def ex_owner_def new_meta_def)
  then obtain m1 where 1: "reconcileConfigMap mem_owned std_golib ex_daemon_world ex_owner cm =
      (mw_objects_update (oo_configmaps_update (\<lambda>_. m1)) ex_daemon_world, None)" (is "_ = (?w1, None)")
    using mem_new_configmap[of ex_daemon_world cm ex_owner] by (auto simp: ex_daemon_world_def ex_world_defs)
  then obtain m2 where 2: "reconcileDeploymentSSA mem_owned std_golib ?w1 ex_owner ?d =
      (?w1\<lparr>mw_objects := (mw_objects ?w1)\<lparr>oo_deployments := m2\<rparr>\<rparr>, None)" (is "_ = (?w2, None)")
    using mem_new_deployment[of ?w1 ?d ex_owner] a by (auto simp: ex_daemon_world_def ex_world_defs BuildAgentDeployment_sel)
  then obtain m3 where 3: "reconcileService mem_owned std_golib ?w2 ex_owner ?s =
      (mw_objects_update (oo_services_update (\<lambda>_. m3)) ?w2, None)" (is "_ = (?w3, None)")
    using mem_new_service[of ?w2 ?s ex_owner] a by (auto simp: ex_daemon_world_def ex_world_defs BuildAgentService_def)
  have "reconcileAll mem_owned std_golib ex_daemon_world (ag_Meta a) (daemon_objects a [] [ex_provider] ex_infra cm) = (?w3, None)"
    using 1 2 3 a by (simp add: daemon_objects_def)
  moreover have "mw_agents ?w3 = [ex_daemon]" by (simp add: ex_daemon_world_def)
  ultimately show ?thesis by blast
qed

lemma ex_reconcileDaemon:
  assumes a: "ag_Meta a = ex_owner" "as_Storage (ag_Spec a) = None" "as_NetworkPolicy (ag_Spec a) = None"
  shows "\<exists>w' a'. reconcileDaemon mem_agent_kube std_golib ex_infra ex_daemon_world a [] [ex_provider] = (w', a', Inr done_result) \<and>
    mw_agents w' = [ex_daemon] \<and> ag_Meta a' = ex_owner \<and> oo_services (mem_view w') (''ns'', ''a'') \<noteq> None"
proof -
  obtain cm where cm: "BuildAgentConfigMap (gl_codec std_golib) a [] [ex_provider] = Inr cm" by (simp add: BuildAgentConfigMap_def std_golib_def)
  obtain w' where all: "reconcileAll mem_owned std_golib ex_daemon_world (ag_Meta a) (daemon_objects a [] [ex_provider] ex_infra cm) = (w', None)"
      and ags: "mw_agents w' = [ex_daemon]"
    using ex_daemon_objects[OF cm a(1,3)] by blast
  have "stored_ok (mem_view w') (ag_Meta a) (ODeployment (BuildAgentDeployment a [ex_provider] [] ex_infra))"
    by (rule mem_ops.reconcileAll_stores[OF all daemon_kinds(2)]) (simp add: daemon_objects_def)
  then obtain y where y: "oo_deployments (mem_view w') (om_Namespace (ag_Meta a), om_Name (ag_Meta a)) = Some y"
    by (auto simp: BuildAgentDeployment_sel meta_key_def new_meta_def)
  let ?a = "daemon_status std_golib (ka_now mem_agent_kube w') (observe_replicas mem_agent_kube w' (shared_agent a))"
  have o: "ast_ReadyReplicas (ag_Status (observe_replicas mem_agent_kube w' (shared_agent a))) = 1"
    using y by (simp add: observe_replicas_def mem_agent_kube_def shared_agent_def)
  have "reconcileDaemon mem_agent_kube std_golib ex_infra ex_daemon_world a [] [ex_provider] = (w', ?a, Inr done_result)"
    using cm all a daemon_running[of std_golib _ "observe_replicas mem_agent_kube w' (shared_agent a)"] o
    by (simp add: reconcileDaemon_def reconcileStorage_def Let_def mem_agent_kube_def)
  moreover have "ag_Meta ?a = ex_owner"
    using a by (simp add: daemon_status_def Let_def observe_replicas_def shared_agent_def split: sum.split)
  moreover have "stored_ok (mem_view w') (ag_Meta a) (OService (BuildAgentService a))"
    by (rule mem_ops.reconcileAll_stores[OF all daemon_kinds(2)]) (simp add: daemon_objects_def)
  then have "oo_services (mem_view w') (''ns'', ''a'') \<noteq> None"
    using a by (auto simp: BuildAgentService_def meta_key_def ex_owner_def new_meta_def)
  ultimately show ?thesis using ags by blast
qed

lemma ex_daemon_get: "c_get (ka_agents mem_agent_kube) ex_daemon_world (''ns'', ''a'') = Inr ex_daemon"
  by (simp add: mem_agent_kube_def mem_client_def Let_def ex_daemon_world_def meta_key_def ex_owner_def new_meta_def)

lemma ex_resolveProviders: "resolveProviders mem_agent_kube ex_daemon_world ex_daemon = Inr [ex_provider]"
  "pst_Phase (prov_Status ex_provider) = ProviderPhaseReady"
  by (simp_all add: resolveProviders_def mem_agent_kube_def found_key_def ex_daemon_world_def ex_provider_def ex_owner_def
      meta_key_def new_meta_def)

lemma ex_Reconcile_daemon:
  "\<exists>w'. Reconcile_agent mem_agent_kube std_golib ex_infra ex_daemon_world (''ns'', ''a'') = (w', Inr done_result) \<and>
     oo_services (mem_view w') (''ns'', ''a'') \<noteq> None"
proof -
  let ?a = "prepared std_golib (ka_now mem_agent_kube ex_daemon_world) [ex_provider] ex_daemon"
  obtain w1 a1 where d: "reconcileDaemon mem_agent_kube std_golib ex_infra ex_daemon_world ?a [] [ex_provider] = (w1, a1, Inr done_result)"
      and w1: "mw_agents w1 = [ex_daemon]" "ag_Meta a1 = ex_owner" "oo_services (mem_view w1) (''ns'', ''a'') \<noteq> None"
    using ex_reconcileDaemon[of ?a] by auto
  have "\<exists>w'. patchObjStatus (ka_agents mem_agent_kube) w1 a1 ex_daemon = (w', None)"
    using w1 by (simp add: mem_agent_kube_def mem_patch_world)
  then obtain w' where p: "patchObjStatus (ka_agents mem_agent_kube) w1 a1 ex_daemon = (w', None)" by blast
  have "reconcileProviders mem_agent_kube std_golib ex_infra ex_daemon_world ex_daemon [] ex_daemon = (w', Inr done_result)"
    using d p unfolding prepared_def Let_def
    by (simp add: reconcileProviders_def ex_resolveProviders Let_def patch_then_def)
  moreover have "mem_view w' = mem_view w1" by (rule patch_apart[OF mem_agents_apart p])
  ultimately show ?thesis
    using ex_daemon_get w1 by (simp add: Reconcile_agent_def reconcileReferences_def resolveIntegrations_def)
qed


theorem Reconcile_agent_gated_witness:
  "\<exists>w'. Reconcile_agent mem_agent_kube std_golib ex_infra ex_daemon_world (''ns'', ''a'') = (w', Inr done_result) \<and>
     mem_view w' \<noteq> mem_view ex_daemon_world \<and> refs_ready mem_agent_kube ex_daemon_world ex_daemon"
proof -
  obtain w' where r: "Reconcile_agent mem_agent_kube std_golib ex_infra ex_daemon_world (''ns'', ''a'') = (w', Inr done_result)"
      and s: "oo_services (mem_view w') (''ns'', ''a'') \<noteq> None" using ex_Reconcile_daemon by blast
  have "mem_view w' \<noteq> mem_view ex_daemon_world"
    using s by (auto simp: mem_view_def seen_def ex_daemon_world_def empty_world_def no_objects_def)
  then show ?thesis
    using Reconcile_agent_gated[OF mem_agents_apart ex_daemon_get r, of ex_daemon_world None] r by simp
qed

end
