(* ===== verification/Channel_Properties.thy ===== *)
theory Channel_Properties
  imports Channel_Controller Agent_Properties
begin

text \<open>
  Properties of the Channel builders and of the Channel controller: the pod of the bridge, how
  the objects of agents and channels refer to each other, and the outcomes of a reconcile.
\<close>

section \<open>The pod of the bridge\<close>

text \<open>The variables that carry credentials, and that such a variable is a Secret reference.\<close>

definition secret_vars :: "string list" where
  "secret_vars = [''TELEGRAM_BOT_TOKEN'', ''SLACK_BOT_TOKEN'', ''DISCORD_BOT_TOKEN'', ''WEBHOOK_SECRET'', ''GITLAB_TOKEN'']"

definition secret_by_reference :: "EnvVar \<Rightarrow> bool" where
  "secret_by_reference e \<longleftrightarrow>
     (ev_Name e \<in> set secret_vars \<longrightarrow> (\<exists>s k. e = env_secret (ev_Name e) s k))"

lemma env_names [simp]: "ev_Name (env_val n v) = n" "ev_Name (env_secret n s k) = n" "ev_Name (secret_env n r) = n"
  by (simp_all add: env_val_def env_secret_def secret_env_def)

lemma by_reference_val: "n \<notin> set secret_vars \<Longrightarrow> secret_by_reference (env_val n v)"
  by (simp add: secret_by_reference_def)

lemma by_reference_secret [simp]: "secret_by_reference (secret_env n r)"
  by (simp add: secret_by_reference_def secret_env_def) blast

text \<open>The names of the platform variables, without the prompt.\<close>

definition gitlab_vars :: "string list" where
  "gitlab_vars = [''GITLAB_BASE_URL'', ''GITLAB_PROJECT'', ''GITLAB_GROUP'', ''GITLAB_TARGET'', ''GITLAB_LABELS'', ''GITLAB_STATE'',
     ''GITLAB_POLL_INTERVAL'', ''GITLAB_INTEGRATION_REF'', ''GITLAB_BASE_BRANCH'', ''GITLAB_PLANNING_LABEL'']"

definition platform_env_ok :: "string \<Rightarrow> EnvVar list \<Rightarrow> bool" where
  "platform_env_ok prompt env \<longleftrightarrow> distinct (map ev_Name env) \<and> list_all secret_by_reference env \<and>
     set (map ev_Name env) \<subseteq> set (secret_vars @ gitlab_vars) \<union> (if prompt = [] then {''PROMPT_TEMPLATE''} else {})"

lemma gitlab_identity_ok:
  "distinct (map ev_Name (gitlab_identity_env i))" "list_all secret_by_reference (gitlab_identity_env i)"
  "set (map ev_Name (gitlab_identity_env i)) \<subseteq> {''GITLAB_BASE_URL'', ''GITLAB_PROJECT'', ''GITLAB_GROUP'', ''GITLAB_TOKEN''}"
  by (auto simp: gitlab_identity_env_def by_reference_val secret_vars_def split: option.split)

lemma platform_env_append:
  assumes "distinct (map ev_Name xs)" "list_all secret_by_reference xs" "platform_env_ok prompt ys"
    "set (map ev_Name xs) \<subseteq> A" "A \<subseteq> set (secret_vars @ gitlab_vars)" "A \<inter> set (map ev_Name ys) = {}"
  shows "platform_env_ok prompt (xs @ ys)"
  using assms by (auto simp: platform_env_ok_def)

lemma label_env_ok: "platform_env_ok (cs_Prompt (ch_Spec ch)) (buildGitLabLabelEnv ds ch i)"
proof (cases "cs_GitLabLabel (ch_Spec ch) = None \<or> i = None")
  case True
  then have "buildGitLabLabelEnv ds ch i = []" by (cases "cs_GitLabLabel (ch_Spec ch)"; cases i; simp add: buildGitLabLabelEnv_def)
  then show ?thesis by (simp add: platform_env_ok_def)
next
  case False
  then obtain cfg j where "cs_GitLabLabel (ch_Spec ch) = Some cfg" "i = Some j" by auto
  then have e: "buildGitLabLabelEnv ds ch i = gitlab_identity_env j @ drop (length (gitlab_identity_env j)) (buildGitLabLabelEnv ds ch i)"
    and n: "map ev_Name (drop (length (gitlab_identity_env j)) (buildGitLabLabelEnv ds ch i)) =
      [''GITLAB_TARGET'', ''GITLAB_LABELS'', ''GITLAB_STATE'', ''GITLAB_POLL_INTERVAL'', ''GITLAB_INTEGRATION_REF'', ''GITLAB_BASE_BRANCH''] @
      (if cs_Prompt (ch_Spec ch) = [] then [''PROMPT_TEMPLATE''] else [])"
    and r: "list_all secret_by_reference (drop (length (gitlab_identity_env j)) (buildGitLabLabelEnv ds ch i))"
    by (simp_all add: buildGitLabLabelEnv_def by_reference_val secret_vars_def)
  have "platform_env_ok (cs_Prompt (ch_Spec ch)) (drop (length (gitlab_identity_env j)) (buildGitLabLabelEnv ds ch i))"
    unfolding platform_env_ok_def n using r by (simp add: gitlab_vars_def secret_vars_def)
  then show ?thesis
    by (subst e, intro platform_env_append[OF gitlab_identity_ok(1,2) _ gitlab_identity_ok(3)])
      (simp_all only: n, simp_all add: gitlab_vars_def secret_vars_def)
qed

lemma comment_env_ok: "platform_env_ok (cs_Prompt (ch_Spec ch)) (buildGitLabCommentEnv ds ch i)"
proof (cases "cs_GitLabComment (ch_Spec ch) = None \<or> i = None")
  case True
  then have "buildGitLabCommentEnv ds ch i = []" by (cases "cs_GitLabComment (ch_Spec ch)"; cases i; simp add: buildGitLabCommentEnv_def)
  then show ?thesis by (simp add: platform_env_ok_def)
next
  case False
  then obtain cfg j where "cs_GitLabComment (ch_Spec ch) = Some cfg" "i = Some j" by auto
  then have e: "buildGitLabCommentEnv ds ch i = gitlab_identity_env j @ drop (length (gitlab_identity_env j)) (buildGitLabCommentEnv ds ch i)"
    and n: "map ev_Name (drop (length (gitlab_identity_env j)) (buildGitLabCommentEnv ds ch i)) =
      [''GITLAB_STATE'', ''GITLAB_PLANNING_LABEL'', ''GITLAB_POLL_INTERVAL''] @
      (if cs_Prompt (ch_Spec ch) = [] then [''PROMPT_TEMPLATE''] else [])"
    and r: "list_all secret_by_reference (drop (length (gitlab_identity_env j)) (buildGitLabCommentEnv ds ch i))"
    by (simp_all add: buildGitLabCommentEnv_def by_reference_val secret_vars_def)
  have "platform_env_ok (cs_Prompt (ch_Spec ch)) (drop (length (gitlab_identity_env j)) (buildGitLabCommentEnv ds ch i))"
    unfolding platform_env_ok_def n using r by (simp add: gitlab_vars_def secret_vars_def)
  then show ?thesis
    by (subst e, intro platform_env_append[OF gitlab_identity_ok(1,2) _ gitlab_identity_ok(3)])
      (simp_all only: n, simp_all add: gitlab_vars_def secret_vars_def)
qed

lemma secret_env_ok: "n \<in> set secret_vars \<Longrightarrow> platform_env_ok prompt (opt_secret_env n ref c)"
  by (auto simp: platform_env_ok_def opt_secret_env_def split: option.split)

lemma platform_env_ok: "platform_env_ok (cs_Prompt (ch_Spec ch)) (buildChannelPlatformEnv ds ch i)"
proof -
  have "platform_env_ok prompt []" for prompt by (simp add: platform_env_ok_def)
  then show ?thesis unfolding buildChannelPlatformEnv_def Let_def
    by (simp add: label_env_ok comment_env_ok secret_env_ok secret_vars_def)
qed

lemma channel_env_ok:
  "distinct (map ev_Name (channel_env ds ch agent i infra))" "list_all secret_by_reference (channel_env ds ch agent i infra)"
  using platform_env_ok[of ch ds i]
  by (auto simp: channel_env_def platform_env_ok_def gitlab_vars_def secret_vars_def by_reference_val secret_by_reference_def)

lemma applyContainer_env [simp]: "ct_Env (applyContainer c ov) = ct_Env c" "ct_Ports (applyContainer c ov) = ct_Ports c"
  by (auto simp: applyContainer_def Let_def)

lemma channel_pod_sel:
  "pd_InitContainers (channel_pod ds ch agent i infra) = []"
  "map ct_Env (pd_Containers (channel_pod ds ch agent i infra)) = [channel_env ds ch agent i infra]"
  "map ct_Ports (pd_Containers (channel_pod ds ch agent i infra)) = [[\<lparr>cp_Name = ''http'', cp_ContainerPort = 8080, cp_Protocol = ''TCP''\<rparr>]]"
  "pd_ServiceAccountName (channel_pod ds ch agent i infra) = ChannelServiceAccountName ch"
  "pd_AutomountServiceAccountToken (channel_pod ds ch agent i infra) =
     Some (Option.bind (channel_security ch agent) so_AutomountServiceAccountToken = Some True)"
  by (simp_all add: channel_pod_def channel_container_def Let_def split: option.split)

lemma channel_pod_restricted: "restricted_pod (channel_pod ds ch agent i infra)"
  by (auto simp: channel_pod_def restricted_pod_def list_all_iff intro!: applyContainer_ok)

lemma channel_automount:
  "Option.bind (channel_security ch agent) so_AutomountServiceAccountToken = Some True \<longleftrightarrow>
     (case Option.bind (cs_Security (ch_Spec ch)) so_AutomountServiceAccountToken of
        Some b \<Rightarrow> b | None \<Rightarrow> as_Mode (ag_Spec agent) = AgentModeTask)"
  by (auto simp: channel_security_def Let_def split: option.split)

section \<open>Outcomes of a reconcile\<close>

text \<open>The agent and the Integration that a channel resolves to, if it does.\<close>

definition channel_target :: "'w channel_kube \<Rightarrow> 'w \<Rightarrow> Channel \<Rightarrow> (Agent \<times> Integration option) option" where
  "channel_target K w ch =
     (case kc_agents K w (om_Namespace (ch_Meta ch), cs_AgentRef (ch_Spec ch)) of
        Inl _ \<Rightarrow> None
      | Inr agent \<Rightarrow>
          (case channel_ref ch of
             None \<Rightarrow> Some (agent, None)
           | Some ref \<Rightarrow>
               if ref = [] then None
               else case kc_integrations K w (om_Namespace (ch_Meta ch), ref) of Inl _ \<Rightarrow> None | Inr i \<Rightarrow> Some (agent, Some i)))"

definition channels_apart :: "'w channel_kube \<Rightarrow> ('w \<Rightarrow> owned_objects) \<Rightarrow> bool" where
  "channels_apart K V \<longleftrightarrow> (\<forall>w base x. V (fst (c_patch_status (kc_channels K) w base x)) = V w)"

lemma channel_patch_apart: "\<lbrakk>channels_apart K V; patchObjStatus (kc_channels K) w x base = (w', r)\<rbrakk> \<Longrightarrow> V w' = V w"
  unfolding channels_apart_def patchObjStatus_def by (auto split: sum.splits if_splits) (metis fst_conv)

lemma channel_violations_sel [simp]:
  "ch_Meta (channel_violations G t ch) = ch_Meta ch" "ch_Spec (channel_violations G t ch) = ch_Spec ch"
  by (simp_all add: channel_violations_def)

lemma channel_ref_violations [simp]: "channel_ref (channel_violations G t ch) = channel_ref ch"
  by (simp only: channel_ref_def channel_violations_sel)

lemma Reconcile_channel_cases:
  assumes "c_get (kc_channels K) w req = Inr ch" "Reconcile_channel K G infra w req = (w', r)"
  obtains (failed) x msg where "channel_target K w ch = None" "fail_channel K G w x ch msg = (w', r)"
      "x = ch \<or> x = channel_violations G (kc_now K w) ch"
  | (built) agent i where "channel_target K w ch = Some (agent, i)"
      "reconcileChannelObjects K G infra w (channel_violations G (kc_now K w) ch) ch agent i = (w', r)"
proof (cases "kc_agents K w (om_Namespace (ch_Meta ch), cs_AgentRef (ch_Spec ch))")
  case (Inl e)
  then show ?thesis using assms failed by (simp add: Reconcile_channel_def channel_target_def)
next
  case (Inr agent)
  show ?thesis
  proof (cases "channel_ref ch")
    case None
    then show ?thesis using assms Inr built[of agent None] by (simp add: Reconcile_channel_def channel_target_def)
  next
    case (Some ref)
    show ?thesis
    proof (cases "ref = []")
      case True
      then show ?thesis using assms Inr Some failed by (simp add: Reconcile_channel_def channel_target_def)
    next
      case False
      then show ?thesis
        using assms Inr Some failed built
        by (cases "kc_integrations K w (om_Namespace (ch_Meta ch), ref)") (simp_all add: Reconcile_channel_def channel_target_def)
    qed
  qed
qed

lemma channel_objects_distinct: "distinct (map obj_ref (channel_objects G infra ch agent i))"
  by (auto simp: channel_objects_def obj_ref_def split: option.split)

section \<open>How the objects fit together\<close>

text \<open>
  The selectors of the Deployment, the Service and the network policy select the pods of the
  Deployment; a service port is a port of the container and the Ingress leads to it; the binding
  gives the role to the service account of the pod, and the role allows to create runs.
\<close>

definition agent_wired :: "Agent \<Rightarrow> Deployment \<Rightarrow> bool" where
  "agent_wired agent d \<longleftrightarrow>
     (let labels = pt_Labels (dep_Template d); pod = pt_Spec (dep_Template d) in
      selects (dep_Selector d) labels \<and> selects (svc_Selector (BuildAgentService agent)) labels \<and>
      selects (np_PodSelector (np_Spec (BuildAgentNetworkPolicy agent))) labels \<and>
      map (map cp_ContainerPort \<circ> ct_Ports) (pd_Containers pod) = [map svp_TargetPort (svc_Ports (BuildAgentService agent))] \<and>
      np_IngressPorts (np_Spec (BuildAgentNetworkPolicy agent)) = [map svp_TargetPort (svc_Ports (BuildAgentService agent))] \<and>
      map sub_Name (rb_Subjects (BuildAgentRoleBinding agent)) = [pd_ServiceAccountName pod] \<and>
      om_Name (sa_Meta (BuildAgentServiceAccount agent)) = pd_ServiceAccountName pod \<and>
      rref_Name (rb_RoleRef (BuildAgentRoleBinding agent)) = om_Name (role_Meta (BuildAgentRole agent)) \<and>
      role_allows (BuildAgentRole agent) ''agentruns'' ''create'')"

definition channel_wired :: "Channel \<Rightarrow> Deployment \<Rightarrow> bool" where
  "channel_wired ch d \<longleftrightarrow>
     (let labels = pt_Labels (dep_Template d); pod = pt_Spec (dep_Template d); svc = BuildChannelService ch in
      selects (dep_Selector d) labels \<and> selects (svc_Selector svc) labels \<and>
      map (map cp_ContainerPort \<circ> ct_Ports) (pd_Containers pod) = [map svp_TargetPort (svc_Ports svc)] \<and>
      map sub_Name (rb_Subjects (BuildChannelRoleBinding ch)) = [pd_ServiceAccountName pod] \<and>
      om_Name (sa_Meta (BuildChannelServiceAccount ch)) = pd_ServiceAccountName pod \<and>
      rref_Name (rb_RoleRef (BuildChannelRoleBinding ch)) = om_Name (role_Meta (BuildChannelRole ch)) \<and>
      role_allows (BuildChannelRole ch) ''agentruns'' ''create'' \<and>
      (case BuildChannelIngress ch of None \<Rightarrow> cs_Webhook (ch_Spec ch) = None
       | Some ing \<Rightarrow> map (\<lambda>p. (ip_ServiceName p, ip_ServicePort p)) (concat (map ir_Paths (ing_Rules (ing_Spec ing)))) =
           map (\<lambda>p. (om_Name (svc_Meta svc), svp_Port p)) (svc_Ports svc)))"

lemma agent_pod_ports:
  "map (map cp_ContainerPort \<circ> ct_Ports) (pd_Containers (buildAgentPodSpec agent ps ints False infra)) = [[AgentRuntimePort]]"
  by (simp add: buildAgentPodSpec_sel buildMainContainer_def new_container_def Let_def split: option.split)

lemma agent_pod_account: "pd_ServiceAccountName (buildAgentPodSpec agent ps ints tm infra) = AgentServiceAccountName agent"
  by (simp add: buildAgentPodSpec_def)

lemma channel_ingress:
  "case BuildChannelIngress ch of None \<Rightarrow> cs_Webhook (ch_Spec ch) = None
   | Some ing \<Rightarrow> map (\<lambda>p. (ip_ServiceName p, ip_ServicePort p)) (concat (map ir_Paths (ing_Rules (ing_Spec ing)))) =
       map (\<lambda>p. (om_Name (svc_Meta (BuildChannelService ch)), svp_Port p)) (svc_Ports (BuildChannelService ch))"
  by (simp add: BuildChannelIngress_def BuildChannelService_def http_port_def Let_def new_meta_def split: option.split)

section \<open>Properties\<close>


text \<open>
  C21: the objects that are built for an agent and for a channel fit together: all selectors select
  the pods, the ports meet, and the pod runs as the service account that is bound to the role.
\<close>

theorem children_wired:
  "agent_wired agent (BuildAgentDeployment agent provs ints infra) \<and>
   channel_wired ch (fst (BuildChannelDeployment durationString ch agent integration infra))"
proof
  show "agent_wired agent (BuildAgentDeployment agent provs ints infra)"
    by (simp add: agent_wired_def BuildAgentDeployment_def Let_def agent_pod_ports agent_pod_account runtime_selector_def
        CommonLabels_def selects_def map_le_def BuildAgentService_def BuildAgentNetworkPolicy_def http_port_def BuildAgentRoleBinding_def
        BuildAgentServiceAccount_def BuildAgentRole_def role_allows_def new_meta_def)
  have app: "''app'' \<noteq> LabelComponent" "''app'' \<noteq> LabelManagedBy" by (simp_all add: const_defs)
  have ports: "map (map cp_ContainerPort \<circ> ct_Ports) (pd_Containers (channel_pod durationString ch agent integration infra)) = [[8080]]"
    using channel_pod_sel(3)[of durationString ch agent integration infra] by (auto simp: map_eq_Cons_conv)
  show "channel_wired ch (fst (BuildChannelDeployment durationString ch agent integration infra))"
    unfolding channel_wired_def Let_def using app
    by (intro conjI channel_ingress) (simp_all add: BuildChannelDeployment_def Let_def ports channel_pod_sel(4) channel_labels_def
        selects_def map_le_def BuildChannelService_def http_port_def BuildChannelRoleBinding_def
        BuildChannelServiceAccount_def BuildChannelRole_def channel_child_def role_allows_def new_meta_def)
qed


section \<open>Witnesses\<close>

definition mem_channel_kube :: "mem_world channel_kube" where
  "mem_channel_kube =
     \<lparr>kc_now = mw_now,
      kc_channels = mem_client ch_Meta ch_Status (\<lambda>c s. c\<lparr>ch_Status := s\<rparr>) (\<lambda>_ s _. s) mw_channels (\<lambda>xs w. w\<lparr>mw_channels := xs\<rparr>),
      kc_agents = (\<lambda>w. found_key ag_Meta (mw_agents w)), kc_integrations = (\<lambda>w. found_key int_Meta (mw_integrations w)),
      kc_deployment = (\<lambda>w k. case oo_deployments (mem_view w) k of None \<Rightarrow> Inl (NotFound ''not found'')
        | Some d \<Rightarrow> Inr (d\<lparr>dep_ReadyReplicas := 1\<rparr>)),
      kc_owned = mem_owned\<rparr>"

definition mem_channels :: "mem_world \<Rightarrow> nsname \<rightharpoonup> Channel" where
  "mem_channels w = keyed (\<lambda>x. meta_key (ch_Meta x)) (mw_channels w)"

lemma mem_channels_apart: "channels_apart mem_channel_kube mem_view"
  by (simp add: channels_apart_def mem_channel_kube_def mem_client_def Let_def mem_view_def split: option.split)

interpretation mem_chs: writer "kc_channels mem_channel_kube" mem_channels ch_Meta ch_Status "\<lambda>c s. c\<lparr>ch_Status := s\<rparr>" "\<lambda>_ s _. s"
  unfolding mem_channel_kube_def mem_channels_def channel_kube.simps by (rule mem_writer) simp_all

text \<open>A Telegram channel of the daemon, and the same channel without its agent.\<close>

definition ex_channel :: Channel where
  "ex_channel = \<lparr>ch_Meta = (new_meta ''c'' ''ns'' Map.empty)\<lparr>om_UID := ''u3''\<rparr>,
     ch_Spec = zero_ChannelSpec\<lparr>cs_Type := ChannelTypeTelegram, cs_AgentRef := ''a''\<rparr>, ch_Status = zero_ChannelStatus\<rparr>"

definition ex_channel_world :: mem_world where
  "ex_channel_world = ex_daemon_world\<lparr>mw_channels := [ex_channel]\<rparr>"

definition ex_lost_world :: mem_world where
  "ex_lost_world = empty_world\<lparr>mw_channels := [ex_channel]\<rparr>"

lemma ex_channel_sel [simp]:
  "om_Name (ch_Meta ex_channel) = ''c''" "om_Namespace (ch_Meta ex_channel) = ''ns''" "om_UID (ch_Meta ex_channel) = ''u3''"
  "cs_Webhook (ch_Spec ex_channel) = None" "cs_AgentRef (ch_Spec ex_channel) = ''a''" "channel_ref ex_channel = None"
  by (simp_all add: ex_channel_def zero_ChannelSpec_def new_meta_def channel_ref_def const_defs)

lemma ex_channel_get:
  "c_get (kc_channels mem_channel_kube) ex_channel_world (''ns'', ''c'') = Inr ex_channel"
  "c_get (kc_channels mem_channel_kube) ex_lost_world (''ns'', ''c'') = Inr ex_channel"
  by (simp_all add: mem_channel_kube_def mem_client_def Let_def ex_channel_world_def ex_lost_world_def meta_key_def)

lemma ex_channel_target:
  "channel_target mem_channel_kube ex_channel_world ex_channel = Some (ex_daemon, None)"
  "channel_target mem_channel_kube ex_lost_world ex_channel = None"
  by (simp_all add: channel_target_def mem_channel_kube_def found_key_def ex_channel_world_def ex_lost_world_def ex_daemon_world_def
      empty_world_def meta_key_def ex_owner_def new_meta_def)

lemma ex_channel_objects:
  assumes ch: "ch_Meta ch = ch_Meta ex_channel" "ch_Spec ch = ch_Spec ex_channel"
  shows "\<exists>w'. reconcileAll mem_owned std_golib ex_channel_world (ch_Meta ch) (channel_objects std_golib ex_infra ch ex_daemon None) = (w', None) \<and>
    mw_channels w' = [ex_channel]"
proof -
  let ?d = "fst (BuildChannelDeployment (gl_durationString std_golib) ch ex_daemon None ex_infra)" and ?o = "ch_Meta ch"
  let ?sa = "BuildChannelServiceAccount ch" and ?ro = "BuildChannelRole ch" and ?rb = "BuildChannelRoleBinding ch" and ?s = "BuildChannelService ch"
  note defs = ex_channel_world_def ex_daemon_world_def ex_world_defs channel_child_def ch(1)
  obtain w1 m1 where 1: "reconcileServiceAccount mem_owned std_golib ex_channel_world ?o ?sa = (w1, None)"
      and w1: "w1 = mw_objects_update (oo_serviceaccounts_update (\<lambda>_. m1)) ex_channel_world"
    using mem_new_serviceaccount[of ex_channel_world ?sa ?o] by (auto simp: defs BuildChannelServiceAccount_def)
  obtain w2 m2 where 2: "reconcileRole mem_owned std_golib w1 ?o ?ro = (w2, None)"
      and w2: "w2 = mw_objects_update (oo_roles_update (\<lambda>_. m2)) w1"
    using mem_new_role[of w1 ?ro ?o] by (auto simp: defs w1 BuildChannelRole_def)
  obtain w3 m3 where 3: "reconcileRoleBinding mem_owned std_golib w2 ?o ?rb = (w3, None)"
      and w3: "w3 = mw_objects_update (oo_rolebindings_update (\<lambda>_. m3)) w2"
    using mem_new_rolebinding[of w2 ?rb ?o] by (auto simp: defs w1 w2 BuildChannelRoleBinding_def)
  obtain w4 m4 where 4: "reconcileDeploymentSSA mem_owned std_golib w3 ?o ?d = (w4, None)"
      and w4: "w4 = w3\<lparr>mw_objects := (mw_objects w3)\<lparr>oo_deployments := m4\<rparr>\<rparr>"
    using mem_new_deployment[of w3 ?d ?o] by (auto simp: defs w1 w2 w3 BuildChannelDeployment_def)
  obtain w5 m5 where 5: "reconcileService mem_owned std_golib w4 ?o ?s = (w5, None)"
      and w5: "w5 = mw_objects_update (oo_services_update (\<lambda>_. m5)) w4"
    using mem_new_service[of w4 ?s ?o] by (auto simp: defs w1 w2 w3 w4 BuildChannelService_def)
  have "BuildChannelIngress ch = None" using ch by (simp add: BuildChannelIngress_def)
  then have "reconcileAll mem_owned std_golib ex_channel_world ?o (channel_objects std_golib ex_infra ch ex_daemon None) = (w5, None)"
    by (simp add: channel_objects_def 1 2 3 4 5)
  moreover have "mw_channels w5 = [ex_channel]" by (simp add: ex_channel_world_def w1 w2 w3 w4 w5)
  ultimately show ?thesis by blast
qed

lemma ex_Reconcile_channel:
  "\<exists>w' res. Reconcile_channel mem_channel_kube std_golib ex_infra ex_channel_world (''ns'', ''c'') = (w', Inr res)"
proof -
  let ?ch = "channel_violations std_golib (kc_now mem_channel_kube ex_channel_world) ex_channel"
  obtain w1 where all: "reconcileAll mem_owned std_golib ex_channel_world (ch_Meta ?ch) (channel_objects std_golib ex_infra ?ch ex_daemon None) = (w1, None)"
      and w1: "mw_channels w1 = [ex_channel]" using ex_channel_objects[of ?ch] by auto
  let ?c = "channel_readiness mem_channel_kube std_golib w1 (channel_urls (shared_channel ?ch ex_daemon))"
  have m: "ch_Meta ?c = ch_Meta ex_channel"
    by (simp add: channel_readiness_def channel_urls_def shared_channel_def channel_status_def split: sum.split)
  have "\<exists>w'. patchObjStatus (kc_channels mem_channel_kube) w1 ?c ex_channel = (w', None)"
    unfolding mem_channel_kube_def channel_kube.simps by (rule mem_patch_world) (use w1 m in \<open>simp add: mem_channel_kube_def\<close>)
  then obtain w' where p: "patchObjStatus (kc_channels mem_channel_kube) w1 ?c ex_channel = (w', None)" by blast
  have k: "kc_owned mem_channel_kube = mem_owned" by (simp add: mem_channel_kube_def)
  have a: "kc_agents mem_channel_kube ex_channel_world (''ns'', ''a'') = Inr ex_daemon"
    by (simp add: mem_channel_kube_def found_key_def ex_channel_world_def ex_daemon_world_def meta_key_def ex_owner_def new_meta_def)
  show ?thesis
    using ex_channel_get(1) a all p
    by (simp add: Reconcile_channel_def reconcileChannelObjects_def k BuildChannelDeployment_def Let_def)
qed

lemma ex_Reconcile_lost:
  "\<exists>w' res. Reconcile_channel mem_channel_kube std_golib ex_infra ex_lost_world (''ns'', ''c'') = (w', Inr res)"
proof -
  have a: "kc_agents mem_channel_kube ex_lost_world (''ns'', ''a'') = Inl (NotFound ''not found'')"
    by (simp add: mem_channel_kube_def found_key_def ex_lost_world_def empty_world_def)
  have f: "\<exists>w' res. fail_channel mem_channel_kube std_golib ex_lost_world ex_channel ex_channel msg = (w', Inr res)" for msg
  proof -
    have "\<exists>w'. patchObjStatus (kc_channels mem_channel_kube) ex_lost_world (setChannelFailedStatus std_golib t ex_channel msg) ex_channel = (w', None)" for t
      unfolding mem_channel_kube_def channel_kube.simps
      by (rule mem_patch_world) (simp add: ex_lost_world_def setChannelFailedStatus_def channel_status_def)
    from this[of "kc_now mem_channel_kube ex_lost_world"] show ?thesis by (auto simp: fail_channel_def)
  qed
  show ?thesis
    unfolding Reconcile_channel_def ex_channel_get(2) by (simp add: a f)
qed


section \<open>Aliased overrides\<close>

text \<open>
  The builder writes the default for the token into the overrides of the user, so that the object
  differs from the copy made for the status patch although no status has changed.
\<close>

lemma automount_written_back:
  assumes "cs_Security (ch_Spec ch) = Some s" "so_AutomountServiceAccountToken s = None" "as_Mode (ag_Spec agent) = AgentModeTask"
  shows "snd (BuildChannelDeployment ds ch agent i infra) \<noteq> ch"
proof
  assume "snd (BuildChannelDeployment ds ch agent i infra) = ch"
  then have "cs_Security (ch_Spec (shared_channel ch agent)) = cs_Security (ch_Spec ch)" by (simp add: BuildChannelDeployment_def)
  then have "so_AutomountServiceAccountToken s = Some True"
    using assms by (auto simp: shared_channel_def channel_security_def Let_def dest!: arg_cong[where f = so_AutomountServiceAccountToken])
  with assms(2) show False by simp
qed

end
