(* ===== verification/Operator_Main.thy ===== *)
theory Operator_Main
  imports AgentRun_Controller
begin

text \<open>\<^verbatim>\<open>cmd/main.go\<close> and \<^verbatim>\<open>internal/tracing/tracing.go\<close>: the command-line flags, the tracer, the TLS
options of the two servers, the options of the manager, and the order in which controllers, webhooks,
certificate watchers and probes are set up before the manager starts. The Kubernetes and OpenTelemetry
libraries are parameters that say which of their calls fail. Go's \<^verbatim>\<open>flag\<close> package, slices with their
capacity, and \<^verbatim>\<open>filepath.Join\<close> are modelled.\<close>

subsection \<open>Flags\<close>

record flags =
  metricsAddr :: string
  metricsCertPath :: string
  metricsCertName :: string
  metricsCertKey :: string
  webhookCertPath :: string
  webhookCertName :: string
  webhookCertKey :: string
  enableLeaderElection :: bool
  enableWebhooks :: bool
  probeAddr :: string
  secureMetrics :: bool
  enableHTTP2 :: bool
  otelEndpoint :: string
  natsURL :: string

definition default_flags :: flags where
  "default_flags = \<lparr> metricsAddr = ''0'',
     metricsCertPath = [], metricsCertName = ''tls.crt'', metricsCertKey = ''tls.key'',
     webhookCertPath = [], webhookCertName = ''tls.crt'', webhookCertKey = ''tls.key'',
     enableLeaderElection = False, enableWebhooks = False, probeAddr = '':8081'',
     secureMetrics = True, enableHTTP2 = False, otelEndpoint = [], natsURL = [] \<rparr>"

datatype flag_var = BoolVar "bool \<Rightarrow> flags \<Rightarrow> flags" | StringVar "string \<Rightarrow> flags \<Rightarrow> flags"

definition flag_table :: "(string \<times> flag_var) list" where
  "flag_table =
    [(''metrics-bind-address'', StringVar (\<lambda>v f. f\<lparr>metricsAddr := v\<rparr>)),
     (''health-probe-bind-address'', StringVar (\<lambda>v f. f\<lparr>probeAddr := v\<rparr>)),
     (''leader-elect'', BoolVar (\<lambda>b f. f\<lparr>enableLeaderElection := b\<rparr>)),
     (''enable-webhooks'', BoolVar (\<lambda>b f. f\<lparr>enableWebhooks := b\<rparr>)),
     (''metrics-secure'', BoolVar (\<lambda>b f. f\<lparr>secureMetrics := b\<rparr>)),
     (''webhook-cert-path'', StringVar (\<lambda>v f. f\<lparr>webhookCertPath := v\<rparr>)),
     (''webhook-cert-name'', StringVar (\<lambda>v f. f\<lparr>webhookCertName := v\<rparr>)),
     (''webhook-cert-key'', StringVar (\<lambda>v f. f\<lparr>webhookCertKey := v\<rparr>)),
     (''metrics-cert-path'', StringVar (\<lambda>v f. f\<lparr>metricsCertPath := v\<rparr>)),
     (''metrics-cert-name'', StringVar (\<lambda>v f. f\<lparr>metricsCertName := v\<rparr>)),
     (''metrics-cert-key'', StringVar (\<lambda>v f. f\<lparr>metricsCertKey := v\<rparr>)),
     (''enable-http2'', BoolVar (\<lambda>b f. f\<lparr>enableHTTP2 := b\<rparr>)),
     (''otel-endpoint'', StringVar (\<lambda>v f. f\<lparr>otelEndpoint := v\<rparr>)),
     (''nats-url'', StringVar (\<lambda>v f. f\<lparr>natsURL := v\<rparr>))]"

text \<open>\<^verbatim>\<open>strconv.ParseBool\<close>.\<close>

definition ParseBool :: "string \<Rightarrow> bool option" where
  "ParseBool s =
    (if s \<in> {''1'', ''t'', ''T'', ''TRUE'', ''true'', ''True''} then Some True
     else if s \<in> {''0'', ''f'', ''F'', ''FALSE'', ''false'', ''False''} then Some False else None)"

text \<open>The flags the zap library binds are a parameter: whether a name is one of them, whether it is a
boolean flag, and which values it takes. They only concern the logger.\<close>

type_synonym zap_flags = "string \<Rightarrow> (bool \<times> (string \<Rightarrow> bool)) option"

definition flag_lookup :: "zap_flags \<Rightarrow> string \<Rightarrow> (bool \<times> (string \<Rightarrow> flags \<Rightarrow> flags option)) option" where
  "flag_lookup zap n = (case map_of flag_table n of
      Some (BoolVar put) \<Rightarrow> Some (True, \<lambda>v f. map_option (\<lambda>b. put b f) (ParseBool v))
    | Some (StringVar put) \<Rightarrow> Some (False, \<lambda>v f. Some (put v f))
    | None \<Rightarrow> (case zap n of
        Some (isBool, ok) \<Rightarrow> Some (isBool, \<lambda>v f. if ok v then Some f else None)
      | None \<Rightarrow> None))"

text \<open>\<^verbatim>\<open>flag.Parse\<close> with \<^verbatim>\<open>ExitOnError\<close>: the flags up to the first argument that is none, or the exit code, 0
when help was asked for and 2 for an error. A name ends at the first equals sign after its first byte.\<close>

definition split_flag :: "string \<Rightarrow> string \<times> string option" where
  "split_flag name = (case split2 (CHR ''='') (tl name) of (n, v) \<Rightarrow> (hd name # n, v))"

fun parse_flags :: "zap_flags \<Rightarrow> string list \<Rightarrow> flags \<Rightarrow> nat + flags" where
  "parse_flags zap [] f = Inr f"
| "parse_flags zap (s # args) f =
    (if length s < 2 \<or> hd s \<noteq> CHR ''-'' \<or> s = ''--'' then Inr f
     else let name = (if s ! 1 = CHR ''-'' then drop 2 s else drop 1 s) in
       if name = [] \<or> hd name = CHR ''-'' \<or> hd name = CHR ''='' then Inl 2
       else case split_flag name of (n, v) \<Rightarrow>
         (case flag_lookup zap n of
            None \<Rightarrow> if n = ''help'' \<or> n = ''h'' then Inl 0 else Inl 2
          | Some (isBool, put) \<Rightarrow>
              if isBool then
                (case put (case v of None \<Rightarrow> ''true'' | Some x \<Rightarrow> x) f of
                   None \<Rightarrow> Inl 2 | Some f' \<Rightarrow> parse_flags zap args f')
              else
                (case v of
                   Some x \<Rightarrow> (case put x f of None \<Rightarrow> Inl 2 | Some f' \<Rightarrow> parse_flags zap args f')
                 | None \<Rightarrow>
                     (case args of
                        [] \<Rightarrow> Inl 2
                      | x # rest \<Rightarrow> (case put x f of None \<Rightarrow> Inl 2 | Some f' \<Rightarrow> parse_flags zap rest f')))))"

subsection \<open>Tracing\<close>

text \<open>The package variable \<open>Tracer\<close> is a nil interface until \<open>Init\<close> assigns it.\<close>

datatype tracer = Tracer_nil | Tracer_global string | Tracer_provider string string

datatype shutdown = Shutdown_noop | Shutdown_provider

record otel_lib =
  ol_resource_New :: "string option"
  ol_exporter_New :: "string \<Rightarrow> string option"
  ol_Shutdown :: "string option"

definition tracing_Init :: "otel_lib \<Rightarrow> string \<Rightarrow> tracer \<Rightarrow> (string + shutdown) \<times> tracer" where
  "tracing_Init L endpoint t =
    (if endpoint = [] then (Inr Shutdown_noop, Tracer_global ''agentops-core'')
     else case ol_resource_New L of
       Some e \<Rightarrow> (Inl (''create resource: '' @ e), t)
     | None \<Rightarrow> (case ol_exporter_New L endpoint of
         Some e \<Rightarrow> (Inl (''create exporter: '' @ e), t)
       | None \<Rightarrow> (Inr Shutdown_provider, Tracer_provider endpoint ''agentops-core'')))"

text \<open>\<open>Tracer.Start\<close> is a method call on an interface: on the nil interface it panics. It is the first
statement of the AgentRun reconciler, the only one that traces.\<close>

definition tracer_Start :: "tracer \<Rightarrow> string \<Rightarrow> string option" where
  "tracer_Start t name = (if t = Tracer_nil then None else Some name)"

definition Reconcile_traced ::
  "tracer \<Rightarrow> 'w kube \<Rightarrow> golib \<Rightarrow> InfraConfig \<Rightarrow> 'w \<Rightarrow> nsname \<Rightarrow> ('w \<times> (apierr + ctrl_result)) option" where
  "Reconcile_traced t K G infra w req =
    (case tracer_Start t ''operator.reconcile.agentrun'' of
       None \<Rightarrow> None
     | Some sp \<Rightarrow> Some (Reconcile K G infra w req))"

subsection \<open>Slices with a capacity\<close>

text \<open>A slice header has the address of its array, a length and a capacity; \<open>append\<close> writes behind the
length when the capacity allows, into the array that other slices may share, and otherwise copies the
elements into a new array. How much larger the new array is, is up to the runtime: \<open>grow\<close> gives the
capacity from the old one and the length needed.\<close>

datatype slice = Slice (sl_array: nat) (sl_len: nat) (sl_cap: nat)

definition nil_slice :: slice where
  "nil_slice = Slice 0 0 0"

definition slice_elems :: "'a option list list \<Rightarrow> slice \<Rightarrow> 'a option list" where
  "slice_elems A sl = (if sl_array sl < length A then take (sl_len sl) (A ! sl_array sl) else [])"

definition slice_append ::
  "(nat \<Rightarrow> nat \<Rightarrow> nat) \<Rightarrow> slice \<Rightarrow> 'a \<Rightarrow> 'a option list list \<Rightarrow> slice \<times> 'a option list list" where
  "slice_append grow sl x A =
    (if sl_len sl < sl_cap sl then
       (Slice (sl_array sl) (Suc (sl_len sl)) (sl_cap sl),
        A[sl_array sl := (A ! sl_array sl)[sl_len sl := Some x]])
     else
       let c = grow (sl_cap sl) (Suc (sl_len sl)) in
       (Slice (length A) (Suc (sl_len sl)) c,
        A @ [slice_elems A sl @ [Some x] @ replicate (c - Suc (sl_len sl)) None]))"

subsection \<open>TLS options\<close>

text \<open>A certificate watcher is known by the two files it was made for. A TLS option changes a
configuration; the options of a server are applied when the server starts.\<close>

datatype watcher = CertWatcher (cw_cert: string) (cw_key: string)

datatype tls_opt = DisableHTTP2 | GetCertificateOf watcher

record tls_config =
  tc_NextProtos :: "string list"
  tc_GetCertificate :: "watcher option"

fun apply_opt :: "tls_opt \<Rightarrow> tls_config \<Rightarrow> tls_config" where
  "apply_opt DisableHTTP2 c = c\<lparr>tc_NextProtos := [''http/1.1'']\<rparr>"
| "apply_opt (GetCertificateOf w) c = c\<lparr>tc_GetCertificate := Some w\<rparr>"

text \<open>\<^verbatim>\<open>filepath.Join\<close> of two elements: the empty ones are dropped, the result is cleaned.\<close>

fun clean_segs :: "bool \<Rightarrow> string list \<Rightarrow> string list \<Rightarrow> string list" where
  "clean_segs rooted acc [] = rev acc"
| "clean_segs rooted acc (s # ss) =
    (if s = [] \<or> s = ''.'' then clean_segs rooted acc ss
     else if s = ''..'' then
       (if acc \<noteq> [] \<and> hd acc \<noteq> ''..'' then clean_segs rooted (tl acc) ss
        else if rooted then clean_segs rooted acc ss else clean_segs rooted (s # acc) ss)
     else clean_segs rooted (s # acc) ss)"

definition path_Clean :: "string \<Rightarrow> string" where
  "path_Clean p =
    (let rooted = (p \<noteq> [] \<and> hd p = CHR ''/''); segs = clean_segs rooted [] (split_on (CHR ''/'') p) in
     if rooted then CHR ''/'' # join ''/'' segs else if segs = [] then ''.'' else join ''/'' segs)"

definition filepath_Join :: "string \<Rightarrow> string \<Rightarrow> string" where
  "filepath_Join a b =
    (let es = filter (\<lambda>e. e \<noteq> []) [a, b] in if es = [] then [] else path_Clean (join ''/'' es))"

text \<open>What main uses of the libraries: which calls fail, and how \<open>append\<close> grows a slice.\<close>

datatype controller_kind = AgentCtl | ChannelCtl | AgentRunCtl | IntegrationCtl | ProviderCtl

datatype webhook_kind = AgentHook | ChannelHook | IntegrationHook | ProviderHook

text \<open>The steps after the manager exists. The first three controllers get the endpoints of the flags.\<close>

datatype setup_step =
    SetupController controller_kind "InfraConfig option"
  | SetupWebhook webhook_kind
  | AddWatcher watcher
  | AddHealthzCheck string
  | AddReadyzCheck string
  | StartManager

record metrics_options =
  mo_BindAddress :: string
  mo_SecureServing :: bool
  mo_TLSOpts :: slice
  mo_FilterProvider :: bool

record mgr_options =
  mg_Metrics :: metrics_options
  mg_HealthProbeBindAddress :: string
  mg_LeaderElection :: bool
  mg_LeaderElectionID :: string
  mg_DefaultNamespaces :: "string set option"
  mg_WebhookServer :: "slice option"

record main_lib =
  ml_zap :: zap_flags
  ml_otel :: otel_lib
  ml_grow :: "nat \<Rightarrow> nat \<Rightarrow> nat"
  ml_certwatcher_New :: "string \<Rightarrow> string \<Rightarrow> string option"
  ml_kubeconfig :: bool
  ml_NewManager :: "mgr_options \<Rightarrow> string option"
  ml_step :: "setup_step \<Rightarrow> string option"

record main_env =
  me_OTEL_EXPORTER_OTLP_ENDPOINT :: string
  me_WATCH_NAMESPACES :: string

type_synonym tls_arrays = "tls_opt option list list"

text \<open>The options shared by both servers, then those of the webhook server and of the metrics server:
each takes the shared slice and appends its certificate.\<close>

definition base_tls :: "main_lib \<Rightarrow> flags \<Rightarrow> slice \<times> tls_arrays" where
  "base_tls L f = (if \<not> enableHTTP2 f then slice_append (ml_grow L) nil_slice DisableHTTP2 [] else (nil_slice, []))"

definition with_certificate ::
  "main_lib \<Rightarrow> bool \<Rightarrow> string \<Rightarrow> string \<Rightarrow> string \<Rightarrow> slice \<Rightarrow> tls_arrays \<Rightarrow> string + watcher option \<times> slice \<times> tls_arrays" where
  "with_certificate L on dir cert key sl A =
    (if on \<and> 0 < length dir then
       (case ml_certwatcher_New L (filepath_Join dir cert) (filepath_Join dir key) of
          Some e \<Rightarrow> Inl e
        | None \<Rightarrow>
            (let w = CertWatcher (filepath_Join dir cert) (filepath_Join dir key);
                 (sl', A') = slice_append (ml_grow L) sl (GetCertificateOf w) A
             in Inr (Some w, sl', A')))
     else Inr (None, sl, A))"

text \<open>\<^verbatim>\<open>WATCH_NAMESPACES\<close>: the cache is restricted when at least one name is left.\<close>

definition watch_namespaces :: "string \<Rightarrow> string set option" where
  "watch_namespaces raw =
    (if raw = [] then None
     else let nsSet = set (filter (\<lambda>ns. ns \<noteq> []) (map trim_space (split_on (CHR '','') raw)))
       in if nsSet = {} then None else Some nsSet)"

definition manager_options :: "flags \<Rightarrow> main_env \<Rightarrow> slice \<Rightarrow> slice \<Rightarrow> mgr_options" where
  "manager_options f env webhookTLSOpts metricsTLSOpts = \<lparr>
     mg_Metrics = \<lparr> mo_BindAddress = metricsAddr f, mo_SecureServing = secureMetrics f,
       mo_TLSOpts = metricsTLSOpts, mo_FilterProvider = secureMetrics f \<rparr>,
     mg_HealthProbeBindAddress = probeAddr f,
     mg_LeaderElection = enableLeaderElection f,
     mg_LeaderElectionID = ''e58828d7.agentops.io'',
     mg_DefaultNamespaces = watch_namespaces (me_WATCH_NAMESPACES env),
     mg_WebhookServer = (if enableWebhooks f then Some webhookTLSOpts else None) \<rparr>"

definition setup_steps :: "flags \<Rightarrow> watcher option \<Rightarrow> watcher option \<Rightarrow> setup_step list" where
  "setup_steps f webhookCertWatcher metricsCertWatcher =
    (let infra = \<lparr>ic_OTelEndpoint = otelEndpoint f, ic_NATSURL = natsURL f\<rparr> in
     [SetupController AgentCtl (Some infra), SetupController ChannelCtl (Some infra),
      SetupController AgentRunCtl (Some infra), SetupController IntegrationCtl None,
      SetupController ProviderCtl None]
     @ (if enableWebhooks f then map SetupWebhook [AgentHook, ChannelHook, IntegrationHook, ProviderHook] else [])
     @ (case metricsCertWatcher of None \<Rightarrow> [] | Some w \<Rightarrow> [AddWatcher w])
     @ (case webhookCertWatcher of None \<Rightarrow> [] | Some w \<Rightarrow> [AddWatcher w])
     @ [AddHealthzCheck ''healthz'', AddReadyzCheck ''readyz'', StartManager])"

text \<open>Every step is followed by \<open>if err != nil { os.Exit(1) }\<close>: the steps that succeeded, and whether all did.\<close>

fun run_steps :: "(setup_step \<Rightarrow> string option) \<Rightarrow> setup_step list \<Rightarrow> setup_step list \<times> bool" where
  "run_steps fails [] = ([], True)"
| "run_steps fails (s # ss) = (case fails s of
      Some e \<Rightarrow> ([], False)
    | None \<Rightarrow> (case run_steps fails ss of (done, ok) \<Rightarrow> (s # done, ok)))"

text \<open>The run of main: the exit code (0 also when main returns), the steps that succeeded, the manager
and the arrays of the TLS options, the tracer, and whether the deferred shutdown of the tracer ran:
\<open>os.Exit\<close> skips deferred calls.\<close>

record main_result =
  mr_code :: nat
  mr_steps :: "setup_step list"
  mr_manager :: "mgr_options option"
  mr_arrays :: tls_arrays
  mr_tracer :: tracer
  mr_shutdown :: bool

definition exit_main :: "nat \<Rightarrow> tracer \<Rightarrow> main_result" where
  "exit_main code t = \<lparr> mr_code = code, mr_steps = [], mr_manager = None, mr_arrays = [], mr_tracer = t, mr_shutdown = False \<rparr>"

definition run_manager ::
  "main_lib \<Rightarrow> flags \<Rightarrow> mgr_options \<Rightarrow> tls_arrays \<Rightarrow> watcher option \<Rightarrow> watcher option \<Rightarrow> string + shutdown \<Rightarrow> tracer \<Rightarrow> main_result" where
  "run_manager L f mgrOptions A webhookCertWatcher metricsCertWatcher tracing t =
    (if \<not> ml_kubeconfig L then exit_main 1 t
     else case ml_NewManager L mgrOptions of
       Some e \<Rightarrow> exit_main 1 t
     | None \<Rightarrow>
         (case run_steps (ml_step L) (setup_steps f webhookCertWatcher metricsCertWatcher) of (done, ok) \<Rightarrow>
            \<lparr> mr_code = (if ok then 0 else 1), mr_steps = done, mr_manager = Some mgrOptions, mr_arrays = A,
              mr_tracer = t, mr_shutdown = ok \<and> \<not> isl tracing \<rparr>))"

definition operator_main :: "main_lib \<Rightarrow> main_env \<Rightarrow> string list \<Rightarrow> main_result" where
  "operator_main L env args =
    (case parse_flags (ml_zap L) args default_flags of
       Inl code \<Rightarrow> exit_main code Tracer_nil
     | Inr f \<Rightarrow>
         (case tracing_Init (ml_otel L) (me_OTEL_EXPORTER_OTLP_ENDPOINT env) Tracer_nil of (tracing, t) \<Rightarrow>
          case base_tls L f of (tlsOpts, A) \<Rightarrow>
          case with_certificate L (enableWebhooks f) (webhookCertPath f) (webhookCertName f) (webhookCertKey f) tlsOpts A of
            Inl e \<Rightarrow> exit_main 1 t
          | Inr (webhookCertWatcher, webhookTLSOpts, A1) \<Rightarrow>
              (case with_certificate L True (metricsCertPath f) (metricsCertName f) (metricsCertKey f) tlsOpts A1 of
                 Inl e \<Rightarrow> exit_main 1 t
               | Inr (metricsCertWatcher, metricsTLSOpts, A2) \<Rightarrow>
                   run_manager L f (manager_options f env webhookTLSOpts metricsTLSOpts) A2
                     webhookCertWatcher metricsCertWatcher tracing t)))"

text \<open>The TLS configuration of a server with these options when it starts.\<close>

definition server_tls :: "tls_arrays \<Rightarrow> slice \<Rightarrow> tls_config \<Rightarrow> tls_config" where
  "server_tls A sl c = foldl (\<lambda>c x. case x of Some opt \<Rightarrow> apply_opt opt c | None \<Rightarrow> c) c (slice_elems A sl)"

end
