(* ===== verification/Operator_Properties.thy ===== *)
theory Operator_Properties
  imports Operator_Main
begin

text \<open>What \<^verbatim>\<open>cmd/main.go\<close> promises: settings on the command line and in the environment arrive where they
belong, the set-up stops at the first failure, the manager starts after everything else, each server has
its own certificate, and a failed tracing set-up is not fatal to main (but to the AgentRun controller).\<close>

subsection \<open>The set-up sequence\<close>

lemma run_steps_takeWhile:
  "run_steps fails ss = (takeWhile (\<lambda>s. fails s = None) ss, list_all (\<lambda>s. fails s = None) ss)"
  by (induction ss) (auto split: option.split)

lemma setup_steps_last: "\<exists>xs. setup_steps f ww mw = xs @ [StartManager] \<and> StartManager \<notin> set xs"
proof (intro exI conjI)
  show "setup_steps f ww mw = butlast (setup_steps f ww mw) @ [StartManager]"
    using append_butlast_last_id[of "setup_steps f ww mw"] by (simp add: setup_steps_def Let_def)
  show "StartManager \<notin> set (butlast (setup_steps f ww mw))"
    by (simp add: setup_steps_def Let_def butlast_append)
qed

lemma setup_steps_members:
  "SetupController c (if c \<in> {AgentCtl, ChannelCtl, AgentRunCtl}
      then Some \<lparr>ic_OTelEndpoint = otelEndpoint f, ic_NATSURL = natsURL f\<rparr> else None) \<in> set (setup_steps f ww mw)"
  "SetupWebhook h \<in> set (setup_steps f ww mw) \<longleftrightarrow> enableWebhooks f"
  "{AddHealthzCheck ''healthz'', AddReadyzCheck ''readyz''} \<subseteq> set (setup_steps f ww mw)"
proof -
  show "SetupController c (if c \<in> {AgentCtl, ChannelCtl, AgentRunCtl}
      then Some \<lparr>ic_OTelEndpoint = otelEndpoint f, ic_NATSURL = natsURL f\<rparr> else None) \<in> set (setup_steps f ww mw)"
    by (cases c) (simp_all add: setup_steps_def Let_def)
  show "SetupWebhook h \<in> set (setup_steps f ww mw) \<longleftrightarrow> enableWebhooks f"
    by (cases h) (auto simp: setup_steps_def Let_def split: option.splits)
qed (simp add: setup_steps_def Let_def)

lemma takeWhile_last:
  "x \<notin> set xs \<Longrightarrow> x \<in> set (takeWhile P (xs @ [x])) \<longleftrightarrow> list_all P (xs @ [x])"
proof (induction xs)
  case Nil
  show ?case by (cases "P x") simp_all
next
  case (Cons y ys)
  then show ?case by (cases "P y") simp_all
qed

lemma started_iff: "StartManager \<in> set (takeWhile P (setup_steps f ww mw)) \<longleftrightarrow> list_all P (setup_steps f ww mw)"
  using setup_steps_last[of f ww mw] takeWhile_last by metis

lemma with_certificate_Inr:
  "with_certificate L on dir cert key sl A = Inr (w, sl', A') \<Longrightarrow>
    w = (if on \<and> dir \<noteq> [] then Some (CertWatcher (filepath_Join dir cert) (filepath_Join dir key)) else None) \<and>
    (sl', A') = (case w of None \<Rightarrow> (sl, A) | Some w \<Rightarrow> slice_append (ml_grow L) sl (GetCertificateOf w) A)"
  by (auto simp: with_certificate_def Let_def split: if_splits option.splits prod.splits)

text \<open>A run of main that gets past the flags: it fails before there is a manager, or it has the manager
with these options and runs the steps.\<close>

lemma operator_main_cases:
  assumes "parse_flags (ml_zap L) args default_flags = Inr f"
  obtains (early) "operator_main L env args = exit_main 1 (snd (tracing_Init (ml_otel L) (me_OTEL_EXPORTER_OTLP_ENDPOINT env) Tracer_nil))"
  | (ran) ww wsl A1 mw msl A2 where
      "with_certificate L (enableWebhooks f) (webhookCertPath f) (webhookCertName f) (webhookCertKey f)
         (fst (base_tls L f)) (snd (base_tls L f)) = Inr (ww, wsl, A1)"
      "with_certificate L True (metricsCertPath f) (metricsCertName f) (metricsCertKey f) (fst (base_tls L f)) A1
         = Inr (mw, msl, A2)"
      "operator_main L env args = \<lparr>
         mr_code = (if list_all (\<lambda>s. ml_step L s = None) (setup_steps f ww mw) then 0 else 1),
         mr_steps = takeWhile (\<lambda>s. ml_step L s = None) (setup_steps f ww mw),
         mr_manager = Some (manager_options f env wsl msl), mr_arrays = A2,
         mr_tracer = snd (tracing_Init (ml_otel L) (me_OTEL_EXPORTER_OTLP_ENDPOINT env) Tracer_nil),
         mr_shutdown = list_all (\<lambda>s. ml_step L s = None) (setup_steps f ww mw)
           \<and> \<not> isl (fst (tracing_Init (ml_otel L) (me_OTEL_EXPORTER_OTLP_ENDPOINT env) Tracer_nil)) \<rparr>"
proof -
  let ?w = "with_certificate L (enableWebhooks f) (webhookCertPath f) (webhookCertName f) (webhookCertKey f)
         (fst (base_tls L f)) (snd (base_tls L f))"
  have unf: "operator_main L env args = (case ?w of Inl e \<Rightarrow>
      exit_main 1 (snd (tracing_Init (ml_otel L) (me_OTEL_EXPORTER_OTLP_ENDPOINT env) Tracer_nil))
    | Inr (ww, wsl, A1) \<Rightarrow>
        (case with_certificate L True (metricsCertPath f) (metricsCertName f) (metricsCertKey f) (fst (base_tls L f)) A1 of
           Inl e \<Rightarrow> exit_main 1 (snd (tracing_Init (ml_otel L) (me_OTEL_EXPORTER_OTLP_ENDPOINT env) Tracer_nil))
         | Inr (mw, msl, A2) \<Rightarrow> run_manager L f (manager_options f env wsl msl) A2 ww mw
             (fst (tracing_Init (ml_otel L) (me_OTEL_EXPORTER_OTLP_ENDPOINT env) Tracer_nil))
             (snd (tracing_Init (ml_otel L) (me_OTEL_EXPORTER_OTLP_ENDPOINT env) Tracer_nil))))"
    by (simp add: operator_main_def assms case_prod_beta)
  show thesis
  proof (cases ?w)
    case (Inl e)
    then show thesis using unf early by simp
  next
    case (Inr r)
    obtain ww wsl A1 where r: "r = (ww, wsl, A1)" by (cases r) auto
    note w = Inr[unfolded r]
    let ?m = "with_certificate L True (metricsCertPath f) (metricsCertName f) (metricsCertKey f) (fst (base_tls L f)) A1"
    show thesis
    proof (cases ?m)
      case (Inl e)
      then show thesis using unf w early by simp
    next
      case (Inr q)
      obtain mw msl A2 where q: "q = (mw, msl, A2)" by (cases q) auto
      note m = Inr[unfolded q]
      show thesis
      proof (cases "ml_kubeconfig L \<and> ml_NewManager L (manager_options f env wsl msl) = None")
        case True
        then show thesis using unf w m by (intro ran[OF w m]) (simp add: run_manager_def run_steps_takeWhile)
      next
        case False
        then show thesis using unf w m early by (auto simp: run_manager_def split: option.split)
      qed
    qed
  qed
qed

subsection \<open>Slices\<close>

lemma append_nil: "slice_append grow nil_slice x A
    = (Slice (length A) 1 (grow 0 1), A @ [Some x # replicate (grow 0 1 - 1) None])"
  by (simp add: slice_append_def nil_slice_def Let_def slice_elems_def)

lemma append_full:
  assumes "sl_cap sl \<le> sl_len sl"
  shows "slice_append grow sl x A = (Slice (length A) (Suc (sl_len sl)) (grow (sl_cap sl) (Suc (sl_len sl))),
    A @ [slice_elems A sl @ [Some x] @ replicate (grow (sl_cap sl) (Suc (sl_len sl)) - Suc (sl_len sl)) None])"
  using assms by (simp add: slice_append_def Let_def)

lemma slice_elems_extend:
  "sl_array sl < length A \<or> sl_len sl = 0 \<Longrightarrow> slice_elems (A @ B) sl = slice_elems A sl"
  by (auto simp: slice_elems_def nth_append)

text \<open>A slice without spare capacity: what is appended to it goes into a new array, so the slice and
all others keep their elements.\<close>

definition full_slice :: "'a option list list \<Rightarrow> slice \<Rightarrow> bool" where
  "full_slice A sl \<longleftrightarrow> sl_cap sl \<le> sl_len sl \<and> length (slice_elems A sl) = sl_len sl"

lemma append_to_full:
  assumes "full_slice A sl" "slice_append grow sl x A = (sl', A')"
  shows "slice_elems A' sl' = slice_elems A sl @ [Some x] \<and> (\<exists>B. A' = A @ B) \<and> sl_array sl' < length A'"
  using assms by (auto simp: append_full full_slice_def) (simp add: slice_elems_def nth_append)

lemma full_slice_extend: "full_slice A sl \<Longrightarrow> full_slice (A @ B) sl \<and> slice_elems (A @ B) sl = slice_elems A sl"
proof -
  assume full: "full_slice A sl"
  then have "sl_array sl < length A \<or> sl_len sl = 0"
    by (auto simp: full_slice_def slice_elems_def split: if_splits)
  then show ?thesis
    using full slice_elems_extend[of sl A B] by (simp add: full_slice_def)
qed

lemma base_tls_full:
  assumes "enableHTTP2 f \<or> ml_grow L 0 1 = 1"
  shows "full_slice (snd (base_tls L f)) (fst (base_tls L f))
    \<and> slice_elems (snd (base_tls L f)) (fst (base_tls L f)) = (if enableHTTP2 f then [] else [Some DisableHTTP2])"
proof (cases "enableHTTP2 f")
  case True
  then show ?thesis by (simp add: base_tls_def nil_slice_def full_slice_def slice_elems_def)
next
  case False
  with assms show ?thesis by (simp add: base_tls_def append_nil full_slice_def slice_elems_def)
qed

lemma with_certificate_elems:
  assumes "full_slice A sl" "with_certificate L on dir cert key sl A = Inr (w, sl', A')"
  shows "slice_elems A' sl' = slice_elems A sl @
      (if on \<and> dir \<noteq> [] then [Some (GetCertificateOf (CertWatcher (filepath_Join dir cert) (filepath_Join dir key)))] else [])
    \<and> (\<exists>B. A' = A @ B) \<and> (sl_array sl' < length A' \<or> sl_len sl' = 0)"
proof (cases "on \<and> dir \<noteq> []")
  case True
  then have "slice_append (ml_grow L) sl (GetCertificateOf (CertWatcher (filepath_Join dir cert) (filepath_Join dir key))) A = (sl', A')"
    using with_certificate_Inr[OF assms(2)] by auto
  from append_to_full[OF assms(1) this] True show ?thesis by simp
next
  case False
  then have "sl' = sl" "A' = A" using with_certificate_Inr[OF assms(2)] by auto
  with False assms(1) show ?thesis by (auto simp: full_slice_def slice_elems_def split: if_splits)
qed

subsection \<open>The environment and the command line\<close>

lemma split_on_append: "c \<notin> set w \<Longrightarrow> split_on c (w @ c # rest) = w # split_on c rest"
  by (induction w) auto

lemma split_on_none: "c \<notin> set w \<Longrightarrow> split_on c w = [w]"
  by (induction w) auto

lemma split_on_join:
  "ws \<noteq> [] \<Longrightarrow> \<forall>w\<in>set ws. c \<notin> set w \<Longrightarrow> split_on c (join [c] ws) = ws"
  by (induction "[c]" ws rule: join.induct) (auto simp: split_on_append split_on_none)

lemma trim_space_id: "\<forall>c\<in>set w. \<not> is_space c \<Longrightarrow> trim_space w = w"
proof -
  assume w: "\<forall>c\<in>set w. \<not> is_space c"
  have keep: "dropWhile is_space v = v" if "\<forall>c\<in>set v. \<not> is_space c" for v
    using that by (cases v) auto
  show ?thesis using w by (simp add: trim_space_def keep)
qed

lemma watch_namespaces_join:
  assumes "names \<noteq> []" "\<forall>n\<in>set names. n \<noteq> [] \<and> (\<forall>c\<in>set n. c \<noteq> CHR '','' \<and> \<not> is_space c)"
  shows "watch_namespaces (join '','' names) = Some (set names)"
proof -
  have sp: "split_on (CHR '','') (join '','' names) = names"
    using assms by (intro split_on_join) auto
  have tr: "map trim_space names = names"
    using assms(2) by (intro map_idI trim_space_id) auto
  have fl: "filter (\<lambda>ns. ns \<noteq> []) names = names"
    using assms(2) by (auto intro: filter_True)
  have "join '','' names \<noteq> []"
    using assms by (cases names rule: list.exhaust; cases "tl names") auto
  then show ?thesis
    using assms(1) by (simp add: watch_namespaces_def sp tr fl Let_def)
qed

text \<open>A setting as it is written on the command line, and what it does to the flags.\<close>

definition flag_arg :: "string \<times> string \<Rightarrow> string" where
  "flag_arg nv = ''--'' @ fst nv @ ''='' @ snd nv"

fun apply_flag :: "string \<times> string \<Rightarrow> flags \<Rightarrow> flags option" where
  "apply_flag (n, v) f = (case map_of flag_table n of
      Some (BoolVar put) \<Rightarrow> map_option (\<lambda>b. put b f) (ParseBool v)
    | Some (StringVar put) \<Rightarrow> Some (put v f)
    | None \<Rightarrow> None)"

fun apply_flags :: "(string \<times> string) list \<Rightarrow> flags \<Rightarrow> flags option" where
  "apply_flags [] f = Some f"
| "apply_flags (s # ss) f = (case apply_flag s f of None \<Rightarrow> None | Some f' \<Rightarrow> apply_flags ss f')"

lemma flag_names:
  "list_all (\<lambda>(n, _). n \<noteq> [] \<and> hd n \<notin> {CHR ''-'', CHR ''=''} \<and> CHR ''='' \<notin> set n) flag_table"
  by (simp add: flag_table_def)

lemma flag_name_ok:
  assumes "map_of flag_table n = Some x"
  shows "n \<noteq> []" "hd n \<noteq> CHR ''-''" "hd n \<noteq> CHR ''=''" "CHR ''='' \<notin> set (tl n)"
proof -
  have "(n, x) \<in> set flag_table" using assms by (rule map_of_SomeD)
  then have n: "n \<noteq> [] \<and> hd n \<notin> {CHR ''-'', CHR ''=''} \<and> CHR ''='' \<notin> set n"
    using flag_names by (auto simp: list_all_iff)
  then show "n \<noteq> []" "hd n \<noteq> CHR ''-''" "hd n \<noteq> CHR ''=''" by auto
  show "CHR ''='' \<notin> set (tl n)" using n by (cases n) auto
qed

lemma split_flag_setting:
  "n \<noteq> [] \<Longrightarrow> CHR ''='' \<notin> set (tl n) \<Longrightarrow> split_flag (n @ CHR ''='' # v) = (n, Some v)"
  by (cases n) (simp_all add: split_flag_def split2_def index_of_append)

lemma parse_setting:
  assumes "apply_flag (n, v) f = Some f'"
  shows "parse_flags zap (flag_arg (n, v) # args) f = parse_flags zap args f'"
proof -
  obtain x where x: "map_of flag_table n = Some x" using assms by (auto split: option.splits)
  note ok = flag_name_ok[OF x]
  have sp: "split_flag (n @ CHR ''='' # v) = (n, Some v)"
    using ok(1,4) by (rule split_flag_setting)
  have hd: "hd (n @ CHR ''='' # v) = hd n" using ok(1) by simp
  show ?thesis
  proof (cases x)
    case (BoolVar put)
    with assms x show ?thesis
      using ok hd by (auto simp: flag_arg_def Let_def sp flag_lookup_def)
  next
    case (StringVar put)
    with assms x show ?thesis
      using ok hd by (auto simp: flag_arg_def Let_def sp flag_lookup_def)
  qed
qed

lemma parse_settings: "apply_flags ss f = Some f' \<Longrightarrow> parse_flags zap (map flag_arg ss) f = Inr f'"
proof (induction ss arbitrary: f)
  case (Cons s ss)
  then obtain f1 where "apply_flag s f = Some f1" "apply_flags ss f1 = Some f'"
    by (auto split: option.splits)
  then show ?case using Cons.IH parse_setting[of "fst s" "snd s"] by simp
qed simp

section \<open>Properties\<close>

text \<open>The operator on a machine where every call succeeds and \<open>append\<close> allocates what it needs.\<close>

definition fine_lib :: main_lib where
  "fine_lib = \<lparr> ml_zap = (\<lambda>_. None),
     ml_otel = \<lparr> ol_resource_New = None, ol_exporter_New = (\<lambda>_. None), ol_Shutdown = None \<rparr>,
     ml_grow = (\<lambda>c n. n), ml_certwatcher_New = (\<lambda>_ _. None), ml_kubeconfig = True,
     ml_NewManager = (\<lambda>_. None), ml_step = (\<lambda>_. None) \<rparr>"

definition plain_env :: main_env where
  "plain_env = \<lparr> me_OTEL_EXPORTER_OTLP_ENDPOINT = [], me_WATCH_NAMESPACES = [] \<rparr>"

definition cert_settings :: "(string \<times> string) list" where
  "cert_settings = [(''enable-webhooks'', ''true''), (''webhook-cert-path'', ''/w''), (''metrics-cert-path'', ''/m'')]"

definition cert_flags :: flags where
  "cert_flags = default_flags\<lparr>enableWebhooks := True, webhookCertPath := ''/w'', metricsCertPath := ''/m''\<rparr>"

lemma cert_settings_apply: "apply_flags cert_settings default_flags = Some cert_flags"
  by (simp add: cert_settings_def cert_flags_def flag_table_def ParseBool_def)

lemma cert_settings_parse: "parse_flags zap (map flag_arg cert_settings) default_flags = Inr cert_flags"
  by (rule parse_settings[OF cert_settings_apply])

lemma cert_paths:
  "filepath_Join ''/w'' ''tls.crt'' = ''/w/tls.crt''" "filepath_Join ''/w'' ''tls.key'' = ''/w/tls.key''"
  "filepath_Join ''/m'' ''tls.crt'' = ''/m/tls.crt''" "filepath_Join ''/m'' ''tls.key'' = ''/m/tls.key''"
  by code_simp+

lemma fine_main: "operator_main fine_lib plain_env (map flag_arg cert_settings) =
  \<lparr> mr_code = 0, mr_steps = setup_steps cert_flags (Some (CertWatcher ''/w/tls.crt'' ''/w/tls.key'')) (Some (CertWatcher ''/m/tls.crt'' ''/m/tls.key'')),
    mr_manager = Some (manager_options cert_flags plain_env (Slice (Suc 0) 2 2) (Slice 2 2 2)),
    mr_arrays = [[Some DisableHTTP2],
      [Some DisableHTTP2, Some (GetCertificateOf (CertWatcher ''/w/tls.crt'' ''/w/tls.key''))],
      [Some DisableHTTP2, Some (GetCertificateOf (CertWatcher ''/m/tls.crt'' ''/m/tls.key''))]],
    mr_tracer = Tracer_global ''agentops-core'', mr_shutdown = True \<rparr>"
proof -
  have base: "base_tls fine_lib cert_flags = (Slice 0 (Suc 0) (Suc 0), [[Some DisableHTTP2]])"
    by (simp add: base_tls_def cert_flags_def default_flags_def append_nil fine_lib_def)
  have w: "with_certificate fine_lib True ''/w'' ''tls.crt'' ''tls.key'' (Slice 0 (Suc 0) (Suc 0)) [[Some DisableHTTP2]] =
      Inr (Some (CertWatcher ''/w/tls.crt'' ''/w/tls.key''), Slice (Suc 0) 2 2, [[Some DisableHTTP2],
        [Some DisableHTTP2, Some (GetCertificateOf (CertWatcher ''/w/tls.crt'' ''/w/tls.key''))]])"
    by (simp add: with_certificate_def cert_paths fine_lib_def slice_append_def slice_elems_def Let_def eval_nat_numeral)
  have m: "with_certificate fine_lib True ''/m'' ''tls.crt'' ''tls.key'' (Slice 0 (Suc 0) (Suc 0))
      [[Some DisableHTTP2], [Some DisableHTTP2, Some (GetCertificateOf (CertWatcher ''/w/tls.crt'' ''/w/tls.key''))]] =
      Inr (Some (CertWatcher ''/m/tls.crt'' ''/m/tls.key''), Slice 2 2 2, [[Some DisableHTTP2],
        [Some DisableHTTP2, Some (GetCertificateOf (CertWatcher ''/w/tls.crt'' ''/w/tls.key''))],
        [Some DisableHTTP2, Some (GetCertificateOf (CertWatcher ''/m/tls.crt'' ''/m/tls.key''))]])"
    by (simp add: with_certificate_def cert_paths fine_lib_def slice_append_def slice_elems_def Let_def eval_nat_numeral)
  have fl: "enableWebhooks cert_flags" "webhookCertPath cert_flags = ''/w''" "metricsCertPath cert_flags = ''/m''"
    "webhookCertName cert_flags = ''tls.crt''" "webhookCertKey cert_flags = ''tls.key''"
    "metricsCertName cert_flags = ''tls.crt''" "metricsCertKey cert_flags = ''tls.key''"
    by (simp_all add: cert_flags_def default_flags_def)
  have lib: "ml_kubeconfig fine_lib" "ml_NewManager fine_lib = (\<lambda>_. None)" "ml_step fine_lib = (\<lambda>_. None)"
    by (simp_all add: fine_lib_def)
  have "takeWhile (\<lambda>s. True) xs = xs" for xs :: "setup_step list" by (induction xs) auto
  then have st: "run_steps (\<lambda>_. None) ss = (ss, True)" for ss
    by (simp add: run_steps_takeWhile list_all_iff)
  show ?thesis
    by (simp add: operator_main_def cert_settings_parse tracing_Init_def plain_env_def base fl w m
        run_manager_def lib st)
qed

text \<open>The settings of a command line \<open>--name=value\<close>, in any number and order, are parsed to exactly
those settings applied in turn to the defaults; a list of namespaces joined by commas restricts the
cache to exactly those namespaces.\<close>

theorem settings_roundtrip:
  "(apply_flags ss default_flags = Some f \<longrightarrow> parse_flags zap (map flag_arg ss) default_flags = Inr f) \<and>
   (names \<noteq> [] \<and> (\<forall>n\<in>set names. n \<noteq> [] \<and> (\<forall>c\<in>set n. c \<noteq> CHR '','' \<and> \<not> is_space c)) \<longrightarrow>
      watch_namespaces (join '','' names) = Some (set names))"
proof (intro conjI impI)
  assume "apply_flags ss default_flags = Some f"
  then show "parse_flags zap (map flag_arg ss) default_flags = Inr f" by (rule parse_settings)
next
  assume "names \<noteq> [] \<and> (\<forall>n\<in>set names. n \<noteq> [] \<and> (\<forall>c\<in>set n. c \<noteq> CHR '','' \<and> \<not> is_space c))"
  then show "watch_namespaces (join '','' names) = Some (set names)" by (intro watch_namespaces_join) simp_all
qed

text \<open>Witness: the certificate settings, and two namespaces.\<close>

theorem settings_roundtrip_witness:
  "parse_flags (\<lambda>_. None) (map flag_arg cert_settings) default_flags = Inr cert_flags \<and>
   watch_namespaces (join '','' [''dev'', ''prod'']) = Some {''dev'', ''prod''}"
proof -
  have names: "[''dev'', ''prod''] \<noteq> [] \<and> (\<forall>n\<in>set [''dev'', ''prod'']. n \<noteq> [] \<and> (\<forall>c\<in>set n. c \<noteq> CHR '','' \<and> \<not> is_space c))"
    by (simp add: is_space_def)
  have "{''dev'', ''prod''} = set [''dev'', ''prod'']" by simp
  then show ?thesis
    using settings_roundtrip[of cert_settings cert_flags "\<lambda>_. None" "[''dev'', ''prod'']"] cert_settings_apply names
    by metis
qed





text \<open>The requirement on \<open>append\<close> cannot be dropped: with room for a second element the webhook server
would be given the certificate of the metrics server.\<close>

lemma shared_array_mixes_certificates:
  fixes L :: main_lib
  defines "L \<equiv> fine_lib\<lparr>ml_grow := \<lambda>c n. 2 * n\<rparr>"
  shows "\<exists>wsl A1 w. base_tls L cert_flags = (Slice 0 1 2, [[Some DisableHTTP2, None]])
    \<and> with_certificate L True ''/w'' ''tls.crt'' ''tls.key'' (Slice 0 1 2) [[Some DisableHTTP2, None]] = Inr (w, wsl, A1)
    \<and> (\<exists>mw msl A2. with_certificate L True ''/m'' ''tls.crt'' ''tls.key'' (Slice 0 1 2) A1 = Inr (mw, msl, A2)
      \<and> slice_elems A2 wsl = [Some DisableHTTP2, Some (GetCertificateOf (CertWatcher ''/m/tls.crt'' ''/m/tls.key''))])"
  by (simp add: L_def base_tls_def with_certificate_def cert_paths slice_append_def slice_elems_def nil_slice_def
      fine_lib_def cert_flags_def default_flags_def Let_def eval_nat_numeral)

text \<open>Which tracer is in place has no influence on the manager.\<close>

lemma run_manager_tracing:
  "mr_code (run_manager L f mo A ww mw tr t) = mr_code (run_manager L f mo A ww mw tr' t')"
  "mr_steps (run_manager L f mo A ww mw tr t) = mr_steps (run_manager L f mo A ww mw tr' t')"
  "mr_manager (run_manager L f mo A ww mw tr t) = mr_manager (run_manager L f mo A ww mw tr' t')"
  "mr_arrays (run_manager L f mo A ww mw tr t) = mr_arrays (run_manager L f mo A ww mw tr' t')"
  "mr_tracer (run_manager L f mo A ww mw tr t) = t"
  by (cases "ml_kubeconfig L"; cases "ml_NewManager L mo"; simp add: run_manager_def exit_main_def run_steps_takeWhile)+

text \<open>C29: a failure of the tracing set-up changes nothing in what main does: exit code, steps, manager and
TLS options are those of a run without an endpoint. But the tracer is then nil, and every reconcile of an
AgentRun panics at its first statement; with a tracer it is the reconcile of the controller.\<close>

theorem tracing_failure_is_not_fatal_to_main:
  assumes "parse_flags (ml_zap L) args default_flags = Inr f"
  shows "mr_code (operator_main L env args) = mr_code (operator_main L (env\<lparr>me_OTEL_EXPORTER_OTLP_ENDPOINT := []\<rparr>) args)
    \<and> mr_steps (operator_main L env args) = mr_steps (operator_main L (env\<lparr>me_OTEL_EXPORTER_OTLP_ENDPOINT := []\<rparr>) args)
    \<and> mr_manager (operator_main L env args) = mr_manager (operator_main L (env\<lparr>me_OTEL_EXPORTER_OTLP_ENDPOINT := []\<rparr>) args)
    \<and> mr_arrays (operator_main L env args) = mr_arrays (operator_main L (env\<lparr>me_OTEL_EXPORTER_OTLP_ENDPOINT := []\<rparr>) args)
    \<and> Reconcile_traced (mr_tracer (operator_main L env args)) K G infra w req =
        (let endpoint = me_OTEL_EXPORTER_OTLP_ENDPOINT env in
         if endpoint \<noteq> [] \<and> (ol_resource_New (ml_otel L) \<noteq> None \<or> ol_exporter_New (ml_otel L) endpoint \<noteq> None)
         then None else Some (Reconcile K G infra w req))"
proof -
  let ?unset = "env\<lparr>me_OTEL_EXPORTER_OTLP_ENDPOINT := []\<rparr>"
  let ?run = "operator_main L env args" and ?plain = "operator_main L ?unset args"
  let ?t = "snd (tracing_Init (ml_otel L) (me_OTEL_EXPORTER_OTLP_ENDPOINT env) Tracer_nil)"
  let ?w = "with_certificate L (enableWebhooks f) (webhookCertPath f) (webhookCertName f) (webhookCertKey f)
    (fst (base_tls L f)) (snd (base_tls L f))"
  have opts: "manager_options f ?unset wsl msl = manager_options f env wsl msl" for wsl msl
    by (simp add: manager_options_def)
  have same: "mr_code ?run = mr_code ?plain \<and> mr_steps ?run = mr_steps ?plain \<and> mr_manager ?run = mr_manager ?plain \<and>
    mr_arrays ?run = mr_arrays ?plain \<and> mr_tracer ?run = ?t"
  proof (cases ?w)
    case (Inr r)
    obtain ww wsl A1 where r: "r = (ww, wsl, A1)" by (cases r) auto
    let ?m = "with_certificate L True (metricsCertPath f) (metricsCertName f) (metricsCertKey f) (fst (base_tls L f)) A1"
    show ?thesis
    proof (cases ?m)
      case m: (Inr q)
      obtain mw msl A2 where q: "q = (mw, msl, A2)" by (cases q) auto
      have "?run = run_manager L f (manager_options f env wsl msl) A2 ww mw
          (fst (tracing_Init (ml_otel L) (me_OTEL_EXPORTER_OTLP_ENDPOINT env) Tracer_nil)) ?t"
        using Inr m by (simp add: operator_main_def assms case_prod_beta r q)
      moreover have "?plain = run_manager L f (manager_options f env wsl msl) A2 ww mw
          (fst (tracing_Init (ml_otel L) [] Tracer_nil)) (snd (tracing_Init (ml_otel L) [] Tracer_nil))"
        using Inr m by (simp add: operator_main_def assms opts case_prod_beta r q)
      ultimately show ?thesis by (metis run_manager_tracing)
    qed (use Inr in \<open>simp add: operator_main_def assms case_prod_beta r exit_main_def\<close>)
  qed (simp add: operator_main_def assms case_prod_beta exit_main_def)
  have "Reconcile_traced ?t K G infra w req = (let endpoint = me_OTEL_EXPORTER_OTLP_ENDPOINT env in
         if endpoint \<noteq> [] \<and> (ol_resource_New (ml_otel L) \<noteq> None \<or> ol_exporter_New (ml_otel L) endpoint \<noteq> None)
         then None else Some (Reconcile K G infra w req))"
    by (auto simp: Reconcile_traced_def tracer_Start_def tracing_Init_def Let_def split: option.split)
  with same show ?thesis by metis
qed

text \<open>Witness: an exporter that cannot be created. Main runs to the end, AgentRuns are not reconciled.\<close>

definition no_exporter_lib :: main_lib where
  "no_exporter_lib = fine_lib\<lparr>ml_otel := \<lparr> ol_resource_New = None, ol_exporter_New = (\<lambda>_. Some ''refused''), ol_Shutdown = None \<rparr>\<rparr>"

definition otel_env :: main_env where
  "otel_env = \<lparr> me_OTEL_EXPORTER_OTLP_ENDPOINT = ''collector:4317'', me_WATCH_NAMESPACES = [] \<rparr>"

theorem tracing_failure_is_not_fatal_to_main_witness:
  "\<forall>(K :: unit kube) G infra w req.
    Reconcile_traced (mr_tracer (operator_main no_exporter_lib otel_env (map flag_arg cert_settings))) K G infra w req = None"
proof (intro allI)
  fix K :: "unit kube" and G infra w req
  have p: "parse_flags (ml_zap no_exporter_lib) (map flag_arg cert_settings) default_flags = Inr cert_flags"
    by (rule cert_settings_parse)
  show "Reconcile_traced (mr_tracer (operator_main no_exporter_lib otel_env (map flag_arg cert_settings))) K G infra w req = None"
    using conjunct2[OF conjunct2[OF conjunct2[OF tracing_failure_is_not_fatal_to_main[OF p, of otel_env K G infra w req]]]]
    by (simp add: no_exporter_lib_def otel_env_def Let_def)
qed

text \<open>The tracer is shut down, and what it has buffered sent, only when main returns: every exit after an
error, also that of the manager, skips the deferred call.\<close>

lemma shutdown_only_on_return:
  assumes "parse_flags (ml_zap L) args default_flags = Inr f" "mr_shutdown (operator_main L env args)"
  shows "mr_code (operator_main L env args) = 0"
  using assms(1)
proof (cases rule: operator_main_cases[where env = env])
  case early
  then show ?thesis using assms(2) by (simp add: exit_main_def)
next
  case (ran ww wsl A1 mw msl A2)
  then show ?thesis using assms(2) by simp
qed

text \<open>The chart passes \<open>--metrics-secure=true\<close> when metrics are to be secure and nothing otherwise. The
default is true as well, so the value false of the chart has no effect: for the arguments that the chart
renders the metrics endpoint is secure in both cases.\<close>

definition chart_args :: "string \<Rightarrow> string \<Rightarrow> bool \<Rightarrow> (string \<times> string) list" where
  "chart_args probe metrics secure =
    [(''health-probe-bind-address'', probe), (''metrics-bind-address'', metrics)]
    @ (if secure then [(''metrics-secure'', ''true'')] else [])"

lemma chart_metrics_always_secure:
  "\<exists>f. parse_flags zap (map flag_arg (chart_args probe metrics secure)) default_flags = Inr f \<and> secureMetrics f"
proof -
  have "\<exists>f. apply_flags (chart_args probe metrics secure) default_flags = Some f \<and> secureMetrics f"
    by (cases secure) (simp_all add: chart_args_def flag_table_def ParseBool_def default_flags_def)
  then show ?thesis using parse_settings by blast
qed

end
