(* ===== verification/Admission.thy ===== *)
theory Admission
  imports Webhooks Operator_Properties
begin

text \<open>The entry points of the webhooks in \<^verbatim>\<open>api/v1alpha1/*_webhook.go\<close>, and what they give together with
the process that registers them: the objects that the API server can store while the operator serves its
webhooks. The API server asks the webhook of a kind on every create and update and stores the object only
when there is no error; status updates go through the status subresource and do not change the spec.\<close>

subsection \<open>Entry points\<close>

definition Agent_ValidateCreate :: "Agent \<Rightarrow> string list \<times> field_error list" where
  "Agent_ValidateCreate obj = validate_agent obj"

definition Agent_ValidateUpdate :: "Agent \<Rightarrow> Agent \<Rightarrow> string list \<times> field_error list" where
  "Agent_ValidateUpdate oldObj newObj = validate_agent newObj"

definition Agent_ValidateDelete :: "Agent \<Rightarrow> string list \<times> field_error list" where
  "Agent_ValidateDelete obj = ([], [])"

definition Channel_ValidateCreate :: "Channel \<Rightarrow> field_error list" where
  "Channel_ValidateCreate obj = validate_channel obj"

definition Channel_ValidateUpdate :: "Channel \<Rightarrow> Channel \<Rightarrow> field_error list" where
  "Channel_ValidateUpdate oldObj newObj = validate_channel newObj"

definition Channel_ValidateDelete :: "Channel \<Rightarrow> field_error list" where
  "Channel_ValidateDelete obj = []"

definition Provider_ValidateCreate :: "Provider \<Rightarrow> field_error list" where
  "Provider_ValidateCreate obj = validate_provider obj"

definition Provider_ValidateUpdate :: "Provider \<Rightarrow> Provider \<Rightarrow> field_error list" where
  "Provider_ValidateUpdate oldObj newObj = validate_provider newObj"

definition Provider_ValidateDelete :: "Provider \<Rightarrow> field_error list" where
  "Provider_ValidateDelete obj = []"

definition Integration_ValidateCreate :: "Integration \<Rightarrow> field_error list" where
  "Integration_ValidateCreate obj = validate_integration obj"

definition Integration_ValidateUpdate :: "Integration \<Rightarrow> Integration \<Rightarrow> field_error list" where
  "Integration_ValidateUpdate oldObj newObj = validate_integration newObj"

definition Integration_ValidateDelete :: "Integration \<Rightarrow> field_error list" where
  "Integration_ValidateDelete obj = []"

subsection \<open>The objects of the API server\<close>

record api_objects =
  ao_agents :: "nsname \<rightharpoonup> Agent"
  ao_channels :: "nsname \<rightharpoonup> Channel"
  ao_providers :: "nsname \<rightharpoonup> Provider"
  ao_integrations :: "nsname \<rightharpoonup> Integration"

text \<open>What the webhook of a kind answers to a write of a new object over what is stored.\<close>

definition agent_answer :: "Agent option \<Rightarrow> Agent \<Rightarrow> field_error list" where
  "agent_answer old a = snd (case old of None \<Rightarrow> Agent_ValidateCreate a | Some b \<Rightarrow> Agent_ValidateUpdate b a)"

definition channel_answer :: "Channel option \<Rightarrow> Channel \<Rightarrow> field_error list" where
  "channel_answer old c = (case old of None \<Rightarrow> Channel_ValidateCreate c | Some b \<Rightarrow> Channel_ValidateUpdate b c)"

definition provider_answer :: "Provider option \<Rightarrow> Provider \<Rightarrow> field_error list" where
  "provider_answer old p = (case old of None \<Rightarrow> Provider_ValidateCreate p | Some b \<Rightarrow> Provider_ValidateUpdate b p)"

definition integration_answer :: "Integration option \<Rightarrow> Integration \<Rightarrow> field_error list" where
  "integration_answer old i = (case old of None \<Rightarrow> Integration_ValidateCreate i | Some b \<Rightarrow> Integration_ValidateUpdate b i)"

text \<open>A history of the API server with a set of registered webhooks, from an empty store: writes of users,
deletions, and updates of the status.\<close>

inductive api_reach :: "webhook_kind set \<Rightarrow> api_objects \<Rightarrow> bool" for H where
  api_empty: "api_reach H \<lparr>ao_agents = Map.empty, ao_channels = Map.empty, ao_providers = Map.empty, ao_integrations = Map.empty\<rparr>"
| api_agent: "\<lbrakk>api_reach H s; AgentHook \<in> H \<longrightarrow> agent_answer (ao_agents s k) a = []\<rbrakk>
    \<Longrightarrow> api_reach H (s\<lparr>ao_agents := (ao_agents s)(k \<mapsto> a)\<rparr>)"
| api_channel: "\<lbrakk>api_reach H s; ChannelHook \<in> H \<longrightarrow> channel_answer (ao_channels s k) c = []\<rbrakk>
    \<Longrightarrow> api_reach H (s\<lparr>ao_channels := (ao_channels s)(k \<mapsto> c)\<rparr>)"
| api_provider: "\<lbrakk>api_reach H s; ProviderHook \<in> H \<longrightarrow> provider_answer (ao_providers s k) p = []\<rbrakk>
    \<Longrightarrow> api_reach H (s\<lparr>ao_providers := (ao_providers s)(k \<mapsto> p)\<rparr>)"
| api_integration: "\<lbrakk>api_reach H s; IntegrationHook \<in> H \<longrightarrow> integration_answer (ao_integrations s k) i = []\<rbrakk>
    \<Longrightarrow> api_reach H (s\<lparr>ao_integrations := (ao_integrations s)(k \<mapsto> i)\<rparr>)"
| api_delete: "api_reach H s \<Longrightarrow> api_reach H \<lparr>ao_agents = ao_agents s |` A, ao_channels = ao_channels s |` C,
    ao_providers = ao_providers s |` P, ao_integrations = ao_integrations s |` I\<rparr>"
| api_agent_status: "\<lbrakk>api_reach H s; ao_agents s k = Some b; ag_Spec a = ag_Spec b\<rbrakk>
    \<Longrightarrow> api_reach H (s\<lparr>ao_agents := (ao_agents s)(k \<mapsto> a)\<rparr>)"
| api_channel_status: "\<lbrakk>api_reach H s; ao_channels s k = Some b; ch_Spec c = ch_Spec b\<rbrakk>
    \<Longrightarrow> api_reach H (s\<lparr>ao_channels := (ao_channels s)(k \<mapsto> c)\<rparr>)"
| api_provider_status: "\<lbrakk>api_reach H s; ao_providers s k = Some b; prov_Spec p = prov_Spec b\<rbrakk>
    \<Longrightarrow> api_reach H (s\<lparr>ao_providers := (ao_providers s)(k \<mapsto> p)\<rparr>)"
| api_integration_status: "\<lbrakk>api_reach H s; ao_integrations s k = Some b; int_Spec i = int_Spec b\<rbrakk>
    \<Longrightarrow> api_reach H (s\<lparr>ao_integrations := (ao_integrations s)(k \<mapsto> i)\<rparr>)"

subsection \<open>What is admitted\<close>

definition integration_ok :: "IntegrationSpec \<Rightarrow> bool" where
  "integration_ok s \<longleftrightarrow> {k \<in> set kinds. block_set s k} = {is_Kind s} \<inter> set kinds \<and>
     (\<forall>t \<in> set (is_Triggers s). tr_On t \<noteq> [] \<and> tr_AgentRef t \<noteq> [] \<and> tr_Prompt t \<noteq> [])"

lemma validate_integration_iff: "validate_integration i = [] \<longleftrightarrow> integration_ok (int_Spec i)"
  unfolding validate_integration_def append_is_Nil_conv validateKindConfig_ok validateTriggers_ok integration_ok_def by blast

lemmas answer_defs = agent_answer_def channel_answer_def provider_answer_def integration_answer_def
  Agent_ValidateCreate_def Agent_ValidateUpdate_def Channel_ValidateCreate_def Channel_ValidateUpdate_def
  Provider_ValidateCreate_def Provider_ValidateUpdate_def Integration_ValidateCreate_def Integration_ValidateUpdate_def

lemma answers_correct:
  "agent_answer oa a = [] \<longleftrightarrow> agent_ok a"
  "channel_answer oc c = [] \<longleftrightarrow> channel_ok c"
  "provider_answer op p = [] \<longleftrightarrow> provider_ok (prov_Spec p)"
  "integration_answer oi i = [] \<longleftrightarrow> integration_ok (int_Spec i)"
  by (simp_all add: answer_defs validate_agent_correct validate_channel_correct validate_provider_correct
      validate_integration_iff split: option.split)

lemma ok_by_spec:
  "ag_Spec a = ag_Spec b \<Longrightarrow> agent_ok a \<longleftrightarrow> agent_ok b"
  "ch_Spec c = ch_Spec d \<Longrightarrow> channel_ok c \<longleftrightarrow> channel_ok d"
  by (simp_all add: agent_ok_def channel_ok_def)

text \<open>The specs of all objects of a store fit, for the kinds whose webhook is registered.\<close>

definition store_ok :: "webhook_kind set \<Rightarrow> api_objects \<Rightarrow> bool" where
  "store_ok H s \<longleftrightarrow>
     (AgentHook \<in> H \<longrightarrow> (\<forall>k a. ao_agents s k = Some a \<longrightarrow> agent_ok a)) \<and>
     (ChannelHook \<in> H \<longrightarrow> (\<forall>k c. ao_channels s k = Some c \<longrightarrow> channel_ok c)) \<and>
     (ProviderHook \<in> H \<longrightarrow> (\<forall>k p. ao_providers s k = Some p \<longrightarrow> provider_ok (prov_Spec p))) \<and>
     (IntegrationHook \<in> H \<longrightarrow> (\<forall>k i. ao_integrations s k = Some i \<longrightarrow> integration_ok (int_Spec i)))"

lemma store_ok_upd:
  "store_ok H s \<Longrightarrow> (AgentHook \<in> H \<Longrightarrow> agent_ok a) \<Longrightarrow> store_ok H (s\<lparr>ao_agents := (ao_agents s)(k \<mapsto> a)\<rparr>)"
  "store_ok H s \<Longrightarrow> (ChannelHook \<in> H \<Longrightarrow> channel_ok c) \<Longrightarrow> store_ok H (s\<lparr>ao_channels := (ao_channels s)(k \<mapsto> c)\<rparr>)"
  "store_ok H s \<Longrightarrow> (ProviderHook \<in> H \<Longrightarrow> provider_ok (prov_Spec p)) \<Longrightarrow> store_ok H (s\<lparr>ao_providers := (ao_providers s)(k \<mapsto> p)\<rparr>)"
  "store_ok H s \<Longrightarrow> (IntegrationHook \<in> H \<Longrightarrow> integration_ok (int_Spec i)) \<Longrightarrow> store_ok H (s\<lparr>ao_integrations := (ao_integrations s)(k \<mapsto> i)\<rparr>)"
  by (simp_all add: store_ok_def)

lemma store_okD:
  "store_ok H s \<Longrightarrow> AgentHook \<in> H \<Longrightarrow> ao_agents s k = Some a \<Longrightarrow> agent_ok a"
  "store_ok H s \<Longrightarrow> ChannelHook \<in> H \<Longrightarrow> ao_channels s k = Some c \<Longrightarrow> channel_ok c"
  "store_ok H s \<Longrightarrow> ProviderHook \<in> H \<Longrightarrow> ao_providers s k = Some p \<Longrightarrow> provider_ok (prov_Spec p)"
  "store_ok H s \<Longrightarrow> IntegrationHook \<in> H \<Longrightarrow> ao_integrations s k = Some i \<Longrightarrow> integration_ok (int_Spec i)"
  unfolding store_ok_def by blast+

lemma api_store_ok: "api_reach H s \<Longrightarrow> store_ok H s"
proof (induction rule: api_reach.induct)
  case api_empty
  show ?case by (simp add: store_ok_def)
next
  case (api_agent s k a)
  show ?case by (rule store_ok_upd(1)[OF api_agent.IH]) (use api_agent.hyps in \<open>simp add: answers_correct\<close>)
next
  case (api_channel s k c)
  show ?case by (rule store_ok_upd(2)[OF api_channel.IH]) (use api_channel.hyps in \<open>simp add: answers_correct\<close>)
next
  case (api_provider s k p)
  show ?case by (rule store_ok_upd(3)[OF api_provider.IH]) (use api_provider.hyps in \<open>simp add: answers_correct\<close>)
next
  case (api_integration s k i)
  show ?case by (rule store_ok_upd(4)[OF api_integration.IH]) (use api_integration.hyps in \<open>simp add: answers_correct\<close>)
next
  case (api_delete s A C P I)
  then show ?case by (simp add: store_ok_def restrict_map_def)
next
  case (api_agent_status s k b a)
  show ?case by (rule store_ok_upd(1)[OF api_agent_status.IH])
    (use store_okD(1)[OF api_agent_status.IH] api_agent_status.hyps ok_by_spec(1) in blast)
next
  case (api_channel_status s k b c)
  show ?case by (rule store_ok_upd(2)[OF api_channel_status.IH])
    (use store_okD(2)[OF api_channel_status.IH] api_channel_status.hyps ok_by_spec(2) in blast)
next
  case (api_provider_status s k b p)
  show ?case by (rule store_ok_upd(3)[OF api_provider_status.IH])
    (use store_okD(3)[OF api_provider_status.IH] api_provider_status.hyps in metis)
next
  case (api_integration_status s k b i)
  show ?case by (rule store_ok_upd(4)[OF api_integration_status.IH])
    (use store_okD(4)[OF api_integration_status.IH] api_integration_status.hyps in metis)
qed

section \<open>Properties\<close>

text \<open>The webhooks a run of the operator has registered.\<close>

definition registered_hooks :: "main_result \<Rightarrow> webhook_kind set" where
  "registered_hooks r = {h. SetupWebhook h \<in> set (mr_steps r)}"

lemma all_hooks_registered:
  assumes "parse_flags (ml_zap L) args default_flags = Inr f" "enableWebhooks f"
    and "StartManager \<in> set (mr_steps (operator_main L env args))"
  shows "registered_hooks (operator_main L env args) = UNIV"
  using assms(1)
proof (cases rule: operator_main_cases[where env = env])
  case early
  then show ?thesis using assms(3) by (simp add: exit_main_def)
next
  case (ran ww wsl A1 mw msl A2)
  let ?ok = "\<lambda>s. ml_step L s = None" and ?ss = "setup_steps f ww mw"
  obtain xs where xs: "?ss = xs @ [StartManager]" "StartManager \<notin> set xs" using setup_steps_last by blast
  have "StartManager \<in> set (takeWhile ?ok ?ss)" using assms(3) ran(3) by simp
  then have "list_all ?ok ?ss" unfolding xs(1) using takeWhile_last[OF xs(2)] by blast
  then have "takeWhile ?ok ?ss = ?ss" by (simp add: takeWhile_eq_all_conv list_all_iff)
  then have "mr_steps (operator_main L env args) = ?ss" using ran(3) by simp
  moreover have "SetupWebhook h \<in> set ?ss" for h
    using assms(2) by (cases h) (simp_all add: setup_steps_def Let_def)
  ultimately show ?thesis by (simp add: registered_hooks_def)
qed


text \<open>Witness: a git repository is created while the operator runs.\<close>

definition demo_objects :: api_objects where
  "demo_objects = \<lparr>ao_agents = Map.empty, ao_channels = Map.empty, ao_providers = Map.empty,
     ao_integrations = [(''ns'', ''repo'') \<mapsto> demo_repo]\<rparr>"

lemma demo_objects_reach: "api_reach H demo_objects"
proof -
  have "validate_integration demo_repo = []" by code_simp
  then have "integration_answer None demo_repo = []"
    by (simp add: integration_answer_def Integration_ValidateCreate_def)
  then show ?thesis
    using api_integration[OF api_empty, of H "(''ns'', ''repo'')" demo_repo] by (simp add: demo_objects_def)
qed


end
