(* ===== verification/Watches.thy ===== *)
theory Watches
  imports Agent_Controller Channel_Controller Provider_Controller
begin

text \<open>The registrations of the controllers with the manager (\<open>SetupWithManager\<close> of the five controllers)
and the dispatch of events to reconcile requests: \<open>For\<close> enqueues the object itself, \<open>Owns\<close> the object of
the controller's kind that controls it, \<open>Watches\<close> the objects that a function names. For an update the
handlers look at the old and the new object. A predicate is asked first; \<open>GenerationChangedPredicate\<close> drops
the updates that leave the generation as it is, which are those that change metadata or status only.\<close>

datatype kind =
    K_Agent | K_AgentRun | K_Channel | K_Integration | K_Provider | K_Deployment | K_PersistentVolumeClaim
  | K_ConfigMap | K_Service | K_ServiceAccount | K_Role | K_RoleBinding | K_NetworkPolicy | K_Ingress | K_Job | K_Secret

text \<open>What the handlers read of an object: its key, its generation, the kind and name of its controlling
owner, and the object itself for the two kinds that are mapped.\<close>

record event_obj =
  eo_kind :: kind
  eo_Namespace :: string
  eo_Name :: string
  eo_Generation :: int
  eo_ControllerRef :: "(kind \<times> string) option"
  eo_Agent :: "Agent option"
  eo_Secret :: "Secret option"

datatype event = CreateEvent event_obj | UpdateEvent event_obj event_obj | DeleteEvent event_obj

fun event_objs :: "event \<Rightarrow> event_obj list" where
  "event_objs (CreateEvent x) = [x]"
| "event_objs (UpdateEvent x y) = [x, y]"
| "event_objs (DeleteEvent x) = [x]"

datatype event_predicate = AnyEvent | GenerationChangedPredicate

fun passes :: "event_predicate \<Rightarrow> event \<Rightarrow> bool" where
  "passes GenerationChangedPredicate (UpdateEvent x y) = (eo_Generation x \<noteq> eo_Generation y)"
| "passes _ _ = True"

datatype watch = For kind | Owns kind event_predicate | Watches kind "event_obj \<Rightarrow> nsname list"

definition agent_SetupWithManager :: "watch list" where
  "agent_SetupWithManager = [For K_Agent, Owns K_Deployment GenerationChangedPredicate,
     Owns K_PersistentVolumeClaim AnyEvent, Owns K_ConfigMap AnyEvent, Owns K_Service AnyEvent,
     Owns K_ServiceAccount AnyEvent, Owns K_Role AnyEvent, Owns K_RoleBinding AnyEvent, Owns K_NetworkPolicy AnyEvent]"

definition agentrun_SetupWithManager :: "watch list" where
  "agentrun_SetupWithManager = [For K_AgentRun, Owns K_Job AnyEvent]"

definition channel_SetupWithManager :: "watch list" where
  "channel_SetupWithManager = [For K_Channel, Owns K_ServiceAccount AnyEvent, Owns K_Role AnyEvent,
     Owns K_RoleBinding AnyEvent, Owns K_Deployment GenerationChangedPredicate, Owns K_Service AnyEvent,
     Owns K_Ingress AnyEvent]"

definition integration_SetupWithManager :: "watch list" where
  "integration_SetupWithManager = [For K_Integration]"

definition provider_SetupWithManager :: "'w guard_kube \<Rightarrow> 'w \<Rightarrow> watch list" where
  "provider_SetupWithManager K w = [For K_Provider,
     Watches K_Secret (\<lambda>x. case eo_Secret x of None \<Rightarrow> [] | Some secret \<Rightarrow> secretToProviderRequests K w secret),
     Watches K_Agent (\<lambda>x. case eo_Agent x of None \<Rightarrow> [] | Some agent \<Rightarrow> agentToProviderRequests agent)]"

definition obj_requests :: "kind \<Rightarrow> watch \<Rightarrow> event_obj \<Rightarrow> nsname list" where
  "obj_requests ctl wt x = (case wt of
      For k \<Rightarrow> if eo_kind x = k then [(eo_Namespace x, eo_Name x)] else []
    | Owns k _ \<Rightarrow> if eo_kind x = k then
        (case eo_ControllerRef x of
           Some (ok, on) \<Rightarrow> if ok = ctl then [(eo_Namespace x, on)] else []
         | None \<Rightarrow> []) else []
    | Watches k f \<Rightarrow> if eo_kind x = k then f x else [])"

definition watch_passes :: "watch \<Rightarrow> event \<Rightarrow> bool" where
  "watch_passes wt e = (case wt of Owns k p \<Rightarrow> passes p e | _ \<Rightarrow> True)"

definition enqueue :: "kind \<Rightarrow> watch list \<Rightarrow> event \<Rightarrow> nsname set" where
  "enqueue ctl ws e = set (concat (map (\<lambda>wt. concat (map (obj_requests ctl wt) (event_objs e)))
     (filter (\<lambda>wt. watch_passes wt e) ws)))"

text \<open>The requests of an event to the five controllers.\<close>

definition wakes :: "'w guard_kube \<Rightarrow> 'w \<Rightarrow> event \<Rightarrow> (kind \<times> nsname) set" where
  "wakes K w e =
     Pair K_Agent ` enqueue K_Agent agent_SetupWithManager e \<union>
     Pair K_Channel ` enqueue K_Channel channel_SetupWithManager e \<union>
     Pair K_AgentRun ` enqueue K_AgentRun agentrun_SetupWithManager e \<union>
     Pair K_Integration ` enqueue K_Integration integration_SetupWithManager e \<union>
     Pair K_Provider ` enqueue K_Provider (provider_SetupWithManager K w) e"

text \<open>The kind of an object that a controller writes.\<close>

fun owned_kind_of :: "owned_object \<Rightarrow> kind option" where
  "owned_kind_of (ODeployment _) = Some K_Deployment"
| "owned_kind_of (OService _) = Some K_Service"
| "owned_kind_of (OConfigMap _) = Some K_ConfigMap"
| "owned_kind_of (OPVC _) = Some K_PersistentVolumeClaim"
| "owned_kind_of (ONetworkPolicy _) = Some K_NetworkPolicy"
| "owned_kind_of (OIngress _) = Some K_Ingress"
| "owned_kind_of (OServiceAccount _) = Some K_ServiceAccount"
| "owned_kind_of (ORole _) = Some K_Role"
| "owned_kind_of (ORoleBinding _) = Some K_RoleBinding"
| "owned_kind_of (OUnsupported _) = None"

subsection \<open>Facts\<close>

lemma enqueue_iff: "r \<in> enqueue ctl ws e \<longleftrightarrow>
    (\<exists>wt \<in> set ws. watch_passes wt e \<and> (\<exists>x \<in> set (event_objs e). r \<in> set (obj_requests ctl wt x)))"
  by (auto simp: enqueue_def)

lemma owner_woken:
  assumes "Owns k p \<in> set ws" "passes p e" "x \<in> set (event_objs e)" "eo_kind x = k" "eo_ControllerRef x = Some (ctl, n)"
  shows "(eo_Namespace x, n) \<in> enqueue ctl ws e"
proof -
  have "obj_requests ctl (Owns k p) x = [(eo_Namespace x, n)]"
    using assms(4,5) by (simp add: obj_requests_def)
  then have "\<exists>z \<in> set (event_objs e). (eo_Namespace x, n) \<in> set (obj_requests ctl (Owns k p) z)"
    using assms(3) by (intro bexI[of _ x]) simp_all
  moreover have "watch_passes (Owns k p) e" using assms(2) by (simp add: watch_passes_def)
  ultimately show ?thesis using assms(1) unfolding enqueue_iff by blast
qed

text \<open>The objects that the controllers write for an Agent and for a Channel.\<close>

definition agent_writes :: "Agent \<Rightarrow> Integration list \<Rightarrow> Provider list \<Rightarrow> InfraConfig \<Rightarrow> ConfigMap \<Rightarrow> PersistentVolumeClaim \<Rightarrow> owned_object list" where
  "agent_writes agent integrations providers infra configMap pvc =
     [OServiceAccount (BuildAgentServiceAccount agent), ORole (BuildAgentRole agent), ORoleBinding (BuildAgentRoleBinding agent), OPVC pvc]
     @ daemon_objects agent integrations providers infra configMap"

definition watch_pred :: "kind \<Rightarrow> event_predicate" where
  "watch_pred k = (if k = K_Deployment then GenerationChangedPredicate else AnyEvent)"

lemma agent_writes_owned:
  "obj \<in> set (agent_writes agent integrations providers infra configMap pvc) \<Longrightarrow> owned_kind_of obj = Some k
    \<Longrightarrow> Owns k (watch_pred k) \<in> set agent_SetupWithManager"
  by (auto simp: agent_writes_def daemon_objects_def agent_SetupWithManager_def watch_pred_def
      split: option.splits if_splits)

lemma channel_writes_owned:
  "obj \<in> set (channel_objects G infra ch agent integration) \<Longrightarrow> owned_kind_of obj = Some k
    \<Longrightarrow> Owns k (watch_pred k) \<in> set channel_SetupWithManager"
  by (auto simp: channel_objects_def channel_SetupWithManager_def watch_pred_def split: option.splits)

lemma no_requests:
  "(\<And>wt x. wt \<in> set ws \<Longrightarrow> x \<in> set (event_objs e) \<Longrightarrow> watch_passes wt e \<Longrightarrow> obj_requests ctl wt x = []) \<Longrightarrow> enqueue ctl ws e = {}"
  using enqueue_iff[of _ ctl ws e] by fastforce

fun watch_kind :: "watch \<Rightarrow> kind" where
  "watch_kind (For k) = k"
| "watch_kind (Owns k _) = k"
| "watch_kind (Watches k _) = k"

lemma other_kinds_ignored:
  assumes "\<forall>x \<in> set (event_objs e). eo_kind x \<notin> watch_kind ` set ws"
  shows "enqueue ctl ws e = {}"
proof (rule no_requests)
  fix wt x assume "wt \<in> set ws" "x \<in> set (event_objs e)"
  with assms have "eo_kind x \<noteq> watch_kind wt" by blast
  then show "obj_requests ctl wt x = []" by (cases wt) (simp_all add: obj_requests_def)
qed

lemmas setup_defs = agent_SetupWithManager_def agentrun_SetupWithManager_def channel_SetupWithManager_def
  integration_SetupWithManager_def provider_SetupWithManager_def

lemma deployment_status_ignored:
  assumes "eo_kind x = K_Deployment" "eo_kind y = K_Deployment" "eo_Generation x = eo_Generation y"
  shows "wakes K w (UpdateEvent x y) = {}"
proof -
  let ?e = "UpdateEvent x y"
  have "enqueue K_Agent agent_SetupWithManager ?e = {}" "enqueue K_Channel channel_SetupWithManager ?e = {}"
    "enqueue K_AgentRun agentrun_SetupWithManager ?e = {}" "enqueue K_Integration integration_SetupWithManager ?e = {}"
    "enqueue K_Provider (provider_SetupWithManager K w) ?e = {}"
    using assms by (auto intro!: no_requests simp: setup_defs watch_passes_def obj_requests_def)
  then show ?thesis by (simp add: wakes_def)
qed

lemma reference_changes_ignored:
  assumes "\<forall>x \<in> set (event_objs e). eo_kind x \<in> {K_Provider, K_Integration}" "(ctl, r) \<in> wakes K w e"
  shows "ctl \<in> {K_Provider, K_Integration}"
proof -
  have "enqueue K_Agent agent_SetupWithManager e = {}" "enqueue K_Channel channel_SetupWithManager e = {}"
    "enqueue K_AgentRun agentrun_SetupWithManager e = {}"
    using assms(1) by (intro other_kinds_ignored; auto simp: setup_defs)+
  then show ?thesis using assms(2) by (auto simp: wakes_def)
qed

section \<open>Properties\<close>


text \<open>Witness: the Deployment of an Agent is deleted, and one whose status changed.\<close>

definition demo_deployment :: event_obj where
  "demo_deployment = \<lparr>eo_kind = K_Deployment, eo_Namespace = ''ns'', eo_Name = ''a'', eo_Generation = 3,
     eo_ControllerRef = Some (K_Agent, ''a''), eo_Agent = None, eo_Secret = None\<rparr>"


end
