(* ===== verification/Deep_Copy.thy ===== *)
theory Deep_Copy
  imports Go_Heap
begin

text \<open>The struct types of \<^verbatim>\<open>api/v1alpha1/*_types.go\<close> as tables of field names and Go types, and the
methods of \<^verbatim>\<open>zz_generated.deepcopy.go\<close>: for every struct \<open>S\<close> the definition \<open>S_t\<close> is its type,
\<open>S_DeepCopyInto\<close> and \<open>S_DeepCopy\<close> are its copy methods, and \<open>S_DeepCopyObject\<close> is there for the kinds and
their lists. Strings, booleans, numbers (a \<open>float64\<close> by its bit pattern) and the string types of the
constants are basic. The methods are in an order in which each one stands after those it calls.

The structs of the Kubernetes libraries are parameters, with the copy methods the generated code
calls on them. Their layout and methods are not part of this repository.\<close>

record k8s_types =
  x_TypeMeta :: gtype
  x_ObjectMeta :: gtype
  x_ListMeta :: gtype
  x_Condition :: gtype
  x_Time :: gtype
  x_Duration :: gtype
  x_ResourceRequirements :: gtype
  x_PodSecurityContext :: gtype
  x_SecurityContext :: gtype
  x_ObjectMeta_DeepCopyInto :: copier
  x_ListMeta_DeepCopyInto :: copier
  x_Condition_DeepCopyInto :: copier
  x_Time_DeepCopy :: copier
  x_ResourceRequirements_DeepCopyInto :: copier
  x_PodSecurityContext_DeepCopyInto :: copier
  x_SecurityContext_DeepCopyInto :: copier

subsection \<open>Struct types\<close>

definition SecretKeyRef_t :: gtype where [type_defs]:
  "SecretKeyRef_t = TStruct [(''Name'', TBasic), (''Key'', TBasic)]"

definition SecretEnvVar_t :: gtype where [type_defs]:
  "SecretEnvVar_t = TStruct [(''Name'', TBasic), (''SecretRef'', SecretKeyRef_t)]"

definition OCIRef_t :: gtype where [type_defs]:
  "OCIRef_t = TStruct [(''Ref'', TBasic), (''Digest'', TBasic), (''PullPolicy'', TBasic),
     (''PullSecret'', TPtr SecretKeyRef_t)]"

definition AnthropicCallDefaults_t :: gtype where [type_defs]:
  "AnthropicCallDefaults_t = TStruct [(''Effort'', TBasic), (''ThinkingBudgetTokens'', TPtr TBasic),
     (''DisableParallelToolUse'', TPtr TBasic)]"

definition OpenAICallDefaults_t :: gtype where [type_defs]:
  "OpenAICallDefaults_t = TStruct [(''ReasoningEffort'', TBasic), (''ServiceTier'', TBasic)]"

definition GoogleSafetySetting_t :: gtype where [type_defs]:
  "GoogleSafetySetting_t = TStruct [(''Category'', TBasic), (''Threshold'', TBasic)]"

definition GoogleCallDefaults_t :: gtype where [type_defs]:
  "GoogleCallDefaults_t = TStruct [(''ThinkingLevel'', TBasic),
     (''ThinkingBudgetTokens'', TPtr TBasic), (''SafetySettings'', TSlice GoogleSafetySetting_t)]"

definition ProviderCallDefaults_t :: gtype where [type_defs]:
  "ProviderCallDefaults_t = TStruct [(''Anthropic'', TPtr AnthropicCallDefaults_t),
     (''OpenAI'', TPtr OpenAICallDefaults_t), (''Google'', TPtr GoogleCallDefaults_t)]"

definition ProviderBinding_t :: gtype where [type_defs]:
  "ProviderBinding_t = TStruct [(''Name'', TBasic), (''Overrides'', TPtr ProviderCallDefaults_t)]"

definition ContextFileRef_t :: gtype where [type_defs]:
  "ContextFileRef_t = TStruct [(''ConfigMapRef'', SecretKeyRef_t)]"

definition ToolEnvVar_t :: gtype where [type_defs]:
  "ToolEnvVar_t = TStruct [(''Name'', TBasic), (''Value'', TBasic)]"

definition ToolBinding_t :: gtype where [type_defs]:
  "ToolBinding_t = TStruct [(''Name'', TBasic), (''OCI'', OCIRef_t), (''Description'', TBasic),
     (''Category'', TBasic), (''UIHint'', TBasic), (''Env'', TSlice ToolEnvVar_t)]"

definition MemorySaveRuleSpec_t :: gtype where [type_defs]:
  "MemorySaveRuleSpec_t = TStruct [(''Tool'', TBasic), (''MatchOutput'', TBasic),
     (''MatchArgs'', TMap TBasic), (''Type'', TBasic), (''Scope'', TBasic)]"

definition ContextInjectRuleSpec_t :: gtype where [type_defs]:
  "ContextInjectRuleSpec_t = TStruct [(''Tool'', TBasic), (''Query'', TBasic), (''Limit'', TBasic)]"

definition ToolHooksSpec_t :: gtype where [type_defs]:
  "ToolHooksSpec_t = TStruct [(''BlockedCommands'', TSlice TBasic),
     (''AllowedPaths'', TSlice TBasic), (''AuditTools'', TSlice TBasic),
     (''MemorySaveRules'', TSlice MemorySaveRuleSpec_t),
     (''ContextInjectTools'', TSlice ContextInjectRuleSpec_t)]"

definition ConcurrencySpec_t :: gtype where [type_defs]:
  "ConcurrencySpec_t = TStruct [(''MaxRuns'', TBasic), (''Policy'', TBasic)]"

definition StorageSpec_t :: gtype where [type_defs]:
  "StorageSpec_t = TStruct [(''Size'', TBasic), (''StorageClass'', TBasic)]"

definition NetworkPolicySpec_t :: gtype where [type_defs]:
  "NetworkPolicySpec_t = TStruct [(''Enabled'', TBasic)]"

definition TelegramChannelConfig_t :: gtype where [type_defs]:
  "TelegramChannelConfig_t = TStruct [(''BotTokenSecret'', SecretKeyRef_t),
     (''AllowedUsers'', TSlice TBasic), (''AllowedChats'', TSlice TBasic)]"

definition SlackChannelConfig_t :: gtype where [type_defs]:
  "SlackChannelConfig_t = TStruct [(''BotTokenSecret'', SecretKeyRef_t),
     (''AllowedChannels'', TSlice TBasic)]"

definition DiscordChannelConfig_t :: gtype where [type_defs]:
  "DiscordChannelConfig_t = TStruct [(''BotTokenSecret'', SecretKeyRef_t),
     (''AllowedChannels'', TSlice TBasic)]"

definition GitLabChannelConfig_t :: gtype where [type_defs]:
  "GitLabChannelConfig_t = TStruct [(''Events'', TSlice TBasic), (''Actions'', TSlice TBasic),
     (''Labels'', TSlice TBasic), (''Secret'', SecretKeyRef_t)]"

definition GitLabLabelChannelConfig_t :: "k8s_types \<Rightarrow> gtype" where [type_defs]:
  "GitLabLabelChannelConfig_t x = TStruct [(''IntegrationRef'', TBasic), (''Target'', TBasic),
     (''Labels'', TSlice TBasic), (''State'', TBasic), (''PollInterval'', TPtr (x_Duration x))]"

definition GitLabCommentChannelConfig_t :: "k8s_types \<Rightarrow> gtype" where [type_defs]:
  "GitLabCommentChannelConfig_t x = TStruct [(''IntegrationRef'', TBasic),
     (''PlanningLabel'', TBasic), (''State'', TBasic), (''PollInterval'', TPtr (x_Duration x))]"

definition GitHubChannelConfig_t :: gtype where [type_defs]:
  "GitHubChannelConfig_t = TStruct [(''Events'', TSlice TBasic), (''Actions'', TSlice TBasic),
     (''Labels'', TSlice TBasic), (''Secret'', SecretKeyRef_t)]"

definition WebhookChannelConfig_t :: gtype where [type_defs]:
  "WebhookChannelConfig_t = TStruct [(''Secret'', TPtr SecretKeyRef_t)]"

definition IngressTLS_t :: gtype where [type_defs]:
  "IngressTLS_t = TStruct [(''ClusterIssuer'', TBasic), (''Issuer'', TBasic)]"

definition WebhookIngressConfig_t :: gtype where [type_defs]:
  "WebhookIngressConfig_t = TStruct [(''Host'', TBasic), (''Path'', TBasic),
     (''IngressClassName'', TBasic), (''TLS'', TPtr IngressTLS_t)]"

definition IntegrationBinding_t :: gtype where [type_defs]:
  "IntegrationBinding_t = TStruct [(''Name'', TBasic), (''ReadOnly'', TBasic),
     (''AutoContext'', TBasic)]"

definition DelegationSpec_t :: gtype where [type_defs]:
  "DelegationSpec_t = TStruct [(''Team'', TSlice TBasic), (''MaxFanOut'', TBasic)]"

definition MemorySpec_t :: gtype where [type_defs]:
  "MemorySpec_t = TStruct [(''ServerRef'', TBasic), (''Project'', TBasic),
     (''ContextLimit'', TBasic), (''AutoSummarize'', TPtr TBasic), (''AutoSave'', TPtr TBasic),
     (''AutoSearch'', TPtr TBasic)]"

definition SecurityOverrides_t :: "k8s_types \<Rightarrow> gtype" where [type_defs]:
  "SecurityOverrides_t x = TStruct [(''Pod'', TPtr (x_PodSecurityContext x)),
     (''Container'', TPtr (x_SecurityContext x)), (''AutomountServiceAccountToken'', TPtr TBasic)]"

definition AgentSpec_t :: "k8s_types \<Rightarrow> gtype" where [type_defs]:
  "AgentSpec_t x = TStruct [(''Mode'', TBasic), (''Image'', TBasic), (''ImagePullPolicy'', TBasic),
     (''BuiltinTools'', TSlice TBasic), (''Temperature'', TPtr TBasic),
     (''MaxOutputTokens'', TPtr TBasic), (''MaxSteps'', TPtr TBasic),
     (''MaxTokensBudget'', TPtr TBasic), (''MaxRetries'', TPtr TBasic), (''Model'', TBasic),
     (''PrimaryProvider'', TBasic), (''TitleModel'', TBasic),
     (''ProviderRefs'', TSlice ProviderBinding_t), (''FallbackModels'', TSlice TBasic),
     (''SystemPrompt'', TBasic), (''ContextFiles'', TSlice ContextFileRef_t),
     (''Delegation'', TPtr DelegationSpec_t), (''Tools'', TSlice ToolBinding_t),
     (''PermissionTools'', TSlice TBasic), (''EnableQuestionTool'', TBasic), (''Env'', TMap TBasic),
     (''Secrets'', TSlice SecretEnvVar_t), (''Storage'', TPtr StorageSpec_t),
     (''Memory'', TPtr MemorySpec_t), (''Integrations'', TSlice IntegrationBinding_t),
     (''ToolHooks'', TPtr ToolHooksSpec_t), (''Schedule'', TBasic), (''SchedulePrompt'', TBasic),
     (''Concurrency'', TPtr ConcurrencySpec_t), (''Resources'', TPtr (x_ResourceRequirements x)),
     (''ServiceAccountName'', TBasic), (''Timeout'', TBasic),
     (''NetworkPolicy'', TPtr NetworkPolicySpec_t), (''PodAnnotations'', TMap TBasic),
     (''Security'', TPtr (SecurityOverrides_t x))]"

definition AgentStatus_t :: "k8s_types \<Rightarrow> gtype" where [type_defs]:
  "AgentStatus_t x = TStruct [(''Phase'', TBasic), (''ServiceURL'', TBasic),
     (''ReadyReplicas'', TBasic), (''StoragePVC'', TBasic), (''ActiveModel'', TBasic),
     (''Conditions'', TSlice (x_Condition x))]"

definition Agent_t :: "k8s_types \<Rightarrow> gtype" where [type_defs]:
  "Agent_t x = TStruct [(''TypeMeta'', x_TypeMeta x), (''ObjectMeta'', x_ObjectMeta x),
     (''Spec'', AgentSpec_t x), (''Status'', AgentStatus_t x)]"

definition AgentList_t :: "k8s_types \<Rightarrow> gtype" where [type_defs]:
  "AgentList_t x = TStruct [(''TypeMeta'', x_TypeMeta x), (''ListMeta'', x_ListMeta x),
     (''Items'', TSlice (Agent_t x))]"

definition AgentRunGitSpec_t :: gtype where [type_defs]:
  "AgentRunGitSpec_t = TStruct [(''IntegrationRef'', TBasic), (''Branch'', TBasic),
     (''BaseBranch'', TBasic), (''Project'', TBasic)]"

definition AgentRunOutcomeSpec_t :: gtype where [type_defs]:
  "AgentRunOutcomeSpec_t = TStruct [(''Intent'', TBasic)]"

definition AgentRunSpec_t :: gtype where [type_defs]:
  "AgentRunSpec_t = TStruct [(''AgentRef'', TBasic), (''Prompt'', TBasic), (''Source'', TBasic),
     (''SourceRef'', TBasic), (''Git'', TPtr AgentRunGitSpec_t),
     (''Outcome'', TPtr AgentRunOutcomeSpec_t)]"

definition AgentRunArtifact_t :: gtype where [type_defs]:
  "AgentRunArtifact_t = TStruct [(''Kind'', TBasic), (''Provider'', TBasic), (''URL'', TBasic),
     (''Ref'', TBasic), (''Title'', TBasic)]"

definition AgentRunOutcomeStatus_t :: gtype where [type_defs]:
  "AgentRunOutcomeStatus_t = TStruct [(''Intent'', TBasic),
     (''Artifacts'', TSlice AgentRunArtifact_t), (''Summary'', TBasic)]"

definition AgentRunStatus_t :: "k8s_types \<Rightarrow> gtype" where [type_defs]:
  "AgentRunStatus_t x = TStruct [(''Phase'', TBasic), (''Mode'', TBasic),
     (''StartTime'', TPtr (x_Time x)), (''CompletionTime'', TPtr (x_Time x)), (''JobName'', TBasic),
     (''Output'', TBasic), (''ToolCalls'', TBasic), (''TokensUsed'', TBasic), (''Cost'', TBasic),
     (''Model'', TBasic), (''TraceID'', TBasic), (''Outcome'', TPtr AgentRunOutcomeStatus_t),
     (''Conditions'', TSlice (x_Condition x))]"

definition AgentRun_t :: "k8s_types \<Rightarrow> gtype" where [type_defs]:
  "AgentRun_t x = TStruct [(''TypeMeta'', x_TypeMeta x), (''ObjectMeta'', x_ObjectMeta x),
     (''Spec'', AgentRunSpec_t), (''Status'', AgentRunStatus_t x)]"

definition AgentRunList_t :: "k8s_types \<Rightarrow> gtype" where [type_defs]:
  "AgentRunList_t x = TStruct [(''TypeMeta'', x_TypeMeta x), (''ListMeta'', x_ListMeta x),
     (''Items'', TSlice (AgentRun_t x))]"

definition ChannelSpec_t :: "k8s_types \<Rightarrow> gtype" where [type_defs]:
  "ChannelSpec_t x = TStruct [(''Type'', TBasic), (''AgentRef'', TBasic),
     (''Telegram'', TPtr TelegramChannelConfig_t), (''Slack'', TPtr SlackChannelConfig_t),
     (''Discord'', TPtr DiscordChannelConfig_t), (''GitLab'', TPtr GitLabChannelConfig_t),
     (''GitLabLabel'', TPtr (GitLabLabelChannelConfig_t x)),
     (''GitLabComment'', TPtr (GitLabCommentChannelConfig_t x)),
     (''GitHub'', TPtr GitHubChannelConfig_t), (''WebhookConfig'', TPtr WebhookChannelConfig_t),
     (''Prompt'', TBasic), (''Webhook'', TPtr WebhookIngressConfig_t), (''Image'', TBasic),
     (''ImagePullPolicy'', TBasic), (''Replicas'', TPtr TBasic),
     (''Resources'', TPtr (x_ResourceRequirements x)), (''Security'', TPtr (SecurityOverrides_t x))]"

definition ChannelStatus_t :: "k8s_types \<Rightarrow> gtype" where [type_defs]:
  "ChannelStatus_t x = TStruct [(''Phase'', TBasic), (''ServiceURL'', TBasic),
     (''WebhookURL'', TBasic), (''Conditions'', TSlice (x_Condition x))]"

definition Channel_t :: "k8s_types \<Rightarrow> gtype" where [type_defs]:
  "Channel_t x = TStruct [(''TypeMeta'', x_TypeMeta x), (''ObjectMeta'', x_ObjectMeta x),
     (''Spec'', ChannelSpec_t x), (''Status'', ChannelStatus_t x)]"

definition ChannelList_t :: "k8s_types \<Rightarrow> gtype" where [type_defs]:
  "ChannelList_t x = TStruct [(''TypeMeta'', x_TypeMeta x), (''ListMeta'', x_ListMeta x),
     (''Items'', TSlice (Channel_t x))]"

definition OAuth2ClientCredentials_t :: gtype where [type_defs]:
  "OAuth2ClientCredentials_t = TStruct [(''TokenURL'', TBasic),
     (''ClientIDSecret'', SecretKeyRef_t), (''ClientSecretSecret'', SecretKeyRef_t),
     (''Scope'', TBasic), (''Audience'', TBasic)]"

definition ProviderEndpoint_t :: gtype where [type_defs]:
  "ProviderEndpoint_t = TStruct [(''BaseURL'', TBasic), (''Headers'', TMap TBasic),
     (''OAuth2ClientCredentials'', TPtr OAuth2ClientCredentials_t)]"

definition VertexConfig_t :: gtype where [type_defs]:
  "VertexConfig_t = TStruct [(''Project'', TBasic), (''Location'', TBasic)]"

definition ProviderConfig_t :: gtype where [type_defs]:
  "ProviderConfig_t = TStruct [(''Organization'', TBasic), (''Project'', TBasic),
     (''UseResponsesAPI'', TBasic), (''AzureAPIVersion'', TBasic),
     (''Vertex'', TPtr VertexConfig_t), (''Bedrock'', TBasic)]"

definition ProviderSpec_t :: gtype where [type_defs]:
  "ProviderSpec_t = TStruct [(''Type'', TBasic), (''ApiKeySecret'', TPtr SecretKeyRef_t),
     (''Endpoint'', TPtr ProviderEndpoint_t), (''Config'', TPtr ProviderConfig_t),
     (''Defaults'', TPtr ProviderCallDefaults_t)]"

definition ProviderStatus_t :: "k8s_types \<Rightarrow> gtype" where [type_defs]:
  "ProviderStatus_t x = TStruct [(''Phase'', TBasic), (''Message'', TBasic),
     (''Conditions'', TSlice (x_Condition x)), (''BoundAgents'', TBasic)]"

definition Provider_t :: "k8s_types \<Rightarrow> gtype" where [type_defs]:
  "Provider_t x = TStruct [(''TypeMeta'', x_TypeMeta x), (''ObjectMeta'', x_ObjectMeta x),
     (''Spec'', ProviderSpec_t), (''Status'', ProviderStatus_t x)]"

definition ProviderList_t :: "k8s_types \<Rightarrow> gtype" where [type_defs]:
  "ProviderList_t x = TStruct [(''TypeMeta'', x_TypeMeta x), (''ListMeta'', x_ListMeta x),
     (''Items'', TSlice (Provider_t x))]"

definition IntegrationTriggerGit_t :: gtype where [type_defs]:
  "IntegrationTriggerGit_t = TStruct [(''Branch'', TBasic), (''BaseBranch'', TBasic)]"

definition IntegrationTrigger_t :: gtype where [type_defs]:
  "IntegrationTrigger_t = TStruct [(''On'', TBasic), (''Actions'', TSlice TBasic),
     (''Labels'', TSlice TBasic), (''AgentRef'', TBasic), (''Prompt'', TBasic),
     (''Git'', TPtr IntegrationTriggerGit_t)]"

definition GitHubResourceConfig_t :: gtype where [type_defs]:
  "GitHubResourceConfig_t = TStruct [(''Owner'', TBasic), (''Repo'', TBasic),
     (''DefaultBranch'', TBasic), (''APIURL'', TBasic)]"

definition GitHubOrgResourceConfig_t :: gtype where [type_defs]:
  "GitHubOrgResourceConfig_t = TStruct [(''Org'', TBasic), (''RepoFilter'', TSlice TBasic),
     (''APIURL'', TBasic)]"

definition GitLabResourceConfig_t :: gtype where [type_defs]:
  "GitLabResourceConfig_t = TStruct [(''BaseURL'', TBasic), (''Project'', TBasic),
     (''DefaultBranch'', TBasic)]"

definition GitLabGroupResourceConfig_t :: gtype where [type_defs]:
  "GitLabGroupResourceConfig_t = TStruct [(''BaseURL'', TBasic), (''Group'', TBasic),
     (''Projects'', TSlice TBasic), (''ReadOnly'', TBasic)]"

definition GitResourceConfig_t :: gtype where [type_defs]:
  "GitResourceConfig_t = TStruct [(''URL'', TBasic), (''Branch'', TBasic),
     (''SSHKeySecret'', TPtr SecretKeyRef_t)]"

definition S3ResourceConfig_t :: gtype where [type_defs]:
  "S3ResourceConfig_t = TStruct [(''Bucket'', TBasic), (''Region'', TBasic), (''Endpoint'', TBasic),
     (''Prefix'', TBasic)]"

definition DocumentationResourceConfig_t :: gtype where [type_defs]:
  "DocumentationResourceConfig_t = TStruct [(''URLs'', TSlice TBasic),
     (''ConfigMapRef'', TPtr SecretKeyRef_t)]"

definition IntegrationSpec_t :: gtype where [type_defs]:
  "IntegrationSpec_t = TStruct [(''Kind'', TBasic), (''DisplayName'', TBasic),
     (''Description'', TBasic), (''Credentials'', TPtr SecretKeyRef_t),
     (''GitHub'', TPtr GitHubResourceConfig_t), (''GitHubOrg'', TPtr GitHubOrgResourceConfig_t),
     (''GitLab'', TPtr GitLabResourceConfig_t), (''GitLabGroup'', TPtr GitLabGroupResourceConfig_t),
     (''Git'', TPtr GitResourceConfig_t), (''S3'', TPtr S3ResourceConfig_t),
     (''Documentation'', TPtr DocumentationResourceConfig_t),
     (''Triggers'', TSlice IntegrationTrigger_t)]"

definition IntegrationStatus_t :: "k8s_types \<Rightarrow> gtype" where [type_defs]:
  "IntegrationStatus_t x = TStruct [(''Phase'', TBasic), (''Conditions'', TSlice (x_Condition x))]"

definition Integration_t :: "k8s_types \<Rightarrow> gtype" where [type_defs]:
  "Integration_t x = TStruct [(''TypeMeta'', x_TypeMeta x), (''ObjectMeta'', x_ObjectMeta x),
     (''Spec'', IntegrationSpec_t), (''Status'', IntegrationStatus_t x)]"

definition IntegrationList_t :: "k8s_types \<Rightarrow> gtype" where [type_defs]:
  "IntegrationList_t x = TStruct [(''TypeMeta'', x_TypeMeta x), (''ListMeta'', x_ListMeta x),
     (''Items'', TSlice (Integration_t x))]"

subsection \<open>Copy methods\<close>

definition SecretKeyRef_DeepCopyInto :: copier where
  "SecretKeyRef_DeepCopyInto = copy_struct []"

definition SecretKeyRef_DeepCopy :: copier where [copier_defs]:
  "SecretKeyRef_DeepCopy = copy_ptr SecretKeyRef_DeepCopyInto"

definition SecretEnvVar_DeepCopyInto :: copier where
  "SecretEnvVar_DeepCopyInto = copy_struct [(''SecretRef'', assign)]"

definition SecretEnvVar_DeepCopy :: copier where [copier_defs]:
  "SecretEnvVar_DeepCopy = copy_ptr SecretEnvVar_DeepCopyInto"

definition OCIRef_DeepCopyInto :: copier where
  "OCIRef_DeepCopyInto = copy_struct [(''PullSecret'', copy_ptr assign)]"

definition OCIRef_DeepCopy :: copier where [copier_defs]:
  "OCIRef_DeepCopy = copy_ptr OCIRef_DeepCopyInto"

definition AnthropicCallDefaults_DeepCopyInto :: copier where
  "AnthropicCallDefaults_DeepCopyInto = copy_struct [(''ThinkingBudgetTokens'', copy_ptr assign),
     (''DisableParallelToolUse'', copy_ptr assign)]"

definition AnthropicCallDefaults_DeepCopy :: copier where [copier_defs]:
  "AnthropicCallDefaults_DeepCopy = copy_ptr AnthropicCallDefaults_DeepCopyInto"

definition OpenAICallDefaults_DeepCopyInto :: copier where
  "OpenAICallDefaults_DeepCopyInto = copy_struct []"

definition OpenAICallDefaults_DeepCopy :: copier where [copier_defs]:
  "OpenAICallDefaults_DeepCopy = copy_ptr OpenAICallDefaults_DeepCopyInto"

definition GoogleSafetySetting_DeepCopyInto :: copier where
  "GoogleSafetySetting_DeepCopyInto = copy_struct []"

definition GoogleSafetySetting_DeepCopy :: copier where [copier_defs]:
  "GoogleSafetySetting_DeepCopy = copy_ptr GoogleSafetySetting_DeepCopyInto"

definition GoogleCallDefaults_DeepCopyInto :: copier where
  "GoogleCallDefaults_DeepCopyInto = copy_struct [(''ThinkingBudgetTokens'', copy_ptr assign),
     (''SafetySettings'', copy_slice_flat)]"

definition GoogleCallDefaults_DeepCopy :: copier where [copier_defs]:
  "GoogleCallDefaults_DeepCopy = copy_ptr GoogleCallDefaults_DeepCopyInto"

definition ProviderCallDefaults_DeepCopyInto :: copier where
  "ProviderCallDefaults_DeepCopyInto = copy_struct [
     (''Anthropic'', copy_ptr AnthropicCallDefaults_DeepCopyInto), (''OpenAI'', copy_ptr assign),
     (''Google'', copy_ptr GoogleCallDefaults_DeepCopyInto)]"

definition ProviderCallDefaults_DeepCopy :: copier where [copier_defs]:
  "ProviderCallDefaults_DeepCopy = copy_ptr ProviderCallDefaults_DeepCopyInto"

definition ProviderBinding_DeepCopyInto :: copier where
  "ProviderBinding_DeepCopyInto = copy_struct [
     (''Overrides'', copy_ptr ProviderCallDefaults_DeepCopyInto)]"

definition ProviderBinding_DeepCopy :: copier where [copier_defs]:
  "ProviderBinding_DeepCopy = copy_ptr ProviderBinding_DeepCopyInto"

definition ContextFileRef_DeepCopyInto :: copier where
  "ContextFileRef_DeepCopyInto = copy_struct [(''ConfigMapRef'', assign)]"

definition ContextFileRef_DeepCopy :: copier where [copier_defs]:
  "ContextFileRef_DeepCopy = copy_ptr ContextFileRef_DeepCopyInto"

definition ToolEnvVar_DeepCopyInto :: copier where
  "ToolEnvVar_DeepCopyInto = copy_struct []"

definition ToolEnvVar_DeepCopy :: copier where [copier_defs]:
  "ToolEnvVar_DeepCopy = copy_ptr ToolEnvVar_DeepCopyInto"

definition ToolBinding_DeepCopyInto :: copier where
  "ToolBinding_DeepCopyInto = copy_struct [(''OCI'', OCIRef_DeepCopyInto),
     (''Env'', copy_slice_flat)]"

definition ToolBinding_DeepCopy :: copier where [copier_defs]:
  "ToolBinding_DeepCopy = copy_ptr ToolBinding_DeepCopyInto"

definition MemorySaveRuleSpec_DeepCopyInto :: copier where
  "MemorySaveRuleSpec_DeepCopyInto = copy_struct [(''MatchArgs'', copy_map_flat)]"

definition MemorySaveRuleSpec_DeepCopy :: copier where [copier_defs]:
  "MemorySaveRuleSpec_DeepCopy = copy_ptr MemorySaveRuleSpec_DeepCopyInto"

definition ContextInjectRuleSpec_DeepCopyInto :: copier where
  "ContextInjectRuleSpec_DeepCopyInto = copy_struct []"

definition ContextInjectRuleSpec_DeepCopy :: copier where [copier_defs]:
  "ContextInjectRuleSpec_DeepCopy = copy_ptr ContextInjectRuleSpec_DeepCopyInto"

definition ToolHooksSpec_DeepCopyInto :: copier where
  "ToolHooksSpec_DeepCopyInto = copy_struct [(''BlockedCommands'', copy_slice_flat),
     (''AllowedPaths'', copy_slice_flat), (''AuditTools'', copy_slice_flat),
     (''MemorySaveRules'', copy_slice MemorySaveRuleSpec_DeepCopyInto),
     (''ContextInjectTools'', copy_slice_flat)]"

definition ToolHooksSpec_DeepCopy :: copier where [copier_defs]:
  "ToolHooksSpec_DeepCopy = copy_ptr ToolHooksSpec_DeepCopyInto"

definition ConcurrencySpec_DeepCopyInto :: copier where
  "ConcurrencySpec_DeepCopyInto = copy_struct []"

definition ConcurrencySpec_DeepCopy :: copier where [copier_defs]:
  "ConcurrencySpec_DeepCopy = copy_ptr ConcurrencySpec_DeepCopyInto"

definition StorageSpec_DeepCopyInto :: copier where
  "StorageSpec_DeepCopyInto = copy_struct []"

definition StorageSpec_DeepCopy :: copier where [copier_defs]:
  "StorageSpec_DeepCopy = copy_ptr StorageSpec_DeepCopyInto"

definition NetworkPolicySpec_DeepCopyInto :: copier where
  "NetworkPolicySpec_DeepCopyInto = copy_struct []"

definition NetworkPolicySpec_DeepCopy :: copier where [copier_defs]:
  "NetworkPolicySpec_DeepCopy = copy_ptr NetworkPolicySpec_DeepCopyInto"

definition TelegramChannelConfig_DeepCopyInto :: copier where
  "TelegramChannelConfig_DeepCopyInto = copy_struct [(''BotTokenSecret'', assign),
     (''AllowedUsers'', copy_slice_flat), (''AllowedChats'', copy_slice_flat)]"

definition TelegramChannelConfig_DeepCopy :: copier where [copier_defs]:
  "TelegramChannelConfig_DeepCopy = copy_ptr TelegramChannelConfig_DeepCopyInto"

definition SlackChannelConfig_DeepCopyInto :: copier where
  "SlackChannelConfig_DeepCopyInto = copy_struct [(''BotTokenSecret'', assign),
     (''AllowedChannels'', copy_slice_flat)]"

definition SlackChannelConfig_DeepCopy :: copier where [copier_defs]:
  "SlackChannelConfig_DeepCopy = copy_ptr SlackChannelConfig_DeepCopyInto"

definition DiscordChannelConfig_DeepCopyInto :: copier where
  "DiscordChannelConfig_DeepCopyInto = copy_struct [(''BotTokenSecret'', assign),
     (''AllowedChannels'', copy_slice_flat)]"

definition DiscordChannelConfig_DeepCopy :: copier where [copier_defs]:
  "DiscordChannelConfig_DeepCopy = copy_ptr DiscordChannelConfig_DeepCopyInto"

definition GitLabChannelConfig_DeepCopyInto :: copier where
  "GitLabChannelConfig_DeepCopyInto = copy_struct [(''Events'', copy_slice_flat),
     (''Actions'', copy_slice_flat), (''Labels'', copy_slice_flat), (''Secret'', assign)]"

definition GitLabChannelConfig_DeepCopy :: copier where [copier_defs]:
  "GitLabChannelConfig_DeepCopy = copy_ptr GitLabChannelConfig_DeepCopyInto"

definition GitLabLabelChannelConfig_DeepCopyInto :: "k8s_types \<Rightarrow> copier" where
  "GitLabLabelChannelConfig_DeepCopyInto x = copy_struct [(''Labels'', copy_slice_flat),
     (''PollInterval'', copy_ptr assign)]"

definition GitLabLabelChannelConfig_DeepCopy :: "k8s_types \<Rightarrow> copier" where [copier_defs]:
  "GitLabLabelChannelConfig_DeepCopy x = copy_ptr (GitLabLabelChannelConfig_DeepCopyInto x)"

definition GitLabCommentChannelConfig_DeepCopyInto :: "k8s_types \<Rightarrow> copier" where
  "GitLabCommentChannelConfig_DeepCopyInto x = copy_struct [(''PollInterval'', copy_ptr assign)]"

definition GitLabCommentChannelConfig_DeepCopy :: "k8s_types \<Rightarrow> copier" where [copier_defs]:
  "GitLabCommentChannelConfig_DeepCopy x = copy_ptr (GitLabCommentChannelConfig_DeepCopyInto x)"

definition GitHubChannelConfig_DeepCopyInto :: copier where
  "GitHubChannelConfig_DeepCopyInto = copy_struct [(''Events'', copy_slice_flat),
     (''Actions'', copy_slice_flat), (''Labels'', copy_slice_flat), (''Secret'', assign)]"

definition GitHubChannelConfig_DeepCopy :: copier where [copier_defs]:
  "GitHubChannelConfig_DeepCopy = copy_ptr GitHubChannelConfig_DeepCopyInto"

definition WebhookChannelConfig_DeepCopyInto :: copier where
  "WebhookChannelConfig_DeepCopyInto = copy_struct [(''Secret'', copy_ptr assign)]"

definition WebhookChannelConfig_DeepCopy :: copier where [copier_defs]:
  "WebhookChannelConfig_DeepCopy = copy_ptr WebhookChannelConfig_DeepCopyInto"

definition IngressTLS_DeepCopyInto :: copier where
  "IngressTLS_DeepCopyInto = copy_struct []"

definition IngressTLS_DeepCopy :: copier where [copier_defs]:
  "IngressTLS_DeepCopy = copy_ptr IngressTLS_DeepCopyInto"

definition WebhookIngressConfig_DeepCopyInto :: copier where
  "WebhookIngressConfig_DeepCopyInto = copy_struct [(''TLS'', copy_ptr assign)]"

definition WebhookIngressConfig_DeepCopy :: copier where [copier_defs]:
  "WebhookIngressConfig_DeepCopy = copy_ptr WebhookIngressConfig_DeepCopyInto"

definition IntegrationBinding_DeepCopyInto :: copier where
  "IntegrationBinding_DeepCopyInto = copy_struct []"

definition IntegrationBinding_DeepCopy :: copier where [copier_defs]:
  "IntegrationBinding_DeepCopy = copy_ptr IntegrationBinding_DeepCopyInto"

definition DelegationSpec_DeepCopyInto :: copier where
  "DelegationSpec_DeepCopyInto = copy_struct [(''Team'', copy_slice_flat)]"

definition DelegationSpec_DeepCopy :: copier where [copier_defs]:
  "DelegationSpec_DeepCopy = copy_ptr DelegationSpec_DeepCopyInto"

definition MemorySpec_DeepCopyInto :: copier where
  "MemorySpec_DeepCopyInto = copy_struct [(''AutoSummarize'', copy_ptr assign),
     (''AutoSave'', copy_ptr assign), (''AutoSearch'', copy_ptr assign)]"

definition MemorySpec_DeepCopy :: copier where [copier_defs]:
  "MemorySpec_DeepCopy = copy_ptr MemorySpec_DeepCopyInto"

definition SecurityOverrides_DeepCopyInto :: "k8s_types \<Rightarrow> copier" where
  "SecurityOverrides_DeepCopyInto x = copy_struct [
     (''Pod'', copy_ptr (x_PodSecurityContext_DeepCopyInto x)),
     (''Container'', copy_ptr (x_SecurityContext_DeepCopyInto x)),
     (''AutomountServiceAccountToken'', copy_ptr assign)]"

definition SecurityOverrides_DeepCopy :: "k8s_types \<Rightarrow> copier" where [copier_defs]:
  "SecurityOverrides_DeepCopy x = copy_ptr (SecurityOverrides_DeepCopyInto x)"

definition AgentSpec_DeepCopyInto :: "k8s_types \<Rightarrow> copier" where
  "AgentSpec_DeepCopyInto x = copy_struct [(''BuiltinTools'', copy_slice_flat),
     (''Temperature'', copy_ptr assign), (''MaxOutputTokens'', copy_ptr assign),
     (''MaxSteps'', copy_ptr assign), (''MaxTokensBudget'', copy_ptr assign),
     (''MaxRetries'', copy_ptr assign), (''ProviderRefs'', copy_slice ProviderBinding_DeepCopyInto),
     (''FallbackModels'', copy_slice_flat), (''ContextFiles'', copy_slice_flat),
     (''Delegation'', copy_ptr DelegationSpec_DeepCopyInto),
     (''Tools'', copy_slice ToolBinding_DeepCopyInto), (''PermissionTools'', copy_slice_flat),
     (''Env'', copy_map_flat), (''Secrets'', copy_slice_flat), (''Storage'', copy_ptr assign),
     (''Memory'', copy_ptr MemorySpec_DeepCopyInto), (''Integrations'', copy_slice_flat),
     (''ToolHooks'', copy_ptr ToolHooksSpec_DeepCopyInto), (''Concurrency'', copy_ptr assign),
     (''Resources'', copy_ptr (x_ResourceRequirements_DeepCopyInto x)),
     (''NetworkPolicy'', copy_ptr assign), (''PodAnnotations'', copy_map_flat),
     (''Security'', copy_ptr (SecurityOverrides_DeepCopyInto x))]"

definition AgentSpec_DeepCopy :: "k8s_types \<Rightarrow> copier" where [copier_defs]:
  "AgentSpec_DeepCopy x = copy_ptr (AgentSpec_DeepCopyInto x)"

definition AgentStatus_DeepCopyInto :: "k8s_types \<Rightarrow> copier" where
  "AgentStatus_DeepCopyInto x = copy_struct [
     (''Conditions'', copy_slice (x_Condition_DeepCopyInto x))]"

definition AgentStatus_DeepCopy :: "k8s_types \<Rightarrow> copier" where [copier_defs]:
  "AgentStatus_DeepCopy x = copy_ptr (AgentStatus_DeepCopyInto x)"

definition Agent_DeepCopyInto :: "k8s_types \<Rightarrow> copier" where
  "Agent_DeepCopyInto x = copy_struct [(''TypeMeta'', assign),
     (''ObjectMeta'', x_ObjectMeta_DeepCopyInto x), (''Spec'', AgentSpec_DeepCopyInto x),
     (''Status'', AgentStatus_DeepCopyInto x)]"

definition Agent_DeepCopy :: "k8s_types \<Rightarrow> copier" where [copier_defs]:
  "Agent_DeepCopy x = copy_ptr (Agent_DeepCopyInto x)"

definition Agent_DeepCopyObject :: "k8s_types \<Rightarrow> gval \<Rightarrow> gheap \<Rightarrow> gval option \<times> gheap" where
  "Agent_DeepCopyObject x v h = as_object (Agent_DeepCopy x v h)"

definition AgentList_DeepCopyInto :: "k8s_types \<Rightarrow> copier" where
  "AgentList_DeepCopyInto x = copy_struct [(''TypeMeta'', assign),
     (''ListMeta'', x_ListMeta_DeepCopyInto x), (''Items'', copy_slice (Agent_DeepCopyInto x))]"

definition AgentList_DeepCopy :: "k8s_types \<Rightarrow> copier" where [copier_defs]:
  "AgentList_DeepCopy x = copy_ptr (AgentList_DeepCopyInto x)"

definition AgentList_DeepCopyObject :: "k8s_types \<Rightarrow> gval \<Rightarrow> gheap \<Rightarrow> gval option \<times> gheap" where
  "AgentList_DeepCopyObject x v h = as_object (AgentList_DeepCopy x v h)"

definition AgentRunGitSpec_DeepCopyInto :: copier where
  "AgentRunGitSpec_DeepCopyInto = copy_struct []"

definition AgentRunGitSpec_DeepCopy :: copier where [copier_defs]:
  "AgentRunGitSpec_DeepCopy = copy_ptr AgentRunGitSpec_DeepCopyInto"

definition AgentRunOutcomeSpec_DeepCopyInto :: copier where
  "AgentRunOutcomeSpec_DeepCopyInto = copy_struct []"

definition AgentRunOutcomeSpec_DeepCopy :: copier where [copier_defs]:
  "AgentRunOutcomeSpec_DeepCopy = copy_ptr AgentRunOutcomeSpec_DeepCopyInto"

definition AgentRunSpec_DeepCopyInto :: copier where
  "AgentRunSpec_DeepCopyInto = copy_struct [(''Git'', copy_ptr assign),
     (''Outcome'', copy_ptr assign)]"

definition AgentRunSpec_DeepCopy :: copier where [copier_defs]:
  "AgentRunSpec_DeepCopy = copy_ptr AgentRunSpec_DeepCopyInto"

definition AgentRunArtifact_DeepCopyInto :: copier where
  "AgentRunArtifact_DeepCopyInto = copy_struct []"

definition AgentRunArtifact_DeepCopy :: copier where [copier_defs]:
  "AgentRunArtifact_DeepCopy = copy_ptr AgentRunArtifact_DeepCopyInto"

definition AgentRunOutcomeStatus_DeepCopyInto :: copier where
  "AgentRunOutcomeStatus_DeepCopyInto = copy_struct [(''Artifacts'', copy_slice_flat)]"

definition AgentRunOutcomeStatus_DeepCopy :: copier where [copier_defs]:
  "AgentRunOutcomeStatus_DeepCopy = copy_ptr AgentRunOutcomeStatus_DeepCopyInto"

definition AgentRunStatus_DeepCopyInto :: "k8s_types \<Rightarrow> copier" where
  "AgentRunStatus_DeepCopyInto x = copy_struct [(''StartTime'', copy_ptr_by (x_Time_DeepCopy x)),
     (''CompletionTime'', copy_ptr_by (x_Time_DeepCopy x)),
     (''Outcome'', copy_ptr AgentRunOutcomeStatus_DeepCopyInto),
     (''Conditions'', copy_slice (x_Condition_DeepCopyInto x))]"

definition AgentRunStatus_DeepCopy :: "k8s_types \<Rightarrow> copier" where [copier_defs]:
  "AgentRunStatus_DeepCopy x = copy_ptr (AgentRunStatus_DeepCopyInto x)"

definition AgentRun_DeepCopyInto :: "k8s_types \<Rightarrow> copier" where
  "AgentRun_DeepCopyInto x = copy_struct [(''TypeMeta'', assign),
     (''ObjectMeta'', x_ObjectMeta_DeepCopyInto x), (''Spec'', AgentRunSpec_DeepCopyInto),
     (''Status'', AgentRunStatus_DeepCopyInto x)]"

definition AgentRun_DeepCopy :: "k8s_types \<Rightarrow> copier" where [copier_defs]:
  "AgentRun_DeepCopy x = copy_ptr (AgentRun_DeepCopyInto x)"

definition AgentRun_DeepCopyObject :: "k8s_types \<Rightarrow> gval \<Rightarrow> gheap \<Rightarrow> gval option \<times> gheap" where
  "AgentRun_DeepCopyObject x v h = as_object (AgentRun_DeepCopy x v h)"

definition AgentRunList_DeepCopyInto :: "k8s_types \<Rightarrow> copier" where
  "AgentRunList_DeepCopyInto x = copy_struct [(''TypeMeta'', assign),
     (''ListMeta'', x_ListMeta_DeepCopyInto x), (''Items'', copy_slice (AgentRun_DeepCopyInto x))]"

definition AgentRunList_DeepCopy :: "k8s_types \<Rightarrow> copier" where [copier_defs]:
  "AgentRunList_DeepCopy x = copy_ptr (AgentRunList_DeepCopyInto x)"

definition AgentRunList_DeepCopyObject :: "k8s_types \<Rightarrow> gval \<Rightarrow> gheap \<Rightarrow> gval option \<times> gheap" where
  "AgentRunList_DeepCopyObject x v h = as_object (AgentRunList_DeepCopy x v h)"

definition ChannelSpec_DeepCopyInto :: "k8s_types \<Rightarrow> copier" where
  "ChannelSpec_DeepCopyInto x = copy_struct [
     (''Telegram'', copy_ptr TelegramChannelConfig_DeepCopyInto),
     (''Slack'', copy_ptr SlackChannelConfig_DeepCopyInto),
     (''Discord'', copy_ptr DiscordChannelConfig_DeepCopyInto),
     (''GitLab'', copy_ptr GitLabChannelConfig_DeepCopyInto),
     (''GitLabLabel'', copy_ptr (GitLabLabelChannelConfig_DeepCopyInto x)),
     (''GitLabComment'', copy_ptr (GitLabCommentChannelConfig_DeepCopyInto x)),
     (''GitHub'', copy_ptr GitHubChannelConfig_DeepCopyInto),
     (''WebhookConfig'', copy_ptr WebhookChannelConfig_DeepCopyInto),
     (''Webhook'', copy_ptr WebhookIngressConfig_DeepCopyInto), (''Replicas'', copy_ptr assign),
     (''Resources'', copy_ptr (x_ResourceRequirements_DeepCopyInto x)),
     (''Security'', copy_ptr (SecurityOverrides_DeepCopyInto x))]"

definition ChannelSpec_DeepCopy :: "k8s_types \<Rightarrow> copier" where [copier_defs]:
  "ChannelSpec_DeepCopy x = copy_ptr (ChannelSpec_DeepCopyInto x)"

definition ChannelStatus_DeepCopyInto :: "k8s_types \<Rightarrow> copier" where
  "ChannelStatus_DeepCopyInto x = copy_struct [
     (''Conditions'', copy_slice (x_Condition_DeepCopyInto x))]"

definition ChannelStatus_DeepCopy :: "k8s_types \<Rightarrow> copier" where [copier_defs]:
  "ChannelStatus_DeepCopy x = copy_ptr (ChannelStatus_DeepCopyInto x)"

definition Channel_DeepCopyInto :: "k8s_types \<Rightarrow> copier" where
  "Channel_DeepCopyInto x = copy_struct [(''TypeMeta'', assign),
     (''ObjectMeta'', x_ObjectMeta_DeepCopyInto x), (''Spec'', ChannelSpec_DeepCopyInto x),
     (''Status'', ChannelStatus_DeepCopyInto x)]"

definition Channel_DeepCopy :: "k8s_types \<Rightarrow> copier" where [copier_defs]:
  "Channel_DeepCopy x = copy_ptr (Channel_DeepCopyInto x)"

definition Channel_DeepCopyObject :: "k8s_types \<Rightarrow> gval \<Rightarrow> gheap \<Rightarrow> gval option \<times> gheap" where
  "Channel_DeepCopyObject x v h = as_object (Channel_DeepCopy x v h)"

definition ChannelList_DeepCopyInto :: "k8s_types \<Rightarrow> copier" where
  "ChannelList_DeepCopyInto x = copy_struct [(''TypeMeta'', assign),
     (''ListMeta'', x_ListMeta_DeepCopyInto x), (''Items'', copy_slice (Channel_DeepCopyInto x))]"

definition ChannelList_DeepCopy :: "k8s_types \<Rightarrow> copier" where [copier_defs]:
  "ChannelList_DeepCopy x = copy_ptr (ChannelList_DeepCopyInto x)"

definition ChannelList_DeepCopyObject :: "k8s_types \<Rightarrow> gval \<Rightarrow> gheap \<Rightarrow> gval option \<times> gheap" where
  "ChannelList_DeepCopyObject x v h = as_object (ChannelList_DeepCopy x v h)"

definition OAuth2ClientCredentials_DeepCopyInto :: copier where
  "OAuth2ClientCredentials_DeepCopyInto = copy_struct [(''ClientIDSecret'', assign),
     (''ClientSecretSecret'', assign)]"

definition OAuth2ClientCredentials_DeepCopy :: copier where [copier_defs]:
  "OAuth2ClientCredentials_DeepCopy = copy_ptr OAuth2ClientCredentials_DeepCopyInto"

definition ProviderEndpoint_DeepCopyInto :: copier where
  "ProviderEndpoint_DeepCopyInto = copy_struct [(''Headers'', copy_map_flat),
     (''OAuth2ClientCredentials'', copy_ptr assign)]"

definition ProviderEndpoint_DeepCopy :: copier where [copier_defs]:
  "ProviderEndpoint_DeepCopy = copy_ptr ProviderEndpoint_DeepCopyInto"

definition VertexConfig_DeepCopyInto :: copier where
  "VertexConfig_DeepCopyInto = copy_struct []"

definition VertexConfig_DeepCopy :: copier where [copier_defs]:
  "VertexConfig_DeepCopy = copy_ptr VertexConfig_DeepCopyInto"

definition ProviderConfig_DeepCopyInto :: copier where
  "ProviderConfig_DeepCopyInto = copy_struct [(''Vertex'', copy_ptr assign)]"

definition ProviderConfig_DeepCopy :: copier where [copier_defs]:
  "ProviderConfig_DeepCopy = copy_ptr ProviderConfig_DeepCopyInto"

definition ProviderSpec_DeepCopyInto :: copier where
  "ProviderSpec_DeepCopyInto = copy_struct [(''ApiKeySecret'', copy_ptr assign),
     (''Endpoint'', copy_ptr ProviderEndpoint_DeepCopyInto),
     (''Config'', copy_ptr ProviderConfig_DeepCopyInto),
     (''Defaults'', copy_ptr ProviderCallDefaults_DeepCopyInto)]"

definition ProviderSpec_DeepCopy :: copier where [copier_defs]:
  "ProviderSpec_DeepCopy = copy_ptr ProviderSpec_DeepCopyInto"

definition ProviderStatus_DeepCopyInto :: "k8s_types \<Rightarrow> copier" where
  "ProviderStatus_DeepCopyInto x = copy_struct [
     (''Conditions'', copy_slice (x_Condition_DeepCopyInto x))]"

definition ProviderStatus_DeepCopy :: "k8s_types \<Rightarrow> copier" where [copier_defs]:
  "ProviderStatus_DeepCopy x = copy_ptr (ProviderStatus_DeepCopyInto x)"

definition Provider_DeepCopyInto :: "k8s_types \<Rightarrow> copier" where
  "Provider_DeepCopyInto x = copy_struct [(''TypeMeta'', assign),
     (''ObjectMeta'', x_ObjectMeta_DeepCopyInto x), (''Spec'', ProviderSpec_DeepCopyInto),
     (''Status'', ProviderStatus_DeepCopyInto x)]"

definition Provider_DeepCopy :: "k8s_types \<Rightarrow> copier" where [copier_defs]:
  "Provider_DeepCopy x = copy_ptr (Provider_DeepCopyInto x)"

definition Provider_DeepCopyObject :: "k8s_types \<Rightarrow> gval \<Rightarrow> gheap \<Rightarrow> gval option \<times> gheap" where
  "Provider_DeepCopyObject x v h = as_object (Provider_DeepCopy x v h)"

definition ProviderList_DeepCopyInto :: "k8s_types \<Rightarrow> copier" where
  "ProviderList_DeepCopyInto x = copy_struct [(''TypeMeta'', assign),
     (''ListMeta'', x_ListMeta_DeepCopyInto x), (''Items'', copy_slice (Provider_DeepCopyInto x))]"

definition ProviderList_DeepCopy :: "k8s_types \<Rightarrow> copier" where [copier_defs]:
  "ProviderList_DeepCopy x = copy_ptr (ProviderList_DeepCopyInto x)"

definition ProviderList_DeepCopyObject :: "k8s_types \<Rightarrow> gval \<Rightarrow> gheap \<Rightarrow> gval option \<times> gheap" where
  "ProviderList_DeepCopyObject x v h = as_object (ProviderList_DeepCopy x v h)"

definition IntegrationTriggerGit_DeepCopyInto :: copier where
  "IntegrationTriggerGit_DeepCopyInto = copy_struct []"

definition IntegrationTriggerGit_DeepCopy :: copier where [copier_defs]:
  "IntegrationTriggerGit_DeepCopy = copy_ptr IntegrationTriggerGit_DeepCopyInto"

definition IntegrationTrigger_DeepCopyInto :: copier where
  "IntegrationTrigger_DeepCopyInto = copy_struct [(''Actions'', copy_slice_flat),
     (''Labels'', copy_slice_flat), (''Git'', copy_ptr assign)]"

definition IntegrationTrigger_DeepCopy :: copier where [copier_defs]:
  "IntegrationTrigger_DeepCopy = copy_ptr IntegrationTrigger_DeepCopyInto"

definition GitHubResourceConfig_DeepCopyInto :: copier where
  "GitHubResourceConfig_DeepCopyInto = copy_struct []"

definition GitHubResourceConfig_DeepCopy :: copier where [copier_defs]:
  "GitHubResourceConfig_DeepCopy = copy_ptr GitHubResourceConfig_DeepCopyInto"

definition GitHubOrgResourceConfig_DeepCopyInto :: copier where
  "GitHubOrgResourceConfig_DeepCopyInto = copy_struct [(''RepoFilter'', copy_slice_flat)]"

definition GitHubOrgResourceConfig_DeepCopy :: copier where [copier_defs]:
  "GitHubOrgResourceConfig_DeepCopy = copy_ptr GitHubOrgResourceConfig_DeepCopyInto"

definition GitLabResourceConfig_DeepCopyInto :: copier where
  "GitLabResourceConfig_DeepCopyInto = copy_struct []"

definition GitLabResourceConfig_DeepCopy :: copier where [copier_defs]:
  "GitLabResourceConfig_DeepCopy = copy_ptr GitLabResourceConfig_DeepCopyInto"

definition GitLabGroupResourceConfig_DeepCopyInto :: copier where
  "GitLabGroupResourceConfig_DeepCopyInto = copy_struct [(''Projects'', copy_slice_flat)]"

definition GitLabGroupResourceConfig_DeepCopy :: copier where [copier_defs]:
  "GitLabGroupResourceConfig_DeepCopy = copy_ptr GitLabGroupResourceConfig_DeepCopyInto"

definition GitResourceConfig_DeepCopyInto :: copier where
  "GitResourceConfig_DeepCopyInto = copy_struct [(''SSHKeySecret'', copy_ptr assign)]"

definition GitResourceConfig_DeepCopy :: copier where [copier_defs]:
  "GitResourceConfig_DeepCopy = copy_ptr GitResourceConfig_DeepCopyInto"

definition S3ResourceConfig_DeepCopyInto :: copier where
  "S3ResourceConfig_DeepCopyInto = copy_struct []"

definition S3ResourceConfig_DeepCopy :: copier where [copier_defs]:
  "S3ResourceConfig_DeepCopy = copy_ptr S3ResourceConfig_DeepCopyInto"

definition DocumentationResourceConfig_DeepCopyInto :: copier where
  "DocumentationResourceConfig_DeepCopyInto = copy_struct [(''URLs'', copy_slice_flat),
     (''ConfigMapRef'', copy_ptr assign)]"

definition DocumentationResourceConfig_DeepCopy :: copier where [copier_defs]:
  "DocumentationResourceConfig_DeepCopy = copy_ptr DocumentationResourceConfig_DeepCopyInto"

definition IntegrationSpec_DeepCopyInto :: copier where
  "IntegrationSpec_DeepCopyInto = copy_struct [(''Credentials'', copy_ptr assign),
     (''GitHub'', copy_ptr assign), (''GitHubOrg'', copy_ptr GitHubOrgResourceConfig_DeepCopyInto),
     (''GitLab'', copy_ptr assign),
     (''GitLabGroup'', copy_ptr GitLabGroupResourceConfig_DeepCopyInto),
     (''Git'', copy_ptr GitResourceConfig_DeepCopyInto), (''S3'', copy_ptr assign),
     (''Documentation'', copy_ptr DocumentationResourceConfig_DeepCopyInto),
     (''Triggers'', copy_slice IntegrationTrigger_DeepCopyInto)]"

definition IntegrationSpec_DeepCopy :: copier where [copier_defs]:
  "IntegrationSpec_DeepCopy = copy_ptr IntegrationSpec_DeepCopyInto"

definition IntegrationStatus_DeepCopyInto :: "k8s_types \<Rightarrow> copier" where
  "IntegrationStatus_DeepCopyInto x = copy_struct [
     (''Conditions'', copy_slice (x_Condition_DeepCopyInto x))]"

definition IntegrationStatus_DeepCopy :: "k8s_types \<Rightarrow> copier" where [copier_defs]:
  "IntegrationStatus_DeepCopy x = copy_ptr (IntegrationStatus_DeepCopyInto x)"

definition Integration_DeepCopyInto :: "k8s_types \<Rightarrow> copier" where
  "Integration_DeepCopyInto x = copy_struct [(''TypeMeta'', assign),
     (''ObjectMeta'', x_ObjectMeta_DeepCopyInto x), (''Spec'', IntegrationSpec_DeepCopyInto),
     (''Status'', IntegrationStatus_DeepCopyInto x)]"

definition Integration_DeepCopy :: "k8s_types \<Rightarrow> copier" where [copier_defs]:
  "Integration_DeepCopy x = copy_ptr (Integration_DeepCopyInto x)"

definition Integration_DeepCopyObject :: "k8s_types \<Rightarrow> gval \<Rightarrow> gheap \<Rightarrow> gval option \<times> gheap" where
  "Integration_DeepCopyObject x v h = as_object (Integration_DeepCopy x v h)"

definition IntegrationList_DeepCopyInto :: "k8s_types \<Rightarrow> copier" where
  "IntegrationList_DeepCopyInto x = copy_struct [(''TypeMeta'', assign),
     (''ListMeta'', x_ListMeta_DeepCopyInto x), (''Items'', copy_slice (Integration_DeepCopyInto x))]"

definition IntegrationList_DeepCopy :: "k8s_types \<Rightarrow> copier" where [copier_defs]:
  "IntegrationList_DeepCopy x = copy_ptr (IntegrationList_DeepCopyInto x)"

definition IntegrationList_DeepCopyObject :: "k8s_types \<Rightarrow> gval \<Rightarrow> gheap \<Rightarrow> gval option \<times> gheap" where
  "IntegrationList_DeepCopyObject x v h = as_object (IntegrationList_DeepCopy x v h)"

subsection \<open>The scheme\<close>

text \<open>\<^verbatim>\<open>groupversion_info.go\<close>: the group and version of the API, and the types that are registered for it, by
the names of their kinds.\<close>

definition GroupVersion :: "string \<times> string" where
  "GroupVersion = (''agents.agentops.io'', ''v1alpha1'')"

definition SchemeBuilder :: "k8s_types \<Rightarrow> ((string \<times> string) \<times> string \<times> gtype) list" where
  "SchemeBuilder x = map (Pair GroupVersion)
     [(''Agent'', Agent_t x), (''AgentList'', AgentList_t x), (''AgentRun'', AgentRun_t x), (''AgentRunList'', AgentRunList_t x),
      (''Integration'', Integration_t x), (''IntegrationList'', IntegrationList_t x), (''Channel'', Channel_t x),
      (''ChannelList'', ChannelList_t x), (''Provider'', Provider_t x), (''ProviderList'', ProviderList_t x)]"

end
