(* ===== verification/Go_Heap_Laws.thy ===== *)
theory Go_Heap_Laws
  imports Go_Heap
begin

text \<open>The contents of a value depend on the cells it reaches and on nothing else; every shape of
statement of \<open>Go_Heap\<close> gives a value with the contents of the original that reaches new cells only.\<close>

named_theorems copy_laws \<open>which copiers are deep copies of which types\<close>

subsection \<open>Contents and reachable cells\<close>

lemma those_Some_iff: "those xs = Some ys \<longleftrightarrow> xs = map Some ys"
proof (induction xs arbitrary: ys)
  case (Cons x xs)
  then show ?case by (cases ys) (auto split: option.splits)
qed auto

lemma those_map_Some: "those (map f xs) = Some ys \<longleftrightarrow> list_all2 (\<lambda>x y. f x = Some y) xs ys"
  by (auto simp: those_Some_iff list_all2_conv_all_nth list_eq_iff_nth_eq)

lemma list_all2_cong_Some:
  "list_all2 (\<lambda>x y. f x = Some y) xs ys \<Longrightarrow> (\<And>x y. x \<in> set xs \<Longrightarrow> f x = Some y \<Longrightarrow> g x = Some y)
    \<Longrightarrow> list_all2 (\<lambda>x y. g x = Some y) xs ys"
  by (auto simp: list_all2_conv_all_nth)

lemma list_all2_Some_mem: "list_all2 (\<lambda>x y. f x = Some y) xs ys \<Longrightarrow> x \<in> set xs \<Longrightarrow> \<exists>y. f x = Some y"
  by (auto simp: list_all2_conv_all_nth in_set_conv_nth)

definition agree :: "nat set \<Rightarrow> gheap \<Rightarrow> gheap \<Rightarrow> bool" where
  "agree A h h' \<longleftrightarrow> (\<forall>a\<in>A. a < length h' \<and> h' ! a = h ! a)"

lemma agree_Un [simp]: "agree (A \<union> B) h h' \<longleftrightarrow> agree A h h' \<and> agree B h h'"
  by (auto simp: agree_def)

lemma agree_insert [simp]: "agree (insert a A) h h' \<longleftrightarrow> a < length h' \<and> h' ! a = h ! a \<and> agree A h h'"
  by (auto simp: agree_def)

lemma agree_UN: "agree (\<Union>x\<in>X. A x) h h' \<longleftrightarrow> (\<forall>x\<in>X. agree (A x) h h')"
  by (auto simp: agree_def)

lemma agree_empty [simp]: "agree {} h h'"
  by (simp add: agree_def)

lemma agree_subset: "agree B h h' \<Longrightarrow> A \<subseteq> B \<Longrightarrow> agree A h h'"
  by (auto simp: agree_def)

lemma view_slice_iff:
  "view (TSlice T) h (GSlice (Some (a, i, n))) = Some t \<longleftrightarrow>
     a < length h \<and> is_CArr (h ! a) \<and> i + n \<le> length (cell_arr (h ! a)) \<and>
     (\<exists>ts. t = LSlice (Some ts) \<and> list_all2 (\<lambda>v y. view T h v = Some y) (window i n (cell_arr (h ! a))) ts)"
  by (auto simp: those_map_Some)

lemma view_map_iff:
  "view (TMap T) h (GMap (Some a)) = Some t \<longleftrightarrow>
     a < length h \<and> is_CMap (h ! a) \<and> distinct (map fst (cell_map (h ! a))) \<and>
     (\<exists>ts. t = LMap (Some (zip (map fst (cell_map (h ! a))) ts))
        \<and> list_all2 (\<lambda>v y. view T h v = Some y) (map snd (cell_map (h ! a))) ts)"
  by (auto simp: those_map_Some simp del: map_map)

lemma view_agree:
  "view T h v = Some t \<Longrightarrow> agree (set (reach T h v)) h h'
    \<Longrightarrow> view T h' v = Some t \<and> reach T h' v = reach T h v"
  "view_fields Ts h fs = Some ts \<Longrightarrow> agree (set (reach_fields Ts h fs)) h h'
    \<Longrightarrow> view_fields Ts h' fs = Some ts \<and> reach_fields Ts h' fs = reach_fields Ts h fs"
proof (induction T h v and Ts h fs arbitrary: t and ts rule: view_view_fields.induct)
  case (6 T h a i n)
  let ?ws = "window i n (cell_arr (h ! a))"
  from 6 obtain ts where ts: "t = LSlice (Some ts)" "list_all2 (\<lambda>v y. view T h v = Some y) ?ws ts"
    and wf: "a < length h" "is_CArr (h ! a)" "i + n \<le> length (cell_arr (h ! a))"
    by (auto simp: those_map_Some split: if_splits)
  have sub: "view T h' v = Some y \<and> reach T h' v = reach T h v"
    if "v \<in> set ?ws" "view T h v = Some y" for v y
    using 6 wf that by (auto simp: agree_UN)
  have "list_all2 (\<lambda>v y. view T h' v = Some y) ?ws ts"
    using list_all2_cong_Some[OF ts(2)] sub by blast
  moreover have "map (reach T h') ?ws = map (reach T h) ?ws"
    using sub list_all2_Some_mem[OF ts(2)] by fastforce
  ultimately show ?case
    using 6(3) wf ts(1) by (simp add: those_map_Some del: map_eq_conv)
next
  case (8 T h a)
  let ?ws = "map snd (cell_map (h ! a))"
  from 8 obtain ts where ts: "t = LMap (Some (zip (map fst (cell_map (h ! a))) ts))"
      "list_all2 (\<lambda>v y. view T h v = Some y) ?ws ts"
    and wf: "a < length h" "is_CMap (h ! a)" "distinct (map fst (cell_map (h ! a)))"
    by (auto simp: those_map_Some simp del: map_map split: if_splits)
  have sub: "view T h' v = Some y \<and> reach T h' v = reach T h v"
    if "v \<in> set ?ws" "view T h v = Some y" for v y
    using 8 wf that by (auto simp: agree_UN)
  have "list_all2 (\<lambda>v y. view T h' v = Some y) ?ws ts"
    using list_all2_cong_Some[OF ts(2)] sub by blast
  moreover have "map (reach T h') ?ws = map (reach T h) ?ws"
    using sub list_all2_Some_mem[OF ts(2)] by fastforce
  ultimately show ?case
    using 8(3) wf ts(1) by (auto simp only: view_map_iff reach.simps agree_insert list.set)
qed (auto split: if_splits option.splits)

lemma reach_allocated:
  "view T h v = Some t \<Longrightarrow> a \<in> set (reach T h v) \<Longrightarrow> a < length h"
  "view_fields Ts h fs = Some ts \<Longrightarrow> a \<in> set (reach_fields Ts h fs) \<Longrightarrow> a < length h"
proof (induction T h v and Ts h fs arbitrary: t and ts rule: view_view_fields.induct)
  case (6 T h b i n)
  then show ?case
    by (auto simp: those_map_Some split: if_splits dest: list_all2_Some_mem)
next
  case (8 T h b)
  then obtain ts where ts: "list_all2 (\<lambda>v y. view T h v = Some y) (map snd (cell_map (h ! b))) ts"
    and wf: "b < length h" "is_CMap (h ! b)" "distinct (map fst (cell_map (h ! b)))"
    by (auto simp only: view_map_iff)
  have "a < length h" if "v \<in> snd ` set (cell_map (h ! b))" "a \<in> set (reach T h v)" for v
    using 8(1)[of v] that wf list_all2_Some_mem[OF ts, of v] by auto
  then show ?case using 8(3) wf(1) by auto
qed (auto split: if_splits option.splits)

lemma flat_reach:
  "flat T \<Longrightarrow> reach T h v = []"
  "flat_fields Ts \<Longrightarrow> reach_fields Ts h fs = []"
  by (induction T h v and Ts h fs rule: reach_reach_fields.induct) auto

lemma view_append:
  assumes "view T h v = Some t"
  shows "view T (h @ cs) v = Some t \<and> reach T (h @ cs) v = reach T h v"
  using assms by (rule view_agree(1)) (auto simp: agree_def nth_append dest: reach_allocated(1)[OF assms])

lemma view_fields_append:
  assumes "view_fields Ts h fs = Some ts"
  shows "view_fields Ts (h @ cs) fs = Some ts \<and> reach_fields Ts (h @ cs) fs = reach_fields Ts h fs"
  using assms by (rule view_agree(2)) (auto simp: agree_def nth_append dest: reach_allocated(2)[OF assms])

lemma view_update:
  assumes "view T h v = Some t" "b \<notin> set (reach T h v)"
  shows "view T (h[b := c]) v = Some t \<and> reach T (h[b := c]) v = reach T h v"
proof (rule view_agree(1)[OF assms(1)])
  have "a < length h" if "a \<in> set (reach T h v)" for a
    using that reach_allocated(1)[OF assms(1)] by blast
  then show "agree (set (reach T h v)) h (h[b := c])"
    using assms(2) unfolding agree_def by (metis length_list_update nth_list_update_neq)
qed

lemma view_fields_names: "view_fields Ts h fs = Some ts \<Longrightarrow> map fst fs = map fst Ts"
proof (induction Ts arbitrary: fs ts)
  case Nil
  then show ?case by (cases fs) auto
next
  case (Cons nT Ts)
  then show ?case by (cases nT; cases fs) (auto split: if_splits option.splits)
qed

subsection \<open>Deep copies\<close>

text \<open>A deep copy of a type: from a value of the type it makes a value with the same contents, it only
appends cells to the heap, and the new value reaches appended cells only.\<close>

definition deep_copies :: "gtype \<Rightarrow> copier \<Rightarrow> bool" where
  "deep_copies T c \<longleftrightarrow> (\<forall>h v t. view T h v = Some t \<longrightarrow>
     (\<exists>v' cs. c v h = (v', h @ cs) \<and> view T (h @ cs) v' = Some t
        \<and> (\<forall>a\<in>set (reach T (h @ cs) v'). length h \<le> a)))"

lemma deep_copiesD:
  assumes "deep_copies T c" "view T h v = Some t"
  obtains v' cs where "c v h = (v', h @ cs)" "view T (h @ cs) v' = Some t"
    "\<forall>a\<in>set (reach T (h @ cs) v'). length h \<le> a"
  using assms unfolding deep_copies_def by blast

lemma deep_copies_assign [copy_laws]: "flat T \<Longrightarrow> deep_copies T assign"
  by (auto simp: deep_copies_def assign_def flat_reach intro!: exI[of _ "[]"])

lemma deep_copies_ptr [copy_laws]:
  assumes c: "deep_copies T c"
  shows "deep_copies (TPtr T) (copy_ptr c)"
  unfolding deep_copies_def
proof (intro allI impI)
  fix h v t assume v: "view (TPtr T) h v = Some t"
  then consider "v = GPtr None" | a where "v = GPtr (Some a)"
    by (cases "(TPtr T, h, v)" rule: view.cases) auto
  then show "\<exists>v' cs. copy_ptr c v h = (v', h @ cs) \<and> view (TPtr T) (h @ cs) v' = Some t
      \<and> (\<forall>a\<in>set (reach (TPtr T) (h @ cs) v'). length h \<le> a)"
  proof cases
    case 1
    with v show ?thesis by (auto simp: copy_ptr_def intro!: exI[of _ "[]"])
  next
    case 2
    with v obtain t1 where t1: "view T h (cell_val (h ! a)) = Some t1" "t = LPtr (Some t1)"
      by (auto split: if_splits)
    let ?h1 = "h @ [CVal GZero]"
    obtain x cs where x: "c (cell_val (h ! a)) ?h1 = (x, ?h1 @ cs)" "view T (?h1 @ cs) x = Some t1"
      "\<forall>a\<in>set (reach T (?h1 @ cs) x). length ?h1 \<le> a"
      using deep_copiesD[OF c] view_append[OF t1(1)] by blast
    let ?h3 = "h @ CVal x # cs"
    have h3: "(?h1 @ cs)[length h := CVal x] = ?h3"
      by (simp add: list_update_append)
    have "view T ?h3 x = Some t1 \<and> reach T ?h3 x = reach T (?h1 @ cs) x"
      unfolding h3[symmetric] using x(2,3) by (intro view_update) auto
    then show ?thesis
      using 2 x(1,3) t1(2) h3
      by (intro exI[of _ "GPtr (Some (length h))"] exI[of _ "CVal x # cs"]) (auto simp: copy_ptr_def)
  qed
qed

lemma deep_copies_ptr_by [copy_laws]:
  assumes "deep_copies (TPtr T) c"
  shows "deep_copies (TPtr T) (copy_ptr_by c)"
  unfolding deep_copies_def
proof (intro allI impI)
  fix h v t assume v: "view (TPtr T) h v = Some t"
  then consider "v = GPtr None" | a where "v = GPtr (Some a)"
    by (cases "(TPtr T, h, v)" rule: view.cases) auto
  then show "\<exists>v' cs. copy_ptr_by c v h = (v', h @ cs) \<and> view (TPtr T) (h @ cs) v' = Some t
      \<and> (\<forall>a\<in>set (reach (TPtr T) (h @ cs) v'). length h \<le> a)"
    using v assms by cases (auto simp: copy_ptr_by_def deep_copies_def intro!: exI[of _ "[]"])
qed

lemma builtin_copy_same: "length dst = length src \<Longrightarrow> builtin_copy dst src = src"
  by (simp add: builtin_copy_def)

lemma length_window: "i + n \<le> length xs \<Longrightarrow> length (window i n xs) = n"
  by (simp add: window_def)

lemma window_all: "length xs = n \<Longrightarrow> window 0 n xs = xs"
  by (simp add: window_def)

lemma view_slice_cases:
  assumes "view (TSlice T) h v = Some t"
  obtains "v = GSlice None" | a i n where "v = GSlice (Some (a, i, n))"
  using assms by (cases "(TSlice T, h, v)" rule: view.cases) auto

lemma deep_copies_slice_flat [copy_laws]:
  assumes T: "flat T"
  shows "deep_copies (TSlice T) copy_slice_flat"
  unfolding deep_copies_def
proof (intro allI impI)
  fix h v t assume v: "view (TSlice T) h v = Some t"
  then show "\<exists>v' cs. copy_slice_flat v h = (v', h @ cs) \<and> view (TSlice T) (h @ cs) v' = Some t
      \<and> (\<forall>a\<in>set (reach (TSlice T) (h @ cs) v'). length h \<le> a)"
  proof (cases rule: view_slice_cases)
    case 1
    with v show ?thesis by (auto simp: copy_slice_flat_def intro!: exI[of _ "[]"])
  next
    case (2 a i n)
    let ?ws = "window i n (cell_arr (h ! a))"
    from v 2 obtain ts where ts: "t = LSlice (Some ts)" "list_all2 (\<lambda>v y. view T h v = Some y) ?ws ts"
      and n: "length ?ws = n"
      by (auto simp only: view_slice_iff length_window)
    have "list_all2 (\<lambda>v y. view T (h @ [CArr ?ws]) v = Some y) ?ws ts"
      using ts(2) by (rule list_all2_cong_Some) (simp add: view_append)
    then have "view (TSlice T) (h @ [CArr ?ws]) (GSlice (Some (length h, 0, n))) = Some t"
      using n ts(1) by (simp add: view_slice_iff window_all del: view.simps)
    then show ?thesis
      using 2 n T by (intro exI[of _ "GSlice (Some (length h, 0, n))"] exI[of _ "[CArr ?ws]"])
        (simp add: copy_slice_flat_def builtin_copy_same window_all flat_reach del: view.simps)
  qed
qed

lemma map_put_new: "k \<notin> fst ` set m \<Longrightarrow> map_put k v m = m @ [(k, v)]"
  by (induction m) auto

lemma map_put_all:
  "distinct (map fst (m @ es)) \<Longrightarrow> foldl (\<lambda>m (k, x). map_put k x m) m es = m @ es"
  by (induction es arbitrary: m) (auto simp: map_put_new)

lemma deep_copies_map_flat [copy_laws]:
  assumes T: "flat T"
  shows "deep_copies (TMap T) copy_map_flat"
  unfolding deep_copies_def
proof (intro allI impI)
  fix h v t assume v: "view (TMap T) h v = Some t"
  then consider "v = GMap None" | a where "v = GMap (Some a)"
    by (cases "(TMap T, h, v)" rule: view.cases) auto
  then show "\<exists>v' cs. copy_map_flat v h = (v', h @ cs) \<and> view (TMap T) (h @ cs) v' = Some t
      \<and> (\<forall>a\<in>set (reach (TMap T) (h @ cs) v'). length h \<le> a)"
  proof cases
    case 1
    with v show ?thesis by (auto simp: copy_map_flat_def intro!: exI[of _ "[]"])
  next
    case 2
    let ?es = "cell_map (h ! a)"
    from v 2 obtain ts where ts: "t = LMap (Some (zip (map fst ?es) ts))"
      "list_all2 (\<lambda>v y. view T h v = Some y) (map snd ?es) ts" and d: "distinct (map fst ?es)"
      by (auto simp only: view_map_iff)
    have "list_all2 (\<lambda>v y. view T (h @ [CMap ?es]) v = Some y) (map snd ?es) ts"
      using ts(2) by (rule list_all2_cong_Some) (simp add: view_append)
    then have "view (TMap T) (h @ [CMap ?es]) (GMap (Some (length h))) = Some t"
      using d ts(1) by (auto simp only: view_map_iff nth_append_length cell.sel cell.disc length_append_singleton)
    then show ?thesis
      using 2 d T map_put_all[of "[]" ?es]
      by (intro exI[of _ "GMap (Some (length h))"] exI[of _ "[CMap ?es]"])
        (simp add: copy_map_flat_def flat_reach del: view.simps)
  qed
qed

text \<open>The loop over the elements of a slice: from a state in which the first elements of the new array
are done it finishes the others. The elements of the original lie below the new array, those of the
copy above it, so no iteration disturbs what the ones before have made.\<close>

lemma nth_list_all2_appendI:
  "list_all2 P xs ys \<Longrightarrow> P x y \<Longrightarrow> list_all2 P (xs @ [x]) (ys @ [y])"
  by (rule list_all2_appendI) auto

lemma put_elem_keeps:
  assumes "view T g w = Some y" "\<forall>a\<in>set (reach T g w). a \<noteq> b" "g = h \<or> g = h @ cs"
  shows "view T (put_elem b i x (h @ cs)) w = Some y \<and> reach T (put_elem b i x (h @ cs)) w = reach T g w"
proof -
  have "view T (h @ cs) w = Some y \<and> reach T (h @ cs) w = reach T g w"
    using assms(1,3) view_append by blast
  then show ?thesis
    unfolding put_elem_def using view_update assms(2) by metis
qed

lemma copy_elems_ok:
  assumes c: "deep_copies T c"
  shows "list_all2 (\<lambda>v y. view T h v = Some y) vs ts \<Longrightarrow>
    \<forall>v\<in>set vs. \<forall>a\<in>set (reach T h v). a < b \<Longrightarrow> b < length h \<Longrightarrow>
    h ! b = CArr (xs @ replicate (length vs) GZero) \<Longrightarrow> length xs = i \<Longrightarrow>
    list_all2 (\<lambda>v y. view T h v = Some y) xs ts0 \<Longrightarrow> \<forall>v\<in>set xs. \<forall>a\<in>set (reach T h v). b < a \<Longrightarrow>
    \<exists>zs. length h \<le> length (copy_elems c b i vs h)
      \<and> (\<forall>a<length h. a \<noteq> b \<longrightarrow> copy_elems c b i vs h ! a = h ! a)
      \<and> copy_elems c b i vs h ! b = CArr zs \<and> length zs = i + length vs
      \<and> list_all2 (\<lambda>v y. view T (copy_elems c b i vs h) v = Some y) zs (ts0 @ ts)
      \<and> (\<forall>v\<in>set zs. \<forall>a\<in>set (reach T (copy_elems c b i vs h) v). b < a)"
proof (induction vs arbitrary: h ts xs ts0 i)
  case (Cons v vs)
  obtain t ts' where ts: "ts = t # ts'" "view T h v = Some t"
    and vs: "list_all2 (\<lambda>v y. view T h v = Some y) vs ts'"
    using Cons.prems(1) by (cases ts) auto
  obtain x cs where x: "c v h = (x, h @ cs)" "view T (h @ cs) x = Some t"
    "\<forall>a\<in>set (reach T (h @ cs) x). length h \<le> a"
    using deep_copiesD[OF c ts(2)] by blast
  define h1 where "h1 = put_elem b i x (h @ cs)"
  note upd = put_elem_keeps[where T = T and b = b and h = h and cs = cs and i = i and x = x, folded h1_def]
  have xs2: "view T h1 w = Some y \<and> reach T h1 w = reach T h w"
    if "w \<in> set xs" "view T h w = Some y" for w y
    using upd[of h w y] that Cons.prems(7) by auto
  have x1: "view T h1 x = Some t \<and> reach T h1 x = reach T (h @ cs) x"
    using upd[of "h @ cs" x t] x(2,3) Cons.prems(3) by fastforce
  have xs1: "list_all2 (\<lambda>v y. view T h1 v = Some y) (xs @ [x]) (ts0 @ [t])"
    using list_all2_cong_Some[OF Cons.prems(6)] xs2 x1 by (intro nth_list_all2_appendI) blast+
  have r1: "\<forall>v\<in>set (xs @ [x]). \<forall>a\<in>set (reach T h1 v). b < a"
    using x1 x(3) xs2 list_all2_Some_mem[OF Cons.prems(6)] Cons.prems(3,7) by fastforce
  have vs1: "view T h1 w = Some y \<and> reach T h1 w = reach T h w"
    if "w \<in> set vs" "view T h w = Some y" for w y
    using upd[of h w y] that Cons.prems(2) by auto
  have old1: "list_all2 (\<lambda>v y. view T h1 v = Some y) vs ts'"
    using list_all2_cong_Some[OF vs] vs1 by blast
  have below1: "\<forall>v\<in>set vs. \<forall>a\<in>set (reach T h1 v). a < b"
    using vs1 list_all2_Some_mem[OF vs] Cons.prems(2) by (metis list.set_intros(2))
  have b1: "h1 ! b = CArr ((xs @ [x]) @ replicate (length vs) GZero)" "b < length h1" "length h \<le> length h1"
    and same1: "\<forall>a<length h. a \<noteq> b \<longrightarrow> h1 ! a = h ! a"
    using Cons.prems(3,4,5) by (auto simp: h1_def put_elem_def nth_append list_update_append)
  obtain zs where zs: "length h1 \<le> length (copy_elems c b (Suc i) vs h1)"
    "\<forall>a<length h1. a \<noteq> b \<longrightarrow> copy_elems c b (Suc i) vs h1 ! a = h1 ! a"
    "copy_elems c b (Suc i) vs h1 ! b = CArr zs" "length zs = Suc i + length vs"
    "list_all2 (\<lambda>v y. view T (copy_elems c b (Suc i) vs h1) v = Some y) zs ((ts0 @ [t]) @ ts')"
    "\<forall>v\<in>set zs. \<forall>a\<in>set (reach T (copy_elems c b (Suc i) vs h1) v). b < a"
    using Cons.IH[OF old1 below1 b1(2,1) _ xs1 r1, of "Suc i"] Cons.prems(5) by auto
  have step: "copy_elems c b i (v # vs) h = copy_elems c b (Suc i) vs h1"
    by (simp add: x(1) h1_def)
  show ?case
    unfolding step ts(1) using zs b1(3) same1 by (intro exI[of _ zs]) auto
qed auto

lemma deep_copies_slice [copy_laws]:
  assumes c: "deep_copies T c"
  shows "deep_copies (TSlice T) (copy_slice c)"
  unfolding deep_copies_def
proof (intro allI impI)
  fix h v t assume v: "view (TSlice T) h v = Some t"
  then show "\<exists>v' cs. copy_slice c v h = (v', h @ cs) \<and> view (TSlice T) (h @ cs) v' = Some t
      \<and> (\<forall>a\<in>set (reach (TSlice T) (h @ cs) v'). length h \<le> a)"
  proof (cases rule: view_slice_cases)
    case 1
    with v show ?thesis by (auto simp: copy_slice_def intro!: exI[of _ "[]"])
  next
    case (2 a i n)
    let ?ws = "window i n (cell_arr (h ! a))" and ?h1 = "h @ [CArr (replicate n GZero)]"
    from v 2 obtain ts where ts: "t = LSlice (Some ts)" "list_all2 (\<lambda>v y. view T h v = Some y) ?ws ts"
      and n: "length ?ws = n"
      by (auto simp only: view_slice_iff length_window)
    have ws1: "list_all2 (\<lambda>v y. view T ?h1 v = Some y) ?ws ts"
      using ts(2) by (rule list_all2_cong_Some) (simp add: view_append)
    have below: "\<forall>v\<in>set ?ws. \<forall>a\<in>set (reach T ?h1 v). a < length h"
      using list_all2_Some_mem[OF ts(2)] reach_allocated(1) view_append by metis
    define h' where "h' = copy_elems c (length h) 0 ?ws ?h1"
    obtain zs where zs: "Suc (length h) \<le> length h'" "\<forall>a<length h. h' ! a = h ! a"
      "h' ! length h = CArr zs" "length zs = n"
      "list_all2 (\<lambda>v y. view T h' v = Some y) zs ts"
      "\<forall>v\<in>set zs. \<forall>a\<in>set (reach T h' v). length h < a"
      using copy_elems_ok[OF c ws1 below, of "[]" 0 "[]"] n unfolding h'_def[symmetric]
      by (auto simp: nth_append)
    have "take (length h) h' = h"
      using zs(1,2) by (intro nth_equalityI) auto
    then have h': "h' = h @ drop (length h) h'"
      by (metis append_take_drop_id)
    have "view (TSlice T) h' (GSlice (Some (length h, 0, n))) = Some t"
      using zs ts(1) by (simp add: view_slice_iff window_all del: view.simps)
    moreover have "\<forall>a\<in>set (reach (TSlice T) h' (GSlice (Some (length h, 0, n)))). length h \<le> a"
      using zs(3,4,6) by (auto simp: window_all) (metis less_imp_le)
    ultimately show ?thesis
      using 2 h' by (intro exI[of _ "GSlice (Some (length h, 0, n))"] exI[of _ "drop (length h) h'"])
        (simp add: copy_slice_def h'_def del: view.simps reach.simps)
  qed
qed

text \<open>A struct whose statements stand in the order of its fields: every field has a deep copy of its
type, or it has no statement and a type without references.\<close>

fun fields_ok :: "(string \<times> gtype) list \<Rightarrow> (string \<times> copier) list \<Rightarrow> bool" where
  "fields_ok [] cs = (cs = [])"
| "fields_ok ((n, T) # Ts) [] = (flat T \<and> fields_ok Ts [])"
| "fields_ok ((n, T) # Ts) ((m, c) # cs) =
    (if m = n then deep_copies T c \<and> fields_ok Ts cs else flat T \<and> fields_ok Ts ((m, c) # cs))"

lemma fields_ok_names: "fields_ok Ts cs \<Longrightarrow> fst ` set cs \<subseteq> fst ` set Ts"
  by (induction Ts cs rule: fields_ok.induct) (auto split: if_splits)

lemma set_field_append: "n \<notin> fst ` set xs \<Longrightarrow> set_field n v (xs @ ys) = xs @ set_field n v ys"
  by (induction xs) auto

lemma fields_ok_flat: "fields_ok Ts [] \<Longrightarrow> flat_fields Ts"
  by (induction Ts) auto

lemma copy_fields_step:
  assumes "c v h = (x, h')" "n \<notin> fst ` set pre" "n \<notin> fst ` set pre'"
  shows "copy_fields ((n, c) # cs) (pre @ (n, v) # fs) (pre' @ (n, v) # fs) h
    = copy_fields cs ((pre @ [(n, v)]) @ fs) ((pre' @ [(n, x)]) @ fs) h'"
proof -
  have "map_of (pre @ (n, v) # fs) n = Some v"
    using assms(2) map_of_eq_None_iff[of pre n] by (simp add: map_add_def)
  then show ?thesis using assms by (simp add: set_field_append)
qed

lemma copy_fields_ok:
  "fields_ok Ts cs \<Longrightarrow> distinct (map fst Ts) \<Longrightarrow> view_fields Ts h fs = Some ts \<Longrightarrow>
    map fst pre' = map fst pre \<Longrightarrow> fst ` set pre \<inter> fst ` set Ts = {} \<Longrightarrow>
    \<exists>fs' ds. copy_fields cs (pre @ fs) (pre' @ fs) h = (pre' @ fs', h @ ds)
      \<and> view_fields Ts (h @ ds) fs' = Some ts
      \<and> (\<forall>a\<in>set (reach_fields Ts (h @ ds) fs'). length h \<le> a)"
proof (induction Ts cs arbitrary: h fs ts pre pre' rule: fields_ok.induct)
  case (1 cs)
  then show ?case by (cases fs) (auto intro!: exI[of _ "[]"])
next
  case (2 n T Ts)
  then have "flat_fields ((n, T) # Ts)" by (simp add: fields_ok_flat)
  then have "reach_fields ((n, T) # Ts) h fs = []" by (rule flat_reach(2))
  with 2(4) show ?case
    by (intro exI[of _ fs] exI[of _ "[]"]) (simp del: view_fields.simps reach_fields.simps)
next
  case (3 n T Ts m c cs)
  obtain v fs1 t ts1 where fs: "fs = (n, v) # fs1" "ts = (n, t) # ts1"
    and t: "view T h v = Some t" and ts1: "view_fields Ts h fs1 = Some ts1"
    using 3(5) by (cases fs) (auto split: if_splits option.splits)
  have "fst ` set pre' = fst ` set pre"
    using 3(6) by (metis list.set_map)
  then have n: "n \<notin> fst ` set pre" "n \<notin> fst ` set pre'" "n \<notin> fst ` set Ts"
    using 3(4,7) by simp_all
  show ?case
  proof (cases "m = n")
    case True
    with 3(3) have ok: "deep_copies T c" "fields_ok Ts cs" by simp_all
    obtain x ds where x: "c v h = (x, h @ ds)" "view T (h @ ds) x = Some t"
      "\<forall>a\<in>set (reach T (h @ ds) x). length h \<le> a"
      using deep_copiesD[OF ok(1) t] by blast
    have step: "copy_fields ((m, c) # cs) (pre @ fs) (pre' @ fs) h
        = copy_fields cs ((pre @ [(n, v)]) @ fs1) ((pre' @ [(n, x)]) @ fs1) (h @ ds)"
      unfolding fs(1) True by (rule copy_fields_step[where c = c, OF x(1) n(1,2)])
    obtain fs2 es where r: "copy_fields cs ((pre @ [(n, v)]) @ fs1) ((pre' @ [(n, x)]) @ fs1) (h @ ds)
        = ((pre' @ [(n, x)]) @ fs2, (h @ ds) @ es)"
      "view_fields Ts ((h @ ds) @ es) fs2 = Some ts1"
      "\<forall>a\<in>set (reach_fields Ts ((h @ ds) @ es) fs2). length (h @ ds) \<le> a"
      using 3(1)[OF True ok(2), of "h @ ds" fs1 ts1 "pre' @ [(n, x)]" "pre @ [(n, v)]"]
        3(4,6,7) view_fields_append[OF ts1] n(3) by (auto simp del: append_assoc)
    show ?thesis
      unfolding step r(1) fs(2)
      using view_append[OF x(2), of es] x(3) r(2,3)
      by (intro exI[of _ "(n, x) # fs2"] exI[of _ "ds @ es"]) fastforce
  next
    case False
    with 3(3) have ok: "flat T" "fields_ok Ts ((m, c) # cs)" by simp_all
    obtain fs2 es where r: "copy_fields ((m, c) # cs) ((pre @ [(n, v)]) @ fs1) ((pre' @ [(n, v)]) @ fs1) h
        = ((pre' @ [(n, v)]) @ fs2, h @ es)"
      "view_fields Ts (h @ es) fs2 = Some ts1"
      "\<forall>a\<in>set (reach_fields Ts (h @ es) fs2). length h \<le> a"
      using 3(2)[OF False ok(2), of h fs1 ts1 "pre' @ [(n, v)]" "pre @ [(n, v)]"]
        3(4,6,7) ts1 n(3) by (auto simp del: append_assoc copy_fields.simps)
    show ?thesis
      using r view_append[OF t, of es] flat_reach(1)[OF ok(1)]
      by (intro exI[of _ "(n, v) # fs2"] exI[of _ es]) (simp add: fs del: copy_fields.simps)
  qed
qed

lemma deep_copies_struct [copy_laws]:
  assumes "fields_ok Ts cs" "distinct (map fst Ts)"
  shows "deep_copies (TStruct Ts) (copy_struct cs)"
  unfolding deep_copies_def
proof (intro allI impI)
  fix h v t assume v: "view (TStruct Ts) h v = Some t"
  then obtain fs where fs: "v = GStruct fs"
    by (cases "(TStruct Ts, h, v)" rule: view.cases) auto
  with v obtain ts where "t = LStruct ts" "view_fields Ts h fs = Some ts" by auto
  then show "\<exists>v' ds. copy_struct cs v h = (v', h @ ds) \<and> view (TStruct Ts) (h @ ds) v' = Some t
      \<and> (\<forall>a\<in>set (reach (TStruct Ts) (h @ ds) v'). length h \<le> a)"
    using copy_fields_ok[OF assms, of h fs ts "[]" "[]"] fs
    by (fastforce simp: copy_struct_def)
qed

end
