(* ===== verification/Deep_Copy_Properties.thy ===== *)
theory Deep_Copy_Properties
  imports Deep_Copy Go_Heap_Laws
begin

text \<open>Every copy method of the API types is a deep copy of its type: the table of the fields that hold
references and the statements of the method fit. The properties are about all \<open>DeepCopy\<close> methods at once.\<close>

text \<open>What the generated code relies on of the Kubernetes libraries: their copy methods are deep copies,
and the two structs that are copied by assignment have no references.\<close>

definition k8s_copies_ok :: "k8s_types \<Rightarrow> bool" where
  "k8s_copies_ok x \<longleftrightarrow> flat (x_TypeMeta x) \<and> flat (x_Duration x)
    \<and> deep_copies (x_ObjectMeta x) (x_ObjectMeta_DeepCopyInto x)
    \<and> deep_copies (x_ListMeta x) (x_ListMeta_DeepCopyInto x)
    \<and> deep_copies (x_Condition x) (x_Condition_DeepCopyInto x)
    \<and> deep_copies (TPtr (x_Time x)) (x_Time_DeepCopy x)
    \<and> deep_copies (x_ResourceRequirements x) (x_ResourceRequirements_DeepCopyInto x)
    \<and> deep_copies (x_PodSecurityContext x) (x_PodSecurityContext_DeepCopyInto x)
    \<and> deep_copies (x_SecurityContext x) (x_SecurityContext_DeepCopyInto x)"

lemmas k8s_copies = k8s_copies_ok_def[THEN iffD1]

subsection \<open>One law per struct, by layers\<close>

text \<open>A layer has the structs whose fields are structs of the layers before.\<close>

lemma flat_structs [copy_laws]:
  "flat SecretKeyRef_t"
  "flat SecretEnvVar_t"
  "flat OpenAICallDefaults_t"
  "flat GoogleSafetySetting_t"
  "flat ContextFileRef_t"
  "flat ToolEnvVar_t"
  "flat ContextInjectRuleSpec_t"
  "flat ConcurrencySpec_t"
  "flat StorageSpec_t"
  "flat NetworkPolicySpec_t"
  "flat IngressTLS_t"
  "flat IntegrationBinding_t"
  "flat AgentRunGitSpec_t"
  "flat AgentRunOutcomeSpec_t"
  "flat AgentRunArtifact_t"
  "flat OAuth2ClientCredentials_t"
  "flat VertexConfig_t"
  "flat IntegrationTriggerGit_t"
  "flat GitHubResourceConfig_t"
  "flat GitLabResourceConfig_t"
  "flat S3ResourceConfig_t"
  by (simp_all add: type_defs)

lemma copies_layer0 [copy_laws]:
  "deep_copies SecretKeyRef_t SecretKeyRef_DeepCopyInto"
  "deep_copies AnthropicCallDefaults_t AnthropicCallDefaults_DeepCopyInto"
  "deep_copies OpenAICallDefaults_t OpenAICallDefaults_DeepCopyInto"
  "deep_copies GoogleSafetySetting_t GoogleSafetySetting_DeepCopyInto"
  "deep_copies ToolEnvVar_t ToolEnvVar_DeepCopyInto"
  "deep_copies MemorySaveRuleSpec_t MemorySaveRuleSpec_DeepCopyInto"
  "deep_copies ContextInjectRuleSpec_t ContextInjectRuleSpec_DeepCopyInto"
  "deep_copies ConcurrencySpec_t ConcurrencySpec_DeepCopyInto"
  "deep_copies StorageSpec_t StorageSpec_DeepCopyInto"
  "deep_copies NetworkPolicySpec_t NetworkPolicySpec_DeepCopyInto"
  "deep_copies IngressTLS_t IngressTLS_DeepCopyInto"
  "deep_copies IntegrationBinding_t IntegrationBinding_DeepCopyInto"
  "deep_copies DelegationSpec_t DelegationSpec_DeepCopyInto"
  "deep_copies MemorySpec_t MemorySpec_DeepCopyInto"
  "deep_copies AgentRunGitSpec_t AgentRunGitSpec_DeepCopyInto"
  "deep_copies AgentRunOutcomeSpec_t AgentRunOutcomeSpec_DeepCopyInto"
  "deep_copies AgentRunArtifact_t AgentRunArtifact_DeepCopyInto"
  "deep_copies VertexConfig_t VertexConfig_DeepCopyInto"
  "deep_copies IntegrationTriggerGit_t IntegrationTriggerGit_DeepCopyInto"
  "deep_copies GitHubResourceConfig_t GitHubResourceConfig_DeepCopyInto"
  "deep_copies GitHubOrgResourceConfig_t GitHubOrgResourceConfig_DeepCopyInto"
  "deep_copies GitLabResourceConfig_t GitLabResourceConfig_DeepCopyInto"
  "deep_copies GitLabGroupResourceConfig_t GitLabGroupResourceConfig_DeepCopyInto"
  "deep_copies S3ResourceConfig_t S3ResourceConfig_DeepCopyInto"
  by (simp_all add: SecretKeyRef_t_def SecretKeyRef_DeepCopyInto_def AnthropicCallDefaults_t_def
      AnthropicCallDefaults_DeepCopyInto_def OpenAICallDefaults_t_def
      OpenAICallDefaults_DeepCopyInto_def GoogleSafetySetting_t_def
      GoogleSafetySetting_DeepCopyInto_def ToolEnvVar_t_def ToolEnvVar_DeepCopyInto_def
      MemorySaveRuleSpec_t_def MemorySaveRuleSpec_DeepCopyInto_def ContextInjectRuleSpec_t_def
      ContextInjectRuleSpec_DeepCopyInto_def ConcurrencySpec_t_def
      ConcurrencySpec_DeepCopyInto_def StorageSpec_t_def StorageSpec_DeepCopyInto_def
      NetworkPolicySpec_t_def NetworkPolicySpec_DeepCopyInto_def IngressTLS_t_def
      IngressTLS_DeepCopyInto_def IntegrationBinding_t_def IntegrationBinding_DeepCopyInto_def
      DelegationSpec_t_def DelegationSpec_DeepCopyInto_def MemorySpec_t_def
      MemorySpec_DeepCopyInto_def AgentRunGitSpec_t_def AgentRunGitSpec_DeepCopyInto_def
      AgentRunOutcomeSpec_t_def AgentRunOutcomeSpec_DeepCopyInto_def AgentRunArtifact_t_def
      AgentRunArtifact_DeepCopyInto_def VertexConfig_t_def VertexConfig_DeepCopyInto_def
      IntegrationTriggerGit_t_def IntegrationTriggerGit_DeepCopyInto_def
      GitHubResourceConfig_t_def GitHubResourceConfig_DeepCopyInto_def
      GitHubOrgResourceConfig_t_def GitHubOrgResourceConfig_DeepCopyInto_def
      GitLabResourceConfig_t_def GitLabResourceConfig_DeepCopyInto_def
      GitLabGroupResourceConfig_t_def GitLabGroupResourceConfig_DeepCopyInto_def
      S3ResourceConfig_t_def S3ResourceConfig_DeepCopyInto_def copy_laws)

lemma copies_layer0x [copy_laws]:
  assumes "k8s_copies_ok x"
  shows "deep_copies (GitLabLabelChannelConfig_t x) (GitLabLabelChannelConfig_DeepCopyInto x)"
    "deep_copies (GitLabCommentChannelConfig_t x) (GitLabCommentChannelConfig_DeepCopyInto x)"
    "deep_copies (SecurityOverrides_t x) (SecurityOverrides_DeepCopyInto x)"
    "deep_copies (AgentStatus_t x) (AgentStatus_DeepCopyInto x)"
    "deep_copies (ChannelStatus_t x) (ChannelStatus_DeepCopyInto x)"
    "deep_copies (ProviderStatus_t x) (ProviderStatus_DeepCopyInto x)"
    "deep_copies (IntegrationStatus_t x) (IntegrationStatus_DeepCopyInto x)"
  using k8s_copies[OF assms]
  by (simp_all add: GitLabLabelChannelConfig_t_def GitLabLabelChannelConfig_DeepCopyInto_def
      GitLabCommentChannelConfig_t_def GitLabCommentChannelConfig_DeepCopyInto_def
      SecurityOverrides_t_def SecurityOverrides_DeepCopyInto_def AgentStatus_t_def
      AgentStatus_DeepCopyInto_def ChannelStatus_t_def ChannelStatus_DeepCopyInto_def
      ProviderStatus_t_def ProviderStatus_DeepCopyInto_def IntegrationStatus_t_def
      IntegrationStatus_DeepCopyInto_def copy_laws assms)

lemma copies_layer1 [copy_laws]:
  "deep_copies SecretEnvVar_t SecretEnvVar_DeepCopyInto"
  "deep_copies OCIRef_t OCIRef_DeepCopyInto"
  "deep_copies GoogleCallDefaults_t GoogleCallDefaults_DeepCopyInto"
  "deep_copies ContextFileRef_t ContextFileRef_DeepCopyInto"
  "deep_copies ToolHooksSpec_t ToolHooksSpec_DeepCopyInto"
  "deep_copies TelegramChannelConfig_t TelegramChannelConfig_DeepCopyInto"
  "deep_copies SlackChannelConfig_t SlackChannelConfig_DeepCopyInto"
  "deep_copies DiscordChannelConfig_t DiscordChannelConfig_DeepCopyInto"
  "deep_copies GitLabChannelConfig_t GitLabChannelConfig_DeepCopyInto"
  "deep_copies GitHubChannelConfig_t GitHubChannelConfig_DeepCopyInto"
  "deep_copies WebhookChannelConfig_t WebhookChannelConfig_DeepCopyInto"
  "deep_copies WebhookIngressConfig_t WebhookIngressConfig_DeepCopyInto"
  "deep_copies AgentRunSpec_t AgentRunSpec_DeepCopyInto"
  "deep_copies AgentRunOutcomeStatus_t AgentRunOutcomeStatus_DeepCopyInto"
  "deep_copies OAuth2ClientCredentials_t OAuth2ClientCredentials_DeepCopyInto"
  "deep_copies ProviderConfig_t ProviderConfig_DeepCopyInto"
  "deep_copies IntegrationTrigger_t IntegrationTrigger_DeepCopyInto"
  "deep_copies GitResourceConfig_t GitResourceConfig_DeepCopyInto"
  "deep_copies DocumentationResourceConfig_t DocumentationResourceConfig_DeepCopyInto"
  by (simp_all add: SecretEnvVar_t_def SecretEnvVar_DeepCopyInto_def OCIRef_t_def OCIRef_DeepCopyInto_def
      GoogleCallDefaults_t_def GoogleCallDefaults_DeepCopyInto_def ContextFileRef_t_def
      ContextFileRef_DeepCopyInto_def ToolHooksSpec_t_def ToolHooksSpec_DeepCopyInto_def
      TelegramChannelConfig_t_def TelegramChannelConfig_DeepCopyInto_def
      SlackChannelConfig_t_def SlackChannelConfig_DeepCopyInto_def DiscordChannelConfig_t_def
      DiscordChannelConfig_DeepCopyInto_def GitLabChannelConfig_t_def
      GitLabChannelConfig_DeepCopyInto_def GitHubChannelConfig_t_def
      GitHubChannelConfig_DeepCopyInto_def WebhookChannelConfig_t_def
      WebhookChannelConfig_DeepCopyInto_def WebhookIngressConfig_t_def
      WebhookIngressConfig_DeepCopyInto_def AgentRunSpec_t_def AgentRunSpec_DeepCopyInto_def
      AgentRunOutcomeStatus_t_def AgentRunOutcomeStatus_DeepCopyInto_def
      OAuth2ClientCredentials_t_def OAuth2ClientCredentials_DeepCopyInto_def
      ProviderConfig_t_def ProviderConfig_DeepCopyInto_def IntegrationTrigger_t_def
      IntegrationTrigger_DeepCopyInto_def GitResourceConfig_t_def
      GitResourceConfig_DeepCopyInto_def DocumentationResourceConfig_t_def
      DocumentationResourceConfig_DeepCopyInto_def copy_laws)

lemma copies_layer2 [copy_laws]:
  "deep_copies ProviderCallDefaults_t ProviderCallDefaults_DeepCopyInto"
  "deep_copies ToolBinding_t ToolBinding_DeepCopyInto"
  "deep_copies ProviderEndpoint_t ProviderEndpoint_DeepCopyInto"
  "deep_copies IntegrationSpec_t IntegrationSpec_DeepCopyInto"
  by (simp_all add: ProviderCallDefaults_t_def ProviderCallDefaults_DeepCopyInto_def ToolBinding_t_def
      ToolBinding_DeepCopyInto_def ProviderEndpoint_t_def ProviderEndpoint_DeepCopyInto_def
      IntegrationSpec_t_def IntegrationSpec_DeepCopyInto_def copy_laws)

lemma copies_layer2x [copy_laws]:
  assumes "k8s_copies_ok x"
  shows "deep_copies (AgentRunStatus_t x) (AgentRunStatus_DeepCopyInto x)"
    "deep_copies (ChannelSpec_t x) (ChannelSpec_DeepCopyInto x)"
  using k8s_copies[OF assms]
  by (simp_all add: AgentRunStatus_t_def AgentRunStatus_DeepCopyInto_def ChannelSpec_t_def
      ChannelSpec_DeepCopyInto_def copy_laws assms)

lemma copies_layer3 [copy_laws]:
  "deep_copies ProviderBinding_t ProviderBinding_DeepCopyInto"
  "deep_copies ProviderSpec_t ProviderSpec_DeepCopyInto"
  by (simp_all add: ProviderBinding_t_def ProviderBinding_DeepCopyInto_def ProviderSpec_t_def
      ProviderSpec_DeepCopyInto_def copy_laws)

lemma copies_layer3x [copy_laws]:
  assumes "k8s_copies_ok x"
  shows "deep_copies (AgentRun_t x) (AgentRun_DeepCopyInto x)"
    "deep_copies (Channel_t x) (Channel_DeepCopyInto x)"
    "deep_copies (Integration_t x) (Integration_DeepCopyInto x)"
  using k8s_copies[OF assms]
  by (simp_all add: AgentRun_t_def AgentRun_DeepCopyInto_def Channel_t_def Channel_DeepCopyInto_def
      Integration_t_def Integration_DeepCopyInto_def copy_laws assms)

lemma copies_layer4x [copy_laws]:
  assumes "k8s_copies_ok x"
  shows "deep_copies (AgentSpec_t x) (AgentSpec_DeepCopyInto x)"
    "deep_copies (AgentRunList_t x) (AgentRunList_DeepCopyInto x)"
    "deep_copies (ChannelList_t x) (ChannelList_DeepCopyInto x)"
    "deep_copies (Provider_t x) (Provider_DeepCopyInto x)"
    "deep_copies (IntegrationList_t x) (IntegrationList_DeepCopyInto x)"
  using k8s_copies[OF assms]
  by (simp_all add: AgentSpec_t_def AgentSpec_DeepCopyInto_def AgentRunList_t_def
      AgentRunList_DeepCopyInto_def ChannelList_t_def ChannelList_DeepCopyInto_def
      Provider_t_def Provider_DeepCopyInto_def IntegrationList_t_def
      IntegrationList_DeepCopyInto_def copy_laws assms)

lemma copies_layer5x [copy_laws]:
  assumes "k8s_copies_ok x"
  shows "deep_copies (Agent_t x) (Agent_DeepCopyInto x)"
    "deep_copies (ProviderList_t x) (ProviderList_DeepCopyInto x)"
  using k8s_copies[OF assms]
  by (simp_all add: Agent_t_def Agent_DeepCopyInto_def ProviderList_t_def ProviderList_DeepCopyInto_def copy_laws assms)

lemma copies_layer6x [copy_laws]:
  assumes "k8s_copies_ok x"
  shows "deep_copies (AgentList_t x) (AgentList_DeepCopyInto x)"
  using k8s_copies[OF assms]
  by (simp_all add: AgentList_t_def AgentList_DeepCopyInto_def copy_laws assms)

subsection \<open>All copy methods\<close>

definition deepcopy_methods :: "k8s_types \<Rightarrow> (gtype \<times> copier) list" where
  "deepcopy_methods x =
    [(SecretKeyRef_t, SecretKeyRef_DeepCopy), (SecretEnvVar_t, SecretEnvVar_DeepCopy),
     (OCIRef_t, OCIRef_DeepCopy), (AnthropicCallDefaults_t, AnthropicCallDefaults_DeepCopy),
     (OpenAICallDefaults_t, OpenAICallDefaults_DeepCopy),
     (GoogleSafetySetting_t, GoogleSafetySetting_DeepCopy),
     (GoogleCallDefaults_t, GoogleCallDefaults_DeepCopy),
     (ProviderCallDefaults_t, ProviderCallDefaults_DeepCopy),
     (ProviderBinding_t, ProviderBinding_DeepCopy), (ContextFileRef_t, ContextFileRef_DeepCopy),
     (ToolEnvVar_t, ToolEnvVar_DeepCopy), (ToolBinding_t, ToolBinding_DeepCopy),
     (MemorySaveRuleSpec_t, MemorySaveRuleSpec_DeepCopy),
     (ContextInjectRuleSpec_t, ContextInjectRuleSpec_DeepCopy),
     (ToolHooksSpec_t, ToolHooksSpec_DeepCopy), (ConcurrencySpec_t, ConcurrencySpec_DeepCopy),
     (StorageSpec_t, StorageSpec_DeepCopy), (NetworkPolicySpec_t, NetworkPolicySpec_DeepCopy),
     (TelegramChannelConfig_t, TelegramChannelConfig_DeepCopy),
     (SlackChannelConfig_t, SlackChannelConfig_DeepCopy),
     (DiscordChannelConfig_t, DiscordChannelConfig_DeepCopy),
     (GitLabChannelConfig_t, GitLabChannelConfig_DeepCopy),
     (GitLabLabelChannelConfig_t x, GitLabLabelChannelConfig_DeepCopy x),
     (GitLabCommentChannelConfig_t x, GitLabCommentChannelConfig_DeepCopy x),
     (GitHubChannelConfig_t, GitHubChannelConfig_DeepCopy),
     (WebhookChannelConfig_t, WebhookChannelConfig_DeepCopy), (IngressTLS_t, IngressTLS_DeepCopy),
     (WebhookIngressConfig_t, WebhookIngressConfig_DeepCopy),
     (IntegrationBinding_t, IntegrationBinding_DeepCopy), (DelegationSpec_t, DelegationSpec_DeepCopy),
     (MemorySpec_t, MemorySpec_DeepCopy), (SecurityOverrides_t x, SecurityOverrides_DeepCopy x),
     (AgentSpec_t x, AgentSpec_DeepCopy x), (AgentStatus_t x, AgentStatus_DeepCopy x),
     (Agent_t x, Agent_DeepCopy x), (AgentList_t x, AgentList_DeepCopy x),
     (AgentRunGitSpec_t, AgentRunGitSpec_DeepCopy),
     (AgentRunOutcomeSpec_t, AgentRunOutcomeSpec_DeepCopy), (AgentRunSpec_t, AgentRunSpec_DeepCopy),
     (AgentRunArtifact_t, AgentRunArtifact_DeepCopy),
     (AgentRunOutcomeStatus_t, AgentRunOutcomeStatus_DeepCopy),
     (AgentRunStatus_t x, AgentRunStatus_DeepCopy x), (AgentRun_t x, AgentRun_DeepCopy x),
     (AgentRunList_t x, AgentRunList_DeepCopy x), (ChannelSpec_t x, ChannelSpec_DeepCopy x),
     (ChannelStatus_t x, ChannelStatus_DeepCopy x), (Channel_t x, Channel_DeepCopy x),
     (ChannelList_t x, ChannelList_DeepCopy x),
     (OAuth2ClientCredentials_t, OAuth2ClientCredentials_DeepCopy),
     (ProviderEndpoint_t, ProviderEndpoint_DeepCopy), (VertexConfig_t, VertexConfig_DeepCopy),
     (ProviderConfig_t, ProviderConfig_DeepCopy), (ProviderSpec_t, ProviderSpec_DeepCopy),
     (ProviderStatus_t x, ProviderStatus_DeepCopy x), (Provider_t x, Provider_DeepCopy x),
     (ProviderList_t x, ProviderList_DeepCopy x),
     (IntegrationTriggerGit_t, IntegrationTriggerGit_DeepCopy),
     (IntegrationTrigger_t, IntegrationTrigger_DeepCopy),
     (GitHubResourceConfig_t, GitHubResourceConfig_DeepCopy),
     (GitHubOrgResourceConfig_t, GitHubOrgResourceConfig_DeepCopy),
     (GitLabResourceConfig_t, GitLabResourceConfig_DeepCopy),
     (GitLabGroupResourceConfig_t, GitLabGroupResourceConfig_DeepCopy),
     (GitResourceConfig_t, GitResourceConfig_DeepCopy), (S3ResourceConfig_t, S3ResourceConfig_DeepCopy),
     (DocumentationResourceConfig_t, DocumentationResourceConfig_DeepCopy),
     (IntegrationSpec_t, IntegrationSpec_DeepCopy),
     (IntegrationStatus_t x, IntegrationStatus_DeepCopy x), (Integration_t x, Integration_DeepCopy x),
     (IntegrationList_t x, IntegrationList_DeepCopy x)]"

lemma deepcopy_methods_ok:
  assumes "k8s_copies_ok x"
  shows "list_all (\<lambda>(T, c). deep_copies (TPtr T) c) (deepcopy_methods x)"
  by (simp add: deepcopy_methods_def copier_defs copy_laws assms)

lemma deepcopy_method_deep:
  assumes "k8s_copies_ok x" "(T, c) \<in> set (deepcopy_methods x)"
  shows "deep_copies (TPtr T) c"
  using deepcopy_methods_ok[OF assms(1)] assms(2) by (auto simp: list_all_iff)

lemma deepcopy_methodD:
  assumes "k8s_copies_ok x" "(T, c) \<in> set (deepcopy_methods x)"
    and "view (TPtr T) h p = Some t" "c p h = (q, h')"
  obtains cs where "h' = h @ cs" "view (TPtr T) h' q = Some t"
    "\<forall>a\<in>set (reach (TPtr T) h' q). length h \<le> a"
  using deep_copiesD[OF deepcopy_method_deep[OF assms(1,2)] assms(3)] assms(4) by auto

lemma view_ptr_None_iff:
  "view (TPtr T) h p = Some (LPtr None) \<longleftrightarrow> p = GPtr None"
  by (cases "(TPtr T, h, p)" rule: view.cases) auto

text \<open>The kinds and their lists as runtime objects: the copy as an interface, nil exactly for nil.\<close>

definition deepcopy_objects :: "k8s_types \<Rightarrow> (gtype \<times> copier \<times> (gval \<Rightarrow> gheap \<Rightarrow> gval option \<times> gheap)) list" where
  "deepcopy_objects x =
    [(Agent_t x, Agent_DeepCopy x, Agent_DeepCopyObject x),
     (AgentList_t x, AgentList_DeepCopy x, AgentList_DeepCopyObject x),
     (AgentRun_t x, AgentRun_DeepCopy x, AgentRun_DeepCopyObject x),
     (AgentRunList_t x, AgentRunList_DeepCopy x, AgentRunList_DeepCopyObject x),
     (Channel_t x, Channel_DeepCopy x, Channel_DeepCopyObject x),
     (ChannelList_t x, ChannelList_DeepCopy x, ChannelList_DeepCopyObject x),
     (Provider_t x, Provider_DeepCopy x, Provider_DeepCopyObject x),
     (ProviderList_t x, ProviderList_DeepCopy x, ProviderList_DeepCopyObject x),
     (Integration_t x, Integration_DeepCopy x, Integration_DeepCopyObject x),
     (IntegrationList_t x, IntegrationList_DeepCopy x, IntegrationList_DeepCopyObject x)]"

lemma deepcopy_objects_ok:
  assumes "k8s_copies_ok x"
  shows "list_all (\<lambda>(T, c, f). deep_copies (TPtr T) c \<and> f = (\<lambda>v h. as_object (c v h))) (deepcopy_objects x)"
  by (simp add: deepcopy_objects_def copier_defs copy_laws assms fun_eq_iff
      Agent_DeepCopyObject_def AgentList_DeepCopyObject_def AgentRun_DeepCopyObject_def
      AgentRunList_DeepCopyObject_def Channel_DeepCopyObject_def ChannelList_DeepCopyObject_def
      Provider_DeepCopyObject_def ProviderList_DeepCopyObject_def Integration_DeepCopyObject_def
      IntegrationList_DeepCopyObject_def)

lemma DeepCopyObject_correct:
  assumes "k8s_copies_ok x" "(T, c, f) \<in> set (deepcopy_objects x)"
    and "view (TPtr T) h p = Some t" "f p h = (r, h')"
  shows "case r of None \<Rightarrow> p = GPtr None
    | Some q \<Rightarrow> p \<noteq> GPtr None \<and> view (TPtr T) h' q = Some t \<and> (\<forall>a\<in>set (reach (TPtr T) h' q). length h \<le> a)"
proof -
  have c: "deep_copies (TPtr T) c" and f: "f = (\<lambda>v h. as_object (c v h))"
    using deepcopy_objects_ok[OF assms(1)] assms(2) by (auto simp: list_all_iff)
  obtain q cs where q: "c p h = (q, h @ cs)" "view (TPtr T) (h @ cs) q = Some t"
    "\<forall>a\<in>set (reach (TPtr T) (h @ cs) q). length h \<le> a"
    using deep_copiesD[OF c assms(3)] by blast
  have nil: "q = GPtr None \<longleftrightarrow> p = GPtr None"
    using q(2) assms(3) by (metis view_ptr_None_iff)
  show ?thesis
  proof (cases "q = GPtr None")
    case True
    then show ?thesis using assms(4) f q(1) nil by (simp add: as_object_def)
  next
    case False
    then have "as_object (q, h @ cs) = (Some q, h @ cs)"
      by (auto simp: as_object_def split: gval.split option.split)
    with assms(4) f q(1) have "r = Some q" "h' = h @ cs" by simp_all
    then show ?thesis using q nil False by simp
  qed
qed

text \<open>The registered types are exactly those that are runtime objects.\<close>

lemma scheme_types_are_objects: "(snd \<circ> snd) ` set (SchemeBuilder x) = fst ` set (deepcopy_objects x)"
  by (simp add: SchemeBuilder_def deepcopy_objects_def) blast

text \<open>A concrete choice of the library structs: metadata with a name and a map of labels, conditions of
three strings, and a status with one condition.\<close>

definition sample_types :: k8s_types where
  "sample_types = \<lparr> x_TypeMeta = TStruct [(''Kind'', TBasic)],
     x_ObjectMeta = TStruct [(''Name'', TBasic), (''Labels'', TMap TBasic)],
     x_ListMeta = TStruct [(''ResourceVersion'', TBasic)],
     x_Condition = TStruct [(''Type'', TBasic), (''Status'', TBasic), (''Reason'', TBasic)],
     x_Time = TBasic, x_Duration = TBasic,
     x_ResourceRequirements = TStruct [(''Limits'', TMap TBasic)],
     x_PodSecurityContext = TStruct [(''RunAsUser'', TPtr TBasic)],
     x_SecurityContext = TStruct [(''RunAsUser'', TPtr TBasic)],
     x_ObjectMeta_DeepCopyInto = copy_struct [(''Labels'', copy_map_flat)],
     x_ListMeta_DeepCopyInto = copy_struct [],
     x_Condition_DeepCopyInto = copy_struct [],
     x_Time_DeepCopy = copy_ptr assign,
     x_ResourceRequirements_DeepCopyInto = copy_struct [(''Limits'', copy_map_flat)],
     x_PodSecurityContext_DeepCopyInto = copy_struct [(''RunAsUser'', copy_ptr assign)],
     x_SecurityContext_DeepCopyInto = copy_struct [(''RunAsUser'', copy_ptr assign)] \<rparr>"

lemma sample_types_ok: "k8s_copies_ok sample_types"
  by (simp add: k8s_copies_ok_def sample_types_def copy_laws)

definition sample_status :: "nat \<Rightarrow> gval" where
  "sample_status a = GStruct [(''Phase'', GStr ''Pending''), (''ServiceURL'', GStr []), (''ReadyReplicas'', GInt 0),
     (''StoragePVC'', GStr []), (''ActiveModel'', GStr []), (''Conditions'', GSlice (Some (a, 0, 1)))]"

definition sample_cond :: gval where
  "sample_cond = GStruct [(''Type'', GStr ''Ready''), (''Status'', GStr ''False''), (''Reason'', GStr ''Wait'')]"

definition sample_heap :: gheap where
  "sample_heap = [CVal (sample_status 1), CArr [sample_cond]]"

definition sample_tree :: gtree where
  "sample_tree = LPtr (Some (LStruct
     [(''Phase'', LBasic (GStr ''Pending'')), (''ServiceURL'', LBasic (GStr [])),
      (''ReadyReplicas'', LBasic (GInt 0)), (''StoragePVC'', LBasic (GStr [])),
      (''ActiveModel'', LBasic (GStr [])),
      (''Conditions'', LSlice (Some [LStruct [(''Type'', LBasic (GStr ''Ready'')),
         (''Status'', LBasic (GStr ''False'')), (''Reason'', LBasic (GStr ''Wait''))]]))]))"

definition sample_copy :: gheap where
  "sample_copy = sample_heap @ [CVal (sample_status 3), CArr [sample_cond]]"

lemmas sample_defs = sample_types_def sample_heap_def sample_tree_def sample_copy_def sample_status_def
  sample_cond_def

lemma sample_view: "view (TPtr (AgentStatus_t sample_types)) sample_heap (GPtr (Some 0)) = Some sample_tree"
  by (simp add: AgentStatus_t_def sample_defs window_def)

lemma sample_run: "AgentStatus_DeepCopy sample_types (GPtr (Some 0)) sample_heap = (GPtr (Some 2), sample_copy)"
  by (simp add: AgentStatus_DeepCopy_def AgentStatus_DeepCopyInto_def sample_defs
      copy_ptr_def copy_struct_def copy_slice_def put_elem_def window_def Let_def eval_nat_numeral)

lemma sample_method: "(AgentStatus_t x, AgentStatus_DeepCopy x) \<in> set (deepcopy_methods x)"
  by (simp add: deepcopy_methods_def)

section \<open>Properties\<close>

text \<open>C25: a \<open>DeepCopy\<close> method of any API type, called on a pointer to a value of the type, returns a
pointer to a value of the type with the same contents, nil exactly for nil, and the original keeps its
contents.\<close>

theorem DeepCopy_same_contents:
  assumes "k8s_copies_ok x" "(T, c) \<in> set (deepcopy_methods x)"
    and "view (TPtr T) h p = Some t" "c p h = (q, h')"
  shows "view (TPtr T) h' q = Some t \<and> view (TPtr T) h' p = Some t \<and> (q = GPtr None \<longleftrightarrow> p = GPtr None)"
proof -
  obtain cs where h': "h' = h @ cs" "view (TPtr T) h' q = Some t"
    using deepcopy_methodD[OF assms] by blast
  moreover have p': "view (TPtr T) h' p = Some t"
    using view_append[OF assms(3)] h'(1) by simp
  moreover have "q = GPtr None \<longleftrightarrow> p = GPtr None"
    using h'(2) p' by (metis view_ptr_None_iff)
  ultimately show ?thesis by blast
qed

text \<open>Witness: the copy of a status with one condition.\<close>

theorem DeepCopy_same_contents_witness:
  "view (TPtr (AgentStatus_t sample_types)) sample_copy (GPtr (Some 2)) = Some sample_tree"
  using DeepCopy_same_contents[OF sample_types_ok sample_method sample_view sample_run] by blast

text \<open>C24: a copy and its original share no cell. The copy reaches cells only that the method
allocated; whatever is written later into any other cell, the copy keeps its contents, and whatever is
written into the cells of the copy, the original keeps its. This is what \<open>client.MergeFrom(obj.DeepCopy())\<close>
relies on: the later changes of the status in place do not reach the base of the patch.\<close>

theorem DeepCopy_separate:
  assumes "k8s_copies_ok x" "(T, c) \<in> set (deepcopy_methods x)"
    and "view (TPtr T) h p = Some t" "c p h = (q, h')"
  shows "set (reach (TPtr T) h' q) \<subseteq> {length h..<length h'}
    \<and> set (reach (TPtr T) h' p) \<subseteq> {..<length h}
    \<and> (\<forall>g. agree {length h..<length h'} h' g \<longrightarrow> view (TPtr T) g q = Some t)
    \<and> (\<forall>g. agree {..<length h} h' g \<longrightarrow> view (TPtr T) g p = Some t)"
proof -
  obtain cs where h': "h' = h @ cs" and q: "view (TPtr T) h' q = Some t"
    and above: "\<forall>a\<in>set (reach (TPtr T) h' q). length h \<le> a"
    using deepcopy_methodD[OF assms] by blast
  have p: "view (TPtr T) h' p = Some t" "reach (TPtr T) h' p = reach (TPtr T) h p"
    using view_append[OF assms(3)] h' by simp_all
  have rq: "set (reach (TPtr T) h' q) \<subseteq> {length h..<length h'}"
    using above reach_allocated(1)[OF q] by auto
  have rp: "set (reach (TPtr T) h' p) \<subseteq> {..<length h}"
    using reach_allocated(1)[OF assms(3)] p(2) by auto
  show ?thesis
    using rq rp view_agree(1)[OF q] view_agree(1)[OF p(1)] agree_subset by blast
qed

text \<open>Witness: after the copy the condition of the original is changed in place; the copy still has the
condition as it was.\<close>

theorem DeepCopy_separate_witness:
  "view (TPtr (AgentStatus_t sample_types)) (sample_copy[1 := CArr [GStr ''changed'']]) (GPtr (Some 2))
    = Some sample_tree"
proof -
  have "agree {length sample_heap..<length sample_copy} sample_copy (sample_copy[1 := CArr [GStr ''changed'']])"
    by (auto simp: agree_def sample_heap_def)
  then show ?thesis
    using DeepCopy_separate[OF sample_types_ok sample_method sample_view sample_run] by blast
qed

end
