(* ===== verification/Spec2Isabelle.thy ===== *)
theory Spec2Isabelle
  imports AgentRun_Properties Spawn_Progress Gateway_Main Token_Injector Guard_Store Channel_Properties
    Admission Watches Deep_Copy_Properties
begin

text \<open>
  \<^bold>\<open>A verification of agentops-core.\<close>

  The program is a Kubernetes operator, written in Go, that runs AI agents. Five kinds of custom
  resources describe them (\<^verbatim>\<open>src/api/v1alpha1\<close>): an Agent is a daemon (a Deployment) or a task
  template (a Job per run), an AgentRun is one execution, a Provider and an Integration are
  the LLM endpoint and the external system it uses, a Channel is an inbound bridge. Admission
  webhooks validate the objects, controllers (\<^verbatim>\<open>src/internal/controller\<close>) reconcile them, builders
  (\<^verbatim>\<open>src/internal/resources\<close>) render Kubernetes objects, and the MCP gateway
  (\<^verbatim>\<open>src/images/mcp-gateway\<close>) is a side-car that filters the tool calls of an agent or bridges HTTP
  to an MCP server process, and the token injector (\<^verbatim>\<open>src/images/token-injector\<close>) is a side-car
  that authenticates its requests to the LLM endpoint. \<^verbatim>\<open>src/cmd/main.go\<close> parses the flags, registers
  controllers and webhooks with a manager and starts it.

  \<^bold>\<open>Theories and the code they model.\<close>
  \<^item> \<open>Prelude\<close>: Go strings (prefixes, splitting, quoting, decimal numbers), maps and the
    collections of simplification rules that the components share.
  \<^item> \<open>Kube_Objects\<close>: the Kubernetes objects the operator builds or reads, as records.
  \<^item> \<open>Api_Types\<close>: \<^verbatim>\<open>*_types.go\<close>, one record per struct, the constants, the accessor methods.
  \<^item> \<open>Resource_Common\<close>: \<^verbatim>\<open>resources/common.go\<close>: names, labels, OCI references and shell quoting,
    with a model of how a POSIX shell splits a command into words.
  \<^item> \<open>Security\<close>: \<^verbatim>\<open>resources/security.go\<close>: the restricted security contexts, the merge with user
    overrides and \<open>ApplySecurity\<close>.
  \<^item> \<open>Config_Types\<close>, \<open>Agent_Config\<close>: \<^verbatim>\<open>resources/configmap.go\<close>: the configuration document of an agent
    and of one of its runs.
  \<^item> \<open>Git_Workspace\<close>: \<^verbatim>\<open>resources/agent_git.go\<close>: from an Integration to a clone URL, environment and
    tools.
  \<^item> \<open>Agent_Pod\<close>: \<^verbatim>\<open>resources/agent_deployment.go\<close> and \<^verbatim>\<open>agent_job.go\<close>: volumes, init containers,
    environment, main container, Deployment and Job.
  \<^item> \<open>Kube_Api\<close>: the services the AgentRun controller calls, \<open>patchStatus\<close> of
    \<^verbatim>\<open>controller/common.go\<close>, and the laws of the services.
  \<^item> \<open>AgentRun_Controller\<close>: \<^verbatim>\<open>controller/agentrun_controller.go\<close>, the whole of \<open>Reconcile\<close> with the
    concurrency policies, the task path (Job, output, outcome) and the daemon path (prompt,
    polling, timeout). \<open>AgentRun_Proofs\<close> has the abstract effects of a reconcile and the proof
    that the code refines them, \<open>Kube_Store\<close> an in-memory API server that satisfies the laws,
    \<open>AgentRun_Properties\<close> the theorems about histories.
  \<^item> \<open>Kube_Client\<close>: the client operations of one kind of object, its laws, and deletion protection
    as a step relation and as histories.
  \<^item> \<open>Webhooks\<close>: the validation of \<^verbatim>\<open>*_webhook.go\<close>. \<open>Admission\<close>: their entry points, and the histories
    of an API server that asks the webhooks which the operator has registered.
  \<^item> \<open>Provider_Controller\<close>, \<open>Integration_Controller\<close>: the two controllers of declarative resources.
    \<open>Guard_Store\<close> interprets their locales on an in-memory API server.
  \<^item> \<open>Owned_Objects\<close>: \<^verbatim>\<open>resources/pvc.go\<close>, \<^verbatim>\<open>rbac.go\<close>, \<^verbatim>\<open>service.go\<close>, \<^verbatim>\<open>networkpolicy.go\<close>: the other
    objects that agents and channels own. \<open>Owned_Reconcile\<close>: their creation and update in
    \<^verbatim>\<open>controller/common.go\<close>, one mutation per kind. \<open>Owned_Laws\<close> has the contract that every
    mutation fulfils and what follows from it for all kinds, \<open>Owned_Store\<close> an in-memory server.
  \<^item> \<open>Agent_Controller\<close>: \<^verbatim>\<open>controller/agent_controller.go\<close>, the whole reconciler, with its theorems in
    \<open>Agent_Properties\<close>.
  \<^item> \<open>Channel_Resources\<close>: \<^verbatim>\<open>resources/channel.go\<close>: environment, prompts, Deployment and Ingress of a
    bridge. \<open>Channel_Controller\<close>: \<^verbatim>\<open>controller/channel_controller.go\<close>, with the theorems of both in
    \<open>Channel_Properties\<close>.
  \<^item> \<open>Gateway_Permissions\<close>, \<open>Gateway_Proxy\<close>: the rule language of the gateway and its proxy mode
    (\<^verbatim>\<open>permissions.go\<close>, \<^verbatim>\<open>proxy.go\<close>, \<open>runProxy\<close> and \<open>getSpawnCommand\<close> of \<^verbatim>\<open>main.go\<close>).
  \<^item> \<open>Gateway_Spawn\<close>: the spawn mode (\<^verbatim>\<open>spawn.go\<close>) as a step relation with one step per critical
    section or channel operation, so that every interleaving of requests, the reader and the
    event streams is a path; \<open>runSpawn\<close> and \<open>main\<close> of \<^verbatim>\<open>main.go\<close>. \<open>Spawn_Progress\<close>: the end of every call.
    \<open>Gateway_Main\<close>: the start of the subprocess, the stream of an SSE connection, the log level, the
    copy of the binary and the exit codes.
  \<^item> \<open>Token_Injector\<close>: \<^verbatim>\<open>token-injector/main.go\<close>: configuration, token cache and reverse proxy, with
    durations in 64-bit arithmetic, and its \<open>main\<close>.
  \<^item> \<open>Operator_Main\<close>: \<^verbatim>\<open>cmd/main.go\<close> and \<^verbatim>\<open>internal/tracing/tracing.go\<close>: flags, tracer, the TLS options of the
    servers as Go slices with a capacity, the options of the manager, the steps of the set-up with
    their exits. The theorems are in \<open>Operator_Properties\<close>.
  \<^item> \<open>Watches\<close>: \<open>SetupWithManager\<close> of the five controllers and the dispatch of events to requests.
  \<^item> \<open>Go_Heap\<close>: Go values with pointers, slices and maps on a heap of cells, their types and contents,
    and the statements that deep copies are made of, with their laws in \<open>Go_Heap_Laws\<close>. \<open>Deep_Copy\<close>:
    the 69 struct types as tables and the 148 methods of \<^verbatim>\<open>zz_generated.deepcopy.go\<close>, and the scheme of
    \<^verbatim>\<open>groupversion_info.go\<close>; \<open>Deep_Copy_Properties\<close> shows that the methods fit the types.

  \<^bold>\<open>How the model reads.\<close> A Go struct is a record with the same fields (prefixed), a pointer an
  option, a nil slice or map the empty one. A method that mutates its argument returns the new
  value; a method that returns an error returns a sum or an option, with a branch per early
  return. A reconciler is a function from the world and a key to the new world and either an
  error or a requeue time; the world is a type variable and every API call threads it. Maps
  that Go ranges over in an unspecified order are sets or functions, so no theorem depends on
  the order. That objects are values, although the code changes them in place, rests on the
  copies the code makes first: the theorems about deep copies say that a copy shares no memory
  with its original.

  \<^bold>\<open>Parameters.\<close> Code that is not in the repository is an argument: the API server and its
  clients, the clock and the HTTP endpoint of an agent (\<open>kube\<close>, \<open>client\<close>), and library functions
  (\<open>golib\<close>: parsing and printing durations, \<^verbatim>\<open>meta.SetStatusCondition\<close>, \<^verbatim>\<open>SetControllerReference\<close>,
  the merge patch document, \<^verbatim>\<open>sort.Slice\<close>, the JSON decoders; \<open>finlib\<close>: finalizer helpers;
  \<open>config_codec\<close>, \<open>json_codec\<close>: JSON encoders; \<open>main_lib\<close>: which calls of the manager, zap and
  OpenTelemetry libraries fail and how \<open>append\<close> grows a slice; \<open>k8s_types\<close>: the Kubernetes structs
  inside the API types and their copy methods; \<open>file_system\<close>, \<open>exec_cmd\<close>: the operating system). Theorems about the controllers hold for every
  argument that satisfies the locales \<open>kube_runs\<close>, \<open>golib_laws\<close>, \<open>reader\<close>, \<open>writer\<close>,
  \<open>finalizer_laws\<close>, \<open>owner_laws\<close>, \<open>owned_kind\<close> and \<open>owned_server\<close>, which state documented
  behaviour: reads return what is stored, updates keep the status, status patches merge into
  the status, failed writes change nothing, an object that is being deleted goes when its last
  finalizer goes, an object has one controller at most, \<^verbatim>\<open>CreateOrUpdate\<close> stores what the
  mutation returned. API calls may fail at any time.
  The in-memory servers interpret all of these locales.

  \<^bold>\<open>What the theorems show.\<close>
  \<^item> Runs: over all histories the number of running runs of an agent respects its limit; every
    reconcile refines one of five abstract effects; finished runs never change and evolve only
    in the documented way; finished Jobs and overdue daemon runs are settled.
  \<^item> Deletion protection: a Provider or Integration in use survives; its status reports exactly
    the outcome of the checks; the watches enqueue the objects concerned.
  \<^item> Admission: each webhook admits exactly the objects described declaratively, and agrees with
    the checks of the controllers; while the operator runs with webhooks every stored object
    satisfies the conditions of its kind.
  \<^item> Start-up: the settings of the command line and the environment arrive, the set-up stops at the
    first failure and starts the manager last, the two servers do not mix up their certificates,
    a failed tracing set-up does not stop main but every reconcile of an AgentRun.
  \<^item> Watches: changes of what a controller writes wake it, and which changes wake nobody.
  \<^item> Deep copies: every generated copy has the type and contents of its original and no cell in
    common with it.
  \<^item> Pods: every rendered pod meets the restricted profile whatever the overrides, its mounts
    resolve, its shell commands cannot be injected, secrets are passed by reference only.
  \<^item> Configuration: merges are field-wise, the configuration of a run extends that of the agent,
    a workspace is resolved only inside the bound group.
  \<^item> Owned objects: reconciling one puts it in place, disturbs nothing else and converges; an
    object of another controller is refused and stays as it is.
  \<^item> Agents: nothing but RBAC is written before all references are Ready; a daemon that is done has
    all its objects in place; selectors, ports, accounts and bindings of the objects fit.
  \<^item> Channels: the outcome of every reconcile; the pod of a bridge is restricted and gets
    credentials by reference only.
  \<^item> Gateway: a tool call is forwarded exactly when the policy permits it, and the policy matcher
    implements its rule grammar; in spawn mode a call only gets a response to its own request,
    gets it when ids in flight differ, and always ends after four steps. Two lemmas show how the reader can block for ever and
    how clients that share an id disturb each other.
  \<^item> Token injector: a token that is served is fresh enough or just issued, errors keep the cache,
    and what a request carries upstream with and without a token.

  \<^bold>\<open>Bounds.\<close> All recursions are structural, so no fuel is used. The body limits of the gateway proxy
  and of the token injector are the \<open>1 MiB\<close> of the code, the channel capacities of the spawn
  mode its 1 and 64. Integers of the API objects are mathematical integers: the operator only
  copies, compares and counts them; durations and times are nanoseconds, and the products of
  the token injector wrap around at 64 bits.

  \<^bold>\<open>Not modelled.\<close> Logging, metrics and the content of traces. \<open>init\<close> of \<^verbatim>\<open>cmd/main.go\<close> (it panics when the
  scheme cannot be built) and what the manager does after it has started: queues, caches, leader
  election. Where a builder writes into an object it was given, the model returns the changed
  object; the nil and the empty map are one value in the controllers, two on the heap. In spawn
  mode a write to the subprocess is one step: that it may block on a full pipe while it holds the
  lock is not modelled. Case conversion and white space are those of ASCII.
\<close>

end
